(* ===== verification/Prelude.thy ===== *)
theory Prelude
  imports Main "HOL-Library.Word"
begin

text \<open>
  What every component of the development shares.

  \<^item> machine types: bytes and \<open>u64\<close> are words, \<open>i64\<close> values are integers (the code only
    compares them and prints them);
  \<^item> Rust's \<open>Result\<close> as a sum with the error on the left, the \<open>?\<close> operator as
    \<open>bind_res\<close>, \<open>map_err\<close> and \<open>ok_or\<close>, and a loop that leaves at the first error;
  \<^item> effects: an \<open>io\<close> computation takes the outside world (a ledger, a key store, a remote
    service) and returns a result and the new world; \<open>io_bind\<close> is \<open>.await?\<close>;
  \<^item> strings are UTF-8 byte sequences (one \<open>char\<close> per byte) with the functions of Rust's
    \<open>str\<close> the code calls: \<open>trim\<close>, \<open>trim_matches\<close>, \<open>split\<close>, \<open>contains\<close>, \<open>replace\<close>,
    \<open>lines\<close>, \<open>to_string\<close> of integers, \<open>String::from_utf8\<close>, and the parent and file name of a path;
  \<^item> big and little endian encodings.
\<close>

unbundle bit_operations_syntax

named_theorems res_simps \<open>evaluation of results and of io computations\<close>
named_theorems str_defs \<open>definitions of the string functions\<close>

type_synonym byte = "8 word"
type_synonym bytes = "byte list"
type_synonym u64 = "64 word"
type_synonym i64 = int

section \<open>Results\<close>

fun bind_res :: "'e + 'a \<Rightarrow> ('a \<Rightarrow> 'e + 'b) \<Rightarrow> 'e + 'b" where
  "bind_res (Inl e) f = Inl e"
| "bind_res (Inr a) f = f a"

fun map_err :: "('e \<Rightarrow> 'f) \<Rightarrow> 'e + 'a \<Rightarrow> 'f + 'a" where
  "map_err g (Inl e) = Inl (g e)"
| "map_err g (Inr a) = Inr a"

fun ok_or :: "'e \<Rightarrow> 'a option \<Rightarrow> 'e + 'a" where
  "ok_or e None = Inl e"
| "ok_or e (Some a) = Inr a"

fun res_ok :: "'e + 'a \<Rightarrow> 'a option" where
  "res_ok (Inl e) = None"
| "res_ok (Inr a) = Some a"

text \<open>A \<open>for\<close> loop whose body may \<open>return Err\<close>.\<close>

fun iter_res :: "('a \<Rightarrow> 'e + unit) \<Rightarrow> 'a list \<Rightarrow> 'e + unit" where
  "iter_res f [] = Inr ()"
| "iter_res f (x # xs) = bind_res (f x) (\<lambda>_. iter_res f xs)"

section \<open>Effects\<close>

type_synonym ('w, 'e, 'a) io = "'w \<Rightarrow> ('e + 'a) \<times> 'w"

definition io_return :: "'a \<Rightarrow> ('w, 'e, 'a) io" where
  "io_return a = (\<lambda>w. (Inr a, w))"

definition io_fail :: "'e \<Rightarrow> ('w, 'e, 'a) io" where
  "io_fail e = (\<lambda>w. (Inl e, w))"

definition io_lift :: "'e + 'a \<Rightarrow> ('w, 'e, 'a) io" where
  "io_lift r = (\<lambda>w. (r, w))"

definition io_bind :: "('w, 'e, 'a) io \<Rightarrow> ('a \<Rightarrow> ('w, 'e, 'b) io) \<Rightarrow> ('w, 'e, 'b) io" where
  "io_bind m f = (\<lambda>w. case m w of (Inl e, w') \<Rightarrow> (Inl e, w') | (Inr a, w') \<Rightarrow> f a w')"

definition io_map_err :: "('e \<Rightarrow> 'f) \<Rightarrow> ('w, 'e, 'a) io \<Rightarrow> ('w, 'f, 'a) io" where
  "io_map_err g m = (\<lambda>w. case m w of (r, w') \<Rightarrow> (map_err g r, w'))"

text \<open>The result as a value, for a \<open>match\<close> on it.\<close>

definition io_result :: "('w, 'e, 'a) io \<Rightarrow> ('w, 'f, 'e + 'a) io" where
  "io_result m = (\<lambda>w. case m w of (r, w') \<Rightarrow> (Inr r, w'))"

section \<open>Strings\<close>

definition starts_with :: "string \<Rightarrow> string \<Rightarrow> bool" where
  "starts_with p s \<longleftrightarrow> take (length p) s = p"

definition ends_with :: "string \<Rightarrow> string \<Rightarrow> bool" where
  "ends_with p s \<longleftrightarrow> starts_with (rev p) (rev s)"

definition strip_prefix :: "string \<Rightarrow> string \<Rightarrow> string option" where
  "strip_prefix p s = (if starts_with p s then Some (drop (length p) s) else None)"

text \<open>The UTF-8 encodings of the characters with the Unicode property \<open>White_Space\<close>.\<close>

definition white_space :: "string list" where
  "white_space =
     [[CHR 0x09], [CHR 0x0A], [CHR 0x0B], [CHR 0x0C], [CHR 0x0D], [CHR 0x20],
      [CHR 0xC2, CHR 0x85], [CHR 0xC2, CHR 0xA0], [CHR 0xE1, CHR 0x9A, CHR 0x80],
      [CHR 0xE2, CHR 0x80, CHR 0x80], [CHR 0xE2, CHR 0x80, CHR 0x81],
      [CHR 0xE2, CHR 0x80, CHR 0x82], [CHR 0xE2, CHR 0x80, CHR 0x83],
      [CHR 0xE2, CHR 0x80, CHR 0x84], [CHR 0xE2, CHR 0x80, CHR 0x85],
      [CHR 0xE2, CHR 0x80, CHR 0x86], [CHR 0xE2, CHR 0x80, CHR 0x87],
      [CHR 0xE2, CHR 0x80, CHR 0x88], [CHR 0xE2, CHR 0x80, CHR 0x89],
      [CHR 0xE2, CHR 0x80, CHR 0x8A], [CHR 0xE2, CHR 0x80, CHR 0xA8],
      [CHR 0xE2, CHR 0x80, CHR 0xA9], [CHR 0xE2, CHR 0x80, CHR 0xAF],
      [CHR 0xE2, CHR 0x81, CHR 0x9F], [CHR 0xE3, CHR 0x80, CHR 0x80]]"

function strip_seqs :: "string list \<Rightarrow> string \<Rightarrow> string" where
  "strip_seqs ws s =
     (case find (\<lambda>w. w \<noteq> [] \<and> starts_with w s) ws of
        None \<Rightarrow> s
      | Some w \<Rightarrow> strip_seqs ws (drop (length w) s))"
  by pat_completeness auto
termination
proof (relation "measure (\<lambda>(ws, s). length s)", simp)
  fix ws s w
  assume "find (\<lambda>w. w \<noteq> [] \<and> starts_with w s) ws = Some (w :: string)"
  then have "w \<noteq> []" and "starts_with w s"
    by (auto simp: find_Some_iff)
  then have "s \<noteq> []" and "0 < length w"
    by (auto simp: starts_with_def)
  then show "((ws, drop (length w) s), ws, s) \<in> measure (\<lambda>(ws, s). length s)"
    by simp
qed

definition trim_start :: "string \<Rightarrow> string" where
  "trim_start s = strip_seqs white_space s"

definition trim_end :: "string \<Rightarrow> string" where
  "trim_end s = rev (strip_seqs (map rev white_space) (rev s))"

definition trim :: "string \<Rightarrow> string" where
  "trim s = trim_end (trim_start s)"

definition blank :: "string \<Rightarrow> bool" where
  "blank s \<longleftrightarrow> trim s = []"

definition trim_end_matches :: "char \<Rightarrow> string \<Rightarrow> string" where
  "trim_end_matches c s = rev (dropWhile (\<lambda>x. x = c) (rev s))"

definition trim_matches :: "char \<Rightarrow> string \<Rightarrow> string" where
  "trim_matches c s = trim_end_matches c (dropWhile (\<lambda>x. x = c) s)"

fun split_on :: "char \<Rightarrow> string \<Rightarrow> string list" where
  "split_on c [] = [[]]"
| "split_on c (x # xs) =
     (if x = c then [] # split_on c xs
      else (case split_on c xs of [] \<Rightarrow> [[x]] | y # ys \<Rightarrow> (x # y) # ys))"

fun contains_str :: "string \<Rightarrow> string \<Rightarrow> bool" where
  "contains_str p [] = (p = [])"
| "contains_str p (x # xs) = (starts_with p (x # xs) \<or> contains_str p xs)"

text \<open>\<open>str::replace\<close> for a non-empty pattern: left to right, without overlap.\<close>

function replace_str :: "string \<Rightarrow> string \<Rightarrow> string \<Rightarrow> string" where
  "replace_str p r [] = []"
| "replace_str p r (x # xs) =
     (if p \<noteq> [] \<and> starts_with p (x # xs)
      then r @ replace_str p r (drop (length p) (x # xs))
      else x # replace_str p r xs)"
  by pat_completeness auto
termination
  by (relation "measure (\<lambda>(p, r, s). length s)") auto

text \<open>\<open>str::lines\<close>: the last line may lack its newline, and a \<open>\r\<close> before a newline goes.\<close>

definition strip_cr :: "string \<Rightarrow> string" where
  "strip_cr s = (if s \<noteq> [] \<and> last s = CHR 0x0D then butlast s else s)"

definition str_lines :: "string \<Rightarrow> string list" where
  "str_lines s =
     (let ps = split_on (CHR 0x0A) s
      in map strip_cr (butlast ps) @ (if last ps = [] then [] else [last ps]))"

definition join_str :: "string \<Rightarrow> string list \<Rightarrow> string" where
  "join_str sep xs = (case xs of [] \<Rightarrow> [] | y # ys \<Rightarrow> y @ concat (map (\<lambda>z. sep @ z) ys))"

section \<open>Paths\<close>

text \<open>
  \<open>Path::parent\<close> and \<open>Path::file_name\<close> on Unix. A path is a prefix (the root, a leading dot, or
  nothing) and its parts between slashes; empty parts and later dots are not components.
\<close>

definition path_parts :: "string \<Rightarrow> string \<times> string list" where
  "path_parts p =
     (if starts_with ''/'' p then (''/'', split_on (CHR ''/'') (tl p))
      else case split_on (CHR ''/'') p of
        d # ps \<Rightarrow> if d = ''.'' then (''.'', ps) else ([], d # ps)
      | [] \<Rightarrow> ([], []))"

definition drop_trivial :: "string list \<Rightarrow> string list" where
  "drop_trivial ps = dropWhile (\<lambda>s. s = [] \<or> s = ''.'') ps"

definition path_join :: "string \<Rightarrow> string list \<Rightarrow> string" where
  "path_join pre ps =
     (if pre = ''.'' \<and> ps \<noteq> [] then ''./'' else pre) @ join_str ''/'' ps"

definition path_parent :: "string \<Rightarrow> string option" where
  "path_parent p =
     (let (pre, ps) = path_parts p
      in case drop_trivial (rev ps) of
           [] \<Rightarrow> if pre = ''.'' then Some [] else None
         | _ # rest \<Rightarrow> Some (path_join pre (rev (drop_trivial rest))))"

definition path_file_name :: "string \<Rightarrow> string option" where
  "path_file_name p =
     (let (pre, ps) = path_parts p
      in case drop_trivial (rev ps) of
           [] \<Rightarrow> None
         | s # _ \<Rightarrow> if s = ''..'' then None else Some s)"

section \<open>Numbers and bytes\<close>

definition digit_char :: "nat \<Rightarrow> char" where
  "digit_char d = char_of (48 + d)"

fun show_nat :: "nat \<Rightarrow> string" where
  "show_nat n = (if n < 10 then [digit_char n] else show_nat (n div 10) @ [digit_char (n mod 10)])"

declare show_nat.simps [simp del]

definition show_int :: "int \<Rightarrow> string" where
  "show_int i = (if i < 0 then CHR ''-'' # show_nat (nat (- i)) else show_nat (nat i))"

text \<open>Reading a decimal numeral: the inverse of \<open>show_nat\<close>.\<close>

definition digit_val :: "char \<Rightarrow> nat option" where
  "digit_val c = (let n = of_char c :: nat in if 48 \<le> n \<and> n \<le> 57 then Some (n - 48) else None)"

fun read_digits :: "nat \<Rightarrow> string \<Rightarrow> nat option" where
  "read_digits acc [] = Some acc"
| "read_digits acc (c # cs) =
     (case digit_val c of None \<Rightarrow> None | Some d \<Rightarrow> read_digits (10 * acc + d) cs)"

definition read_nat :: "string \<Rightarrow> nat option" where
  "read_nat s = (if s = [] then None else read_digits 0 s)"

definition read_int :: "string \<Rightarrow> int option" where
  "read_int s =
     (case strip_prefix ''-'' s of
        Some t \<Rightarrow> map_option (\<lambda>n. - int n) (read_nat t)
      | None \<Rightarrow> map_option int (read_nat s))"

definition as_bytes :: "string \<Rightarrow> bytes" where
  "as_bytes s = map (\<lambda>c. word_of_nat (of_char c)) s"

definition str_of_bytes :: "bytes \<Rightarrow> string" where
  "str_of_bytes bs = map (\<lambda>b. char_of (unat b)) bs"

text \<open>The well-formed byte sequences of the Unicode standard, table 3-7.\<close>

definition in_range :: "nat \<Rightarrow> nat \<Rightarrow> byte \<Rightarrow> bool" where
  "in_range lo hi b \<longleftrightarrow> lo \<le> unat b \<and> unat b \<le> hi"

fun utf8_valid :: "bytes \<Rightarrow> bool" where
  "utf8_valid [] = True"
| "utf8_valid (a # bs) =
     (if unat a < 0x80 then utf8_valid bs
      else case bs of
        [] \<Rightarrow> False
      | b # cs \<Rightarrow>
          (if in_range 0xC2 0xDF a then in_range 0x80 0xBF b \<and> utf8_valid cs
           else case cs of
             [] \<Rightarrow> False
           | c # ds \<Rightarrow>
               (if in_range 0xE0 0xEF a then
                  (if unat a = 0xE0 then in_range 0xA0 0xBF b
                   else if unat a = 0xED then in_range 0x80 0x9F b
                   else in_range 0x80 0xBF b) \<and>
                  in_range 0x80 0xBF c \<and> utf8_valid ds
                else case ds of
                  [] \<Rightarrow> False
                | d # es \<Rightarrow>
                    (if unat a = 0xF0 then in_range 0x90 0xBF b
                     else if in_range 0xF1 0xF3 a then in_range 0x80 0xBF b
                     else unat a = 0xF4 \<and> in_range 0x80 0x8F b) \<and>
                    in_range 0x80 0xBF c \<and> in_range 0x80 0xBF d \<and> utf8_valid es)))"

definition from_utf8 :: "bytes \<Rightarrow> string option" where
  "from_utf8 bs = (if utf8_valid bs then Some (str_of_bytes bs) else None)"

definition to_be_bytes :: "u64 \<Rightarrow> bytes" where
  "to_be_bytes x = map (\<lambda>i. ucast (drop_bit (8 * i) x)) [7, 6, 5, 4, 3, 2, 1, 0]"

fun le_nat :: "bytes \<Rightarrow> nat" where
  "le_nat [] = 0"
| "le_nat (b # bs) = unat b + 256 * le_nat bs"

fun le_bytes :: "nat \<Rightarrow> nat \<Rightarrow> bytes" where
  "le_bytes 0 n = []"
| "le_bytes (Suc k) n = word_of_nat (n mod 256) # le_bytes k (n div 256)"

definition be_nat :: "bytes \<Rightarrow> nat" where
  "be_nat bs = le_nat (rev bs)"

section \<open>Laws of results and effects\<close>

lemma bind_res_Inr_iff:
  "bind_res m f = Inr b \<longleftrightarrow> (\<exists>a. m = Inr a \<and> f a = Inr b)"
  by (cases m) auto

lemma bind_res_Inl_iff:
  "bind_res m f = Inl e \<longleftrightarrow> m = Inl e \<or> (\<exists>a. m = Inr a \<and> f a = Inl e)"
  by (cases m) auto

lemma error_origin:
  "map_err g r = Inl e \<longleftrightarrow> (\<exists>e0. r = Inl e0 \<and> e = g e0)"
  "ok_or t x = Inl e \<longleftrightarrow> x = None \<and> e = t"
  by (cases r; auto) (cases x; auto)

lemma map_err_Inr_iff [simp]: "map_err g m = Inr a \<longleftrightarrow> m = Inr a"
  by (cases m) auto

lemma map_err_Inl_iff: "map_err g m = Inl e \<longleftrightarrow> (\<exists>e'. m = Inl e' \<and> e = g e')"
  by (cases m) auto

lemma ok_or_Inr_iff [simp]: "ok_or e m = Inr a \<longleftrightarrow> m = Some a"
  by (cases m) auto

lemma ok_or_Inl_iff: "ok_or e m = Inl e' \<longleftrightarrow> m = None \<and> e' = e"
  by (cases m) auto

lemma iter_res_Inr_iff: "iter_res f xs = Inr () \<longleftrightarrow> (\<forall>x\<in>set xs. f x = Inr ())"
  by (induction xs) (auto simp: bind_res_Inr_iff)

lemma iter_res_Inl:
  "iter_res f xs = Inl e \<Longrightarrow>
     \<exists>ys x zs. xs = ys @ x # zs \<and> (\<forall>y\<in>set ys. f y = Inr ()) \<and> f x = Inl e"
proof (induction xs)
  case Nil
  then show ?case by simp
next
  case (Cons a xs)
  show ?case
  proof (cases "f a")
    case (Inl e')
    with Cons.prems show ?thesis by (intro exI [of _ "[]"]) auto
  next
    case (Inr u)
    with Cons obtain ys x zs where "xs = ys @ x # zs" "\<forall>y\<in>set ys. f y = Inr ()" "f x = Inl e"
      by auto
    with Inr show ?thesis by (intro exI [of _ "a # ys"]) auto
  qed
qed

lemma iter_res_first_Inl:
  "\<forall>y\<in>set ys. f y = Inr () \<Longrightarrow> f x = Inl e \<Longrightarrow> iter_res f (ys @ x # zs) = Inl e"
  by (induction ys) auto

lemma io_return_app [res_simps]: "io_return a w = (Inr a, w)"
  by (simp add: io_return_def)

lemma io_fail_app [res_simps]: "io_fail e w = (Inl e, w)"
  by (simp add: io_fail_def)

lemma io_lift_app [res_simps]: "io_lift r w = (r, w)"
  by (simp add: io_lift_def)

lemma io_bind_app [res_simps]:
  "io_bind m f w = (case m w of (Inl e, w') \<Rightarrow> (Inl e, w') | (Inr a, w') \<Rightarrow> f a w')"
  by (simp add: io_bind_def)

lemma io_map_err_app [res_simps]: "io_map_err g m w = (map_err g (fst (m w)), snd (m w))"
  by (simp add: io_map_err_def split: prod.split)

lemma io_result_app [res_simps]: "io_result m w = (Inr (fst (m w)), snd (m w))"
  by (simp add: io_result_def split: prod.split)

lemma io_bind_Inr:
  "io_bind m f w = (Inr b, w'') \<longleftrightarrow> (\<exists>a w'. m w = (Inr a, w') \<and> f a w' = (Inr b, w''))"
  by (auto simp: io_bind_def split: prod.splits sum.splits)

lemma io_bind_Inl:
  "io_bind m f w = (Inl e, w'') \<longleftrightarrow>
     m w = (Inl e, w'') \<or> (\<exists>a w'. m w = (Inr a, w') \<and> f a w' = (Inl e, w''))"
  by (auto simp: io_bind_def split: prod.splits sum.splits)

lemma io_map_err_Inr: "io_map_err g m w = (Inr a, w') \<longleftrightarrow> m w = (Inr a, w')"
  by (auto simp: io_map_err_def split: prod.splits)

lemma io_lift_Inr: "io_lift r w = (Inr a, w') \<longleftrightarrow> r = Inr a \<and> w' = w"
  by (auto simp: io_lift_def)

lemma io_return_Inr: "io_return a w = (Inr b, w') \<longleftrightarrow> b = a \<and> w' = w"
  by (auto simp: io_return_def)

lemma io_fail_Inr [simp]: "io_fail e w \<noteq> (Inr b, w')"
  by (simp add: io_fail_def)

lemmas io_Inr = io_bind_Inr io_map_err_Inr io_lift_Inr io_return_Inr

section \<open>Laws of strings\<close>

declare strip_seqs.simps [simp del]

lemma starts_with_Nil [simp]: "starts_with [] s"
  by (simp add: starts_with_def)

lemma starts_with_Cons [simp]: "starts_with (a # p) (b # s) \<longleftrightarrow> a = b \<and> starts_with p s"
  by (auto simp: starts_with_def)

lemma starts_with_Cons_Nil [simp]: "\<not> starts_with (a # p) []"
  by (simp add: starts_with_def)

lemma starts_with_append [simp]: "starts_with p (p @ s)"
  by (simp add: starts_with_def)

lemma starts_with_iff: "starts_with p s \<longleftrightarrow> (\<exists>t. s = p @ t)"
  by (metis append_eq_conv_conj append_take_drop_id starts_with_append starts_with_def)

lemma strip_prefix_Some_iff: "strip_prefix p s = Some t \<longleftrightarrow> s = p @ t"
  by (auto simp: strip_prefix_def starts_with_iff)

lemma split_on_nonempty [simp]: "split_on c s \<noteq> []"
  by (cases s) (auto split: list.split)

lemma split_on_fresh [simp]: "c \<notin> set s \<Longrightarrow> split_on c s = [s]"
  by (induction s) auto

lemma split_on_append: "c \<notin> set s \<Longrightarrow> split_on c (s @ c # t) = s # split_on c t"
  by (induction s) auto

lemma trim_end_matches_last: "trim_end_matches c s = [] \<or> last (trim_end_matches c s) \<noteq> c"
  by (metis (mono_tags, lifting) dropWhile_eq_Nil_conv hd_dropWhile last_rev rev_is_Nil_conv
      trim_end_matches_def)

lemma trim_end_matches_replicate:
  "s = [] \<or> last s \<noteq> c \<Longrightarrow> trim_end_matches c (s @ replicate n c) = s"
  by (cases s rule: rev_cases) (auto simp: trim_end_matches_def dropWhile_append)

section \<open>Laws of encodings\<close>

lemma digit_val_digit_char: "d < 10 \<Longrightarrow> digit_val (digit_char d) = Some d"
  by (simp add: digit_val_def digit_char_def of_char_of)

lemma show_nat_nonempty [simp]: "show_nat n \<noteq> []"
  by (subst show_nat.simps) simp

lemma read_digits_append:
  "read_digits acc (s @ t) = (case read_digits acc s of None \<Rightarrow> None | Some a \<Rightarrow> read_digits a t)"
  by (induction s arbitrary: acc) (auto split: option.split)

lemma read_digits_show_nat: "read_digits 0 (show_nat n) = Some n"
proof (induction n rule: show_nat.induct)
  case (1 n)
  show ?case
  proof (cases "n < 10")
    case True
    then show ?thesis
      by (subst show_nat.simps) (simp add: digit_val_digit_char)
  next
    case False
    with 1 have "read_digits 0 (show_nat (n div 10)) = Some (n div 10)" by simp
    with False show ?thesis
      by (subst show_nat.simps) (simp add: read_digits_append digit_val_digit_char)
  qed
qed

lemma read_nat_show_nat [simp]: "read_nat (show_nat n) = Some n"
  by (simp add: read_nat_def read_digits_show_nat)

lemma digit_char_not_minus: "d < 10 \<Longrightarrow> digit_char d \<noteq> CHR ''-''"
  using digit_val_digit_char [of d] by (auto simp: digit_val_def)

lemma hd_show_nat: "hd (show_nat n) \<noteq> CHR ''-''"
proof (induction n rule: show_nat.induct)
  case (1 n)
  show ?case
  proof (cases "n < 10")
    case True
    then show ?thesis
      by (subst show_nat.simps) (simp add: digit_char_not_minus)
  next
    case False
    with 1 show ?thesis by (subst show_nat.simps) simp
  qed
qed

lemma read_int_show_int [simp]: "read_int (show_int i) = Some i"
proof (cases "i < 0")
  case True
  then show ?thesis
    by (simp add: show_int_def read_int_def strip_prefix_def)
next
  case False
  have "\<not> starts_with ''-'' (show_nat (nat i))"
    using hd_show_nat [of "nat i"] by (cases "show_nat (nat i)") auto
  with False show ?thesis
    by (simp add: show_int_def read_int_def strip_prefix_def)
qed

lemma str_of_bytes_as_bytes [simp]: "str_of_bytes (as_bytes s) = s"
proof (induction s)
  case Nil
  then show ?case by (simp add: str_of_bytes_def as_bytes_def)
next
  case (Cons c s)
  have "unat (word_of_nat (of_char c) :: 8 word) = (of_char c :: nat)"
    by (simp add: unat_of_nat take_bit_nat_eq_self)
  with Cons show ?case
    by (simp add: str_of_bytes_def as_bytes_def)
qed

lemma length_as_bytes [simp]: "length (as_bytes s) = length s"
  by (simp add: as_bytes_def)

lemma as_bytes_append [simp]: "as_bytes (s @ t) = as_bytes s @ as_bytes t"
  by (simp add: as_bytes_def)

lemma as_bytes_inject [simp]: "as_bytes s = as_bytes t \<longleftrightarrow> s = t"
  by (metis str_of_bytes_as_bytes)

lemma length_le_bytes [simp]: "length (le_bytes k n) = k"
  by (induction k arbitrary: n) auto

lemma unat_of_nat_byte [simp]: "unat (word_of_nat (n mod 256) :: 8 word) = n mod 256"
  by (simp add: unat_of_nat take_bit_nat_eq_self)

lemma unat_byte_less [simp]: "unat (b :: byte) < 256"
  using unsigned_less [of b] by simp

lemma unat_ucast_byte [simp]: "unat (ucast (b :: byte) :: u64) = unat b"
  by (simp add: unsigned_ucast_eq take_bit_nat_eq_self order_less_trans [OF unat_byte_less])

lemma le_nat_le_bytes: "le_nat (le_bytes k n) = n mod 256 ^ k"
proof (induction k arbitrary: n)
  case 0
  then show ?case by simp
next
  case (Suc k)
  have "n mod 256 + 256 * (n div 256 mod 256 ^ k) = n mod (256 * 256 ^ k)"
    by (simp add: mod_mult2_eq)
  with Suc show ?case by simp
qed

lemma le_nat_bound: "le_nat bs < 256 ^ length bs"
proof (induction bs)
  case Nil
  then show ?case by simp
next
  case (Cons b bs)
  have "unat b < 256"
    using unsigned_less [of b] by simp
  with Cons have "unat b + 256 * le_nat bs < 256 * 256 ^ length bs"
    by linarith
  then show ?case by simp
qed

lemma length_to_be_bytes [simp]: "length (to_be_bytes x) = 8"
  by (simp add: to_be_bytes_def)

lemma bit_eq_from_bytes:
  fixes x y :: u64
  assumes "\<And>i. i \<in> {0..<8} \<Longrightarrow> (ucast (drop_bit (8 * i) x) :: byte) = ucast (drop_bit (8 * i) y)"
  shows "x = y"
proof (rule bit_word_eqI)
  fix n
  assume n: "n < LENGTH(64)"
  then have "(ucast (drop_bit (8 * (n div 8)) x) :: byte) = ucast (drop_bit (8 * (n div 8)) y)"
    by (intro assms) auto
  then have "bit (ucast (drop_bit (8 * (n div 8)) x) :: byte) (n mod 8) =
             bit (ucast (drop_bit (8 * (n div 8)) y) :: byte) (n mod 8)"
    by simp
  with n show "bit x n = bit y n"
    by (simp add: bit_ucast_iff bit_drop_bit_eq)
qed

lemma to_be_bytes_inject [simp]: "to_be_bytes x = to_be_bytes y \<longleftrightarrow> x = y"
proof
  assume "to_be_bytes x = to_be_bytes y"
  then have "\<And>i. i \<in> set [7, 6, 5, 4, 3, 2, 1, 0 :: nat] \<Longrightarrow>
      (ucast (drop_bit (8 * i) x) :: byte) = ucast (drop_bit (8 * i) y)"
    unfolding to_be_bytes_def by (meson map_eq_conv)
  moreover have "{0..<8 :: nat} = set [7, 6, 5, 4, 3, 2, 1, 0]"
    by auto
  ultimately show "x = y"
    by (intro bit_eq_from_bytes) blast
qed simp

end
