(* ===== verification/Errors.thy ===== *)
theory Errors
  imports Prelude
begin

text \<open>
  The error enums of \<open>src/shared/src/errors.rs\<close> and their messages. A \<open>serde_json::Error\<close> is
  its category, a \<open>reqwest::Error\<close> its text; how the libraries print a JSON error or an HTTP
  status is an argument of the functions that print.
\<close>

datatype serde_error =
    JsonSyntax string
  | MissingField string
  | DuplicateField string
  | InvalidLength
  | InvalidType

datatype reqwest_error = ReqwestError string

datatype wallet_error =
    FabricError string
  | VcxError string
  | AskarError string
  | StorageError string
  | ChaincodeFailed string
  | InvalidResponse
  | SerializationError serde_error
  | NetworkError string
  | ConfigError string
  | CredentialNotFound string
  | DIDNotFound string
  | InvalidWitness string
  | SigningError string
  | TransactionFailed string
  | GrpcError string
  | RevocationError string
  | TransactionTimeout
  | ExecutionFailed string
  | WalletRequest reqwest_error
  | Unknown string

datatype broker_error =
    BrokerRequest reqwest_error
  | Provider nat string
  | Wallet wallet_error
  | Response string
  | Configuration string

text \<open>How the libraries print the values they own.\<close>

record fmt_env =
  serde_display :: "serde_error \<Rightarrow> string"
  status_display :: "nat \<Rightarrow> string"

fun reqwest_display :: "reqwest_error \<Rightarrow> string" where
  "reqwest_display (ReqwestError s) = s"

fun wallet_error_display :: "fmt_env \<Rightarrow> wallet_error \<Rightarrow> string" where
  "wallet_error_display F (FabricError s) = ''Fabric client error: '' @ s"
| "wallet_error_display F (VcxError s) = ''VCX error: '' @ s"
| "wallet_error_display F (AskarError s) = ''Askar error: '' @ s"
| "wallet_error_display F (StorageError s) = ''Storage error: '' @ s"
| "wallet_error_display F (ChaincodeFailed s) = ''Chaincode invocation failed: '' @ s"
| "wallet_error_display F InvalidResponse = ''Invalid response from peer''"
| "wallet_error_display F (SerializationError e) = ''Serialization error: '' @ serde_display F e"
| "wallet_error_display F (NetworkError s) = ''Network error: '' @ s"
| "wallet_error_display F (ConfigError s) = ''Configuration error: '' @ s"
| "wallet_error_display F (CredentialNotFound s) = ''Credential not found: '' @ s"
| "wallet_error_display F (DIDNotFound s) = ''DID not found: '' @ s"
| "wallet_error_display F (InvalidWitness s) = ''Invalid witness: '' @ s"
| "wallet_error_display F (SigningError s) = ''Signing error: '' @ s"
| "wallet_error_display F (TransactionFailed s) = ''Transaction failed: '' @ s"
| "wallet_error_display F (GrpcError s) = ''gRPC error: '' @ s"
| "wallet_error_display F (RevocationError s) = ''Revocation check failed: '' @ s"
| "wallet_error_display F TransactionTimeout = ''Timeout waiting for transaction confirmation''"
| "wallet_error_display F (ExecutionFailed s) = ''Tee Execution failed: '' @ s"
| "wallet_error_display F (WalletRequest e) = ''provider request failed: '' @ reqwest_display e"
| "wallet_error_display F (Unknown s) = ''Unknown error: '' @ s"

fun broker_error_display :: "fmt_env \<Rightarrow> broker_error \<Rightarrow> string" where
  "broker_error_display F (BrokerRequest e) = ''provider request failed: '' @ reqwest_display e"
| "broker_error_display F (Provider st body) =
     ''provider returned HTTP '' @ status_display F st @ '': '' @ body"
| "broker_error_display F (Wallet e) = ''wallet error: '' @ wallet_error_display F e"
| "broker_error_display F (Response s) = ''invalid provider response: '' @ s"
| "broker_error_display F (Configuration s) = ''provider configuration error: '' @ s"

type_synonym 'a wallet_result = "wallet_error + 'a"
type_synonym 'a broker_result = "broker_error + 'a"

end
