(* ===== verification/Config.thy ===== *)
theory Config
  imports Errors
begin

text \<open>
  The connection profile, \<open>src/fabric-client/src/config.rs\<close>. A \<open>HashMap\<close> is an association
  list whose order is the map's iteration order; nothing is assumed of that order. The file
  system and the YAML parser are arguments. \<open>consistent\<close> is the referential integrity
  \<open>validate\<close> promises: the client's organisation exists, there is at least one peer, orderer and
  channel, and every peer and orderer an organisation or a channel names is configured.
\<close>

type_synonym 'v hash_map = "(string \<times> 'v) list"

record path_wrapper =
  path :: string

record grpc_options =
  ssl_target_name_override :: "string option"
  keep_alive_time_ms :: "u64 option"

record peer_config =
  peer_url :: string
  peer_grpc_options :: grpc_options
  peer_tls_ca_certs :: "path_wrapper option"
  peer_tls_ca_certs_tonic :: "path_wrapper option"

record orderer_config =
  orderer_url :: string
  orderer_grpc_options :: grpc_options
  orderer_tls_ca_certs :: "path_wrapper option"

record user_config =
  user_cert :: path_wrapper
  user_key :: path_wrapper

record org_config =
  mspid :: string
  users :: "user_config hash_map"
  org_peers :: "string list"
  certificate_authorities :: "string list"

record peer_in_channel_config =
  endorsing_peer :: bool
  chaincode_query :: bool
  ledger_query :: bool
  event_source :: bool

record channel_config =
  channel_peers :: "peer_in_channel_config hash_map"
  channel_orderers :: "string list"
  endorsement_policy :: "string option"

record client_config =
  client_organization :: string
  logging_level :: string

record connection_config =
  cfg_version :: string
  peers :: "peer_config hash_map"
  orderers :: "orderer_config hash_map"
  organizations :: "org_config hash_map"
  channels :: "channel_config hash_map"
  client :: client_config

record file_system =
  fs_exists :: "string \<Rightarrow> bool"
  fs_read_to_string :: "string \<Rightarrow> string + string"
  fs_read :: "string \<Rightarrow> string + bytes"

definition sq :: "string \<Rightarrow> string" where
  "sq s = CHR 0x27 # s @ [CHR 0x27]"

section \<open>Validation\<close>

definition validate_org :: "connection_config \<Rightarrow> string \<times> org_config \<Rightarrow> unit wallet_result" where
  "validate_org c entry =
     (case entry of (org_name, org) \<Rightarrow>
        iter_res (\<lambda>peer_name.
          if map_of (peers c) peer_name = None then
            Inl (ConfigError (''Peer '' @ sq peer_name @ '' referenced in org '' @ sq org_name @
              '' not found''))
          else Inr ()) (org_peers org))"

definition validate_channel :: "connection_config \<Rightarrow> string \<times> channel_config \<Rightarrow> unit wallet_result" where
  "validate_channel c entry =
     (case entry of (channel_name, channel) \<Rightarrow>
        bind_res (iter_res (\<lambda>orderer_name.
          if map_of (orderers c) orderer_name = None then
            Inl (ConfigError (''Orderer '' @ sq orderer_name @ '' referenced in channel '' @
              sq channel_name @ '' not found''))
          else Inr ()) (channel_orderers channel)) (\<lambda>_.
        iter_res (\<lambda>peer_name.
          if map_of (peers c) peer_name = None then
            Inl (ConfigError (''Peer '' @ sq peer_name @ '' referenced in channel '' @
              sq channel_name @ '' not found''))
          else Inr ()) (map fst (channel_peers channel))))"

definition validate :: "connection_config \<Rightarrow> unit wallet_result" where
  "validate c =
     (if map_of (organizations c) (client_organization (client c)) = None then
        Inl (ConfigError (''Client organization '' @ sq (client_organization (client c)) @
          '' not found in configuration''))
      else if peers c = [] then Inl (ConfigError ''No peers configured'')
      else if orderers c = [] then Inl (ConfigError ''No orderers configured'')
      else if channels c = [] then Inl (ConfigError ''No channels configured'')
      else bind_res (iter_res (validate_org c) (organizations c)) (\<lambda>_.
           iter_res (validate_channel c) (channels c)))"

definition from_file ::
  "file_system \<Rightarrow> (string \<Rightarrow> string + connection_config) \<Rightarrow> string \<Rightarrow> connection_config wallet_result" where
  "from_file fs yaml_from_str p =
     (if \<not> fs_exists fs p then Inl (ConfigError (''Configuration file not found: '' @ p))
      else
        bind_res (map_err (\<lambda>e. ConfigError (''Failed to read config file '' @ p @ '': '' @ e))
          (fs_read_to_string fs p)) (\<lambda>content.
        bind_res (map_err (\<lambda>e. ConfigError (''Failed to parse YAML config: '' @ e))
          (yaml_from_str content)) (\<lambda>config.
        bind_res (validate config) (\<lambda>_. Inr config))))"

section \<open>User context\<close>

record user_context =
  uc_cert_pem :: string
  uc_key_pem :: string
  uc_msp_id :: string

definition user_context_new :: "string \<Rightarrow> string \<Rightarrow> string \<Rightarrow> user_context wallet_result" where
  "user_context_new cert_pem key_pem msp_id =
     (if cert_pem = [] then Inl (ConfigError ''Certificate cannot be empty'')
      else if key_pem = [] then Inl (ConfigError ''Private key cannot be empty'')
      else if msp_id = [] then Inl (ConfigError ''MSP ID cannot be empty'')
      else Inr \<lparr>uc_cert_pem = cert_pem, uc_key_pem = key_pem, uc_msp_id = msp_id\<rparr>)"

definition first_value :: "'v hash_map \<Rightarrow> 'v option" where
  "first_value m = (case m of [] \<Rightarrow> None | (_, v) # _ \<Rightarrow> Some v)"

definition get_user_context :: "connection_config \<Rightarrow> user_context wallet_result" where
  "get_user_context c =
     bind_res (ok_or (ConfigError ''Organization not found'')
       (map_of (organizations c) (client_organization (client c)))) (\<lambda>org.
     bind_res (ok_or (ConfigError ''No users configured for organization'')
       (first_value (users org))) (\<lambda>user.
     user_context_new (path (user_cert user)) (path (user_key user)) (mspid org)))"

definition get_user_context_for_org :: "connection_config \<Rightarrow> string \<Rightarrow> user_context wallet_result" where
  "get_user_context_for_org c org_name =
     bind_res (ok_or (ConfigError (''Organization '' @ sq org_name @ '' not found''))
       (map_of (organizations c) org_name)) (\<lambda>org.
     bind_res (ok_or (ConfigError (''No users configured for organization '' @ sq org_name))
       (first_value (users org))) (\<lambda>user.
     user_context_new (path (user_cert user)) (path (user_key user)) (mspid org)))"

definition get_user_context_by_name ::
  "connection_config \<Rightarrow> string \<Rightarrow> string \<Rightarrow> user_context wallet_result" where
  "get_user_context_by_name c org_name user_name =
     bind_res (ok_or (ConfigError (''Organization '' @ sq org_name @ '' not found''))
       (map_of (organizations c) org_name)) (\<lambda>org.
     bind_res (ok_or (ConfigError (''User '' @ sq user_name @ '' not found in organization '' @
         sq org_name)) (map_of (users org) user_name)) (\<lambda>user.
     user_context_new (path (user_cert user)) (path (user_key user)) (mspid org)))"

section \<open>Lookups\<close>

definition get_orderer_url :: "connection_config \<Rightarrow> string wallet_result" where
  "get_orderer_url c =
     ok_or (ConfigError ''No orderers configured'') (map_option orderer_url (first_value (orderers c)))"

definition get_orderer_config :: "connection_config \<Rightarrow> string \<Rightarrow> orderer_config wallet_result" where
  "get_orderer_config c n =
     ok_or (ConfigError (''Orderer '' @ sq n @ '' not found'')) (map_of (orderers c) n)"

definition get_orderer_url_by_name :: "connection_config \<Rightarrow> string \<Rightarrow> string wallet_result" where
  "get_orderer_url_by_name c n =
     ok_or (ConfigError (''Orderer '' @ sq n @ '' not found''))
       (map_option orderer_url (map_of (orderers c) n))"

definition get_all_orderer_urls :: "connection_config \<Rightarrow> string list" where
  "get_all_orderer_urls c = map (\<lambda>(_, o'). orderer_url o') (orderers c)"

definition get_peer_url :: "connection_config \<Rightarrow> string \<Rightarrow> string wallet_result" where
  "get_peer_url c n =
     ok_or (ConfigError (''Peer '' @ sq n @ '' not found'')) (map_option peer_url (map_of (peers c) n))"

definition get_peer_config :: "connection_config \<Rightarrow> string \<Rightarrow> peer_config wallet_result" where
  "get_peer_config c n =
     ok_or (ConfigError (''Peer '' @ sq n @ '' not found'')) (map_of (peers c) n)"

definition get_all_peer_urls :: "connection_config \<Rightarrow> string list" where
  "get_all_peer_urls c = map (\<lambda>(_, p). peer_url p) (peers c)"

definition channel_err :: "string \<Rightarrow> wallet_error" where
  "channel_err n = ConfigError (''Channel '' @ sq n @ '' not found'')"

definition get_channel_peers :: "connection_config \<Rightarrow> string \<Rightarrow> string list wallet_result" where
  "get_channel_peers c n =
     ok_or (channel_err n) (map_option (\<lambda>ch. map fst (channel_peers ch)) (map_of (channels c) n))"

definition get_channel_orderers :: "connection_config \<Rightarrow> string \<Rightarrow> string list wallet_result" where
  "get_channel_orderers c n =
     ok_or (channel_err n) (map_option channel_orderers (map_of (channels c) n))"

definition get_endorsing_peers :: "connection_config \<Rightarrow> string \<Rightarrow> string list wallet_result" where
  "get_endorsing_peers c n =
     ok_or (channel_err n)
       (map_option (\<lambda>ch. map fst (filter (\<lambda>(_, p). endorsing_peer p) (channel_peers ch)))
         (map_of (channels c) n))"

definition get_org_mspid :: "connection_config \<Rightarrow> string \<Rightarrow> string wallet_result" where
  "get_org_mspid c n =
     ok_or (ConfigError (''Organization '' @ sq n @ '' not found''))
       (map_option mspid (map_of (organizations c) n))"

definition get_channel_config :: "connection_config \<Rightarrow> string \<Rightarrow> channel_config wallet_result" where
  "get_channel_config c n = ok_or (channel_err n) (map_of (channels c) n)"

definition get_org_config :: "connection_config \<Rightarrow> string \<Rightarrow> org_config wallet_result" where
  "get_org_config c n =
     ok_or (ConfigError (''Organization '' @ sq n @ '' not found'')) (map_of (organizations c) n)"

definition read_cert ::
  "(peer_config \<Rightarrow> path_wrapper option) \<Rightarrow> file_system \<Rightarrow> connection_config \<Rightarrow> string \<Rightarrow>
   bytes wallet_result" where
  "read_cert sel fs c n =
     bind_res (ok_or (ConfigError (''Peer '' @ sq n @ '' not found for TLS loading''))
       (map_of (peers c) n)) (\<lambda>peer.
     case sel peer of
       Some wrapper \<Rightarrow>
         map_err (\<lambda>e. ConfigError (''Failed to read TLS CA file '' @ path wrapper @ '': '' @ e))
           (fs_read fs (path wrapper))
     | None \<Rightarrow> Inr [])"

definition read_peer_tls_cert_bytes ::
  "file_system \<Rightarrow> connection_config \<Rightarrow> string \<Rightarrow> bytes wallet_result" where
  "read_peer_tls_cert_bytes = read_cert peer_tls_ca_certs"

definition read_peer_tonic_tls_cert_bytes ::
  "file_system \<Rightarrow> connection_config \<Rightarrow> string \<Rightarrow> bytes wallet_result" where
  "read_peer_tonic_tls_cert_bytes = read_cert peer_tls_ca_certs_tonic"

definition peer_in_channel :: "connection_config \<Rightarrow> string \<Rightarrow> string \<Rightarrow> peer_in_channel_config option" where
  "peer_in_channel c channel_name peer_name =
     Option.bind (map_of (channels c) channel_name) (\<lambda>ch. map_of (channel_peers ch) peer_name)"

definition peer_supports_chaincode_query :: "connection_config \<Rightarrow> string \<Rightarrow> string \<Rightarrow> bool wallet_result" where
  "peer_supports_chaincode_query c channel_name peer_name =
     ok_or (ConfigError (''Peer '' @ sq peer_name @ '' not found in channel '' @ sq channel_name))
       (map_option chaincode_query (peer_in_channel c channel_name peer_name))"

definition peer_supports_ledger_query :: "connection_config \<Rightarrow> string \<Rightarrow> string \<Rightarrow> bool wallet_result" where
  "peer_supports_ledger_query c channel_name peer_name =
     ok_or (ConfigError (''Peer '' @ sq peer_name @ '' not found in channel '' @ sq channel_name))
       (map_option ledger_query (peer_in_channel c channel_name peer_name))"

definition get_peer_tls_ca_cert_path :: "connection_config \<Rightarrow> string \<Rightarrow> string option wallet_result" where
  "get_peer_tls_ca_cert_path c n =
     ok_or (ConfigError (''Peer '' @ sq n @ '' not found''))
       (map_option (\<lambda>p. map_option path (peer_tls_ca_certs p)) (map_of (peers c) n))"

definition get_orderer_tls_ca_cert_path :: "connection_config \<Rightarrow> string \<Rightarrow> string option wallet_result" where
  "get_orderer_tls_ca_cert_path c n =
     ok_or (ConfigError (''Orderer '' @ sq n @ '' not found''))
       (map_option (\<lambda>o'. map_option path (orderer_tls_ca_certs o')) (map_of (orderers c) n))"

section \<open>Referential integrity\<close>

definition consistent :: "connection_config \<Rightarrow> bool" where
  "consistent c \<longleftrightarrow>
     client_organization (client c) \<in> fst ` set (organizations c) \<and>
     peers c \<noteq> [] \<and> orderers c \<noteq> [] \<and> channels c \<noteq> [] \<and>
     (\<forall>org\<in>snd ` set (organizations c). set (org_peers org) \<subseteq> fst ` set (peers c)) \<and>
     (\<forall>ch\<in>snd ` set (channels c).
        set (channel_orderers ch) \<subseteq> fst ` set (orderers c) \<and>
        fst ` set (channel_peers ch) \<subseteq> fst ` set (peers c))"

lemma iter_res_lookup_iff:
  "iter_res (\<lambda>n. if map_of m n = None then Inl (f n) else Inr ()) xs = Inr () \<longleftrightarrow>
     set xs \<subseteq> fst ` set m"
  by (auto simp: iter_res_Inr_iff map_of_eq_None_iff)

lemma validate_org_iff:
  "validate_org c e = Inr () \<longleftrightarrow> set (org_peers (snd e)) \<subseteq> fst ` set (peers c)"
  by (cases e) (simp add: validate_org_def iter_res_lookup_iff)

lemma validate_channel_iff:
  "validate_channel c e = Inr () \<longleftrightarrow>
     set (channel_orderers (snd e)) \<subseteq> fst ` set (orderers c) \<and>
     fst ` set (channel_peers (snd e)) \<subseteq> fst ` set (peers c)"
  by (cases e) (simp add: validate_channel_def bind_res_Inr_iff iter_res_lookup_iff)

lemma validate_iff: "validate c = Inr () \<longleftrightarrow> consistent c"
  by (simp add: validate_def consistent_def bind_res_Inr_iff iter_res_Inr_iff
      validate_org_iff validate_channel_iff map_of_eq_None_iff)

lemma lookup_in_keys: "n \<in> fst ` set m \<Longrightarrow> \<exists>v. map_of m n = Some v"
  by (meson map_of_eq_None_iff not_None_eq)

text \<open>
  Loading a connection profile: \<open>from_file\<close> returns a configuration exactly when the file
  exists, can be read, parses as YAML to that configuration, and the configuration is
  referentially consistent, whatever the iteration order of its maps.
\<close>

theorem from_file_correct:
  "from_file fs yaml p = Inr c \<longleftrightarrow>
     fs_exists fs p \<and> (\<exists>content. fs_read_to_string fs p = Inr content \<and> yaml content = Inr c) \<and>
     consistent c"
  by (auto simp: from_file_def bind_res_Inr_iff validate_iff)

lemma orderer_resolves:
  "n \<in> fst ` set (orderers c) \<Longrightarrow>
   \<exists>oc. get_orderer_config c n = Inr oc \<and> get_orderer_url_by_name c n = Inr (orderer_url oc)"
  using lookup_in_keys [of n "orderers c"]
  by (auto simp: get_orderer_config_def get_orderer_url_by_name_def)

lemma peer_resolves:
  "n \<in> fst ` set (peers c) \<Longrightarrow>
   \<exists>pc. get_peer_config c n = Inr pc \<and> get_peer_url c n = Inr (peer_url pc)"
  using lookup_in_keys [of n "peers c"] by (auto simp: get_peer_config_def get_peer_url_def)

text \<open>
  C38. In a validated configuration no reference dangles: every orderer and every peer a channel
  lists, and every peer an organisation lists, resolves to its configuration and to the URL in it; the
  endorsing peers of a channel are among its peers; and the client's organisation has a configuration
  and an MSP id.
\<close>

theorem validated_references_resolve:
  assumes "validate c = Inr ()"
  shows "(\<forall>ch os. get_channel_orderers c ch = Inr os \<longrightarrow> (\<forall>n\<in>set os.
      \<exists>oc. get_orderer_config c n = Inr oc \<and> get_orderer_url_by_name c n = Inr (orderer_url oc))) \<and>
    (\<forall>ch ps. get_channel_peers c ch = Inr ps \<longrightarrow> (\<forall>n\<in>set ps.
      \<exists>pc. get_peer_config c n = Inr pc \<and> get_peer_url c n = Inr (peer_url pc))) \<and>
    (\<forall>ch ps. get_endorsing_peers c ch = Inr ps \<longrightarrow>
      (\<exists>ps'. get_channel_peers c ch = Inr ps' \<and> set ps \<subseteq> set ps')) \<and>
    (\<forall>o' org. get_org_config c o' = Inr org \<longrightarrow> (\<forall>n\<in>set (org_peers org).
      \<exists>pc. get_peer_config c n = Inr pc \<and> get_peer_url c n = Inr (peer_url pc))) \<and>
    (\<exists>org. get_org_config c (client_organization (client c)) = Inr org \<and>
       get_org_mspid c (client_organization (client c)) = Inr (mspid org))"
proof -
  have cons: "consistent c"
    using assms by (simp add: validate_iff)
  have ch: "set (channel_orderers cc) \<subseteq> fst ` set (orderers c)"
      "fst ` set (channel_peers cc) \<subseteq> fst ` set (peers c)"
    if "map_of (channels c) n = Some cc" for n cc
    using cons map_of_SomeD [OF that] unfolding consistent_def by (metis imageI snd_conv)+
  have org: "set (org_peers oc) \<subseteq> fst ` set (peers c)" if "map_of (organizations c) n = Some oc" for n oc
    using cons map_of_SomeD [OF that] unfolding consistent_def by (metis imageI snd_conv)
  show ?thesis
  proof (intro conjI allI impI ballI)
    fix n os x
    assume "get_channel_orderers c n = Inr os" "x \<in> set os"
    then show "\<exists>oc. get_orderer_config c x = Inr oc \<and> get_orderer_url_by_name c x = Inr (orderer_url oc)"
      using ch(1) by (auto simp: get_channel_orderers_def intro!: orderer_resolves)
  next
    fix n ps x
    assume "get_channel_peers c n = Inr ps" "x \<in> set ps"
    then show "\<exists>pc. get_peer_config c x = Inr pc \<and> get_peer_url c x = Inr (peer_url pc)"
      using ch(2) by (force simp: get_channel_peers_def intro!: peer_resolves)
  next
    fix n ps
    assume "get_endorsing_peers c n = Inr ps"
    then show "\<exists>ps'. get_channel_peers c n = Inr ps' \<and> set ps \<subseteq> set ps'"
      by (force simp: get_endorsing_peers_def get_channel_peers_def)
  next
    fix n oc x
    assume "get_org_config c n = Inr oc" "x \<in> set (org_peers oc)"
    then show "\<exists>pc. get_peer_config c x = Inr pc \<and> get_peer_url c x = Inr (peer_url pc)"
      using org by (auto simp: get_org_config_def intro!: peer_resolves)
  next
    show "\<exists>org. get_org_config c (client_organization (client c)) = Inr org \<and>
        get_org_mspid c (client_organization (client c)) = Inr (mspid org)"
      using cons lookup_in_keys [of "client_organization (client c)" "organizations c"]
      by (auto simp: consistent_def get_org_config_def get_org_mspid_def)
  qed
qed

definition example_peer :: peer_config where
  "example_peer = \<lparr>peer_url = ''peer0:443'', peer_grpc_options =
     \<lparr>ssl_target_name_override = None, keep_alive_time_ms = None\<rparr>,
     peer_tls_ca_certs = None, peer_tls_ca_certs_tonic = None\<rparr>"

definition example_config :: connection_config where
  "example_config = \<lparr>cfg_version = ''1.0'', peers = [(''p0'', example_peer)],
     orderers = [(''o0'', \<lparr>orderer_url = ''ord:443'', orderer_grpc_options =
       \<lparr>ssl_target_name_override = None, keep_alive_time_ms = None\<rparr>,
       orderer_tls_ca_certs = None\<rparr>)],
     organizations = [(''Org1MSP'', \<lparr>mspid = ''Org1MSP'', users = [], org_peers = [''p0''],
       certificate_authorities = []\<rparr>)],
     channels = [(''dzta'', \<lparr>channel_peers = [(''p0'', \<lparr>endorsing_peer = True,
       chaincode_query = True, ledger_query = True, event_source = True\<rparr>)],
       channel_orderers = [''o0''], endorsement_policy = None\<rparr>)],
     client = \<lparr>client_organization = ''Org1MSP'', logging_level = ''info''\<rparr>\<rparr>"

lemma example_config_validated: "validate example_config = Inr ()"
  by (simp add: validate_iff consistent_def example_config_def)

theorem validated_references_resolve_witness:
  "\<exists>org. get_org_config example_config (client_organization (client example_config)) = Inr org \<and>
     get_org_mspid example_config (client_organization (client example_config)) = Inr (mspid org)"
  using validated_references_resolve [OF example_config_validated] by blast

text \<open>
  Validation warns about organisations without peers and never looks at their users: a validated
  profile may have no user for the client's organisation, and then no transaction can be signed.
\<close>

lemma validated_without_users:
  "validate example_config = Inr () \<and>
   get_user_context example_config = Inl (ConfigError ''No users configured for organization'')"
  using example_config_validated
  by (simp add: get_user_context_def example_config_def first_value_def)

end
