(* ===== verification/Json.thy ===== *)
theory Json
  imports Errors "HOL-Library.Countable"
begin

text \<open>
  JSON documents as \<open>serde_json\<close> presents them to the program: the \<open>Value\<close> enum, its
  accessors, and the building blocks of derived \<open>Deserialize\<close> implementations (renamed,
  aliased, defaulted and optional fields; a struct may also be read from an array of its
  fields in order). An object keeps its entries as written, duplicates included: \<open>Value\<close>
  keeps the last entry of a key, a derived struct refuses a field given twice.
  The text parser and printer are arguments of the components that use them.
\<close>

datatype json_number = PosInt u64 | NegInt i64 | Float string

datatype json =
    JNull
  | JBool bool
  | JNumber json_number
  | JString string
  | JArray "json list"
  | JObject "(string \<times> json) list"

definition i64_max :: int where
  "i64_max = 9223372036854775807"

section \<open>Accessors of Value\<close>

fun json_get :: "string \<Rightarrow> json \<Rightarrow> json option" where
  "json_get k (JObject kvs) = map_of (rev kvs) k"
| "json_get k _ = None"

definition json_index :: "json \<Rightarrow> string \<Rightarrow> json" where
  "json_index v k = (case json_get k v of None \<Rightarrow> JNull | Some x \<Rightarrow> x)"

fun as_str :: "json \<Rightarrow> string option" where
  "as_str (JString s) = Some s"
| "as_str _ = None"

fun as_u64 :: "json \<Rightarrow> u64 option" where
  "as_u64 (JNumber (PosInt n)) = Some n"
| "as_u64 _ = None"

fun as_i64 :: "json \<Rightarrow> i64 option" where
  "as_i64 (JNumber (PosInt n)) = (if uint n \<le> i64_max then Some (uint n) else None)"
| "as_i64 (JNumber (NegInt i)) = Some i"
| "as_i64 _ = None"

fun as_array :: "json \<Rightarrow> json list option" where
  "as_array (JArray xs) = Some xs"
| "as_array _ = None"

definition is_string :: "json \<Rightarrow> bool" where
  "is_string v \<longleftrightarrow> as_str v \<noteq> None"

definition is_i64 :: "json \<Rightarrow> bool" where
  "is_i64 v \<longleftrightarrow> as_i64 v \<noteq> None"

definition is_u64 :: "json \<Rightarrow> bool" where
  "is_u64 v \<longleftrightarrow> as_u64 v \<noteq> None"

definition json_of_i64 :: "i64 \<Rightarrow> json" where
  "json_of_i64 i = JNumber (if i < 0 then NegInt i else PosInt (word_of_int i))"

definition json_of_bytes :: "bytes \<Rightarrow> json" where
  "json_of_bytes bs = JArray (map (\<lambda>b. JNumber (PosInt (ucast b))) bs)"

text \<open>\<open>v["k"] = x\<close> on an object: replaces the entry of the key or adds one.\<close>

fun json_insert :: "string \<Rightarrow> json \<Rightarrow> json \<Rightarrow> json" where
  "json_insert k x (JObject kvs) = JObject (filter (\<lambda>(k', _). k' \<noteq> k) kvs @ [(k, x)])"
| "json_insert k x v = v"

section \<open>Derived Deserialize\<close>

type_synonym 'a decoder = "json \<Rightarrow> serde_error + 'a"
type_synonym json_parser = "bytes \<Rightarrow> serde_error + json"

fun dec_string :: "string decoder" where
  "dec_string (JString s) = Inr s"
| "dec_string _ = Inl InvalidType"

fun dec_bool :: "bool decoder" where
  "dec_bool (JBool b) = Inr b"
| "dec_bool _ = Inl InvalidType"

definition dec_i64 :: "i64 decoder" where
  "dec_i64 v = ok_or InvalidType (as_i64 v)"

definition dec_u64 :: "u64 decoder" where
  "dec_u64 v = ok_or InvalidType (as_u64 v)"

definition dec_u8 :: "byte decoder" where
  "dec_u8 v = (case as_u64 v of
      Some n \<Rightarrow> if n < 256 then Inr (ucast n) else Inl InvalidType
    | None \<Rightarrow> Inl InvalidType)"

definition dec_value :: "json decoder" where
  "dec_value v = Inr v"

fun dec_list :: "'a decoder \<Rightarrow> json list \<Rightarrow> serde_error + 'a list" where
  "dec_list d [] = Inr []"
| "dec_list d (v # vs) = bind_res (d v) (\<lambda>x. bind_res (dec_list d vs) (\<lambda>xs. Inr (x # xs)))"

fun dec_vec :: "'a decoder \<Rightarrow> 'a list decoder" where
  "dec_vec d (JArray vs) = dec_list d vs"
| "dec_vec d _ = Inl InvalidType"

text \<open>\<open>[u8; n]\<close>: an array of exactly \<open>n\<close> elements.\<close>

definition dec_byte_array :: "nat \<Rightarrow> bytes decoder" where
  "dec_byte_array n v = bind_res (dec_vec dec_u8 v)
     (\<lambda>bs. if length bs = n then Inr bs else Inl InvalidLength)"

definition dec_option :: "'a decoder \<Rightarrow> 'a option decoder" where
  "dec_option d v = (if v = JNull then Inr None else bind_res (d v) (\<lambda>x. Inr (Some x)))"

text \<open>The fields of a struct: whether they come by position, and the entries.\<close>

type_synonym fields = "bool \<times> (string \<times> json) list"

fun struct_fields :: "string list \<Rightarrow> fields decoder" where
  "struct_fields names (JObject kvs) = Inr (False, kvs)"
| "struct_fields names (JArray vs) =
     (if length vs \<le> length names then Inr (True, zip names vs) else Inl InvalidLength)"
| "struct_fields names _ = Inl InvalidType"

definition field_value :: "string list \<Rightarrow> fields \<Rightarrow> serde_error + json option" where
  "field_value names fs =
     (case filter (\<lambda>(k, _). k \<in> set names) (snd fs) of
        [] \<Rightarrow> Inr None
      | [(_, v)] \<Rightarrow> Inr (Some v)
      | _ \<Rightarrow> Inl (DuplicateField (hd names)))"

definition missing :: "string list \<Rightarrow> fields \<Rightarrow> serde_error" where
  "missing names fs = (if fst fs then InvalidLength else MissingField (hd names))"

definition required_field :: "'a decoder \<Rightarrow> string list \<Rightarrow> fields \<Rightarrow> serde_error + 'a" where
  "required_field d names fs = bind_res (field_value names fs)
     (\<lambda>ov. case ov of None \<Rightarrow> Inl (missing names fs) | Some v \<Rightarrow> d v)"

definition default_field :: "'a \<Rightarrow> 'a decoder \<Rightarrow> string list \<Rightarrow> fields \<Rightarrow> serde_error + 'a" where
  "default_field a d names fs = bind_res (field_value names fs)
     (\<lambda>ov. case ov of None \<Rightarrow> Inr a | Some v \<Rightarrow> d v)"

text \<open>A field of type \<open>Option\<close> without \<open>default\<close>: absent from an object it is \<open>None\<close>.\<close>

definition option_field :: "'a decoder \<Rightarrow> string list \<Rightarrow> fields \<Rightarrow> serde_error + 'a option" where
  "option_field d names fs = bind_res (field_value names fs)
     (\<lambda>ov. case ov of
        None \<Rightarrow> if fst fs then Inl InvalidLength else Inr None
      | Some v \<Rightarrow> dec_option d v)"

definition from_slice :: "json_parser \<Rightarrow> 'a decoder \<Rightarrow> bytes \<Rightarrow> serde_error + 'a" where
  "from_slice P d bs = bind_res (P bs) d"

text \<open>
  The values a JSON printer and parser carry over unchanged: integers in range, no floating point
  text, no object with the same key twice.
\<close>

fun json_wf :: "json \<Rightarrow> bool" where
  "json_wf (JNumber (PosInt n)) = True"
| "json_wf (JNumber (NegInt i)) = (i < 0 \<and> - 9223372036854775808 \<le> i)"
| "json_wf (JNumber (Float s)) = False"
| "json_wf (JArray vs) = (\<forall>v\<in>set vs. json_wf v)"
| "json_wf (JObject kvs) = (distinct (map fst kvs) \<and> (\<forall>(k, v)\<in>set kvs. json_wf v))"
| "json_wf _ = True"

definition print_parse_law :: "(json \<Rightarrow> bytes) \<Rightarrow> json_parser \<Rightarrow> bool" where
  "print_parse_law pr pa \<longleftrightarrow> (\<forall>v. json_wf v \<longrightarrow> pa (pr v) = Inr v)"

section \<open>Laws\<close>

instance json_number :: countable
  by countable_datatype

instance json :: countable
  by countable_datatype

lemmas dec_defs = dec_i64_def dec_u64_def dec_u8_def dec_value_def dec_option_def
  dec_byte_array_def

lemmas field_defs = required_field_def default_field_def option_field_def field_value_def
  missing_def

lemma as_i64_json_of_i64:
  assumes "- 9223372036854775808 \<le> i" "i \<le> i64_max"
  shows "as_i64 (json_of_i64 i) = Some i"
proof (cases "i < 0")
  case True
  then show ?thesis by (simp add: json_of_i64_def)
next
  case False
  with assms have "uint (word_of_int i :: u64) = i"
    by (simp add: uint_word_of_int i64_max_def take_bit_int_eq_self)
  with False assms show ?thesis by (simp add: json_of_i64_def)
qed

lemma json_get_insert_same [simp]:
  "json_get k (json_insert k x (JObject kvs)) = Some x"
  by simp

lemma map_of_filter_key:
  "k \<noteq> k' \<Longrightarrow> map_of (filter (\<lambda>(j, _). j \<noteq> k') kvs) k = map_of kvs k"
  by (induction kvs) auto

lemma json_get_insert_other [simp]:
  "k \<noteq> k' \<Longrightarrow> json_get k (json_insert k' x (JObject kvs)) = json_get k (JObject kvs)"
  by (simp add: rev_filter map_of_filter_key)

lemma dec_list_map:
  assumes "\<And>x. x \<in> set xs \<Longrightarrow> d (e x) = Inr x"
  shows "dec_list d (map e xs) = Inr xs"
  using assms by (induction xs) auto

lemma dec_u8_byte [simp]: "dec_u8 (JNumber (PosInt (ucast b))) = Inr (b :: byte)"
proof -
  have "unat b < 256"
    using unsigned_less [of b] by simp
  then have "(ucast b :: u64) < 256"
    by (simp add: word_less_nat_alt)
  moreover have "ucast (ucast b :: u64) = b"
    by (simp add: word_unat_eq_iff unsigned_ucast_eq [of "ucast b :: u64"] take_bit_nat_eq_self)
  ultimately show ?thesis by (simp add: dec_u8_def)
qed

lemma dec_json_of_bytes [simp]: "dec_vec dec_u8 (json_of_bytes bs) = Inr bs"
proof -
  have "dec_list dec_u8 (map (\<lambda>b. JNumber (PosInt (ucast b))) bs) = Inr bs"
    by (rule dec_list_map) simp
  then show ?thesis by (simp add: json_of_bytes_def)
qed

lemma json_wf_i64 [simp]: "- 9223372036854775808 \<le> i \<Longrightarrow> json_wf (json_of_i64 i)"
  by (simp add: json_of_i64_def)

lemma json_wf_bytes [simp]: "json_wf (json_of_bytes bs)"
  by (auto simp: json_of_bytes_def)

text \<open>A printer and parser that satisfy the law: a value is as many zero bytes as its number.\<close>

definition unary_print :: "json \<Rightarrow> bytes" where
  "unary_print v = replicate (to_nat v) 0"

definition unary_parse :: json_parser where
  "unary_parse bs = Inr (from_nat (length bs))"

lemma unary_parse_print [simp]: "unary_parse (unary_print v) = Inr v"
  by (simp add: unary_parse_def unary_print_def)

lemma unary_law: "print_parse_law unary_print unary_parse"
  by (simp add: print_parse_law_def)

end
