(* ===== verification/Models.thy ===== *)
theory Models
  imports Json
begin

text \<open>
  The data model shared by all crates, \<open>src/shared/src/models.rs\<close>: the structs as records and
  their derived (de)serialisation. A \<open>DateTime<Utc>\<close> is its Unix time in seconds and its
  nanoseconds; which seconds chrono can represent is the argument \<open>in_range_ts\<close>.
\<close>

record datetime =
  dt_secs :: i64
  dt_nanos :: nat

record stored_credential =
  sc_credential_id :: string
  sc_schema_id :: string
  sc_issuer_did :: string
  sc_subject_did :: string
  sc_credential_data :: json
  sc_issued_at :: datetime
  sc_expires_at :: "datetime option"
  sc_stored_in_askar :: bool

record issued_credential =
  ic_credential_id :: string
  ic_schema_id :: string
  ic_issuer_did :: string
  ic_subject_did :: string
  ic_credential_data :: json
  ic_issued_at :: datetime
  ic_expires_at :: "datetime option"

record credential_attributes =
  user_role_id :: string
  org_id :: string
  clearance_level :: u64
  timestamp :: i64

record schema_attribute =
  attr_name :: string
  attr_type :: string
  attr_predicate :: bool

record verification_method =
  vm_id :: string
  vm_method_type :: string
  vm_controller :: string
  vm_public_key_multibase :: string

record did_document =
  dd_context :: "string list"
  dd_did :: string
  dd_issuer_did :: string
  dd_public_key :: string
  dd_verification_method :: "verification_method list"
  dd_authentication :: "string list"
  dd_assertion_method :: "string list"
  dd_created :: i64
  dd_updated :: i64
  dd_active :: bool

record credential_metadata =
  cm_credential_id :: string
  cm_schema_id :: string
  cm_issuer_did :: string
  cm_subject_did :: string
  cm_issued_at :: i64
  cm_expires_at :: i64
  cm_revoked :: bool
  cm_revoked_at :: "i64 option"
  cm_zkp_supported :: bool
  cm_proofable_fields :: "string list"

record credential_schema =
  cs_schema_id :: string
  cs_issuer_did :: string
  cs_name :: string
  cs_version :: string
  cs_attributes :: "schema_attribute list"
  cs_created :: i64

record zkp_witness =
  zw_credential_id :: string
  zw_subject_did :: string
  zw_user_role_id :: string
  zw_clearance_level :: u64

record chaincode_invocation =
  ci_function :: string
  ci_args :: "string list"

record verification_receipt =
  vr_credential_id :: string
  vr_verifier_mec :: string
  vr_verified_at :: i64
  vr_tee_quote :: string

section \<open>Reading JSON\<close>

definition dec_verification_method :: "verification_method decoder" where
  "dec_verification_method v =
     bind_res (struct_fields [''id'', ''type'', ''controller'', ''public_key_multibase''] v) (\<lambda>fs.
     bind_res (required_field dec_string [''id''] fs) (\<lambda>i.
     bind_res (required_field dec_string [''type''] fs) (\<lambda>t.
     bind_res (required_field dec_string [''controller''] fs) (\<lambda>c.
     bind_res (default_field [] dec_string [''public_key_multibase''] fs) (\<lambda>k.
     Inr \<lparr>vm_id = i, vm_method_type = t, vm_controller = c, vm_public_key_multibase = k\<rparr>)))))"

definition deserialize_bool_or_default :: "bool decoder" where
  "deserialize_bool_or_default v =
     bind_res (dec_option dec_bool v) (\<lambda>opt. Inr (case opt of None \<Rightarrow> True | Some b \<Rightarrow> b))"

definition dec_did_document :: "did_document decoder" where
  "dec_did_document v =
     bind_res (struct_fields [''@context'', ''did'', ''issuer_did'', ''public_key'',
       ''verificationMethod'', ''authentication'', ''assertionMethod'', ''created'', ''updated'',
       ''active''] v) (\<lambda>fs.
     bind_res (default_field [] (dec_vec dec_string) [''@context''] fs) (\<lambda>ctx.
     bind_res (required_field dec_string [''did'', ''id''] fs) (\<lambda>did.
     bind_res (default_field [] dec_string [''issuer_did''] fs) (\<lambda>issuer.
     bind_res (default_field [] dec_string [''public_key''] fs) (\<lambda>pk.
     bind_res (default_field [] (dec_vec dec_verification_method) [''verificationMethod''] fs) (\<lambda>vms.
     bind_res (default_field [] (dec_vec dec_string) [''authentication''] fs) (\<lambda>auth.
     bind_res (default_field [] (dec_vec dec_string) [''assertionMethod''] fs) (\<lambda>asr.
     bind_res (default_field 0 dec_i64 [''created''] fs) (\<lambda>cr.
     bind_res (default_field 0 dec_i64 [''updated''] fs) (\<lambda>up.
     bind_res (default_field False deserialize_bool_or_default [''active''] fs) (\<lambda>act.
     Inr \<lparr>dd_context = ctx, dd_did = did, dd_issuer_did = issuer, dd_public_key = pk,
          dd_verification_method = vms, dd_authentication = auth, dd_assertion_method = asr,
          dd_created = cr, dd_updated = up, dd_active = act\<rparr>)))))))))))"

definition dec_credential_metadata :: "credential_metadata decoder" where
  "dec_credential_metadata v =
     bind_res (struct_fields [''credential_id'', ''schema_id'', ''issuer_did'', ''subject_did'',
       ''issued_at'', ''expires_at'', ''revoked'', ''revoked_at'', ''zkp_supported'',
       ''proofable_fields''] v) (\<lambda>fs.
     bind_res (required_field dec_string [''credential_id''] fs) (\<lambda>cid.
     bind_res (required_field dec_string [''schema_id''] fs) (\<lambda>sid.
     bind_res (required_field dec_string [''issuer_did''] fs) (\<lambda>issuer.
     bind_res (required_field dec_string [''subject_did''] fs) (\<lambda>subj.
     bind_res (required_field dec_i64 [''issued_at''] fs) (\<lambda>iat.
     bind_res (required_field dec_i64 [''expires_at''] fs) (\<lambda>eat.
     bind_res (required_field dec_bool [''revoked''] fs) (\<lambda>rev.
     bind_res (option_field dec_i64 [''revoked_at''] fs) (\<lambda>rat.
     bind_res (default_field False dec_bool [''zkp_supported''] fs) (\<lambda>zkp.
     bind_res (default_field [] (dec_vec dec_string) [''proofable_fields''] fs) (\<lambda>pf.
     Inr \<lparr>cm_credential_id = cid, cm_schema_id = sid, cm_issuer_did = issuer,
          cm_subject_did = subj, cm_issued_at = iat, cm_expires_at = eat, cm_revoked = rev,
          cm_revoked_at = rat, cm_zkp_supported = zkp, cm_proofable_fields = pf\<rparr>)))))))))))"

definition dec_schema_attribute :: "schema_attribute decoder" where
  "dec_schema_attribute v =
     bind_res (struct_fields [''name'', ''type'', ''predicate''] v) (\<lambda>fs.
     bind_res (required_field dec_string [''name''] fs) (\<lambda>n.
     bind_res (required_field dec_string [''type''] fs) (\<lambda>t.
     bind_res (required_field dec_bool [''predicate''] fs) (\<lambda>p.
     Inr \<lparr>attr_name = n, attr_type = t, attr_predicate = p\<rparr>))))"

definition dec_credential_schema :: "credential_schema decoder" where
  "dec_credential_schema v =
     bind_res (struct_fields [''schema_id'', ''issuer_did'', ''name'', ''version'',
       ''attributes'', ''created''] v) (\<lambda>fs.
     bind_res (required_field dec_string [''schema_id''] fs) (\<lambda>sid.
     bind_res (required_field dec_string [''issuer_did''] fs) (\<lambda>issuer.
     bind_res (required_field dec_string [''name''] fs) (\<lambda>n.
     bind_res (required_field dec_string [''version''] fs) (\<lambda>ver.
     bind_res (required_field (dec_vec dec_schema_attribute) [''attributes''] fs) (\<lambda>attrs.
     bind_res (required_field dec_i64 [''created''] fs) (\<lambda>cr.
     Inr \<lparr>cs_schema_id = sid, cs_issuer_did = issuer, cs_name = n, cs_version = ver,
          cs_attributes = attrs, cs_created = cr\<rparr>)))))))"

section \<open>Writing JSON\<close>

definition json_of_schema_attribute :: "schema_attribute \<Rightarrow> json" where
  "json_of_schema_attribute a = JObject
     [(''name'', JString (attr_name a)), (''type'', JString (attr_type a)),
      (''predicate'', JBool (attr_predicate a))]"

definition to_circom_input :: "zkp_witness \<Rightarrow> json" where
  "to_circom_input w = JObject
     [(''credentialId'', JString (zw_credential_id w)),
      (''subjectDid'', JString (zw_subject_did w)),
      (''userRoleId'', JString (zw_user_role_id w)),
      (''clearanceLevel'', JNumber (PosInt (zw_clearance_level w)))]"

section \<open>Timestamps\<close>

datatype ts_error = TsPanic | TsSerde serde_error

definition timestamp_opt :: "(i64 \<Rightarrow> bool) \<Rightarrow> i64 \<Rightarrow> datetime option" where
  "timestamp_opt in_range_ts ts =
     (if in_range_ts ts then Some \<lparr>dt_secs = ts, dt_nanos = 0\<rparr> else None)"

definition datetime_utc_serialize :: "datetime \<Rightarrow> json" where
  "datetime_utc_serialize dt = json_of_i64 (dt_secs dt)"

definition datetime_utc_deserialize :: "(i64 \<Rightarrow> bool) \<Rightarrow> json \<Rightarrow> ts_error + datetime" where
  "datetime_utc_deserialize in_range_ts v =
     bind_res (map_err TsSerde (dec_i64 v)) (\<lambda>ts.
     ok_or TsPanic (timestamp_opt in_range_ts ts))"

definition option_datetime_utc_serialize :: "datetime option \<Rightarrow> json" where
  "option_datetime_utc_serialize opt =
     (case opt of Some dt \<Rightarrow> json_of_i64 (dt_secs dt) | None \<Rightarrow> JNull)"

definition option_datetime_utc_deserialize ::
  "(i64 \<Rightarrow> bool) \<Rightarrow> json \<Rightarrow> ts_error + datetime option" where
  "option_datetime_utc_deserialize in_range_ts v =
     bind_res (map_err TsSerde (dec_option dec_i64 v)) (\<lambda>opt.
     case opt of
       Some ts \<Rightarrow> bind_res (ok_or TsPanic (timestamp_opt in_range_ts ts)) (\<lambda>dt. Inr (Some dt))
     | None \<Rightarrow> Inr None)"

section \<open>Laws\<close>

lemma dec_json_of_schema_attribute [simp]:
  "dec_schema_attribute (json_of_schema_attribute a) = Inr a"
  by (simp add: dec_schema_attribute_def json_of_schema_attribute_def field_defs)

lemma dec_json_of_schema_attributes:
  "dec_vec dec_schema_attribute (JArray (map json_of_schema_attribute as)) = Inr as"
  by (simp add: dec_list_map)

text \<open>
  Timestamps survive the wallet format up to the second: writing a time, present or absent,
  and reading it back gives the same second with zero nanoseconds, whenever chrono can represent
  it and it fits in 64 bits.
\<close>

theorem datetime_roundtrip:
  assumes "\<And>dt. opt = Some dt \<Longrightarrow>
      in_range_ts (dt_secs dt) \<and> - 9223372036854775808 \<le> dt_secs dt \<and> dt_secs dt \<le> i64_max"
  shows "option_datetime_utc_deserialize in_range_ts (option_datetime_utc_serialize opt) =
    Inr (map_option (\<lambda>dt. dt\<lparr>dt_nanos := 0\<rparr>) opt)"
proof (cases opt)
  case None
  then show ?thesis
    by (simp add: option_datetime_utc_deserialize_def option_datetime_utc_serialize_def
        dec_option_def)
next
  case (Some dt)
  from assms [OF Some] have "as_i64 (json_of_i64 (dt_secs dt)) = Some (dt_secs dt)"
    by (simp add: as_i64_json_of_i64)
  moreover have "json_of_i64 (dt_secs dt) \<noteq> JNull"
    by (simp add: json_of_i64_def)
  ultimately show ?thesis
    using Some assms [OF Some]
    by (simp add: option_datetime_utc_deserialize_def option_datetime_utc_serialize_def
        dec_option_def dec_i64_def timestamp_opt_def)
qed

theorem datetime_roundtrip_witness:
  "option_datetime_utc_deserialize (\<lambda>ts. \<bar>ts\<bar> \<le> 8334601228799)
      (option_datetime_utc_serialize (Some \<lparr>dt_secs = 1688000000, dt_nanos = 5\<rparr>)) =
    Inr (Some \<lparr>dt_secs = 1688000000, dt_nanos = 0\<rparr>)"
  using datetime_roundtrip [of "Some \<lparr>dt_secs = 1688000000, dt_nanos = 5\<rparr>"
      "\<lambda>ts. \<bar>ts\<bar> \<le> 8334601228799"]
  by (simp add: i64_max_def)

end
