(* ===== verification/Chaincode.thy ===== *)
theory Chaincode
  imports Models "HOL-Library.AList"
begin

text \<open>
  The smart contract \<open>src/dztac/main.go\<close> the Rust clients talk to. The world state is an
  association list from keys to documents, the transaction timestamp is an argument (\<open>None\<close>
  when the stub cannot give it) and the events a transaction sets are appended to the ledger's
  event log. A document is kept as the Go struct that was marshalled; \<open>well_keyed\<close> says that a
  key's prefix determines which struct that is, so unmarshalling never meets another one.
  Failures of the peer's storage are not modelled. How Go parses the attribute list is an
  argument.

  The interface the clients rely on is the locale \<open>revocation_registry\<close>.
\<close>

record go_credential_metadata =
  gm_credential_id :: string
  gm_schema_id :: string
  gm_issuer_did :: string
  gm_subject_did :: string
  gm_issued_at :: i64
  gm_expires_at :: i64
  gm_revoked :: bool

text \<open>A nil slice is \<open>None\<close>.\<close>

record go_did_document =
  gd_context :: "string list"
  gd_id :: string
  gd_public_key :: string
  gd_verification_method :: "verification_method list option"
  gd_authentication :: "string list option"
  gd_assertion_method :: "string list option"
  gd_issuer_did :: string

datatype ledger_doc =
    SchemaDoc credential_schema
  | CredDoc go_credential_metadata
  | DidDoc go_did_document

record ledger =
  world :: "(string \<times> ledger_doc) list"
  event_log :: "(string \<times> json) list"

definition get_state :: "string \<Rightarrow> ledger \<Rightarrow> ledger_doc option" where
  "get_state k l = map_of (world l) k"

definition put_state :: "string \<Rightarrow> ledger_doc \<Rightarrow> ledger \<Rightarrow> ledger" where
  "put_state k d l = l\<lparr>world := AList.update k d (world l)\<rparr>"

definition set_event :: "string \<Rightarrow> json \<Rightarrow> ledger \<Rightarrow> ledger" where
  "set_event n v l = l\<lparr>event_log := event_log l @ [(n, v)]\<rparr>"

definition tx_seconds :: "i64 option \<Rightarrow> i64" where
  "tx_seconds tx = (case tx of None \<Rightarrow> 0 | Some t \<Rightarrow> t)"

section \<open>Transactions\<close>

definition RegisterSchema ::
  "(string \<Rightarrow> string + schema_attribute list) \<Rightarrow> i64 option \<Rightarrow>
   string \<Rightarrow> string \<Rightarrow> string \<Rightarrow> string \<Rightarrow> string \<Rightarrow> ledger \<Rightarrow> string + ledger" where
  "RegisterSchema unmarshal tx schemaID issuerDID name version attributesJSON l =
     bind_res (map_err (\<lambda>e. ''failed to parse schema attributes payload: '' @ e)
       (unmarshal attributesJSON)) (\<lambda>attributes.
     Inr (put_state (''SCHEMA_'' @ schemaID)
       (SchemaDoc \<lparr>cs_schema_id = schemaID, cs_issuer_did = issuerDID, cs_name = name,
          cs_version = version, cs_attributes = attributes, cs_created = tx_seconds tx\<rparr>) l))"

definition GetSchema :: "string \<Rightarrow> ledger \<Rightarrow> string + credential_schema" where
  "GetSchema schemaID l =
     (case get_state (''SCHEMA_'' @ schemaID) l of
        None \<Rightarrow> Inl (''schema '' @ schemaID @ '' does not exist'')
      | Some (SchemaDoc s) \<Rightarrow> Inr s
      | Some _ \<Rightarrow> Inl ''unexpected document'')"

definition RecordCredentialMetadata ::
  "i64 option \<Rightarrow> string \<Rightarrow> string \<Rightarrow> string \<Rightarrow> string \<Rightarrow> i64 \<Rightarrow> ledger \<Rightarrow> string + ledger" where
  "RecordCredentialMetadata tx credentialID schemaID issuerDID subjectDID expiresAt l =
     Inr (put_state (''CRED_'' @ credentialID)
       (CredDoc \<lparr>gm_credential_id = credentialID, gm_schema_id = schemaID,
          gm_issuer_did = issuerDID, gm_subject_did = subjectDID, gm_issued_at = tx_seconds tx,
          gm_expires_at = expiresAt, gm_revoked = False\<rparr>) l)"

definition GetCredentialMetadata :: "string \<Rightarrow> ledger \<Rightarrow> string + go_credential_metadata" where
  "GetCredentialMetadata credentialID l =
     (case get_state (''CRED_'' @ credentialID) l of
        None \<Rightarrow> Inl (''credential '' @ credentialID @ '' metadata does not exist'')
      | Some (CredDoc m) \<Rightarrow> Inr m
      | Some _ \<Rightarrow> Inl ''unexpected document'')"

definition IsCredentialRevoked :: "string \<Rightarrow> ledger \<Rightarrow> string + bool" where
  "IsCredentialRevoked credentialID l =
     bind_res (GetCredentialMetadata credentialID l) (\<lambda>meta. Inr (gm_revoked meta))"

definition revocation_event :: "i64 option \<Rightarrow> string \<Rightarrow> json" where
  "revocation_event tx credentialID = JObject
     [(''credential_id'', JString credentialID),
      (''reason'', JString ''Revoked via Administrative Lifecycle Request''),
      (''revoked_at'', json_of_i64 (tx_seconds tx))]"

definition RevokeCredential :: "i64 option \<Rightarrow> string \<Rightarrow> ledger \<Rightarrow> string + ledger" where
  "RevokeCredential tx credentialID l =
     bind_res (GetCredentialMetadata credentialID l) (\<lambda>meta.
     let l1 = put_state (''CRED_'' @ credentialID) (CredDoc (meta\<lparr>gm_revoked := True\<rparr>)) l
     in Inr (set_event ''RevokeCredential'' (revocation_event tx credentialID) l1))"

definition RegisterDID :: "string \<Rightarrow> string \<Rightarrow> string \<Rightarrow> ledger \<Rightarrow> string + ledger" where
  "RegisterDID did issuerDID publicKey l =
     (if did = [] \<or> issuerDID = [] \<or> publicKey = [] then
        Inl ''did, issuer DID, and public key are required''
      else
        let verificationMethodID = did @ ''#key-1''
        in Inr (put_state (''DID_'' @ did)
             (DidDoc \<lparr>gd_context = [''https://www.w3.org/ns/did/v1''], gd_id = did,
                gd_public_key = publicKey,
                gd_verification_method = Some [\<lparr>vm_id = verificationMethodID,
                  vm_method_type = ''Ed25519VerificationKey2020'', vm_controller = did,
                  vm_public_key_multibase = publicKey\<rparr>],
                gd_authentication = Some [verificationMethodID],
                gd_assertion_method = Some [verificationMethodID],
                gd_issuer_did = issuerDID\<rparr>) l))"

definition ResolveDID :: "string \<Rightarrow> ledger \<Rightarrow> string + go_did_document" where
  "ResolveDID did l =
     (case get_state (''DID_'' @ did) l of
        None \<Rightarrow> Inl (''did document '' @ did @ '' does not exist'')
      | Some (DidDoc d) \<Rightarrow> Inr d
      | Some _ \<Rightarrow> Inl ''unexpected document'')"

text \<open>
  \<open>QueryDIDsByIssuer\<close> selects on the field \<open>issuer_did\<close> only. Every kind of document has that
  field, and one that is not a DID document unmarshals to a struct with nothing else set.
\<close>

fun doc_issuer :: "ledger_doc \<Rightarrow> string" where
  "doc_issuer (SchemaDoc s) = cs_issuer_did s"
| "doc_issuer (CredDoc m) = gm_issuer_did m"
| "doc_issuer (DidDoc d) = gd_issuer_did d"

fun unmarshal_did :: "ledger_doc \<Rightarrow> go_did_document" where
  "unmarshal_did (DidDoc d) = d"
| "unmarshal_did d = \<lparr>gd_context = [], gd_id = [], gd_public_key = [],
     gd_verification_method = None, gd_authentication = None, gd_assertion_method = None,
     gd_issuer_did = doc_issuer d\<rparr>"

definition QueryDIDsByIssuer :: "string \<Rightarrow> ledger \<Rightarrow> go_did_document list" where
  "QueryDIDsByIssuer issuerDID l =
     map (\<lambda>(_, d). unmarshal_did d) (filter (\<lambda>(_, d). doc_issuer d = issuerDID) (world l))"

section \<open>What a query answers on the wire\<close>

definition json_of_go_schema :: "credential_schema \<Rightarrow> json" where
  "json_of_go_schema s = JObject
     [(''schema_id'', JString (cs_schema_id s)), (''issuer_did'', JString (cs_issuer_did s)),
      (''name'', JString (cs_name s)), (''version'', JString (cs_version s)),
      (''attributes'', JArray (map json_of_schema_attribute (cs_attributes s))),
      (''created'', json_of_i64 (cs_created s))]"

definition json_of_go_metadata :: "go_credential_metadata \<Rightarrow> json" where
  "json_of_go_metadata m = JObject
     [(''credential_id'', JString (gm_credential_id m)), (''schema_id'', JString (gm_schema_id m)),
      (''issuer_did'', JString (gm_issuer_did m)), (''subject_did'', JString (gm_subject_did m)),
      (''issued_at'', json_of_i64 (gm_issued_at m)), (''expires_at'', json_of_i64 (gm_expires_at m)),
      (''revoked'', JBool (gm_revoked m))]"

definition json_of_go_method :: "verification_method \<Rightarrow> json" where
  "json_of_go_method v = JObject
     [(''id'', JString (vm_id v)), (''type'', JString (vm_method_type v)),
      (''controller'', JString (vm_controller v)),
      (''publicKeyMultibase'', JString (vm_public_key_multibase v))]"

definition json_of_slice :: "('a \<Rightarrow> json) \<Rightarrow> 'a list option \<Rightarrow> json" where
  "json_of_slice f xs = (case xs of None \<Rightarrow> JNull | Some ys \<Rightarrow> JArray (map f ys))"

definition json_of_go_did :: "go_did_document \<Rightarrow> json" where
  "json_of_go_did d = JObject
     ((if gd_context d = [] then [] else [(''@context'', JArray (map JString (gd_context d)))]) @
      [(''id'', JString (gd_id d)), (''public_key'', JString (gd_public_key d)),
       (''verificationMethod'', json_of_slice json_of_go_method (gd_verification_method d)),
       (''authentication'', json_of_slice JString (gd_authentication d)),
       (''assertionMethod'', json_of_slice JString (gd_assertion_method d)),
       (''issuer_did'', JString (gd_issuer_did d))])"

section \<open>Reachable ledgers\<close>

text \<open>The seconds of a transaction timestamp are an \<open>int64\<close>.\<close>

definition i64_ok :: "int \<Rightarrow> bool" where
  "i64_ok i \<longleftrightarrow> - 9223372036854775808 \<le> i \<and> i \<le> i64_max"

inductive ledger_step :: "ledger \<Rightarrow> ledger \<Rightarrow> bool" where
  register_schema:
    "RegisterSchema um tx sid iss n v a l = Inr l' \<Longrightarrow> i64_ok (tx_seconds tx) \<Longrightarrow> ledger_step l l'"
| record_metadata:
    "RecordCredentialMetadata tx cid sid iss sub ex l = Inr l' \<Longrightarrow> i64_ok (tx_seconds tx) \<Longrightarrow> ledger_step l l'"
| revoke_credential:
    "RevokeCredential tx cid l = Inr l' \<Longrightarrow> i64_ok (tx_seconds tx) \<Longrightarrow> ledger_step l l'"
| register_did:
    "RegisterDID did iss pk l = Inr l' \<Longrightarrow> ledger_step l l'"

definition genesis :: ledger where
  "genesis = \<lparr>world = [], event_log = []\<rparr>"

inductive reachable_ledger :: "ledger \<Rightarrow> bool" where
  reach_genesis: "reachable_ledger genesis"
| reach_step: "reachable_ledger l \<Longrightarrow> ledger_step l l' \<Longrightarrow> reachable_ledger l'"

fun doc_key :: "ledger_doc \<Rightarrow> string" where
  "doc_key (SchemaDoc s) = ''SCHEMA_'' @ cs_schema_id s"
| "doc_key (CredDoc m) = ''CRED_'' @ gm_credential_id m"
| "doc_key (DidDoc d) = ''DID_'' @ gd_id d"

definition well_keyed :: "ledger \<Rightarrow> bool" where
  "well_keyed l \<longleftrightarrow> (\<forall>(k, d)\<in>set (world l). k = doc_key d) \<and> distinct (map fst (world l))"

definition recorded :: "string \<Rightarrow> ledger \<Rightarrow> bool" where
  "recorded cid l \<longleftrightarrow> get_state (''CRED_'' @ cid) l \<noteq> None"

section \<open>The interface of the revocation registry\<close>

locale revocation_registry =
  fixes revoke :: "string \<Rightarrow> 's \<Rightarrow> 'e + 's"
    and is_revoked :: "string \<Rightarrow> 's \<Rightarrow> 'e + bool"
    and known :: "string \<Rightarrow> 's \<Rightarrow> bool"
    and invar :: "'s \<Rightarrow> bool"
  assumes known_iff: "invar s \<Longrightarrow> known c s \<longleftrightarrow> (\<exists>b. is_revoked c s = Inr b)"
    and revoke_known: "invar s \<Longrightarrow> known c s \<Longrightarrow> \<exists>s'. revoke c s = Inr s'"
    and revoke_unknown: "invar s \<Longrightarrow> \<not> known c s \<Longrightarrow> \<exists>e. revoke c s = Inl e"
    and revoke_lookup: "invar s \<Longrightarrow> revoke c s = Inr s' \<Longrightarrow>
      is_revoked d s' = (if d = c then Inr True else is_revoked d s)"
    and revoke_invar: "invar s \<Longrightarrow> revoke c s = Inr s' \<Longrightarrow> invar s'"
begin

primrec revoke_all :: "string list \<Rightarrow> 's \<Rightarrow> 'e + 's" where
  "revoke_all [] s = Inr s"
| "revoke_all (c # cs) s = bind_res (revoke c s) (revoke_all cs)"

lemma revoke_known_iff:
  assumes inv: "invar s" and ok: "revoke c s = Inr s'"
  shows "known d s' \<longleftrightarrow> known d s"
proof (cases "d = c")
  case True
  have "known c s" using revoke_unknown [OF inv, of c] ok by auto
  moreover have "known c s'"
    using known_iff [OF revoke_invar [OF inv ok], of c] revoke_lookup [OF inv ok, of c] by auto
  ultimately show ?thesis using True by simp
next
  case False
  then show ?thesis
    using known_iff [OF revoke_invar [OF inv ok], of d] known_iff [OF inv, of d]
      revoke_lookup [OF inv ok, of d] by simp
qed

lemma revoke_all_succeeds:
  "invar s \<Longrightarrow> (\<forall>c\<in>set cs. known c s) \<Longrightarrow>
    \<exists>s'. revoke_all cs s = Inr s' \<and> invar s' \<and>
      (\<forall>d. is_revoked d s' = (if d \<in> set cs then Inr True else is_revoked d s))"
proof (induction cs arbitrary: s)
  case Nil
  then show ?case by simp
next
  case (Cons c cs)
  then obtain s1 where s1: "revoke c s = Inr s1" "invar s1"
    using revoke_known [of s c] revoke_invar [of s c] by auto
  with Cons.prems have "\<forall>x\<in>set cs. known x s1"
    using revoke_known_iff [of s c s1] by simp
  from Cons.IH [OF s1(2) this] obtain s2 where "revoke_all cs s1 = Inr s2" "invar s2"
      "\<forall>d. is_revoked d s2 = (if d \<in> set cs then Inr True else is_revoked d s1)"
    by blast
  with s1 Cons.prems(1) show ?case
    using revoke_lookup [of s c s1] by auto
qed

end

section \<open>The contract provides the interface\<close>

lemma get_put_state [simp]:
  "get_state k' (put_state k d l) = (if k' = k then Some d else get_state k' l)"
  by (simp add: get_state_def put_state_def update_conv)

lemma get_set_event [simp]: "get_state k (set_event n v l) = get_state k l"
  by (simp add: get_state_def set_event_def)

lemma well_keyed_genesis: "well_keyed genesis"
  by (simp add: well_keyed_def genesis_def)

lemma well_keyed_set_event [simp]: "well_keyed (set_event n v l) = well_keyed l"
  by (simp add: well_keyed_def set_event_def)

lemma set_update_subset: "set (AList.update k d kvs) \<subseteq> insert (k, d) (set kvs)"
  by (induction kvs) auto

lemma well_keyed_put_state: "well_keyed l \<Longrightarrow> k = doc_key d \<Longrightarrow> well_keyed (put_state k d l)"
  using set_update_subset [of k d "world l"]
  by (fastforce simp: well_keyed_def put_state_def distinct_update)

lemma get_state_doc_key: "well_keyed l \<Longrightarrow> get_state k l = Some d \<Longrightarrow> k = doc_key d"
  by (auto simp: well_keyed_def get_state_def dest!: map_of_SomeD)

lemma get_cred:
  assumes "well_keyed l" "get_state (''CRED_'' @ c) l = Some d"
  obtains m where "d = CredDoc m" "gm_credential_id m = c"
  using get_state_doc_key [OF assms] by (cases d) auto

lemma metadata_recorded:
  "well_keyed l \<Longrightarrow> recorded c l \<longleftrightarrow> (\<exists>m. GetCredentialMetadata c l = Inr m \<and> gm_credential_id m = c)"
  by (auto simp: recorded_def GetCredentialMetadata_def split: option.splits elim!: get_cred)

lemma RevokeCredential_eq:
  "GetCredentialMetadata c l = Inr m \<Longrightarrow> RevokeCredential tx c l =
     Inr (set_event ''RevokeCredential'' (revocation_event tx c)
       (put_state (''CRED_'' @ c) (CredDoc (m\<lparr>gm_revoked := True\<rparr>)) l))"
  by (simp add: RevokeCredential_def Let_def)

lemma RevokeCredential_InrE:
  assumes "RevokeCredential tx c l = Inr l'"
  obtains m where "GetCredentialMetadata c l = Inr m"
    and "l' = set_event ''RevokeCredential'' (revocation_event tx c)
       (put_state (''CRED_'' @ c) (CredDoc (m\<lparr>gm_revoked := True\<rparr>)) l)"
  using assms by (auto simp: RevokeCredential_def Let_def bind_res_Inr_iff)

lemma GetCredentialMetadata_put:
  "GetCredentialMetadata d (put_state (''CRED_'' @ c) (CredDoc m) l) =
     (if d = c then Inr m else GetCredentialMetadata d l)"
  by (simp add: GetCredentialMetadata_def)

lemma GetCredentialMetadata_event [simp]:
  "GetCredentialMetadata d (set_event n v l) = GetCredentialMetadata d l"
  by (simp add: GetCredentialMetadata_def)

lemma revoke_well_keyed:
  assumes wk: "well_keyed l" and ok: "RevokeCredential tx c l = Inr l'"
  shows "well_keyed l'"
proof -
  from ok obtain m where m: "GetCredentialMetadata c l = Inr m"
    and l': "l' = set_event ''RevokeCredential'' (revocation_event tx c)
       (put_state (''CRED_'' @ c) (CredDoc (m\<lparr>gm_revoked := True\<rparr>)) l)"
    by (rule RevokeCredential_InrE)
  from m have "get_state (''CRED_'' @ c) l = Some (CredDoc m)"
    by (simp add: GetCredentialMetadata_def split: option.splits ledger_doc.splits)
  from get_state_doc_key [OF wk this] have "gm_credential_id m = c" by simp
  then show ?thesis unfolding l' well_keyed_set_event
    by (intro well_keyed_put_state [OF wk]) simp
qed

lemma revoke_lookup_contract:
  assumes "RevokeCredential tx c l = Inr l'"
  shows "IsCredentialRevoked d l' = (if d = c then Inr True else IsCredentialRevoked d l)"
  using assms
  by (elim RevokeCredential_InrE) (simp add: IsCredentialRevoked_def GetCredentialMetadata_def)

interpretation contract: revocation_registry
  "RevokeCredential tx" IsCredentialRevoked recorded well_keyed for tx
proof
  fix s c
  assume inv: "well_keyed s"
  show "recorded c s \<longleftrightarrow> (\<exists>b. IsCredentialRevoked c s = Inr b)"
    using metadata_recorded [OF inv, of c]
    by (auto simp: IsCredentialRevoked_def bind_res_Inr_iff recorded_def GetCredentialMetadata_def
        split: option.splits)
  show "\<exists>s'. RevokeCredential tx c s = Inr s'" if "recorded c s"
    using metadata_recorded [OF inv, of c] that by (auto simp: RevokeCredential_eq)
  show "\<exists>e. RevokeCredential tx c s = Inl e" if "\<not> recorded c s"
    using that by (simp add: RevokeCredential_def GetCredentialMetadata_def recorded_def)
  show "well_keyed s'" if "RevokeCredential tx c s = Inr s'" for s'
    using inv that by (rule revoke_well_keyed)
  show "IsCredentialRevoked d s' = (if d = c then Inr True else IsCredentialRevoked d s)"
    if "RevokeCredential tx c s = Inr s'" for s' d
    using that by (rule revoke_lookup_contract)
qed

section \<open>What holds in every reachable ledger\<close>

inductive_cases ledger_stepE: "ledger_step l l'"

lemma ledger_step_well_keyed:
  assumes "ledger_step l l'" "well_keyed l"
  shows "well_keyed l'"
  using assms(1)
proof cases
  case (revoke_credential tx cid)
  with assms(2) show ?thesis by (auto intro: revoke_well_keyed)
qed (auto simp: assms(2) RegisterSchema_def RecordCredentialMetadata_def RegisterDID_def Let_def
    bind_res_Inr_iff intro!: well_keyed_put_state split: if_splits)

lemma reachable_well_keyed: "reachable_ledger l \<Longrightarrow> well_keyed l"
  by (induction rule: reachable_ledger.induct)
    (auto intro: well_keyed_genesis ledger_step_well_keyed)

text \<open>The ledger only grows: a key once written stays written.\<close>

lemma ledger_step_keys:
  assumes "ledger_step l l'" "get_state k l \<noteq> None"
  shows "get_state k l' \<noteq> None"
  using assms
  by cases (auto simp: RegisterSchema_def RecordCredentialMetadata_def RegisterDID_def Let_def
      bind_res_Inr_iff elim!: RevokeCredential_InrE split: if_splits)

text \<open>
  C35. On every ledger the contract can reach, a lookup answers about the key it was asked for:
  the schema, the credential metadata or the DID document returned carries the requested
  identifier, and a key prefix never leads to a document of another kind.
\<close>

theorem lookups_answer_the_request:
  assumes "reachable_ledger l"
  shows "(case GetSchema sid l of
        Inl e \<Rightarrow> e = ''schema '' @ sid @ '' does not exist''
      | Inr s \<Rightarrow> cs_schema_id s = sid) \<and>
    (case GetCredentialMetadata cid l of
        Inl e \<Rightarrow> e = ''credential '' @ cid @ '' metadata does not exist''
      | Inr m \<Rightarrow> gm_credential_id m = cid) \<and>
    (case ResolveDID did l of
        Inl e \<Rightarrow> e = ''did document '' @ did @ '' does not exist''
      | Inr d \<Rightarrow> gd_id d = did)"
  by (auto simp: GetSchema_def GetCredentialMetadata_def ResolveDID_def
      split: option.splits ledger_doc.splits
      dest!: get_state_doc_key [OF reachable_well_keyed [OF assms]])

definition example_ledger :: ledger where
  "example_ledger = \<lparr>world = [(''CRED_c1'', CredDoc \<lparr>gm_credential_id = ''c1'',
     gm_schema_id = ''s'', gm_issuer_did = ''i'', gm_subject_did = ''u'', gm_issued_at = 5,
     gm_expires_at = 9, gm_revoked = True\<rparr>)],
     event_log = [(''RevokeCredential'', revocation_event (Some 7) ''c1'')]\<rparr>"

lemma example_ledger_recorded:
  "bind_res (RecordCredentialMetadata (Some 5) ''c1'' ''s'' ''i'' ''u'' 9 genesis)
     (RevokeCredential (Some 7) ''c1'') = Inr example_ledger"
  by (simp add: RecordCredentialMetadata_def RevokeCredential_def GetCredentialMetadata_def
      get_state_def put_state_def set_event_def genesis_def example_ledger_def tx_seconds_def Let_def)

lemma example_ledger_reachable: "reachable_ledger example_ledger"
proof -
  from example_ledger_recorded obtain l1
    where "RecordCredentialMetadata (Some 5) ''c1'' ''s'' ''i'' ''u'' 9 genesis = Inr l1"
      and "RevokeCredential (Some 7) ''c1'' l1 = Inr example_ledger"
    by (auto simp: bind_res_Inr_iff)
  moreover have "i64_ok (tx_seconds (Some 5))" "i64_ok (tx_seconds (Some 7))"
    by (simp_all add: tx_seconds_def i64_ok_def i64_max_def)
  ultimately show ?thesis
    by (meson reach_genesis reach_step record_metadata revoke_credential)
qed

theorem lookups_answer_the_request_witness:
  "gm_credential_id (projr (GetCredentialMetadata ''c1'' example_ledger)) = ''c1''"
  using lookups_answer_the_request [OF example_ledger_reachable, of _ "''c1''"]
  by (simp add: GetCredentialMetadata_def get_state_def example_ledger_def)

text \<open>
  C36. A revocation is final except for one transaction: once a credential is revoked on a
  reachable ledger, every further transaction leaves it revoked, unless it records metadata for
  the same identifier again, which puts a fresh unrevoked entry in its place.
\<close>

theorem revocation_undone_only_by_recording:
  assumes "reachable_ledger l" "IsCredentialRevoked c l = Inr True" "ledger_step l l'"
  shows "IsCredentialRevoked c l' = Inr True \<or>
    (\<exists>tx sid iss sub ex. RecordCredentialMetadata tx c sid iss sub ex l = Inr l' \<and>
       IsCredentialRevoked c l' = Inr False)"
  using assms(3)
proof cases
  case (record_metadata tx cid sid iss sub ex)
  show ?thesis
  proof (cases "cid = c")
    case True
    then show ?thesis
      using record_metadata
      by (intro disjI2 exI [of _ tx] exI [of _ sid] exI [of _ iss] exI [of _ sub] exI [of _ ex])
        (auto simp: RecordCredentialMetadata_def IsCredentialRevoked_def GetCredentialMetadata_def)
  next
    case False
    then show ?thesis
      using record_metadata assms(2)
      by (auto simp: RecordCredentialMetadata_def IsCredentialRevoked_def GetCredentialMetadata_def)
  qed
next
  case (revoke_credential tx cid)
  then show ?thesis using revoke_lookup_contract [of tx cid l l' c] assms(2) by simp
qed (use assms(2) in \<open>auto simp: RegisterSchema_def RegisterDID_def Let_def bind_res_Inr_iff
    IsCredentialRevoked_def GetCredentialMetadata_def split: if_splits\<close>)

definition rerecorded :: ledger where
  "rerecorded = put_state ''CRED_c1'' (CredDoc \<lparr>gm_credential_id = ''c1'', gm_schema_id = ''s'',
     gm_issuer_did = ''i'', gm_subject_did = ''u'', gm_issued_at = 8, gm_expires_at = 9,
     gm_revoked = False\<rparr>) example_ledger"

theorem revocation_undone_only_by_recording_witness:
  "IsCredentialRevoked ''c1'' example_ledger = Inr True \<and>
   (\<exists>tx sid iss sub ex. RecordCredentialMetadata tx ''c1'' sid iss sub ex example_ledger =
      Inr rerecorded)"
proof -
  have r: "IsCredentialRevoked ''c1'' example_ledger = Inr True"
    by (simp add: IsCredentialRevoked_def GetCredentialMetadata_def get_state_def example_ledger_def)
  have "RecordCredentialMetadata (Some 8) ''c1'' ''s'' ''i'' ''u'' 9 example_ledger = Inr rerecorded"
    by (simp add: RecordCredentialMetadata_def rerecorded_def tx_seconds_def)
  then have st: "ledger_step example_ledger rerecorded"
    by (rule record_metadata) (simp add: tx_seconds_def i64_ok_def i64_max_def)
  have n: "IsCredentialRevoked ''c1'' rerecorded \<noteq> Inr True"
    by (simp add: IsCredentialRevoked_def GetCredentialMetadata_def rerecorded_def)
  show ?thesis
    using revocation_undone_only_by_recording [OF example_ledger_reachable r st] n r by blast
qed

section \<open>The contract's answers read by the Rust clients\<close>

lemma dec_i64_json_of_i64 [simp]: "i64_ok i \<Longrightarrow> dec_i64 (json_of_i64 i) = Inr i"
  by (simp add: i64_ok_def dec_i64_def as_i64_json_of_i64)

lemma dec_go_metadata:
  "i64_ok (gm_issued_at m) \<Longrightarrow> i64_ok (gm_expires_at m) \<Longrightarrow>
   dec_credential_metadata (json_of_go_metadata m) =
     Inr \<lparr>cm_credential_id = gm_credential_id m, cm_schema_id = gm_schema_id m,
       cm_issuer_did = gm_issuer_did m, cm_subject_did = gm_subject_did m,
       cm_issued_at = gm_issued_at m, cm_expires_at = gm_expires_at m, cm_revoked = gm_revoked m,
       cm_revoked_at = None, cm_zkp_supported = False, cm_proofable_fields = []\<rparr>"
  by (simp add: dec_credential_metadata_def json_of_go_metadata_def field_defs)

lemma dec_go_schema:
  "i64_ok (cs_created s) \<Longrightarrow> dec_credential_schema (json_of_go_schema s) = Inr s"
  using dec_list_map [of "cs_attributes s" dec_schema_attribute json_of_schema_attribute]
  by (simp add: dec_credential_schema_def json_of_go_schema_def field_defs dec_schema_attribute_def
      json_of_schema_attribute_def)

text \<open>
  A DID registered on the ledger resolves, and the client decodes the contract's answer to
  the registered identifier, issuer, key and one key reference; but the decoded document is
  inactive, because the contract sends no \<open>active\<close> field, and its verification method has an empty
  key, because the contract sends \<open>publicKeyMultibase\<close> and the client reads
  \<open>public_key_multibase\<close>.
\<close>

theorem registered_did_as_decoded:
  assumes "RegisterDID did iss pk l = Inr l'"
  shows "bind_res (ResolveDID did l')
      (\<lambda>d. map_err (\<lambda>_. ''decode'') (dec_did_document (json_of_go_did d))) =
    Inr \<lparr>dd_context = [''https://www.w3.org/ns/did/v1''], dd_did = did, dd_issuer_did = iss,
      dd_public_key = pk,
      dd_verification_method = [\<lparr>vm_id = did @ ''#key-1'',
        vm_method_type = ''Ed25519VerificationKey2020'', vm_controller = did,
        vm_public_key_multibase = []\<rparr>],
      dd_authentication = [did @ ''#key-1''], dd_assertion_method = [did @ ''#key-1''],
      dd_created = 0, dd_updated = 0, dd_active = False\<rparr>"
  using assms
  by (auto simp: RegisterDID_def ResolveDID_def Let_def json_of_go_did_def json_of_slice_def
      json_of_go_method_def dec_did_document_def dec_verification_method_def field_defs
      split: if_splits)

theorem registered_did_as_decoded_witness:
  "\<exists>l' d. RegisterDID ''did:dzta:1'' ''did:dzta:1'' ''PEM'' genesis = Inr l' \<and>
     ResolveDID ''did:dzta:1'' l' = Inr d \<and>
     map_err (\<lambda>_. ()) (map_err (\<lambda>_. ''decode'') (dec_did_document (json_of_go_did d))) \<noteq> Inl () \<and>
     dd_active (projr (dec_did_document (json_of_go_did d))) = False"
proof -
  obtain l' where l': "RegisterDID ''did:dzta:1'' ''did:dzta:1'' ''PEM'' genesis = Inr l'"
    by (simp add: RegisterDID_def Let_def)
  from registered_did_as_decoded [OF this] obtain d x where
    d: "ResolveDID ''did:dzta:1'' l' = Inr d" and
    x: "map_err (\<lambda>_. ''decode'') (dec_did_document (json_of_go_did d)) = Inr x" "\<not> dd_active x"
    by (auto simp: bind_res_Inr_iff)
  then show ?thesis using l'
    by (cases "dec_did_document (json_of_go_did d)") auto
qed

text \<open>
  A query by issuer also returns the issuer's schemas and credentials; each is a document the
  client refuses, so the whole answer is refused.
\<close>

lemma dec_did_of_other_doc:
  "\<exists>e. dec_did_document (json_of_go_did (unmarshal_did (CredDoc m))) = Inl e"
  "\<exists>e. dec_did_document (json_of_go_did (unmarshal_did (SchemaDoc s))) = Inl e"
  by (simp_all add: json_of_go_did_def json_of_slice_def dec_did_document_def field_defs)

lemma dec_list_Inl: "x \<in> set xs \<Longrightarrow> d x = Inl e \<Longrightarrow> \<exists>e'. dec_list d xs = Inl e'"
  by (induction xs) (auto simp: bind_res_Inl_iff, metis sumE)

text \<open>
  As soon as an issuer has a credential or a schema on a reachable ledger, the client's
  decoding of the answer to \<open>QueryDIDsByIssuer\<close> for that issuer fails, whatever DIDs the issuer
  also registered.
\<close>

theorem query_by_issuer_refused:
  assumes "reachable_ledger l" "(k, doc) \<in> set (world l)" "doc_issuer doc = iss"
    "\<And>d. doc \<noteq> DidDoc d"
  shows "\<exists>e. dec_vec dec_did_document (JArray (map json_of_go_did (QueryDIDsByIssuer iss l))) = Inl e"
proof -
  obtain e where "dec_did_document (json_of_go_did (unmarshal_did doc)) = Inl e"
    using assms(4) dec_did_of_other_doc by (cases doc) blast+
  moreover have "unmarshal_did doc \<in> set (QueryDIDsByIssuer iss l)"
    using assms(2,3) by (force simp: QueryDIDsByIssuer_def)
  then have "json_of_go_did (unmarshal_did doc) \<in> set (map json_of_go_did (QueryDIDsByIssuer iss l))"
    by simp
  ultimately show ?thesis
    unfolding dec_vec.simps by (blast intro: dec_list_Inl)
qed

theorem query_by_issuer_refused_witness:
  "\<exists>e. dec_vec dec_did_document
     (JArray (map json_of_go_did (QueryDIDsByIssuer ''i'' example_ledger))) = Inl e"
  by (rule query_by_issuer_refused [OF example_ledger_reachable, of "''CRED_c1''"
        "snd (hd (world example_ledger))"]) (simp_all add: example_ledger_def)

text \<open>Every event on the log is a revocation event of a credential that is on the ledger.\<close>

lemma reachable_events:
  "reachable_ledger l \<Longrightarrow> ev \<in> set (event_log l) \<Longrightarrow>
    \<exists>tx c. ev = (''RevokeCredential'', revocation_event tx c) \<and> recorded c l"
proof (induction arbitrary: ev rule: reachable_ledger.induct)
  case reach_genesis
  then show ?case by (simp add: genesis_def)
next
  case (reach_step l l')
  have kept: "recorded c l'" if "recorded c l" for c
    using ledger_step_keys [OF reach_step.hyps(2)] that by (simp add: recorded_def)
  have old: "\<exists>tx c. ev = (''RevokeCredential'', revocation_event tx c) \<and> recorded c l'"
    if "ev \<in> set (event_log l)"
    using reach_step.IH [OF that] kept by blast
  from reach_step.hyps(2) show ?case
  proof cases
    case (revoke_credential tx cid)
    from this(1) obtain m where m: "GetCredentialMetadata cid l = Inr m"
      and l': "l' = set_event ''RevokeCredential'' (revocation_event tx cid)
       (put_state (''CRED_'' @ cid) (CredDoc (m\<lparr>gm_revoked := True\<rparr>)) l)"
      by (rule RevokeCredential_InrE)
    from m have "recorded cid l"
      by (auto simp: recorded_def GetCredentialMetadata_def split: option.splits)
    moreover have "event_log l' = event_log l @ [(''RevokeCredential'', revocation_event tx cid)]"
      by (simp add: l' set_event_def put_state_def)
    ultimately consider "ev \<in> set (event_log l)"
      | "ev = (''RevokeCredential'', revocation_event tx cid)" "recorded cid l"
      using reach_step.prems by auto
    then show ?thesis using old kept by cases blast+
  qed (use old reach_step.prems in \<open>auto simp: RegisterSchema_def
      RecordCredentialMetadata_def RegisterDID_def Let_def bind_res_Inr_iff put_state_def
      split: if_splits\<close>)
qed

text \<open>A step appends at most one event, a revocation stamped with a 64-bit time.\<close>

lemma event_log_put [simp]: "event_log (put_state k d l) = event_log l"
  by (simp add: put_state_def)

lemma step_appends_revocation:
  assumes "ledger_step l l'"
  shows "event_log l' = event_log l \<or>
    (\<exists>tx c. event_log l' = event_log l @ [(''RevokeCredential'', revocation_event tx c)] \<and>
       i64_ok (tx_seconds tx))"
  using assms
proof cases
  case (revoke_credential tx cid)
  then show ?thesis by (elim RevokeCredential_InrE) (auto simp: set_event_def)
qed (auto simp: RegisterSchema_def RecordCredentialMetadata_def RegisterDID_def Let_def
    bind_res_Inr_iff split: if_splits)

lemma events_are_revocations:
  "reachable_ledger l \<Longrightarrow> e \<in> set (event_log l) \<Longrightarrow>
   \<exists>tx c. e = (''RevokeCredential'', revocation_event tx c) \<and> i64_ok (tx_seconds tx)"
proof (induction rule: reachable_ledger.induct)
  case reach_genesis
  then show ?case by (simp add: genesis_def)
next
  case (reach_step l l')
  then show ?case using step_appends_revocation [OF reach_step.hyps(2)] by auto blast
qed

text \<open>Every revocation left an event on the log.\<close>

lemma ledger_step_events:
  assumes "ledger_step l l'"
  shows "set (event_log l) \<subseteq> set (event_log l')"
  using assms
  by cases (auto simp: RegisterSchema_def RecordCredentialMetadata_def RegisterDID_def Let_def
      bind_res_Inr_iff put_state_def set_event_def elim!: RevokeCredential_InrE split: if_splits)

lemma revoked_step_event:
  assumes "ledger_step l l'" "IsCredentialRevoked c l' = Inr True"
  shows "IsCredentialRevoked c l = Inr True \<or>
    (\<exists>tx. (''RevokeCredential'', revocation_event tx c) \<in> set (event_log l'))"
  using assms(1)
proof cases
  case (revoke_credential tx cid)
  have "(''RevokeCredential'', revocation_event tx cid) \<in> set (event_log l')"
    using revoke_credential by (elim RevokeCredential_InrE) (simp add: set_event_def put_state_def)
  then show ?thesis
    using revoke_lookup_contract [OF revoke_credential(1), of c] assms(2) by (auto split: if_splits)
next
  case (record_metadata tx cid sid iss sub ex)
  then show ?thesis
    using assms(2) by (cases "cid = c")
      (auto simp: RecordCredentialMetadata_def IsCredentialRevoked_def GetCredentialMetadata_def)
qed (use assms(2) in \<open>auto simp: RegisterSchema_def RegisterDID_def Let_def bind_res_Inr_iff
    IsCredentialRevoked_def GetCredentialMetadata_def split: if_splits\<close>)

lemma revoked_has_event:
  "reachable_ledger l \<Longrightarrow> IsCredentialRevoked c l = Inr True \<Longrightarrow>
    \<exists>tx. (''RevokeCredential'', revocation_event tx c) \<in> set (event_log l)"
proof (induction rule: reachable_ledger.induct)
  case reach_genesis
  then show ?case
    by (simp add: IsCredentialRevoked_def GetCredentialMetadata_def get_state_def genesis_def)
next
  case (reach_step l l')
  then show ?case
    using revoked_step_event [OF reach_step.hyps(2)] ledger_step_events [OF reach_step.hyps(2)]
    by blast
qed

end
