(* ===== verification/Edge.thy ===== *)
theory Edge
  imports Json
begin

text \<open>
  \<open>src/dzta-edge-wasm/src/lib.rs\<close>: the Envoy filter. One request is one call of
  \<open>on_http_request_headers\<close>: it sees the headers and the shared data store, may send a response
  itself, and returns \<open>Continue\<close> (the request passes) or \<open>Pause\<close>. The store is a map from keys to
  bytes. Header lookup is the function the host offers; that the host may refuse to store is the
  argument \<open>refuses\<close>. Base64, the deserialisers of arkworks, Groth16 verification and the embedded
  verification key are the record \<open>edge_crypto\<close>.
\<close>

record 'v edge_crypto =
  vk_bytes :: bytes
  vk_deserialize :: "bytes \<Rightarrow> string + 'v"
  prepare_verifying_key :: "'v \<Rightarrow> 'v"
  base64_decode :: "string \<Rightarrow> string + bytes"
  proof_deserialize :: "bytes \<Rightarrow> string + 'v"
  inputs_deserialize :: "bytes \<Rightarrow> string + nat list"
  groth16_verify :: "'v \<Rightarrow> 'v \<Rightarrow> nat list \<Rightarrow> string + bool"

definition get_pvk :: "'v edge_crypto \<Rightarrow> 'v option" where
  "get_pvk K = (case vk_deserialize K (vk_bytes K) of
      Inr vk \<Rightarrow> Some (prepare_verifying_key K vk)
    | Inl e \<Rightarrow> None)"

record plugin_config =
  pc_mode :: string
  pc_admin_token :: string

definition plugin_config_default :: plugin_config where
  "plugin_config_default = \<lparr>pc_mode = [], pc_admin_token = []\<rparr>"

definition dec_plugin_config :: "plugin_config decoder" where
  "dec_plugin_config v =
     bind_res (struct_fields [''mode'', ''admin_token''] v) (\<lambda>fs.
     bind_res (default_field [] dec_string [''mode''] fs) (\<lambda>m.
     bind_res (default_field [] dec_string [''admin_token''] fs) (\<lambda>t.
     Inr \<lparr>pc_mode = m, pc_admin_token = t\<rparr>)))"

definition on_configure :: "json_parser \<Rightarrow> bytes option \<Rightarrow> plugin_config \<Rightarrow> bool \<times> plugin_config" where
  "on_configure parse configuration old =
     (case configuration of
        Some config_bytes \<Rightarrow>
          (case from_slice parse dec_plugin_config config_bytes of
             Inr parsed \<Rightarrow> (True, parsed)
           | Inl e \<Rightarrow> (True, old))
      | None \<Rightarrow> (True, old))"

definition verify_zkp :: "'v edge_crypto \<Rightarrow> 'v \<Rightarrow> string \<Rightarrow> string \<Rightarrow> string + bool" where
  "verify_zkp K pvk proof_b64 inputs_b64 =
     bind_res (map_err (\<lambda>e. ''Base64 proof decode error: '' @ e) (base64_decode K proof_b64)) (\<lambda>proof_bytes.
     bind_res (map_err (\<lambda>e. ''Base64 public inputs decode error: '' @ e) (base64_decode K inputs_b64)) (\<lambda>inputs_bytes.
     bind_res (map_err (\<lambda>e. ''Proof deserialization error: '' @ e) (proof_deserialize K proof_bytes)) (\<lambda>prf.
     bind_res (map_err (\<lambda>e. ''Inputs deserialization error: '' @ e) (inputs_deserialize K inputs_bytes)) (\<lambda>public_inputs.
     map_err (\<lambda>e. ''Verification algorithm error: '' @ e) (groth16_verify K pvk prf public_inputs)))))"

datatype action = Continue | Pause

type_synonym shared_data = "string \<rightharpoonup> bytes"
type_synonym headers = "string \<Rightarrow> string option"

text \<open>What a call leaves behind: the action, the response sent, the store.\<close>

record edge_outcome =
  eo_action :: action
  eo_response :: "(nat \<times> string) option"
  eo_store :: shared_data

definition respond :: "nat \<Rightarrow> string \<Rightarrow> shared_data \<Rightarrow> edge_outcome" where
  "respond status body s =
     \<lparr>eo_action = Pause, eo_response = Some (status, body @ [CHR 0x0A]), eo_store = s\<rparr>"

fun find_map :: "('a \<Rightarrow> 'b option) \<Rightarrow> 'a list \<Rightarrow> 'b option" where
  "find_map f [] = None"
| "find_map f (x # xs) = (case f x of Some y \<Rightarrow> Some y | None \<Rightarrow> find_map f xs)"

definition id_of_pair :: "string \<Rightarrow> string option" where
  "id_of_pair pair =
     (case split_on (CHR ''='') pair of
        k # v # _ \<Rightarrow> if k = ''id'' then Some v else None
      | _ \<Rightarrow> None)"

definition target_id :: "string \<Rightarrow> string option" where
  "target_id p =
     (case split_on (CHR ''?'') p of
        _ # query # _ \<Rightarrow> find_map id_of_pair (split_on (CHR ''&'') query)
      | _ \<Rightarrow> None)"

definition header_or_default :: "headers \<Rightarrow> string \<Rightarrow> string" where
  "header_or_default hs n = (case hs n of None \<Rightarrow> [] | Some v \<Rightarrow> v)"

definition revoked_key :: "string \<Rightarrow> string" where
  "revoked_key c = ''revoked.'' @ c"

definition missing_id :: string where
  "missing_id = ''Bad Request: Missing '' @ [CHR 0x27] @ ''id'' @ [CHR 0x27] @ '' parameter''"

definition admin_revoke ::
  "(string \<Rightarrow> bool) \<Rightarrow> plugin_config \<Rightarrow> headers \<Rightarrow> string \<Rightarrow> shared_data \<Rightarrow> edge_outcome" where
  "admin_revoke refuses cfg hs p s =
     (if pc_mode cfg \<noteq> ''admin_enabled'' then respond 403 ''Forbidden: Admin endpoint disabled'' s
      else
        let provided_token = header_or_default hs ''X-Wasm-Admin-Token''
        in if provided_token = [] \<or> provided_token \<noteq> pc_admin_token cfg
           then respond 401 ''Unauthorized: Invalid Admin Token'' s
           else (case target_id p of
               None \<Rightarrow> respond 400 missing_id s
             | Some c \<Rightarrow>
                 if c = [] then respond 400 missing_id s
                 else if refuses (revoked_key c)
                 then respond 500 ''Internal Error: Storage Failure'' s
                 else respond 200 ''OK: Credential Revocation Recorded''
                        (s(revoked_key c \<mapsto> as_bytes ''true''))))"

text \<open>Public traffic, given what \<open>get_pvk\<close> returned.\<close>

definition validate_public_request ::
  "'v edge_crypto \<Rightarrow> 'v option \<Rightarrow> headers \<Rightarrow> shared_data \<Rightarrow> edge_outcome" where
  "validate_public_request K key hs s =
     (case key of
        None \<Rightarrow> respond 500 ''Internal Error: Missing VK'' s
      | Some pvk \<Rightarrow>
          (case (hs ''x-dzta-proof'', hs ''x-dzta-public-inputs'', hs ''x-dzta-revocation-id'') of
             (Some prf, Some inputs, Some rev_id) \<Rightarrow>
               if s (revoked_key rev_id) = Some (as_bytes ''true'')
               then respond 403 ''Access Revoked'' s
               else (case verify_zkp K pvk prf inputs of
                   Inr True \<Rightarrow> \<lparr>eo_action = Continue, eo_response = None, eo_store = s\<rparr>
                 | Inr False \<Rightarrow> respond 403 ''Forbidden: Invalid ZK Proof'' s
                 | Inl e \<Rightarrow> respond 400 ''Bad Request: Malformed ZKP Data'' s)
           | _ \<Rightarrow> respond 401 ''Unauthorized: Missing dZTA Headers'' s))"

definition on_http_request_headers ::
  "'v edge_crypto \<Rightarrow> (string \<Rightarrow> bool) \<Rightarrow> plugin_config \<Rightarrow> headers \<Rightarrow> shared_data \<Rightarrow> edge_outcome" where
  "on_http_request_headers K refuses cfg hs s =
     (let p = header_or_default hs '':path'' in
      if starts_with ''/_wasm_admin/revoke'' p then admin_revoke refuses cfg hs p s
      else validate_public_request K (get_pvk K) hs s)"

lemmas filter_defs = on_http_request_headers_def validate_public_request_def

section \<open>Admission\<close>

lemma respond_sel [simp]:
  "eo_action (respond n b s) = Pause" "eo_store (respond n b s) = s"
  "eo_response (respond n b s) = Some (n, b @ [CHR 0x0A])"
  by (simp_all add: respond_def)

lemma admin_revoke_pauses [simp]: "eo_action (admin_revoke refuses cfg hs p s) = Pause"
  by (simp add: admin_revoke_def Let_def split: option.split)

lemma revoked_key_inject [simp]: "revoked_key a = revoked_key b \<longleftrightarrow> a = b"
  by (simp add: revoked_key_def)

definition admissible :: "'v edge_crypto \<Rightarrow> headers \<Rightarrow> shared_data \<Rightarrow> bool" where
  "admissible K hs s \<longleftrightarrow>
     \<not> starts_with ''/_wasm_admin/revoke'' (header_or_default hs '':path'') \<and>
     (\<exists>pvk prf inputs rev_id. get_pvk K = Some pvk \<and> hs ''x-dzta-proof'' = Some prf \<and>
        hs ''x-dzta-public-inputs'' = Some inputs \<and> hs ''x-dzta-revocation-id'' = Some rev_id \<and>
        s (revoked_key rev_id) \<noteq> Some (as_bytes ''true'') \<and>
        verify_zkp K pvk prf inputs = Inr True)"

lemma continue_iff_admissible:
  "eo_action (on_http_request_headers K refuses cfg hs s) = Continue \<longleftrightarrow> admissible K hs s"
  by (auto simp: filter_defs admissible_def Let_def
      split: option.splits sum.splits bool.splits)

text \<open>
  C7. The filter lets a request through exactly when it is not for the admin path, the
  verification key loads, the three dZTA headers are present, the revocation identifier it
  carries is not marked in the store, and the proof it carries verifies. A request let through
  gets no response from the filter and leaves the store as it was.
\<close>

theorem edge_admits_iff:
  "(eo_action (on_http_request_headers K refuses cfg hs s) = Continue \<longleftrightarrow> admissible K hs s) \<and>
   (admissible K hs s \<longrightarrow> on_http_request_headers K refuses cfg hs s =
      \<lparr>eo_action = Continue, eo_response = None, eo_store = s\<rparr>)"
  by (auto simp: continue_iff_admissible) (auto simp: filter_defs admissible_def Let_def)

definition demo_crypto :: "nat edge_crypto" where
  "demo_crypto = \<lparr>vk_bytes = [1], vk_deserialize = (\<lambda>_. Inr 1), prepare_verifying_key = id,
     base64_decode = (\<lambda>s. Inr (as_bytes s)), proof_deserialize = (\<lambda>bs. Inr (length bs)),
     inputs_deserialize = (\<lambda>bs. Inr (map unat bs)), groth16_verify = (\<lambda>vk n xs. Inr (n = length xs))\<rparr>"

definition demo_headers :: "string \<Rightarrow> headers" where
  "demo_headers c = map_of [('':path'', ''/api''), (''x-dzta-proof'', ''ab''),
     (''x-dzta-public-inputs'', ''xy''), (''x-dzta-revocation-id'', c)]"

theorem edge_admits_iff_witness:
  "eo_action (on_http_request_headers demo_crypto (\<lambda>_. False) plugin_config_default
     (demo_headers ''c1'') Map.empty) = Continue"
proof -
  have "admissible demo_crypto (demo_headers ''c1'') Map.empty"
    by (simp add: admissible_def demo_crypto_def demo_headers_def get_pvk_def verify_zkp_def
        header_or_default_def starts_with_def as_bytes_def)
  then show ?thesis using edge_admits_iff [where K = demo_crypto and hs = "demo_headers ''c1''" and s = Map.empty] by blast
qed

section \<open>The store\<close>

lemma public_store [simp]:
  "\<not> starts_with ''/_wasm_admin/revoke'' (header_or_default hs '':path'') \<Longrightarrow>
   eo_store (on_http_request_headers K refuses cfg hs s) = s"
  by (simp add: filter_defs Let_def split: option.split sum.split bool.split)

lemma admin_store_changes:
  assumes "eo_store (admin_revoke refuses cfg hs p s) \<noteq> s"
  shows "\<exists>c. pc_mode cfg = ''admin_enabled'' \<and> pc_admin_token cfg \<noteq> [] \<and>
    header_or_default hs ''X-Wasm-Admin-Token'' = pc_admin_token cfg \<and>
    target_id p = Some c \<and> c \<noteq> [] \<and> admin_revoke refuses cfg hs p s =
      respond 200 ''OK: Credential Revocation Recorded'' (s(revoked_key c \<mapsto> as_bytes ''true''))"
  using assms unfolding admin_revoke_def Let_def
  by (simp split: option.splits if_splits)

lemma store_changes:
  assumes "eo_store (on_http_request_headers K refuses cfg hs s) \<noteq> s"
  shows "\<exists>c. starts_with ''/_wasm_admin/revoke'' (header_or_default hs '':path'') \<and>
    pc_mode cfg = ''admin_enabled'' \<and> pc_admin_token cfg \<noteq> [] \<and>
    hs ''X-Wasm-Admin-Token'' = Some (pc_admin_token cfg) \<and>
    target_id (header_or_default hs '':path'') = Some c \<and> c \<noteq> [] \<and>
    on_http_request_headers K refuses cfg hs s =
      respond 200 ''OK: Credential Revocation Recorded'' (s(revoked_key c \<mapsto> as_bytes ''true''))"
proof (cases "starts_with ''/_wasm_admin/revoke'' (header_or_default hs '':path'')")
  case True
  then have "on_http_request_headers K refuses cfg hs s =
      admin_revoke refuses cfg hs (header_or_default hs '':path'') s"
    by (simp add: filter_defs Let_def)
  with admin_store_changes [of refuses cfg hs "header_or_default hs '':path''" s] True assms
  show ?thesis by (auto simp: header_or_default_def split: option.splits)
qed (use assms in simp)

text \<open>
  The revocation store is written only by an authorised administrator: if a request changes
  the store then the listener runs in mode \<open>admin_enabled\<close>, the request is for the admin path, it
  carries the configured non-empty token, and the only change is that the non-empty identifier
  of its query is marked revoked; the answer is then 200.
\<close>

theorem store_written_only_by_admin:
  assumes "eo_store (on_http_request_headers K refuses cfg hs s) \<noteq> s"
  shows "\<exists>c. starts_with ''/_wasm_admin/revoke'' (header_or_default hs '':path'') \<and>
    pc_mode cfg = ''admin_enabled'' \<and> pc_admin_token cfg \<noteq> [] \<and>
    hs ''X-Wasm-Admin-Token'' = Some (pc_admin_token cfg) \<and>
    target_id (header_or_default hs '':path'') = Some c \<and> c \<noteq> [] \<and>
    eo_response (on_http_request_headers K refuses cfg hs s) =
      Some (200, ''OK: Credential Revocation Recorded'' @ [CHR 0x0A]) \<and>
    eo_store (on_http_request_headers K refuses cfg hs s) = s(revoked_key c \<mapsto> as_bytes ''true'')"
  using store_changes [OF assms] by (auto simp: respond_def)

definition admin_config :: plugin_config where
  "admin_config = \<lparr>pc_mode = ''admin_enabled'', pc_admin_token = ''tok''\<rparr>"

definition admin_headers :: "string \<Rightarrow> string \<Rightarrow> headers" where
  "admin_headers tok c = map_of
     [('':path'', ''/_wasm_admin/revoke?id='' @ c), (''X-Wasm-Admin-Token'', tok)]"

theorem store_written_only_by_admin_witness:
  "pc_mode admin_config = ''admin_enabled'' \<and>
   eo_response (on_http_request_headers demo_crypto (\<lambda>_. False) admin_config
     (admin_headers ''tok'' ''c1'') Map.empty) =
     Some (200, ''OK: Credential Revocation Recorded'' @ [CHR 0x0A])"
proof -
  have "eo_store (on_http_request_headers demo_crypto (\<lambda>_. False) admin_config
      (admin_headers ''tok'' ''c1'') Map.empty) \<noteq> Map.empty"
    by (simp add: filter_defs admin_revoke_def admin_headers_def admin_config_def
        header_or_default_def starts_with_def target_id_def id_of_pair_def)
  from store_written_only_by_admin [OF this] show ?thesis by (auto simp: admin_config_def)
qed

section \<open>Sequences of requests\<close>

text \<open>The filter instances of all listeners share one store; each request names its listener.\<close>

fun serve ::
  "'v edge_crypto \<Rightarrow> (string \<Rightarrow> bool) \<Rightarrow> (plugin_config \<times> headers) list \<Rightarrow> shared_data \<Rightarrow>
   edge_outcome list \<times> shared_data" where
  "serve K refuses [] s = ([], s)"
| "serve K refuses ((cfg, hs) # rs) s =
     (let o1 = on_http_request_headers K refuses cfg hs s;
          (os, s') = serve K refuses rs (eo_store o1)
      in (o1 # os, s'))"

lemma marked_stays:
  "s k = Some (as_bytes ''true'') \<Longrightarrow>
   eo_store (on_http_request_headers K refuses cfg hs s) k = Some (as_bytes ''true'')"
  using store_changes [of K refuses cfg hs s]
  by (cases "eo_store (on_http_request_headers K refuses cfg hs s) = s") auto

lemma marked_never_admitted:
  assumes "s (revoked_key c) = Some (as_bytes ''true'')" "serve K refuses rs s = (os, s')"
    and "i < length rs" "snd (rs ! i) ''x-dzta-revocation-id'' = Some c"
  shows "eo_action (os ! i) = Pause"
  using assms
proof (induction rs arbitrary: s os i)
  case Nil
  then show ?case by simp
next
  case (Cons r rs)
  obtain cfg hs where r: "r = (cfg, hs)" by (cases r)
  let ?o = "on_http_request_headers K refuses cfg hs s"
  from Cons.prems(2) r obtain os' where os: "os = ?o # os'" "serve K refuses rs (eo_store ?o) = (os', s')"
    by (auto simp: Let_def split: prod.splits)
  show ?case
  proof (cases i)
    case 0
    then have "\<not> admissible K hs s"
      using Cons.prems(1,4) r by (auto simp: admissible_def)
    then show ?thesis
      using 0 os continue_iff_admissible [of K refuses cfg hs s] by (cases "eo_action ?o") auto
  next
    case (Suc j)
    then show ?thesis
      using Cons.IH [OF marked_stays [where s = s and k = "revoked_key c", OF Cons.prems(1)] os(2), of j] Cons.prems(3,4) os(1) by simp
  qed
qed

text \<open>
  Once an identifier is marked revoked it stays blocked: whatever requests follow, on
  whatever listeners, no request that carries this identifier is let through.
\<close>

theorem revoked_id_never_admitted:
  assumes "s (revoked_key c) = Some (as_bytes ''true'')" "serve K refuses rs s = (os, s')"
    and "i < length rs" "snd (rs ! i) ''x-dzta-revocation-id'' = Some c"
  shows "eo_action (os ! i) = Pause"
  using assms by (rule marked_never_admitted)

theorem revoked_id_never_admitted_witness:
  "eo_action (hd (fst (serve demo_crypto (\<lambda>_. False) [(plugin_config_default, demo_headers ''c1'')]
     [revoked_key ''c1'' \<mapsto> as_bytes ''true'']))) = Pause"
proof -
  let ?s = "[revoked_key ''c1'' \<mapsto> as_bytes ''true'']"
  obtain os s' where r: "serve demo_crypto (\<lambda>_. False)
      [(plugin_config_default, demo_headers ''c1'')] ?s = (os, s')" by (meson surj_pair)
  from revoked_id_never_admitted [OF _ r, of "''c1''" 0] show ?thesis
    using r by (auto simp: demo_headers_def Let_def split: prod.splits)
qed

section \<open>The filter as a set of revoked identifiers\<close>

text \<open>
  The abstract specification: the state is the set of revoked identifiers. An authorised admin
  request adds one; a public request is granted when it carries an identifier outside the set and a
  proof that verifies; everything else changes nothing and is not granted.
\<close>

definition revoked_set :: "shared_data \<Rightarrow> string set" where
  "revoked_set s = {c. s (revoked_key c) = Some (as_bytes ''true'')}"

definition is_admin_path :: "headers \<Rightarrow> bool" where
  "is_admin_path hs \<longleftrightarrow> starts_with ''/_wasm_admin/revoke'' (header_or_default hs '':path'')"

definition authorised_revocation :: "(string \<Rightarrow> bool) \<Rightarrow> plugin_config \<Rightarrow> headers \<Rightarrow> string option" where
  "authorised_revocation refuses cfg hs =
     (if is_admin_path hs \<and> pc_mode cfg = ''admin_enabled'' \<and> pc_admin_token cfg \<noteq> [] \<and>
         hs ''X-Wasm-Admin-Token'' = Some (pc_admin_token cfg)
      then (case target_id (header_or_default hs '':path'') of
          Some c \<Rightarrow> if c \<noteq> [] \<and> \<not> refuses (revoked_key c) then Some c else None
        | None \<Rightarrow> None)
      else None)"

definition granted :: "'v edge_crypto \<Rightarrow> headers \<Rightarrow> string set \<Rightarrow> bool" where
  "granted K hs R \<longleftrightarrow> \<not> is_admin_path hs \<and>
     (\<exists>pvk prf inputs c. get_pvk K = Some pvk \<and> hs ''x-dzta-proof'' = Some prf \<and>
        hs ''x-dzta-public-inputs'' = Some inputs \<and> hs ''x-dzta-revocation-id'' = Some c \<and> c \<notin> R \<and>
        verify_zkp K pvk prf inputs = Inr True)"

definition spec_step ::
  "'v edge_crypto \<Rightarrow> (string \<Rightarrow> bool) \<Rightarrow> plugin_config \<times> headers \<Rightarrow> string set \<Rightarrow> bool \<times> string set" where
  "spec_step K refuses r R =
     (granted K (snd r) R,
      case authorised_revocation refuses (fst r) (snd r) of Some c \<Rightarrow> insert c R | None \<Rightarrow> R)"

fun spec_serve ::
  "'v edge_crypto \<Rightarrow> (string \<Rightarrow> bool) \<Rightarrow> (plugin_config \<times> headers) list \<Rightarrow> string set \<Rightarrow>
   bool list \<times> string set" where
  "spec_serve K refuses [] R = ([], R)"
| "spec_serve K refuses (r # rs) R =
     (let (b, R1) = spec_step K refuses r R; (bs, R2) = spec_serve K refuses rs R1 in (b # bs, R2))"

lemma revoked_set_mark: "revoked_set (s(revoked_key c \<mapsto> as_bytes ''true'')) = insert c (revoked_set s)"
  by (auto simp: revoked_set_def)

lemma granted_iff: "eo_action (on_http_request_headers K refuses cfg hs s) = Continue \<longleftrightarrow>
    granted K hs (revoked_set s)"
  unfolding continue_iff_admissible granted_def admissible_def
  by (auto simp: revoked_set_def is_admin_path_def)

lemma store_after:
  "revoked_set (eo_store (on_http_request_headers K refuses cfg hs s)) =
     (case authorised_revocation refuses cfg hs of
        Some c \<Rightarrow> insert c (revoked_set s) | None \<Rightarrow> revoked_set s)"
proof (cases "is_admin_path hs")
  case True
  then have "on_http_request_headers K refuses cfg hs s =
      admin_revoke refuses cfg hs (header_or_default hs '':path'') s"
    by (simp add: filter_defs is_admin_path_def Let_def)
  with True show ?thesis
    by (auto simp: admin_revoke_def authorised_revocation_def header_or_default_def revoked_set_mark Let_def
        split: option.splits if_splits)
next
  case False
  then show ?thesis by (simp add: authorised_revocation_def is_admin_path_def)
qed

text \<open>
  C8. The filter refines its specification: for every sequence of requests on any listeners, the
  requests it lets through are exactly those the specification grants, and the identifiers marked in
  the shared store are exactly the specification's set.
\<close>

theorem filter_refines_revocation_set:
  "case serve K refuses rs s of (os, s') \<Rightarrow>
     (map (\<lambda>out. eo_action out = Continue) os, revoked_set s') = spec_serve K refuses rs (revoked_set s)"
proof (induction rs arbitrary: s)
  case Nil
  then show ?case by simp
next
  case (Cons r rs)
  obtain cfg hs where r: "r = (cfg, hs)" by (cases r)
  let ?o = "on_http_request_headers K refuses cfg hs s"
  have "spec_step K refuses r (revoked_set s) = (eo_action ?o = Continue, revoked_set (eo_store ?o))"
    by (simp add: spec_step_def r granted_iff store_after)
  with Cons.IH [of "eo_store ?o"] r show ?case by (auto simp: Let_def split: prod.splits)
qed

section \<open>Identifiers in the admin query\<close>

definition query_safe :: "string \<Rightarrow> bool" where
  "query_safe c \<longleftrightarrow> c \<noteq> [] \<and> CHR ''?'' \<notin> set c \<and> CHR ''&'' \<notin> set c \<and> CHR ''='' \<notin> set c"

lemma target_id_query:
  "query_safe c \<Longrightarrow> target_id (''/_wasm_admin/revoke?id='' @ c) = Some c"
  using split_on_fresh [of "CHR ''?''" c] split_on_fresh [of "CHR ''&''" c]
    split_on_fresh [of "CHR ''=''" c]
  by (simp add: target_id_def id_of_pair_def query_safe_def)

lemma admin_revoke_marks:
  assumes "query_safe c" "tok \<noteq> []" "pc_mode cfg = ''admin_enabled''" "pc_admin_token cfg = tok"
  shows "on_http_request_headers K (\<lambda>_. False) cfg (admin_headers tok c) s =
    respond 200 ''OK: Credential Revocation Recorded'' (s(revoked_key c \<mapsto> as_bytes ''true''))"
proof -
  have "target_id (header_or_default (admin_headers tok c) '':path'') = Some c"
    using target_id_query [OF assms(1)] by (simp add: admin_headers_def header_or_default_def)
  moreover have "starts_with ''/_wasm_admin/revoke'' (header_or_default (admin_headers tok c) '':path'')"
    by (simp add: admin_headers_def header_or_default_def starts_with_def)
  moreover have "header_or_default (admin_headers tok c) ''X-Wasm-Admin-Token'' = tok"
    by (simp add: admin_headers_def header_or_default_def)
  moreover have "c \<noteq> []" using assms(1) by (simp add: query_safe_def)
  ultimately show ?thesis
    using assms by (simp add: filter_defs admin_revoke_def)
qed

text \<open>
  An identifier with a query separator in it is cut there: what is marked is the part before it.
\<close>

lemma separator_cuts_identifier:
  "CHR ''?'' \<notin> set a \<Longrightarrow> CHR ''&'' \<notin> set a \<Longrightarrow> CHR ''='' \<notin> set a \<Longrightarrow>
   target_id (''/_wasm_admin/revoke?id='' @ a @ ''&'' @ b) = Some a \<or> CHR ''?'' \<in> set b"
  using split_on_append [of "CHR ''&''" a b] split_on_fresh [of "CHR ''?''" "a @ ''&'' @ b"]
    split_on_fresh [of "CHR ''=''" a]
  by (auto simp: target_id_def id_of_pair_def)

end
