(* ===== verification/System.thy ===== *)
theory System
  imports Daemon
begin

text \<open>
  The running system: ledger, revocation daemon and edge filter side by side. A step is a
  transaction of any client, the delivery of one event of the log to the daemon (in any order and
  any number of times, as reconnects replay the log), a request to the filter on any listener that
  does not authorise a revocation, a restart of the daemon, or a restart of the proxy, which loses
  the filter's store.

  The contract the argument uses is \<open>exact_sink\<close>, which extends \<open>revocation_sink\<close>: a push blocks
  nothing but the identifier it carries. Results: in any interleaving the filter refuses as revoked
  only what the push of some announced identifier names at the filter; and after a replay without a
  failed push it refuses exactly these. For identifiers the query string leaves as they are, these
  are the announced ones.
\<close>

section \<open>An exact sink\<close>

locale exact_sink = revocation_sink +
  assumes post_exact:
      "blocked d (snd (http_post E (admin_url c) [(''X-Wasm-Admin-Token'', admin_token E)] w)) \<Longrightarrow>
      blocked d w \<or> carries c = Some d"
    and sleep_exact: "blocked d (d_sleep E ms w) \<Longrightarrow> blocked d w"
begin

lemma sync_loop_exact:
  "blocked d (snd (sync_loop n delay E (admin_url c) (admin_token E) w)) \<Longrightarrow>
   blocked d w \<or> carries c = Some d"
proof (induction n arbitrary: delay w)
  case 0
  then show ?case by simp
next
  case (Suc n)
  obtain res w1 where post: "http_post E (admin_url c) [(''X-Wasm-Admin-Token'', admin_token E)] w = (res, w1)"
    by (meson surj_pair)
  have "blocked d w1 \<or> carries c = Some d"
  proof (cases "case res of Inr status \<Rightarrow> 200 \<le> status \<and> status < 300 | Inl e \<Rightarrow> False")
    case True
    then show ?thesis using Suc.prems post by simp
  next
    case False
    then have "blocked d (d_sleep E delay w1) \<or> carries c = Some d"
      using Suc post by simp
    then show ?thesis using sleep_exact by blast
  qed
  then show ?case using post_exact [of d c w] post by auto
qed

lemma handle_revocation_exact:
  assumes "blocked d (world_of (handle_revocation E c dm))"
  shows "blocked d (world_of dm) \<or> carries c = Some d"
proof -
  obtain ok w' where "sync_to_envoy_memory E c (world_of dm) = (ok, w')" by (meson surj_pair)
  with assms have "blocked d (snd (sync_loop 5 500 E (admin_url c) (admin_token E) (world_of dm)))"
    by (simp add: handle_revocation_def sync_to_envoy_memory_def)
  then show ?thesis by (rule sync_loop_exact)
qed

end

interpretation edge_exact: exact_sink
  "edge_env K tgt refuses cfg drops tok parse ms :: ('h, shared_data \<times> nat) daemon_env"
  edge_blocks "delivered_as tgt"
  for K tgt refuses cfg drops tok parse ms
proof
  let ?E = "edge_env K tgt refuses cfg drops tok parse ms :: ('h, shared_data \<times> nat) daemon_env"
  fix c d w
  assume b: "edge_blocks d (snd (http_post ?E (admin_url c) [(''X-Wasm-Admin-Token'', admin_token ?E)] w))"
  obtain s n where w: "w = (s, n)" by (cases w)
  show "edge_blocks d w \<or> delivered_as tgt c = Some d"
  proof (cases "tgt (admin_url c)")
    case None
    with b show ?thesis unfolding w edge_post by (simp add: edge_blocks_def)
  next
    case (Some p)
    have "edge_blocks x (s', m) \<longleftrightarrow> x \<in> revoked_set s'" for x s' m
      by (simp add: edge_blocks_def revoked_set_def)
    with b push_marks [of K refuses cfg p "admin_token ?E" s] Some show ?thesis
      unfolding w edge_post delivered_as_Some by (auto simp: Let_def split: if_splits)
  qed
next
  fix d w ms'
  assume "edge_blocks d (d_sleep (edge_env K tgt refuses cfg drops tok parse ms
    :: ('h, shared_data \<times> nat) daemon_env) ms' w)"
  then show "edge_blocks d w" by (simp add: edge_env_def)
qed

section \<open>Announcements\<close>

definition announced :: "ledger \<Rightarrow> string set" where
  "announced l = {c. \<exists>tx. (''RevokeCredential'', revocation_event tx c) \<in> set (event_log l)}"

text \<open>The identifiers the pushes of \<open>A\<close> name at the filter.\<close>

definition delivered_set :: "(string \<Rightarrow> string option) \<Rightarrow> string set \<Rightarrow> string set" where
  "delivered_set tgt A = {i. \<exists>c\<in>A. delivered_as tgt c = Some i}"

lemma delivered_plain: "url_law tgt \<Longrightarrow> \<forall>c\<in>A. plain_id c \<Longrightarrow> delivered_set tgt A = A"
  by (auto simp: delivered_set_def plain_delivered)

lemma delivered_mono: "A \<subseteq> B \<Longrightarrow> delivered_set tgt A \<subseteq> delivered_set tgt B"
  by (auto simp: delivered_set_def)

lemma announced_mono: "ledger_step l l' \<Longrightarrow> announced l \<subseteq> announced l'"
  using step_appends_revocation [of l l'] by (auto simp: announced_def)

section \<open>Steps\<close>

record 'v deployment =
  dp_crypto :: "'v edge_crypto"
  dp_target :: "string \<Rightarrow> string option"
  dp_refuses :: "string \<Rightarrow> bool"
  dp_admin :: plugin_config
  dp_drops :: "nat \<Rightarrow> bool"
  dp_token :: "string option"
  dp_parse :: json_parser
  dp_print :: "json \<Rightarrow> bytes"

definition env_of :: "'v deployment \<Rightarrow> (unit, shared_data \<times> nat) daemon_env" where
  "env_of D = edge_env (dp_crypto D) (dp_target D) (dp_refuses D) (dp_admin D) (dp_drops D) (dp_token D) (dp_parse D) ([], None)"

record system =
  sys_ledger :: ledger
  sys_daemon :: "(shared_data \<times> nat) daemon"

definition edge_store :: "system \<Rightarrow> shared_data" where
  "edge_store x = fst (world_of (sys_daemon x))"

definition with_edge_store :: "shared_data \<Rightarrow> system \<Rightarrow> system" where
  "with_edge_store s x = x\<lparr>sys_daemon := (sys_daemon x)\<lparr>world_of := (s, snd (world_of (sys_daemon x)))\<rparr>\<rparr>"

definition fresh_daemon :: "'w \<Rightarrow> 'w daemon" where
  "fresh_daemon w = \<lparr>revocation_cache = {}, world_of = w, sync_log = []\<rparr>"

definition event_of :: "(json \<Rightarrow> bytes) \<Rightarrow> string \<times> json \<Rightarrow> string \<Rightarrow> chaincode_event" where
  "event_of pr e tx = \<lparr>ev_tx_id = tx, ev_name = fst e, ev_payload = pr (snd e)\<rparr>"

inductive system_step :: "'v deployment \<Rightarrow> system \<Rightarrow> system \<Rightarrow> bool" for D where
  transact: "ledger_step (sys_ledger x) l' \<Longrightarrow> system_step D x (x\<lparr>sys_ledger := l'\<rparr>)"
| deliver: "e \<in> set (event_log (sys_ledger x)) \<Longrightarrow> system_step D x
    (x\<lparr>sys_daemon := process_event (env_of D) (event_of (dp_print D) e tx) (sys_daemon x)\<rparr>)"
| request: "authorised_revocation (dp_refuses D) cfg hs = None \<Longrightarrow> system_step D x
    (with_edge_store (eo_store (on_http_request_headers (dp_crypto D) (dp_refuses D) cfg hs (edge_store x))) x)"
| daemon_restart: "system_step D x (x\<lparr>sys_daemon := fresh_daemon (world_of (sys_daemon x))\<rparr>)"
| proxy_restart: "system_step D x (with_edge_store Map.empty x)"

inductive reachable_system :: "'v deployment \<Rightarrow> system \<Rightarrow> bool" for D where
  boot: "reachable_system D \<lparr>sys_ledger = genesis, sys_daemon = fresh_daemon (Map.empty, 0)\<rparr>"
| run: "reachable_system D x \<Longrightarrow> system_step D x y \<Longrightarrow> reachable_system D y"

inductive_cases system_stepE: "system_step D x y"

lemma reachable_system_ledger: "reachable_system D x \<Longrightarrow> reachable_ledger (sys_ledger x)"
proof (induction rule: reachable_system.induct)
  case boot
  then show ?case by (simp add: reach_genesis)
next
  case (run x y)
  from run.hyps(2) run.IH show ?case
    by cases (auto simp: with_edge_store_def intro: reach_step)
qed

section \<open>What a delivery does\<close>

lemma delivered_event_handled:
  assumes "print_parse_law (dp_print D) (dp_parse D)" "reachable_ledger l"
    and "(''RevokeCredential'', revocation_event tx c) \<in> set (event_log l)"
  shows "process_event (env_of D) (event_of (dp_print D) (''RevokeCredential'', revocation_event tx c) t) d =
    handle_revocation (env_of D) c d"
proof -
  from event_time_ok [OF assms(2,3)] obtain tx' where
    ev: "revocation_event tx c = revocation_event tx' c" "i64_ok (tx_seconds tx')" by blast
  have "d_json_parse (env_of D) = dp_parse D" by (simp add: env_of_def edge_env_def)
  with dec_revocation_event [OF assms(1) ev(2), of c] ev(1) show ?thesis
    by (simp add: process_event_def event_of_def)
qed

lemma delivery_marks_announced:
  assumes "print_parse_law (dp_print D) (dp_parse D)" "reachable_ledger l"
    and "e \<in> set (event_log l)"
    and "d \<in> revoked_set (fst (world_of (process_event (env_of D) (event_of (dp_print D) e t) dm)))"
  shows "d \<in> revoked_set (fst (world_of dm)) \<or> d \<in> delivered_set (dp_target D) (announced l)"
proof -
  obtain tx c where e: "e = (''RevokeCredential'', revocation_event tx c)"
    using events_are_revocations [OF assms(2,3)] by blast
  with assms(3) have c: "c \<in> announced l" by (auto simp: announced_def)
  with edge_exact.handle_revocation_exact [of d "dp_crypto D" "dp_target D" "dp_refuses D" "dp_admin D"
      "dp_drops D" "dp_token D" "dp_parse D" "([], None)" c dm, where 'h = unit]
    delivered_event_handled [OF assms(1,2) assms(3) [unfolded e]] assms(4) e
  show ?thesis by (auto simp: env_of_def edge_blocks_def revoked_set_def delivered_set_def)
qed

lemma request_keeps_revoked_set:
  "authorised_revocation refuses cfg hs = None \<Longrightarrow>
   revoked_set (eo_store (on_http_request_headers K refuses cfg hs s)) = revoked_set s"
  by (simp add: store_after)

lemma edge_store_with [simp]: "edge_store (with_edge_store s x) = s"
  by (simp add: edge_store_def with_edge_store_def)

lemma sys_ledger_with [simp]: "sys_ledger (with_edge_store s x) = sys_ledger x"
  by (simp add: with_edge_store_def)

section \<open>No false revocations\<close>

lemma marks_are_announced:
  assumes law: "print_parse_law (dp_print D) (dp_parse D)"
  shows "reachable_system D x \<Longrightarrow>
    revoked_set (edge_store x) \<subseteq> delivered_set (dp_target D) (announced (sys_ledger x))"
proof (induction rule: reachable_system.induct)
  case boot
  then show ?case by (simp add: edge_store_def fresh_daemon_def revoked_set_def)
next
  case (run x y)
  note led = reachable_system_ledger [OF run.hyps(1)]
  from run.hyps(2) show ?case
  proof cases
    case (transact l')
    with run.IH delivered_mono [OF announced_mono [of "sys_ledger x" l'], of "dp_target D"]
    show ?thesis by (auto simp: edge_store_def)
  next
    case (deliver e tx)
    with run.IH delivery_marks_announced [OF law led deliver(2)] show ?thesis
      by (auto simp: edge_store_def)
  next
    case (request cfg hs)
    with run.IH show ?thesis by (simp add: request_keeps_revoked_set)
  qed (use run.IH in \<open>auto simp: edge_store_def fresh_daemon_def with_edge_store_def revoked_set_def\<close>)
qed

text \<open>
  C12. No honest holder is locked out. The steps of the running system are transactions, deliveries
  of events to the daemon, requests that do not themselves authorise a revocation, and restarts. In
  every state they reach, whatever the interleaving, a request with a proof that verifies is let
  through unless its identifier is one that the push of an announced identifier names at the filter.
  When all announced identifiers are plain (letters, digits and \<open>-._~:\<close>), this means: unless its
  identifier has itself been announced as revoked.
\<close>

theorem unannounced_never_refused:
  assumes "print_parse_law (dp_print D) (dp_parse D)" "reachable_system D x"
    and "granted (dp_crypto D) hs {}" "hs ''x-dzta-revocation-id'' = Some c"
  shows "(c \<notin> delivered_set (dp_target D) (announced (sys_ledger x)) \<longrightarrow>
      eo_action (on_http_request_headers (dp_crypto D) (dp_refuses D) cfg hs (edge_store x)) = Continue) \<and>
    (url_law (dp_target D) \<longrightarrow> (\<forall>a\<in>announced (sys_ledger x). plain_id a) \<longrightarrow>
      c \<notin> announced (sys_ledger x) \<longrightarrow>
      eo_action (on_http_request_headers (dp_crypto D) (dp_refuses D) cfg hs (edge_store x)) = Continue)"
proof -
  have "eo_action (on_http_request_headers (dp_crypto D) (dp_refuses D) cfg hs (edge_store x)) = Continue"
    if "c \<notin> delivered_set (dp_target D) (announced (sys_ledger x))"
    using that marks_are_announced [OF assms(1,2)] assms(3,4) by (auto simp: granted_iff granted_def)
  then show ?thesis by (simp add: delivered_plain)
qed

section \<open>After a replay\<close>

text \<open>\<open>replay D l d\<close>: the daemon has been handed every event of the log once, in order.\<close>

definition replay ::
  "'v deployment \<Rightarrow> ledger \<Rightarrow> (shared_data \<times> nat) daemon \<Rightarrow> (shared_data \<times> nat) daemon" where
  "replay D l d = fold (\<lambda>e. process_event (env_of D) (event_of (dp_print D) e [])) (event_log l) d"

lemma replay_reachable:
  assumes "reachable_system D x"
  shows "reachable_system D (x\<lparr>sys_daemon := replay D (sys_ledger x) (sys_daemon x)\<rparr>)"
proof -
  have "reachable_system D (x\<lparr>sys_daemon := fold (\<lambda>e. process_event (env_of D)
      (event_of (dp_print D) e [])) es (sys_daemon x)\<rparr>)"
    if "set es \<subseteq> set (event_log (sys_ledger x))" for es
    using that
  proof (induction es rule: rev_induct)
    case Nil
    then show ?case using assms by simp
  next
    case (snoc e es)
    then have "reachable_system D (x\<lparr>sys_daemon := fold (\<lambda>e. process_event (env_of D)
        (event_of (dp_print D) e [])) es (sys_daemon x)\<rparr>)" by simp
    from reachable_system.run [OF this system_step.deliver [of e _ D "[]"]] snoc.prems show ?case by simp
  qed
  then show ?thesis by (simp add: replay_def)
qed

lemma replay_fills_cache:
  assumes "print_parse_law (dp_print D) (dp_parse D)" "reachable_ledger l" "c \<in> announced l"
  shows "c \<in> revocation_cache (replay D l d)"
proof -
  from assms(3) obtain tx where ev: "(''RevokeCredential'', revocation_event tx c) \<in> set (event_log l)"
    by (auto simp: announced_def)
  have "c \<in> revocation_cache (fold (\<lambda>e. process_event (env_of D) (event_of (dp_print D) e [])) es d)"
    if "(''RevokeCredential'', revocation_event tx c) \<in> set es" for es
    using that
  proof (induction es rule: rev_induct)
    case Nil
    then show ?case by simp
  next
    case (snoc e es)
    then show ?case
      using delivered_event_handled [OF assms(1,2) ev, of "[]"]
        subsetD [OF cache_process_event, of c _ "env_of D"] by auto
  qed
  then show ?thesis using ev by (simp add: replay_def)
qed

lemma replay_covered:
  assumes "edge_sink.covered (dp_target D) d"
  shows "edge_sink.covered (dp_target D) (replay D l d)"
  unfolding replay_def
  by (rule fold_invariant [where P = "edge_sink.covered (dp_target D)" and Q = "\<lambda>_. True"])
    (auto simp: assms env_of_def intro: edge_sink.process_event_covered)

text \<open>
  C2. The edge agrees with the ledger. Take any state the running system reaches by transactions,
  deliveries of events, requests that do not themselves authorise a revocation, and restarts; restart
  the daemon and let it replay the event log: if it logged no failed push, the identifiers marked at the
  filter are exactly those that the pushes of the announced identifiers name there, so a request is
  let through if and only if its proof verifies and its identifier is not one of them. When all
  announced identifiers are plain (letters, digits and \<open>-._~:\<close>), these are exactly the identifiers
  the ledger has announced as revoked.
\<close>

theorem replay_makes_edge_agree:
  assumes law: "print_parse_law (dp_print D) (dp_parse D)" and x: "reachable_system D x"
    and d: "d = replay D (sys_ledger x) (fresh_daemon (world_of (sys_daemon x)))"
    and pushed: "\<forall>c. (c, False) \<notin> set (sync_log d)"
    and marks: "M = delivered_set (dp_target D) (announced (sys_ledger x))"
  shows "revoked_set (fst (world_of d)) = M \<and>
    (eo_action (on_http_request_headers (dp_crypto D) (dp_refuses D) cfg hs (fst (world_of d))) = Continue
       \<longleftrightarrow> granted (dp_crypto D) hs M) \<and>
    (url_law (dp_target D) \<longrightarrow> (\<forall>a\<in>announced (sys_ledger x). plain_id a) \<longrightarrow>
       M = announced (sys_ledger x))"
proof -
  let ?x = "x\<lparr>sys_daemon := fresh_daemon (world_of (sys_daemon x))\<rparr>"
  let ?y = "?x\<lparr>sys_daemon := d\<rparr>"
  have "reachable_system D ?y"
    using replay_reachable [OF run [OF x daemon_restart]] d by simp
  then have "revoked_set (fst (world_of d)) \<subseteq> M"
    using marks_are_announced [OF law, of ?y] marks by (simp add: edge_store_def)
  moreover have "M \<subseteq> revoked_set (fst (world_of d))"
  proof
    fix i
    assume "i \<in> M"
    then obtain c where c: "c \<in> announced (sys_ledger x)" "delivered_as (dp_target D) c = Some i"
      by (auto simp: marks delivered_set_def)
    have "c \<in> revocation_cache d"
      unfolding d by (rule replay_fills_cache [OF law reachable_system_ledger [OF x] c(1)])
    moreover have "edge_sink.covered (dp_target D) d"
      unfolding d by (rule replay_covered) (simp add: edge_sink.covered_def fresh_daemon_def)
    ultimately show "i \<in> revoked_set (fst (world_of d))"
      using pushed c(2) by (auto simp: edge_sink.covered_def edge_blocks_def revoked_set_def)
  qed
  ultimately have "revoked_set (fst (world_of d)) = M" by blast
  then show ?thesis by (simp add: granted_iff marks delivered_plain)
qed

section \<open>An instance\<close>

definition demo_deployment :: "nat deployment" where
  "demo_deployment = \<lparr>dp_crypto = demo_crypto, dp_target = plain_target, dp_refuses = (\<lambda>_. False),
     dp_admin = admin_config, dp_drops = (\<lambda>_. False), dp_token = Some ''tok'', dp_parse = unary_parse,
     dp_print = unary_print\<rparr>"

lemma replayed_push_accepted:
  "sync_to_envoy_memory (edge_env demo_crypto plain_target (\<lambda>_. False) admin_config (\<lambda>_. False) (Some ''tok'')
     unary_parse ([], None) :: (unit, shared_data \<times> nat) daemon_env) ''c1'' (s, n) =
   (True, (s(revoked_key ''c1'' \<mapsto> as_bytes ''true''), n + 1))"
proof -
  let ?E = "edge_env demo_crypto plain_target (\<lambda>_. False) admin_config (\<lambda>_. False) (Some ''tok'')
     unary_parse ([], None) :: (unit, shared_data \<times> nat) daemon_env"
  have tok: "admin_token ?E = ''tok''" by (simp add: admin_token_def edge_env_def)
  have "http_post ?E (admin_url ''c1'') [(''X-Wasm-Admin-Token'', ''tok'')] (s, n) =
      (Inr 200, (s(revoked_key ''c1'' \<mapsto> as_bytes ''true''), n + 1))"
    by (rule push_accepted [OF plain_target_law plain_c1]) (simp_all add: admin_config_def)
  then show ?thesis
    unfolding sync_to_envoy_memory_def tok by (simp add: eval_nat_numeral)
qed

lemma edge_parse: "d_json_parse (edge_env K tgt refuses cfg drops tok parse ms) = parse"
  by (simp add: edge_env_def)

lemma demo_deployment_law: "print_parse_law (dp_print demo_deployment) (dp_parse demo_deployment)"
  by (simp add: demo_deployment_def unary_law)

lemma ledger_in_system:
  "reachable_ledger l \<Longrightarrow> reachable_system D \<lparr>sys_ledger = l, sys_daemon = fresh_daemon (Map.empty, 0)\<rparr>"
proof (induction rule: reachable_ledger.induct)
  case reach_genesis
  then show ?case by (rule boot)
next
  case (reach_step l l')
  from run [OF reach_step.IH transact] reach_step.hyps(2) show ?case by fastforce
qed

lemma example_announced: "announced example_ledger = {''c1''}"
proof -
  have "revocation_event tx c = revocation_event tx' c' \<Longrightarrow> c = c'" for tx tx' c c'
    by (simp add: revocation_event_def)
  then show ?thesis
    by (auto simp: announced_def example_ledger_def)
qed

lemma demo_granted: "granted demo_crypto (demo_headers c) R \<longleftrightarrow> c \<notin> R"
  by (simp add: granted_def is_admin_path_def demo_crypto_def demo_headers_def get_pvk_def verify_zkp_def
      header_or_default_def starts_with_def as_bytes_def)

theorem unannounced_never_refused_witness:
  "eo_action (on_http_request_headers demo_crypto (\<lambda>_. False) plugin_config_default (demo_headers ''c2'')
     (edge_store \<lparr>sys_ledger = example_ledger, sys_daemon = fresh_daemon (Map.empty, 0)\<rparr>)) = Continue"
proof -
  have "granted (dp_crypto demo_deployment) (demo_headers ''c2'') {}"
    by (simp add: demo_deployment_def demo_granted)
  from unannounced_never_refused [OF demo_deployment_law ledger_in_system [OF example_ledger_reachable] this,
      of "''c2''" plugin_config_default]
  show ?thesis using example_announced plain_c1 plain_target_law
    by (simp add: demo_headers_def) (simp add: demo_deployment_def)
qed

lemma demo_replay:
  "replay demo_deployment example_ledger (fresh_daemon (Map.empty, 0)) =
     \<lparr>revocation_cache = {''c1''}, world_of = ([revoked_key ''c1'' \<mapsto> as_bytes ''true''], 1),
      sync_log = [(''c1'', True)]\<rparr>"
proof -
  have log: "event_log example_ledger = [(''RevokeCredential'', revocation_event (Some 7) ''c1'')]"
    by (simp add: example_ledger_def)
  have env: "env_of demo_deployment = edge_env demo_crypto plain_target (\<lambda>_. False) admin_config
     (\<lambda>_. False) (Some ''tok'') unary_parse ([], None)"
    by (simp add: env_of_def demo_deployment_def)
  have "replay demo_deployment example_ledger d = handle_revocation (env_of demo_deployment) ''c1'' d" for d
    using delivered_event_handled [OF demo_deployment_law example_ledger_reachable, of "Some 7" "''c1''" "[]"]
    by (simp add: replay_def log)
  then show ?thesis
    by (simp add: fresh_daemon_def handle_revocation_def env replayed_push_accepted)
qed

theorem replay_makes_edge_agree_witness:
  "eo_action (on_http_request_headers demo_crypto (\<lambda>_. False) plugin_config_default (demo_headers ''c1'')
     [revoked_key ''c1'' \<mapsto> as_bytes ''true'']) = Pause \<and>
   eo_action (on_http_request_headers demo_crypto (\<lambda>_. False) plugin_config_default (demo_headers ''c2'')
     [revoked_key ''c1'' \<mapsto> as_bytes ''true'']) = Continue"
proof -
  let ?x = "\<lparr>sys_ledger = example_ledger, sys_daemon = fresh_daemon (Map.empty, 0)\<rparr>"
  have d: "\<lparr>revocation_cache = {''c1''}, world_of = ([revoked_key ''c1'' \<mapsto> as_bytes ''true''], 1),
      sync_log = [(''c1'', True)]\<rparr> =
    replay demo_deployment (sys_ledger ?x) (fresh_daemon (world_of (sys_daemon ?x)))"
    using demo_replay by (simp add: fresh_daemon_def)
  have dp: "dp_crypto demo_deployment = demo_crypto" "dp_refuses demo_deployment = (\<lambda>_. False)"
    "dp_target demo_deployment = plain_target"
    by (simp_all add: demo_deployment_def)
  let ?act = "\<lambda>c. eo_action (on_http_request_headers demo_crypto (\<lambda>_. False) plugin_config_default
    (demo_headers c) [revoked_key ''c1'' \<mapsto> as_bytes ''true''])"
  have ann: "announced (sys_ledger ?x) = {''c1''}" using example_announced by simp
  have "?act c = Continue \<longleftrightarrow> c \<noteq> ''c1''" for c
    using replay_makes_edge_agree [OF demo_deployment_law ledger_in_system [OF example_ledger_reachable]
        d _ refl, of plugin_config_default "demo_headers c"] plain_c1 plain_target_law
    unfolding dp ann demo_granted by simp
  then have "?act ''c1'' \<noteq> Continue" "?act ''c2'' = Continue" by simp_all
  then show ?thesis by (cases "?act ''c1''") simp_all
qed

end
