(* ===== verification/ZkpCore.thy ===== *)
theory ZkpCore
  imports Json
begin

text \<open>
  \<open>src/shared/src/zkp_core.rs\<close>: the encrypted wallet record (magic, nonce, ciphertext, tag), the
  unsealing of a credential inside the enclave, and the derivation of nullifier, role scalar
  and public commitment in the scalar field of BLS12-381.

  Code of other crates is the record \<open>prims\<close>: SHA-256, the OpenSSL \<open>Crypter\<close> for
  AES-256-GCM, the JSON text parser, and the decimal reader and printer of \<open>num-bigint\<close>. What is
  relied on is named: \<open>sha_law\<close> (digests have 32 bytes), \<open>gcm_law\<close> (how the calls of an
  encrypting and a decrypting \<open>Crypter\<close> relate, tags have 16 bytes) and \<open>biguint_law\<close> (reading a
  printed number gives it back). The random nonce is an argument: the result of \<open>getrandom\<close>.
  A field element is the natural below the modulus that represents it.
\<close>

datatype crypt_mode = Encrypt | Decrypt

record 'c prims =
  sha256 :: "bytes \<Rightarrow> bytes"
  crypter_new :: "crypt_mode \<Rightarrow> bytes \<Rightarrow> bytes \<Rightarrow> string + 'c"
  crypter_update :: "'c \<Rightarrow> bytes \<Rightarrow> string + bytes \<times> 'c"
  crypter_finalize :: "'c \<Rightarrow> string + bytes \<times> 'c"
  crypter_get_tag :: "'c \<Rightarrow> string + bytes"
  crypter_set_tag :: "'c \<Rightarrow> bytes \<Rightarrow> string + 'c"
  json_parse :: json_parser
  biguint_from_str :: "string \<Rightarrow> string + nat"
  biguint_to_str :: "nat \<Rightarrow> string"
  fmt :: fmt_env

definition bls_modulus :: nat where
  "bls_modulus =
     52435875175126190479447740508185965837690552500527637822603658699938581184513"

definition WALLET_RECORD_MAGIC :: bytes where
  "WALLET_RECORD_MAGIC = as_bytes ''DZTA1''"

section \<open>The wallet record\<close>

definition gcm_encrypt :: "'c prims \<Rightarrow> bytes \<Rightarrow> bytes \<Rightarrow> bytes \<Rightarrow> (bytes \<times> bytes) wallet_result" where
  "gcm_encrypt P key nonce plaintext =
     bind_res (map_err (\<lambda>e. ExecutionFailed (''Failed to initialize encryption: '' @ e))
       (crypter_new P Encrypt key nonce)) (\<lambda>c0.
     bind_res (map_err (\<lambda>e. ExecutionFailed (''Failed to encrypt wallet record: '' @ e))
       (crypter_update P c0 plaintext)) (\<lambda>(out1, c1).
     bind_res (map_err (\<lambda>e. ExecutionFailed (''Failed to finalize encryption: '' @ e))
       (crypter_finalize P c1)) (\<lambda>(out2, c2).
     bind_res (map_err (\<lambda>e. ExecutionFailed (''Failed to finalize authentication tag: '' @ e))
       (crypter_get_tag P c2)) (\<lambda>tag.
     Inr (out1 @ out2, tag)))))"

definition encrypt_wallet_record ::
  "'c prims \<Rightarrow> string + bytes \<Rightarrow> bytes \<Rightarrow> bytes \<Rightarrow> bytes wallet_result" where
  "encrypt_wallet_record P random plaintext passphrase =
     (let key = sha256 P passphrase in
      bind_res (map_err (\<lambda>e. ExecutionFailed (''Failed to generate nonce: '' @ e)) random) (\<lambda>nonce.
      bind_res (gcm_encrypt P key nonce plaintext) (\<lambda>(ciphertext, tag).
      Inr (WALLET_RECORD_MAGIC @ nonce @ ciphertext @ tag))))"

definition gcm_decrypt :: "'c prims \<Rightarrow> bytes \<Rightarrow> bytes \<Rightarrow> bytes \<Rightarrow> bytes \<Rightarrow> bytes wallet_result" where
  "gcm_decrypt P key nonce tag ciphertext =
     bind_res (map_err (\<lambda>e. ExecutionFailed (''Failed to initialize decryption: '' @ e))
       (crypter_new P Decrypt key nonce)) (\<lambda>c0.
     bind_res (map_err (\<lambda>e. ExecutionFailed (''Failed to set authentication tag: '' @ e))
       (crypter_set_tag P c0 tag)) (\<lambda>c1.
     bind_res (map_err (\<lambda>e. ExecutionFailed (''Failed to decrypt wallet record: '' @ e))
       (crypter_update P c1 ciphertext)) (\<lambda>(out1, c2).
     bind_res (map_err (\<lambda>_. ExecutionFailed ''Wallet record authentication failed'')
       (crypter_finalize P c2)) (\<lambda>(out2, c3).
     Inr (out1 @ out2)))))"

definition decrypt_wallet_record :: "'c prims \<Rightarrow> bytes \<Rightarrow> bytes \<Rightarrow> bytes wallet_result" where
  "decrypt_wallet_record P envelope passphrase =
     (let magic_len = length WALLET_RECORD_MAGIC;
          minimum_length = magic_len + 12 + 16
      in if length envelope < minimum_length \<or> take magic_len envelope \<noteq> WALLET_RECORD_MAGIC
         then Inl (ExecutionFailed ''Invalid wallet record envelope'')
         else
           let nonce_end = magic_len + 12;
               tag_start = length envelope - 16;
               nonce = take 12 (drop magic_len envelope);
               tag = drop tag_start envelope;
               ciphertext = take (tag_start - nonce_end) (drop nonce_end envelope)
           in gcm_decrypt P (sha256 P passphrase) nonce tag ciphertext)"

section \<open>Payloads\<close>

record enclave_ingestion_payload =
  raw_wallet_ciphertext :: bytes
  wallet_db_key :: "bytes option"
  payload_credential_id :: "string option"
  payload_required_clearance :: u64
  master_seed :: "bytes option"

record attestation_request =
  ar_quote :: string
  ar_enclave_public_key_pem :: string
  ar_credential_key_id :: string
  ar_required_clearance_level :: u64

record attestation_response =
  as_encrypted_wallet_key :: string
  as_encrypted_master_seed :: string
  as_key_encryption_algorithm :: string

record decrypted_credential_subject =
  dcs_user_clearance_level :: u64
  dcs_user_role_scalar :: string
  dcs_subject_did :: string
  dcs_credential_id :: string

record derived_enclave_witness =
  dw_clearance_level :: u64
  dw_user_role_scalar :: string
  dw_secret_nullifier :: bytes
  dw_public_commitment :: bytes

record prover_output_response =
  x_dzta_proof :: string
  x_dzta_public_inputs :: string
  sgx_dcap_quote_hex :: "string option"

definition dec_subject :: "decrypted_credential_subject decoder" where
  "dec_subject v =
     bind_res (struct_fields [''user_clearance_level'', ''user_role_scalar'', ''subject_did'',
       ''credential_id''] v) (\<lambda>fs.
     bind_res (required_field dec_u64 [''user_clearance_level''] fs) (\<lambda>lvl.
     bind_res (required_field dec_string [''user_role_scalar''] fs) (\<lambda>role.
     bind_res (required_field dec_string [''subject_did''] fs) (\<lambda>did.
     bind_res (required_field dec_string [''credential_id''] fs) (\<lambda>cid.
     Inr \<lparr>dcs_user_clearance_level = lvl, dcs_user_role_scalar = role, dcs_subject_did = did,
          dcs_credential_id = cid\<rparr>)))))"

definition dec_ingestion_payload :: "enclave_ingestion_payload decoder" where
  "dec_ingestion_payload v =
     bind_res (struct_fields [''raw_wallet_ciphertext'', ''wallet_db_key'', ''credential_id'',
       ''required_clearance_level'', ''master_seed''] v) (\<lambda>fs.
     bind_res (required_field (dec_vec dec_u8) [''raw_wallet_ciphertext''] fs) (\<lambda>raw.
     bind_res (option_field (dec_vec dec_u8) [''wallet_db_key''] fs) (\<lambda>key.
     bind_res (default_field None (dec_option dec_string) [''credential_id''] fs) (\<lambda>cid.
     bind_res (required_field dec_u64 [''required_clearance_level''] fs) (\<lambda>lvl.
     bind_res (option_field (dec_byte_array 32) [''master_seed''] fs) (\<lambda>seed.
     Inr \<lparr>raw_wallet_ciphertext = raw, wallet_db_key = key, payload_credential_id = cid,
          payload_required_clearance = lvl, master_seed = seed\<rparr>))))))"

definition json_of_ingestion_payload :: "enclave_ingestion_payload \<Rightarrow> json" where
  "json_of_ingestion_payload p = JObject
     [(''raw_wallet_ciphertext'', json_of_bytes (raw_wallet_ciphertext p)),
      (''wallet_db_key'', case wallet_db_key p of None \<Rightarrow> JNull | Some k \<Rightarrow> json_of_bytes k),
      (''credential_id'', case payload_credential_id p of None \<Rightarrow> JNull | Some s \<Rightarrow> JString s),
      (''required_clearance_level'', JNumber (PosInt (payload_required_clearance p))),
      (''master_seed'', case master_seed p of None \<Rightarrow> JNull | Some k \<Rightarrow> json_of_bytes k)]"

definition json_of_attestation_request :: "attestation_request \<Rightarrow> json" where
  "json_of_attestation_request r = JObject
     [(''quote'', JString (ar_quote r)),
      (''enclave_public_key_pem'', JString (ar_enclave_public_key_pem r)),
      (''credential_key_id'', JString (ar_credential_key_id r)),
      (''required_clearance_level'', JNumber (PosInt (ar_required_clearance_level r)))]"

definition dec_attestation_response :: "attestation_response decoder" where
  "dec_attestation_response v =
     bind_res (struct_fields [''encrypted_wallet_key'', ''encrypted_master_seed'',
       ''key_encryption_algorithm''] v) (\<lambda>fs.
     bind_res (required_field dec_string [''encrypted_wallet_key''] fs) (\<lambda>k.
     bind_res (required_field dec_string [''encrypted_master_seed''] fs) (\<lambda>s.
     bind_res (required_field dec_string [''key_encryption_algorithm''] fs) (\<lambda>a.
     Inr \<lparr>as_encrypted_wallet_key = k, as_encrypted_master_seed = s,
          as_key_encryption_algorithm = a\<rparr>))))"

section \<open>Scalars, nullifier and commitment\<close>

definition fr_of_u64 :: "u64 \<Rightarrow> nat" where
  "fr_of_u64 n = unat n mod bls_modulus"

definition fr_from_le_bytes_mod_order :: "bytes \<Rightarrow> nat" where
  "fr_from_le_bytes_mod_order bs = le_nat bs mod bls_modulus"

fun biguint_to_bytes_le :: "nat \<Rightarrow> bytes" where
  "biguint_to_bytes_le n =
     (if n < 256 then [word_of_nat n]
      else word_of_nat (n mod 256) # biguint_to_bytes_le (n div 256))"

declare biguint_to_bytes_le.simps [simp del]

definition derive_nullifier :: "'c prims \<Rightarrow> string \<Rightarrow> string \<Rightarrow> bytes \<Rightarrow> bytes" where
  "derive_nullifier P subject_did credential_id secret_seed_bytes =
     sha256 P (as_bytes ''dZTA_NULLIFIER_DOMAIN_v1'' @ as_bytes subject_did @
       as_bytes credential_id @ secret_seed_bytes)"

definition string_to_scalar :: "'c prims \<Rightarrow> string \<Rightarrow> string" where
  "string_to_scalar P input =
     (if input = [] then ''0''
      else case biguint_from_str P input of
        Inr _ \<Rightarrow> input
      | Inl _ \<Rightarrow>
          let num = be_nat (sha256 P (as_bytes input))
          in biguint_to_str P (num mod bls_modulus))"

definition compute_commitment :: "'c prims \<Rightarrow> bytes \<Rightarrow> u64 \<Rightarrow> string \<Rightarrow> bytes" where
  "compute_commitment P nullifier_bytes user_clearance role_scalar_str =
     (let nullifier_fr = fr_from_le_bytes_mod_order nullifier_bytes;
          clearance_fr = fr_of_u64 user_clearance;
          normalized_role = string_to_scalar P role_scalar_str;
          role_biguint = (case biguint_from_str P normalized_role of Inl _ \<Rightarrow> 0 | Inr n \<Rightarrow> n);
          role_fr = fr_from_le_bytes_mod_order (biguint_to_bytes_le role_biguint);
          commitment_fr = ((nullifier_fr * clearance_fr) mod bls_modulus * role_fr) mod bls_modulus
      in le_bytes 32 commitment_fr)"

definition process_unsealed_witness ::
  "'c prims \<Rightarrow> decrypted_credential_subject \<Rightarrow> bytes \<Rightarrow> u64 \<Rightarrow>
   (nat \<times> nat \<times> nat \<times> nat \<times> nat \<times> bytes) wallet_result" where
  "process_unsealed_witness P subject seed required_clearance =
     (let user_clearance_fr = fr_of_u64 (dcs_user_clearance_level subject);
          req_clearance_fr = fr_of_u64 required_clearance;
          normalized_role_str = string_to_scalar P (dcs_user_role_scalar subject)
      in bind_res (map_err (\<lambda>e. ExecutionFailed (''Invalid role scalar radix: '' @ e))
           (biguint_from_str P normalized_role_str)) (\<lambda>role_biguint.
         let role_scalar_fr = fr_from_le_bytes_mod_order (biguint_to_bytes_le role_biguint);
             secret_nullifier_bytes =
               derive_nullifier P (dcs_subject_did subject) (dcs_credential_id subject) seed;
             nullifier_fr = fr_from_le_bytes_mod_order secret_nullifier_bytes;
             commitment_fr =
               ((nullifier_fr * user_clearance_fr) mod bls_modulus * role_scalar_fr) mod bls_modulus
         in Inr (user_clearance_fr, role_scalar_fr, nullifier_fr, req_clearance_fr, commitment_fr,
              secret_nullifier_bytes)))"

section \<open>Unsealing\<close>

definition parse_credential_subject ::
  "'c prims \<Rightarrow> bytes \<Rightarrow> string option \<Rightarrow> decrypted_credential_subject wallet_result" where
  "parse_credential_subject P raw_record cid =
     (case from_slice (json_parse P) dec_subject raw_record of
        Inr subject \<Rightarrow> Inr subject
      | Inl _ \<Rightarrow>
          bind_res (map_err (\<lambda>e. ExecutionFailed
              (''Credential record is not valid JSON: '' @ serde_display (fmt P) e))
            (from_slice (json_parse P) dec_value raw_record)) (\<lambda>value.
          bind_res (ok_or (ExecutionFailed ''Credential record has no credentialSubject'')
            (json_get ''credentialSubject'' value)) (\<lambda>subject_value.
          bind_res (ok_or (ExecutionFailed ''Credential subject has no id'')
            (Option.bind (json_get ''id'' subject_value) as_str)) (\<lambda>did.
          bind_res (ok_or (ExecutionFailed ''Credential subject has no userRoleId'')
            (Option.bind (json_get ''userRoleId'' subject_value) as_str)) (\<lambda>role.
          bind_res (ok_or (ExecutionFailed ''Credential subject has no clearanceLevel'')
            (Option.bind (json_get ''clearanceLevel'' subject_value) as_u64)) (\<lambda>lvl.
          bind_res (ok_or (ExecutionFailed
              ''Credential ID is required for W3C credential records'') cid) (\<lambda>credential_id.
          Inr \<lparr>dcs_user_clearance_level = lvl, dcs_user_role_scalar = role,
               dcs_subject_did = did, dcs_credential_id = credential_id\<rparr>)))))))"

text \<open>\<open>raw.iter().zip(key.iter().cycle())\<close>: an empty key yields nothing.\<close>

definition xor_cycle :: "bytes \<Rightarrow> bytes \<Rightarrow> bytes" where
  "xor_cycle raw key =
     (if key = [] then []
      else map (\<lambda>i. raw ! i XOR key ! (i mod length key)) [0..<length raw])"

definition unseal_and_derive_witness_with_credential_id ::
  "'c prims \<Rightarrow> bytes \<Rightarrow> bytes \<Rightarrow> bytes \<Rightarrow> string option \<Rightarrow> derived_enclave_witness wallet_result" where
  "unseal_and_derive_witness_with_credential_id P raw_ciphertext db_key seed cid =
     (let cleartext_bytes =
            (case decrypt_wallet_record P raw_ciphertext db_key of
               Inr cleartext \<Rightarrow> cleartext
             | Inl _ \<Rightarrow> raw_ciphertext);
          subject_result =
            (case parse_credential_subject P cleartext_bytes cid of
               Inr subject \<Rightarrow> Inr subject
             | Inl _ \<Rightarrow>
                 map_err (\<lambda>e. ExecutionFailed
                     (''Failed to parse unsealed credential subject: '' @ serde_display (fmt P) e))
                   (from_slice (json_parse P) dec_subject (xor_cycle raw_ciphertext db_key)))
      in bind_res subject_result (\<lambda>subject.
         let nullifier =
               derive_nullifier P (dcs_subject_did subject) (dcs_credential_id subject) seed;
             commitment =
               compute_commitment P nullifier (dcs_user_clearance_level subject)
                 (dcs_user_role_scalar subject)
         in Inr \<lparr>dw_clearance_level = dcs_user_clearance_level subject,
                 dw_user_role_scalar = string_to_scalar P (dcs_user_role_scalar subject),
                 dw_secret_nullifier = nullifier,
                 dw_public_commitment = commitment\<rparr>))"

definition unseal_and_derive_witness ::
  "'c prims \<Rightarrow> bytes \<Rightarrow> bytes \<Rightarrow> bytes \<Rightarrow> derived_enclave_witness wallet_result" where
  "unseal_and_derive_witness P raw_ciphertext db_key seed =
     unseal_and_derive_witness_with_credential_id P raw_ciphertext db_key seed None"

definition unseal_credential_subject ::
  "'c prims \<Rightarrow> enclave_ingestion_payload \<Rightarrow> decrypted_credential_subject wallet_result" where
  "unseal_credential_subject P payload =
     (let cleartext_result =
            (case wallet_db_key payload of
               None \<Rightarrow> Inr (raw_wallet_ciphertext payload)
             | Some key \<Rightarrow>
                 if key = [] then Inr (raw_wallet_ciphertext payload)
                 else case from_slice (json_parse P) dec_subject (raw_wallet_ciphertext payload) of
                   Inr _ \<Rightarrow> Inr (raw_wallet_ciphertext payload)
                 | Inl _ \<Rightarrow> Inr (xor_cycle (raw_wallet_ciphertext payload) key))
      in bind_res cleartext_result (\<lambda>cleartext_bytes.
         map_err (\<lambda>e. ExecutionFailed
             (''Failed to parse credential subject: '' @ serde_display (fmt P) e))
           (from_slice (json_parse P) dec_subject cleartext_bytes)))"

section \<open>What the libraries promise\<close>

definition sha_law :: "'c prims \<Rightarrow> bool" where
  "sha_law P \<longleftrightarrow> (\<forall>m. length (sha256 P m) = 32)"

text \<open>
  OpenSSL's \<open>Crypter\<close> for AES-256-GCM. Encryption goes through under a 32-byte key and a 12-byte nonce,
  with a 16-byte tag. A decrypter made with the same key and nonce, given that tag first and then
  the ciphertext, finalises without an error, and the two outputs together are the plaintext. Nothing
  is said of a decrypter that was not given the tag, nor of its output before it has finalised.
\<close>

definition encrypter_run ::
  "'c prims \<Rightarrow> bytes \<Rightarrow> bytes \<Rightarrow> bytes \<Rightarrow> bytes \<Rightarrow> bytes \<Rightarrow> bool" where
  "encrypter_run P key nonce pt ct tag \<longleftrightarrow>
     (\<exists>c0 c1 c2 out1 out2. crypter_new P Encrypt key nonce = Inr c0 \<and>
        crypter_update P c0 pt = Inr (out1, c1) \<and> crypter_finalize P c1 = Inr (out2, c2) \<and>
        crypter_get_tag P c2 = Inr tag \<and> ct = out1 @ out2)"

definition decrypter_run ::
  "'c prims \<Rightarrow> bytes \<Rightarrow> bytes \<Rightarrow> bytes \<Rightarrow> bytes \<Rightarrow> bytes \<Rightarrow> bool" where
  "decrypter_run P key nonce tag ct pt \<longleftrightarrow>
     (\<exists>c0 c1 c2 c3 out1 out2. crypter_new P Decrypt key nonce = Inr c0 \<and>
        crypter_set_tag P c0 tag = Inr c1 \<and> crypter_update P c1 ct = Inr (out1, c2) \<and>
        crypter_finalize P c2 = Inr (out2, c3) \<and> pt = out1 @ out2)"

definition gcm_law :: "'c prims \<Rightarrow> bool" where
  "gcm_law P \<longleftrightarrow>
     (\<forall>key nonce pt. length key = 32 \<longrightarrow> length nonce = 12 \<longrightarrow>
        (\<exists>ct tag. encrypter_run P key nonce pt ct tag) \<and>
        (\<forall>ct tag. encrypter_run P key nonce pt ct tag \<longrightarrow>
           length tag = 16 \<and> decrypter_run P key nonce tag ct pt))"

lemma gcm_encrypt_Inr: "gcm_encrypt P key nonce pt = Inr (ct, tag) \<longleftrightarrow> encrypter_run P key nonce pt ct tag"
  by (auto simp: gcm_encrypt_def encrypter_run_def bind_res_Inr_iff)

lemma gcm_decrypt_Inr: "gcm_decrypt P key nonce tag ct = Inr pt \<longleftrightarrow> decrypter_run P key nonce tag ct pt"
  by (auto simp: gcm_decrypt_def decrypter_run_def bind_res_Inr_iff)

lemma gcm_roundtrip:
  assumes "gcm_law P" "length key = 32" "length nonce = 12"
  obtains ct tag where "gcm_encrypt P key nonce pt = Inr (ct, tag)" "length tag = 16"
    "gcm_decrypt P key nonce tag ct = Inr pt"
  using assms unfolding gcm_law_def gcm_encrypt_Inr gcm_decrypt_Inr by blast

definition biguint_law :: "'c prims \<Rightarrow> bool" where
  "biguint_law P \<longleftrightarrow>
     (\<forall>n. biguint_from_str P (biguint_to_str P n) = Inr n) \<and> (\<forall>n. biguint_to_str P n \<noteq> []) \<and>
     biguint_from_str P ''0'' = Inr 0"

text \<open>
  An instance for witnesses: a stream cipher that leaves the text as it is, a constant digest,
  decimal numerals. It satisfies the three laws, so they can hold together.
\<close>

definition plain_prims :: "json_parser \<Rightarrow> unit prims" where
  "plain_prims parse =
     \<lparr>sha256 = (\<lambda>m. replicate 32 (word_of_nat (length m))),
      crypter_new = (\<lambda>_ _ _. Inr ()),
      crypter_update = (\<lambda>c m. Inr (m, c)),
      crypter_finalize = (\<lambda>c. Inr ([], c)),
      crypter_get_tag = (\<lambda>_. Inr (replicate 16 0)),
      crypter_set_tag = (\<lambda>c _. Inr c),
      json_parse = parse,
      biguint_from_str = (\<lambda>s. ok_or ''invalid digit'' (read_nat s)),
      biguint_to_str = show_nat,
      fmt = \<lparr>serde_display = (\<lambda>_. ''json error''), status_display = show_nat\<rparr>\<rparr>"

lemma plain_prims_laws:
  "sha_law (plain_prims parse)" "gcm_law (plain_prims parse)" "biguint_law (plain_prims parse)"
proof -
  show "sha_law (plain_prims parse)" by (simp add: sha_law_def plain_prims_def)
  show "gcm_law (plain_prims parse)"
    by (auto simp: gcm_law_def encrypter_run_def decrypter_run_def plain_prims_def)
  have "read_nat ''0'' = Some 0"
    by (simp add: read_nat_def digit_val_def)
  then show "biguint_law (plain_prims parse)"
    by (simp add: biguint_law_def plain_prims_def)
qed


section \<open>Wallet records\<close>

lemma length_magic [simp]: "length WALLET_RECORD_MAGIC = 5"
  by (simp add: WALLET_RECORD_MAGIC_def)

lemma encrypt_wallet_record_Inr:
  "encrypt_wallet_record P (Inr nonce) pt pass =
     bind_res (gcm_encrypt P (sha256 P pass) nonce pt)
       (\<lambda>(ct, tag). Inr (WALLET_RECORD_MAGIC @ nonce @ ct @ tag))"
  by (simp add: encrypt_wallet_record_def)

lemma decrypt_of_layout:
  assumes "length nonce = 12" "length tag = 16"
  shows "decrypt_wallet_record P (WALLET_RECORD_MAGIC @ nonce @ ct @ tag) pass =
    gcm_decrypt P (sha256 P pass) nonce tag ct"
  using assms by (simp add: decrypt_wallet_record_def Let_def)

lemma encrypted_record_decrypts:
  assumes "sha_law P" "gcm_law P" "length nonce = 12"
    and "encrypt_wallet_record P (Inr nonce) pt pass = Inr env"
  shows "decrypt_wallet_record P env pass = Inr pt"
proof -
  from assms(1) have "length (sha256 P pass) = 32"
    by (simp add: sha_law_def)
  from gcm_roundtrip [OF assms(2) this assms(3)] obtain ct tag where
    "gcm_encrypt P (sha256 P pass) nonce pt = Inr (ct, tag)"
    "length tag = 16" "gcm_decrypt P (sha256 P pass) nonce tag ct = Inr pt" by metis
  with assms(3,4) show ?thesis
    by (auto simp: encrypt_wallet_record_Inr decrypt_of_layout)
qed

lemma encrypt_succeeds:
  assumes "sha_law P" "gcm_law P" "length nonce = 12"
  shows "\<exists>ct tag. encrypt_wallet_record P (Inr nonce) pt pass =
      Inr (WALLET_RECORD_MAGIC @ nonce @ ct @ tag) \<and> length tag = 16"
proof -
  from assms(1) have "length (sha256 P pass) = 32"
    by (simp add: sha_law_def)
  from gcm_roundtrip [OF assms(2) this assms(3)] obtain ct tag where
    "gcm_encrypt P (sha256 P pass) nonce pt = Inr (ct, tag)" "length tag = 16" by metis
  then show ?thesis
    by (intro exI [of _ ct] exI [of _ tag]) (simp add: encrypt_wallet_record_Inr)
qed

text \<open>
  Envelope check: an envelope shorter than magic, nonce and tag, or with another magic, is
  refused with the same error for every key, without any call to the cipher; and whatever
  decrypts successfully has the layout.
\<close>

theorem decrypt_rejects_malformed:
  "(length env < 33 \<or> take 5 env \<noteq> WALLET_RECORD_MAGIC \<longrightarrow>
      decrypt_wallet_record P env pass =
        Inl (ExecutionFailed ''Invalid wallet record envelope'')) \<and>
   (decrypt_wallet_record P env pass = Inr pt \<longrightarrow>
      (\<exists>nonce ct tag. env = WALLET_RECORD_MAGIC @ nonce @ ct @ tag \<and> length nonce = 12 \<and>
         length tag = 16 \<and> gcm_decrypt P (sha256 P pass) nonce tag ct = Inr pt))"
proof (intro conjI impI)
  assume "length env < 33 \<or> take 5 env \<noteq> WALLET_RECORD_MAGIC"
  then show "decrypt_wallet_record P env pass =
      Inl (ExecutionFailed ''Invalid wallet record envelope'')"
    by (auto simp: decrypt_wallet_record_def Let_def)
next
  assume dec: "decrypt_wallet_record P env pass = Inr pt"
  then have len: "33 \<le> length env" and magic: "take 5 env = WALLET_RECORD_MAGIC"
    by (auto simp: decrypt_wallet_record_def Let_def split: if_splits)
  let ?nonce = "take 12 (drop 5 env)"
  let ?tag = "drop (length env - 16) env"
  let ?ct = "take (length env - 16 - 17) (drop 17 env)"
  from len have "drop (length env - 33) (drop 17 env) = ?tag"
    by (simp add: add.commute)
  then have "?ct @ ?tag = drop 17 env"
    using append_take_drop_id [of "length env - 33" "drop 17 env"] by simp
  moreover have "drop 5 env = ?nonce @ drop 17 env"
    using append_take_drop_id [of 12 "drop 5 env"] by simp
  moreover have "env = take 5 env @ drop 5 env"
    by simp
  ultimately have env: "env = WALLET_RECORD_MAGIC @ ?nonce @ ?ct @ ?tag"
    by (simp only: magic)
  moreover have lens: "length ?nonce = 12" "length ?tag = 16"
    using len by simp_all
  ultimately show "\<exists>nonce ct tag. env = WALLET_RECORD_MAGIC @ nonce @ ct @ tag \<and>
      length nonce = 12 \<and> length tag = 16 \<and>
      gcm_decrypt P (sha256 P pass) nonce tag ct = Inr pt"
    using decrypt_of_layout [OF lens] dec by metis
qed

theorem decrypt_rejects_malformed_witness:
  "decrypt_wallet_record (plain_prims (\<lambda>_. Inr JNull)) [1, 2, 3] [9] =
     Inl (ExecutionFailed ''Invalid wallet record envelope'')"
  using decrypt_rejects_malformed [of "[1, 2, 3]" "plain_prims (\<lambda>_. Inr JNull)" "[9]" "[]"]
  by simp

text \<open>
  C28. Round trip of the wallet record: whatever is encrypted under a passphrase with any
  12-byte nonce is an envelope of the documented layout (magic, nonce, ciphertext, 16-byte tag)
  that decrypts under the same passphrase to the original plaintext. And decryption authenticates:
  whatever envelope decrypts, its last 16 bytes were set as the tag of a decrypter made with the
  digest of the passphrase and the envelope's nonce, the ciphertext was fed to it, and it finalised.
\<close>

theorem wallet_record_roundtrip:
  assumes "sha_law P" "gcm_law P" "length nonce = 12"
  shows "(\<exists>ct tag. encrypt_wallet_record P (Inr nonce) pt pass =
      Inr (WALLET_RECORD_MAGIC @ nonce @ ct @ tag) \<and> length tag = 16 \<and>
    decrypt_wallet_record P (WALLET_RECORD_MAGIC @ nonce @ ct @ tag) pass = Inr pt) \<and>
   (\<forall>env pt'. decrypt_wallet_record P env pass = Inr pt' \<longrightarrow>
      (\<exists>n ct tag c0 c1 c2 c3 out1 out2. env = as_bytes ''DZTA1'' @ n @ ct @ tag \<and>
        length n = 12 \<and> length tag = 16 \<and> crypter_new P Decrypt (sha256 P pass) n = Inr c0 \<and>
        crypter_set_tag P c0 tag = Inr c1 \<and> crypter_update P c1 ct = Inr (out1, c2) \<and>
        crypter_finalize P c2 = Inr (out2, c3) \<and> pt' = out1 @ out2))"
proof (intro conjI allI impI)
  show "\<exists>ct tag. encrypt_wallet_record P (Inr nonce) pt pass =
      Inr (WALLET_RECORD_MAGIC @ nonce @ ct @ tag) \<and> length tag = 16 \<and>
    decrypt_wallet_record P (WALLET_RECORD_MAGIC @ nonce @ ct @ tag) pass = Inr pt"
    using encrypt_succeeds [OF assms, of pt pass] encrypted_record_decrypts [OF assms] by blast
next
  fix env pt'
  assume "decrypt_wallet_record P env pass = Inr pt'"
  then show "\<exists>n ct tag c0 c1 c2 c3 out1 out2. env = as_bytes ''DZTA1'' @ n @ ct @ tag \<and>
        length n = 12 \<and> length tag = 16 \<and> crypter_new P Decrypt (sha256 P pass) n = Inr c0 \<and>
        crypter_set_tag P c0 tag = Inr c1 \<and> crypter_update P c1 ct = Inr (out1, c2) \<and>
        crypter_finalize P c2 = Inr (out2, c3) \<and> pt' = out1 @ out2"
    unfolding WALLET_RECORD_MAGIC_def [symmetric]
    using decrypt_rejects_malformed [of env P pass pt']
    unfolding gcm_decrypt_Inr decrypter_run_def by metis
qed

theorem wallet_record_roundtrip_witness:
  "\<exists>ct tag. encrypt_wallet_record (plain_prims (\<lambda>_. Inr JNull)) (Inr (replicate 12 7)) [1, 2] [9] =
      Inr (WALLET_RECORD_MAGIC @ replicate 12 7 @ ct @ tag) \<and> length tag = 16 \<and>
    decrypt_wallet_record (plain_prims (\<lambda>_. Inr JNull))
      (WALLET_RECORD_MAGIC @ replicate 12 7 @ ct @ tag) [9] = Inr [1, 2]"
  using wallet_record_roundtrip [OF plain_prims_laws(1,2) [of "\<lambda>_. Inr JNull"], of "replicate 12 7" "[1, 2]" "[9]"]
  by simp

section \<open>Scalars and commitments\<close>

lemma le_nat_biguint_to_bytes_le [simp]: "le_nat (biguint_to_bytes_le n) = n"
proof (induction n rule: biguint_to_bytes_le.induct)
  case (1 n)
  show ?case
  proof (cases "n < 256")
    case True
    then have "unat (word_of_nat n :: byte) = n"
      by (simp add: unat_of_nat take_bit_nat_eq_self)
    with True show ?thesis
      by (subst biguint_to_bytes_le.simps) simp
  next
    case False
    with 1 have "le_nat (biguint_to_bytes_le (n div 256)) = n div 256" by simp
    with False show ?thesis
      by (subst biguint_to_bytes_le.simps) simp
  qed
qed

lemma bls_modulus_bounds: "2 ^ 254 < bls_modulus" "bls_modulus < 2 ^ 255"
  by (simp_all add: bls_modulus_def)

lemma fr_of_u64_eq [simp]: "fr_of_u64 n = unat n"
proof -
  have "unat n < 2 ^ 64"
    using unsigned_less [of n] by simp
  also have "(2 :: nat) ^ 64 < bls_modulus"
    by (simp add: bls_modulus_def)
  finally show ?thesis by (simp add: fr_of_u64_def)
qed

lemma fr_le_bytes [simp]: "fr_from_le_bytes_mod_order (le_bytes 32 (n mod bls_modulus)) = n mod bls_modulus"
proof -
  have "n mod bls_modulus < 256 ^ 32"
    using mod_less_divisor [of bls_modulus n] by (simp add: bls_modulus_def)
  then show ?thesis
    by (simp add: fr_from_le_bytes_mod_order_def le_nat_le_bytes)
qed

definition role_fr :: "'c prims \<Rightarrow> string \<Rightarrow> nat" where
  "role_fr P s =
     (case biguint_from_str P (string_to_scalar P s) of Inl _ \<Rightarrow> 0 | Inr n \<Rightarrow> n) mod bls_modulus"

lemma string_to_scalar_parses:
  assumes "biguint_law P"
  shows "\<exists>n. biguint_from_str P (string_to_scalar P s) = Inr n"
  using assms
  by (auto simp: string_to_scalar_def biguint_law_def Let_def split: sum.split)

text \<open>
  Normalising a role identifier: the result is always a numeral the big-integer reader
  accepts (so neither the error of \<open>process_unsealed_witness\<close> nor the silent default of
  \<open>compute_commitment\<close> is reachable) and normalising twice changes nothing.
\<close>

theorem string_to_scalar_normal_form:
  assumes "biguint_law P"
  shows "(\<exists>n. biguint_from_str P (string_to_scalar P s) = Inr n) \<and>
    string_to_scalar P (string_to_scalar P s) = string_to_scalar P s"
proof -
  from string_to_scalar_parses [OF assms] obtain n
    where n: "biguint_from_str P (string_to_scalar P s) = Inr n" by blast
  moreover have "string_to_scalar P s \<noteq> []"
    using assms by (auto simp: string_to_scalar_def biguint_law_def Let_def split: sum.split)
  then have "string_to_scalar P (string_to_scalar P s) = string_to_scalar P s"
    using n by (subst string_to_scalar_def) simp
  ultimately show ?thesis by blast
qed

theorem string_to_scalar_normal_form_witness:
  "(\<exists>n. biguint_from_str (plain_prims (\<lambda>_. Inr JNull))
      (string_to_scalar (plain_prims (\<lambda>_. Inr JNull)) ''admin'') = Inr n) \<and>
   string_to_scalar (plain_prims (\<lambda>_. Inr JNull))
      (string_to_scalar (plain_prims (\<lambda>_. Inr JNull)) ''admin'') =
    string_to_scalar (plain_prims (\<lambda>_. Inr JNull)) ''admin''"
  by (rule string_to_scalar_normal_form) (rule plain_prims_laws)

lemma fr_biguint [simp]: "fr_from_le_bytes_mod_order (biguint_to_bytes_le n) = n mod bls_modulus"
  by (simp add: fr_from_le_bytes_mod_order_def)

lemma compute_commitment_eq:
  "compute_commitment P nb lvl s =
     le_bytes 32 ((fr_from_le_bytes_mod_order nb * unat lvl * role_fr P s) mod bls_modulus)"
  by (simp add: compute_commitment_def role_fr_def Let_def mod_mult_left_eq)

lemma commitment_fr_eq:
  "fr_from_le_bytes_mod_order (compute_commitment P nb lvl s) =
     (fr_from_le_bytes_mod_order nb * unat lvl * role_fr P s) mod bls_modulus"
  by (simp add: compute_commitment_eq)

lemma process_unsealed_witness_eq:
  assumes "biguint_law P"
  shows "process_unsealed_witness P subject seed req =
    (let nb = derive_nullifier P (dcs_subject_did subject) (dcs_credential_id subject) seed;
         n = fr_from_le_bytes_mod_order nb;
         r = role_fr P (dcs_user_role_scalar subject);
         u = unat (dcs_user_clearance_level subject)
     in Inr (u, r, n, unat req, (n * u * r) mod bls_modulus, nb))"
proof -
  from string_to_scalar_parses [OF assms] obtain k
    where "biguint_from_str P (string_to_scalar P (dcs_user_role_scalar subject)) = Inr k"
    by blast
  then show ?thesis
    by (simp add: process_unsealed_witness_def Let_def role_fr_def mod_mult_left_eq)
qed

text \<open>
  The two derivations of the commitment agree: for every credential the field-level routine
  succeeds, and its commitment is the field element the byte-level routine serialises, namely
  nullifier times clearance times role scalar modulo the BLS12-381 scalar prime.
\<close>

theorem commitment_routines_agree:
  assumes "biguint_law P"
  shows "\<exists>u r n q c nb. process_unsealed_witness P subject seed req = Inr (u, r, n, q, c, nb) \<and>
    nb = derive_nullifier P (dcs_subject_did subject) (dcs_credential_id subject) seed \<and>
    u = unat (dcs_user_clearance_level subject) \<and> q = unat req \<and>
    c = (n * u * r) mod bls_modulus \<and>
    compute_commitment P nb (dcs_user_clearance_level subject) (dcs_user_role_scalar subject) =
      le_bytes 32 c \<and>
    fr_from_le_bytes_mod_order (le_bytes 32 c) = c"
  by (simp add: process_unsealed_witness_eq [OF assms] Let_def compute_commitment_eq)

theorem commitment_routines_agree_witness:
  "\<exists>u r n q c nb. process_unsealed_witness (plain_prims (\<lambda>_. Inr JNull))
     \<lparr>dcs_user_clearance_level = 5, dcs_user_role_scalar = ''admin'', dcs_subject_did = ''did:a'',
      dcs_credential_id = ''c1''\<rparr> (replicate 32 1) 3 = Inr (u, r, n, q, c, nb) \<and> q = 3 \<and>
     c = (n * u * r) mod bls_modulus"
  using commitment_routines_agree [OF plain_prims_laws(3) [of "\<lambda>_. Inr JNull"],
      of "\<lparr>dcs_user_clearance_level = 5, dcs_user_role_scalar = ''admin'',
        dcs_subject_did = ''did:a'', dcs_credential_id = ''c1''\<rparr>" "replicate 32 1" 3]
  by fastforce

section \<open>Unsealing\<close>

lemma length_xor_cycle: "key \<noteq> [] \<Longrightarrow> length (xor_cycle raw key) = length raw"
  by (simp add: xor_cycle_def)

lemma xor_cycle_involution: "key \<noteq> [] \<Longrightarrow> xor_cycle (xor_cycle m key) key = m"
  by (rule nth_equalityI) (simp_all add: xor_cycle_def xor.assoc)

definition witness_of :: "'c prims \<Rightarrow> bytes \<Rightarrow> decrypted_credential_subject \<Rightarrow> derived_enclave_witness" where
  "witness_of P seed subject =
     (let nul = derive_nullifier P (dcs_subject_did subject) (dcs_credential_id subject) seed
      in \<lparr>dw_clearance_level = dcs_user_clearance_level subject,
          dw_user_role_scalar = string_to_scalar P (dcs_user_role_scalar subject),
          dw_secret_nullifier = nul,
          dw_public_commitment = compute_commitment P nul (dcs_user_clearance_level subject)
            (dcs_user_role_scalar subject)\<rparr>)"

lemma unseal_cases:
  "unseal_and_derive_witness_with_credential_id P raw key seed cid =
     bind_res
       (case parse_credential_subject P
           (case decrypt_wallet_record P raw key of Inr t \<Rightarrow> t | Inl _ \<Rightarrow> raw) cid of
          Inr subject \<Rightarrow> Inr subject
        | Inl _ \<Rightarrow> map_err (\<lambda>e. ExecutionFailed
              (''Failed to parse unsealed credential subject: '' @ serde_display (fmt P) e))
            (from_slice (json_parse P) dec_subject (xor_cycle raw key)))
       (\<lambda>subject. Inr (witness_of P seed subject))"
  by (simp add: unseal_and_derive_witness_with_credential_id_def witness_of_def Let_def)

text \<open>
  A credential the wallet encrypted is unsealed by the enclave: when the plaintext is a W3C
  credential with subject id, role and clearance, the enclave derives its witness from exactly
  these fields and the credential id it was given, and the commitment it publishes is nullifier
  times clearance times role scalar.
\<close>

theorem unseal_encrypted_credential:
  assumes "sha_law P" "gcm_law P" "length nonce = 12"
    and enc: "encrypt_wallet_record P (Inr nonce) pt key = Inr env"
    and doc: "json_parse P pt = Inr v" "dec_subject v = Inl err"
    and fields: "json_get ''credentialSubject'' v = Some sv"
      "json_get ''id'' sv = Some (JString did)"
      "json_get ''userRoleId'' sv = Some (JString role)"
      "json_get ''clearanceLevel'' sv = Some (JNumber (PosInt lvl))"
  shows "\<exists>w. unseal_and_derive_witness_with_credential_id P env key seed (Some cid) = Inr w \<and>
    dw_clearance_level w = lvl \<and> dw_user_role_scalar w = string_to_scalar P role \<and>
    dw_secret_nullifier w = derive_nullifier P did cid seed \<and>
    fr_from_le_bytes_mod_order (dw_public_commitment w) =
      (fr_from_le_bytes_mod_order (dw_secret_nullifier w) * unat lvl * role_fr P role)
        mod bls_modulus"
proof -
  from assms(1-3) enc have "decrypt_wallet_record P env key = Inr pt"
    by (rule encrypted_record_decrypts)
  with doc fields show ?thesis
    by (simp add: unseal_cases parse_credential_subject_def from_slice_def dec_value_def
        witness_of_def Let_def commitment_fr_eq)
qed

definition example_vc :: json where
  "example_vc = JObject [(''credentialSubject'', JObject
     [(''id'', JString ''did:dzta:1''), (''userRoleId'', JString ''admin''),
      (''clearanceLevel'', JNumber (PosInt 5))])]"

theorem unseal_encrypted_credential_witness:
  "\<exists>w. unseal_and_derive_witness_with_credential_id (plain_prims (\<lambda>_. Inr example_vc))
      (WALLET_RECORD_MAGIC @ replicate 12 7 @ [1, 2] @ replicate 16 0) [9] (replicate 32 1)
      (Some ''c1'') = Inr w \<and> dw_clearance_level w = 5 \<and>
    dw_secret_nullifier w =
      derive_nullifier (plain_prims (\<lambda>_. Inr example_vc)) ''did:dzta:1'' ''c1'' (replicate 32 1)"
proof -
  let ?P = "plain_prims (\<lambda>_. Inr example_vc)"
  have "encrypt_wallet_record ?P (Inr (replicate 12 7)) [1, 2] [9] =
      Inr (WALLET_RECORD_MAGIC @ replicate 12 7 @ [1, 2] @ replicate 16 0)"
    by (simp add: encrypt_wallet_record_Inr gcm_encrypt_def plain_prims_def)
  moreover have "json_parse ?P [1, 2] = Inr example_vc"
    by (simp add: plain_prims_def)
  moreover have "dec_subject example_vc = Inl (MissingField ''user_clearance_level'')"
    by (simp add: dec_subject_def example_vc_def field_defs)
  ultimately show ?thesis
    using unseal_encrypted_credential [OF plain_prims_laws(1,2), of "replicate 12 7"
        "\<lambda>_. Inr example_vc" "[1, 2]" "[9]" _ example_vc _ _ "''did:dzta:1''" "''admin''" 5]
    by (fastforce simp: example_vc_def)
qed

text \<open>
  Legacy records: a record sealed by XOR with a repeating non-empty key is unsealed to its
  subject, whenever it is neither an encrypted envelope nor itself readable as a credential.
\<close>

theorem unseal_legacy_record:
  assumes "key \<noteq> []" "raw = xor_cycle m key"
    and "take 5 raw \<noteq> WALLET_RECORD_MAGIC"
    and "parse_credential_subject P raw cid = Inl err"
    and "from_slice (json_parse P) dec_subject m = Inr subject"
  shows "unseal_and_derive_witness_with_credential_id P raw key seed cid =
    Inr (witness_of P seed subject)"
proof -
  from assms(3) have "decrypt_wallet_record P raw key =
      Inl (ExecutionFailed ''Invalid wallet record envelope'')"
    by (simp add: decrypt_wallet_record_def Let_def)
  moreover have "xor_cycle raw key = m"
    using assms(1,2) by (simp add: xor_cycle_involution)
  ultimately show ?thesis
    using assms(4,5) by (simp add: unseal_cases)
qed

definition example_subject :: json where
  "example_subject = JObject
     [(''user_clearance_level'', JNumber (PosInt 4)), (''user_role_scalar'', JString ''7''),
      (''subject_did'', JString ''did:b''), (''credential_id'', JString ''c2'')]"

definition example_legacy_parser :: json_parser where
  "example_legacy_parser bs = (if bs = [3, 4] then Inr example_subject else Inl (JsonSyntax ''x''))"

lemma dec_example_subject:
  "dec_subject example_subject = Inr \<lparr>dcs_user_clearance_level = 4, dcs_user_role_scalar = ''7'',
     dcs_subject_did = ''did:b'', dcs_credential_id = ''c2''\<rparr>"
  by (simp add: dec_subject_def example_subject_def field_defs dec_defs)

theorem unseal_legacy_record_witness:
  "unseal_and_derive_witness_with_credential_id (plain_prims example_legacy_parser) [2, 5] [1]
     (replicate 32 1) None =
   Inr (witness_of (plain_prims example_legacy_parser) (replicate 32 1)
     \<lparr>dcs_user_clearance_level = 4, dcs_user_role_scalar = ''7'', dcs_subject_did = ''did:b'',
      dcs_credential_id = ''c2''\<rparr>)"
proof (rule unseal_legacy_record [where m = "[3, 4]"])
  show "[2, 5] = xor_cycle [3, 4] [1]"
    by (simp add: xor_cycle_def upt_rec)
  show "parse_credential_subject (plain_prims example_legacy_parser) [2, 5] None =
      Inl (ExecutionFailed (''Credential record is not valid JSON: json error''))"
    by (simp add: parse_credential_subject_def from_slice_def plain_prims_def
        example_legacy_parser_def)
  show "from_slice (json_parse (plain_prims example_legacy_parser)) dec_subject [3, 4] =
      Inr \<lparr>dcs_user_clearance_level = 4, dcs_user_role_scalar = ''7'', dcs_subject_did = ''did:b'',
        dcs_credential_id = ''c2''\<rparr>"
    by (simp add: from_slice_def plain_prims_def example_legacy_parser_def dec_example_subject)
qed (simp_all add: WALLET_RECORD_MAGIC_def as_bytes_def)

text \<open>
  No key is needed for a cleartext record: bytes that parse as a credential subject and do
  not start with the magic are accepted under every wallet key, and the derived witness carries
  the clearance level written in them.
\<close>

theorem cleartext_record_accepted:
  assumes "take 5 raw \<noteq> WALLET_RECORD_MAGIC"
    and "from_slice (json_parse P) dec_subject raw = Inr subject"
  shows "\<forall>key. unseal_and_derive_witness_with_credential_id P raw key seed cid =
    Inr (witness_of P seed subject)"
proof
  fix key
  from assms(1) have "decrypt_wallet_record P raw key =
      Inl (ExecutionFailed ''Invalid wallet record envelope'')"
    by (simp add: decrypt_wallet_record_def Let_def)
  with assms(2) show "unseal_and_derive_witness_with_credential_id P raw key seed cid =
      Inr (witness_of P seed subject)"
    by (simp add: unseal_cases parse_credential_subject_def)
qed

theorem cleartext_record_accepted_witness:
  "\<forall>key. unseal_and_derive_witness_with_credential_id (plain_prims example_legacy_parser) [3, 4]
     key (replicate 32 1) None =
   Inr (witness_of (plain_prims example_legacy_parser) (replicate 32 1)
     \<lparr>dcs_user_clearance_level = 4, dcs_user_role_scalar = ''7'', dcs_subject_did = ''did:b'',
      dcs_credential_id = ''c2''\<rparr>)"
  by (rule cleartext_record_accepted)
    (simp_all add: WALLET_RECORD_MAGIC_def as_bytes_def from_slice_def plain_prims_def
      example_legacy_parser_def dec_example_subject)

text \<open>
  The nullifier hashes the DID and the credential id without a separator: moving characters
  between the two leaves it unchanged.
\<close>

lemma nullifier_concatenation:
  "derive_nullifier P (a @ b) c seed = derive_nullifier P a (b @ c) seed"
  by (simp add: derive_nullifier_def)

end
