(* ===== verification/Wallet.thy ===== *)
theory Wallet
  imports ZkpCore Models
begin

text \<open>
  \<open>src/dzta-wallet/src/lib.rs\<close>: the holder's local credential store on top of Askar. The wallet
  keeps the open store and the passphrase; \<open>initialize\<close> returns the updated wallet. Askar, the
  file system, the random generator and the clock are the record \<open>askar\<close>; what is relied on of it
  is \<open>askar_law\<close>, stated on the entries \<open>contents s w\<close> a store holds in a world: a session of a
  store sees its entries, \<open>insert\<close> adds an entry that was not there, \<open>replace\<close> overwrites one.

  The interface the rest of the program uses is the locale \<open>keyed_vault\<close>.
\<close>

type_synonym entry_tags = "(string \<times> string) list"
type_synonym entries = "string \<times> string \<rightharpoonup> bytes \<times> entry_tags"

record ('s, 't, 'w) askar =
  path_exists :: "string \<Rightarrow> 'w \<Rightarrow> bool"
  create_dir_all :: "string \<Rightarrow> ('w, string, unit) io"
  store_open :: "string \<Rightarrow> string \<Rightarrow> ('w, string, 's) io"
  store_provision :: "string \<Rightarrow> string \<Rightarrow> ('w, string, 's) io"
  store_session :: "'s \<Rightarrow> ('w, string, 't) io"
  session_fetch :: "'t \<Rightarrow> string \<Rightarrow> string \<Rightarrow> ('w, string, bytes option) io"
  session_insert :: "'t \<Rightarrow> string \<Rightarrow> string \<Rightarrow> bytes \<Rightarrow> entry_tags \<Rightarrow> ('w, string, unit) io"
  session_replace :: "'t \<Rightarrow> string \<Rightarrow> string \<Rightarrow> bytes \<Rightarrow> entry_tags \<Rightarrow> ('w, string, unit) io"
  session_commit :: "'t \<Rightarrow> ('w, string, unit) io"
  getrandom :: "nat \<Rightarrow> ('w, string, bytes) io"
  utc_now :: "'w \<Rightarrow> nat"
  to_rfc3339 :: "nat \<Rightarrow> string"
  value_print :: "json \<Rightarrow> bytes"

record 's wallet =
  askar_store_path :: string
  askar_store :: "'s option"
  askar_passphrase :: "string option"

type_synonym ('w, 'a) store_io = "('w, wallet_error, 'a) io"

definition Wallet_new :: "string \<Rightarrow> 's wallet" where
  "Wallet_new p = \<lparr>askar_store_path = p, askar_store = None, askar_passphrase = None\<rparr>"

definition storage :: "('w, string, 'a) io \<Rightarrow> ('w, 'a) store_io" where
  "storage op = io_map_err StorageError op"

definition store_of :: "'s wallet \<Rightarrow> ('w, 's) store_io" where
  "store_of wal = io_lift (ok_or (StorageError ''Askar store not initialized'') (askar_store wal))"

definition db_uri :: "string \<Rightarrow> string" where
  "db_uri p = (if starts_with ''file:'' p \<or> contains_str ''://'' p then p else ''sqlite://'' @ p)"

definition initialize ::
  "('s, 't, 'w) askar \<Rightarrow> 's wallet \<Rightarrow> string \<Rightarrow> ('w, 's wallet) store_io" where
  "initialize A wal pass_key =
     io_bind (case path_parent (askar_store_path wal) of
         Some parent \<Rightarrow> io_map_err (\<lambda>e. StorageError (''Directory provisioning failed: '' @ e))
           (create_dir_all A parent)
       | None \<Rightarrow> io_return ()) (\<lambda>_.
     io_bind (io_map_err (\<lambda>e. StorageError (''Askar initialization failed: '' @ e))
       (\<lambda>w. if path_exists A (askar_store_path wal) w
         then store_open A (db_uri (askar_store_path wal)) pass_key w
         else store_provision A (db_uri (askar_store_path wal)) pass_key w)) (\<lambda>store.
     io_return (wal\<lparr>askar_store := Some store, askar_passphrase := Some pass_key\<rparr>)))"

definition get_askar_passphrase :: "'s wallet \<Rightarrow> bytes wallet_result" where
  "get_askar_passphrase wal = ok_or (StorageError ''Askar store passphrase not cached'')
     (map_option as_bytes (askar_passphrase wal))"

definition fetch_entry ::
  "('s, 't, 'w) askar \<Rightarrow> 's wallet \<Rightarrow> wallet_error \<Rightarrow> string \<Rightarrow> string \<Rightarrow> ('w, 't \<times> bytes) store_io" where
  "fetch_entry A wal absent category k =
     io_bind (store_of wal) (\<lambda>store.
     io_bind (storage (store_session A store)) (\<lambda>session.
     io_bind (storage (session_fetch A session category k)) (\<lambda>entry.
     io_bind (io_lift (ok_or absent entry)) (\<lambda>value.
     io_return (session, value)))))"

definition fetch_raw_encrypted_record ::
  "('s, 't, 'w) askar \<Rightarrow> 's wallet \<Rightarrow> string \<Rightarrow> ('w, bytes) store_io" where
  "fetch_raw_encrypted_record A wal credential_id =
     io_bind (fetch_entry A wal (CredentialNotFound credential_id) ''credentials'' credential_id)
       (\<lambda>(_, value). io_return value)"

definition store_credential ::
  "'c prims \<Rightarrow> ('s, 't, 'w) askar \<Rightarrow> 's wallet \<Rightarrow> string \<Rightarrow> json \<Rightarrow> ('w, unit) store_io" where
  "store_credential P A wal credential_id credential_data =
     io_bind (store_of wal) (\<lambda>store.
     io_bind (io_lift (get_askar_passphrase wal)) (\<lambda>pass.
     io_bind (io_result (getrandom A 12)) (\<lambda>random.
     io_bind (io_lift (map_err (\<lambda>e. StorageError (wallet_error_display (fmt P) e))
       (encrypt_wallet_record P random (value_print A credential_data) pass))) (\<lambda>encrypted.
     io_bind (storage (store_session A store)) (\<lambda>session.
     io_bind (\<lambda>w. storage (session_insert A session ''credentials'' credential_id encrypted
       [(''stored_at'', to_rfc3339 A (utc_now A w)), (''revoked'', ''false'')]) w) (\<lambda>_.
     storage (session_commit A session)))))))"

definition get_credential ::
  "'c prims \<Rightarrow> ('s, 't, 'w) askar \<Rightarrow> 's wallet \<Rightarrow> string \<Rightarrow> ('w, json) store_io" where
  "get_credential P A wal credential_id =
     io_bind (fetch_entry A wal (CredentialNotFound credential_id) ''credentials'' credential_id)
       (\<lambda>(_, value).
     io_bind (io_lift (get_askar_passphrase wal)) (\<lambda>pass.
     io_bind (io_lift (map_err (\<lambda>e. StorageError (wallet_error_display (fmt P) e))
       (decrypt_wallet_record P value pass))) (\<lambda>cleartext.
     io_lift (map_err SerializationError (from_slice (json_parse P) dec_value cleartext)))))"

definition get_or_create_zkp_secret_seed ::
  "('s, 't, 'w) askar \<Rightarrow> 's wallet \<Rightarrow> ('w, bytes) store_io" where
  "get_or_create_zkp_secret_seed A wal =
     io_bind (store_of wal) (\<lambda>store.
     io_bind (storage (store_session A store)) (\<lambda>session.
     io_bind (storage (session_fetch A session ''keys'' ''master_zkp_seed'')) (\<lambda>entry.
     case entry of
       Some value \<Rightarrow> io_return value
     | None \<Rightarrow>
         io_bind (io_map_err (\<lambda>e. StorageError (''RNG generation failed: '' @ e)) (getrandom A 32)) (\<lambda>seed.
         io_bind (storage (session_insert A session ''keys'' ''master_zkp_seed'' seed [])) (\<lambda>_.
         io_bind (storage (session_commit A session)) (\<lambda>_.
         io_return seed))))))"

definition enclave_record :: "string \<Rightarrow> string \<Rightarrow> string \<Rightarrow> nat \<Rightarrow> json" where
  "enclave_record credential_id wallet_key_ciphertext master_seed_ciphertext now = JObject
     [(''credential_id'', JString credential_id),
      (''wallet_key_ciphertext'', JString wallet_key_ciphertext),
      (''master_seed_ciphertext'', JString master_seed_ciphertext),
      (''created_at'', json_of_i64 (int now))]"

definition store_enclave_vault_ciphertexts ::
  "('s, 't, 'w) askar \<Rightarrow> 's wallet \<Rightarrow> string \<Rightarrow> string \<Rightarrow> string \<Rightarrow> ('w, unit) store_io" where
  "store_enclave_vault_ciphertexts A wal credential_id wallet_key_ciphertext master_seed_ciphertext =
     io_bind (store_of wal) (\<lambda>store.
     io_bind (storage (store_session A store)) (\<lambda>session.
     io_bind (\<lambda>w. storage (session_insert A session ''enclave_secrets'' credential_id
       (value_print A (enclave_record credential_id wallet_key_ciphertext master_seed_ciphertext
          (utc_now A w))) []) w) (\<lambda>_.
     storage (session_commit A session))))"

definition fetch_enclave_vault_ciphertexts ::
  "'c prims \<Rightarrow> ('s, 't, 'w) askar \<Rightarrow> 's wallet \<Rightarrow> string \<Rightarrow> ('w, string \<times> string) store_io" where
  "fetch_enclave_vault_ciphertexts P A wal credential_id =
     io_bind (fetch_entry A wal (StorageError (''No enclave secrets found for credential: '' @ credential_id))
       ''enclave_secrets'' credential_id) (\<lambda>(_, value).
     io_lift (
       bind_res (map_err SerializationError (from_slice (json_parse P) dec_value value)) (\<lambda>v.
       bind_res (ok_or (StorageError ''Invalid wallet_key_ciphertext in Askar'')
         (as_str (json_index v ''wallet_key_ciphertext''))) (\<lambda>wallet_key_ciphertext.
       bind_res (ok_or (StorageError ''Invalid master_seed_ciphertext in Askar'')
         (as_str (json_index v ''master_seed_ciphertext''))) (\<lambda>master_seed_ciphertext.
       Inr (wallet_key_ciphertext, master_seed_ciphertext))))))"

definition provision_and_bind_vault ::
  "('s, 't, 'w) askar \<Rightarrow> 's wallet \<Rightarrow> string \<Rightarrow> string \<Rightarrow> string \<Rightarrow> string \<Rightarrow> ('w, 's wallet) store_io" where
  "provision_and_bind_vault A wal credential_id wallet_ciphertext seed_ciphertext unsealed_wallet_passkey =
     io_bind (initialize A wal unsealed_wallet_passkey) (\<lambda>wal'.
     io_bind (store_enclave_vault_ciphertexts A wal' credential_id wallet_ciphertext seed_ciphertext) (\<lambda>_.
     io_return wal'))"

definition unlock_with_vault_passkey ::
  "('s, 't, 'w) askar \<Rightarrow> 's wallet \<Rightarrow> string \<Rightarrow> ('w, 's wallet) store_io" where
  "unlock_with_vault_passkey A wal unsealed_passkey = initialize A wal unsealed_passkey"

definition proofable_fields_of :: "json \<Rightarrow> credential_attributes wallet_result" where
  "proofable_fields_of credential =
     bind_res (ok_or (InvalidWitness ''Missing credentialSubject'')
       (json_get ''credentialSubject'' credential)) (\<lambda>subject.
     bind_res (ok_or (InvalidWitness ''Missing userRoleId'')
       (Option.bind (json_get ''userRoleId'' subject) as_str)) (\<lambda>role.
     bind_res (ok_or (InvalidWitness ''Missing orgId'')
       (Option.bind (json_get ''orgId'' subject) as_str)) (\<lambda>org.
     bind_res (ok_or (InvalidWitness ''Missing clearanceLevel'')
       (Option.bind (json_get ''clearanceLevel'' subject) as_u64)) (\<lambda>level.
     bind_res (ok_or (InvalidWitness ''Missing timestamp'')
       (Option.bind (json_get ''timestamp'' subject) as_i64)) (\<lambda>ts.
     Inr \<lparr>user_role_id = role, org_id = org, clearance_level = level, timestamp = ts\<rparr>)))))"

definition extract_proofable_fields ::
  "'c prims \<Rightarrow> ('s, 't, 'w) askar \<Rightarrow> 's wallet \<Rightarrow> string \<Rightarrow> ('w, credential_attributes) store_io" where
  "extract_proofable_fields P A wal credential_id =
     io_bind (get_credential P A wal credential_id) (\<lambda>credential.
     io_lift (proofable_fields_of credential))"

definition mark_credential_revoked ::
  "('s, 't, 'w) askar \<Rightarrow> 's wallet \<Rightarrow> string \<Rightarrow> ('w, unit) store_io" where
  "mark_credential_revoked A wal credential_id =
     io_bind (fetch_entry A wal (CredentialNotFound credential_id) ''credentials'' credential_id)
       (\<lambda>(session, value).
     io_bind (\<lambda>w. storage (session_replace A session ''credentials'' credential_id value
       [(''revoked'', ''true''), (''revoked_at'', to_rfc3339 A (utc_now A w))]) w) (\<lambda>_.
     storage (session_commit A session)))"

section \<open>What is relied on\<close>

text \<open>
  \<open>contents s w\<close> are the entries of store \<open>s\<close> and \<open>owner t\<close> the store of session \<open>t\<close>. Reading never
  fails and changes nothing.
\<close>

definition askar_law ::
  "('s, 't, 'w) askar \<Rightarrow> ('s \<Rightarrow> 'w \<Rightarrow> entries) \<Rightarrow> ('t \<Rightarrow> 's) \<Rightarrow> bool" where
  "askar_law A contents owner \<longleftrightarrow>
     (\<forall>s w. \<exists>t w'. store_session A s w = (Inr t, w') \<and> owner t = s \<and> (\<forall>s'. contents s' w' = contents s' w)) \<and>
     (\<forall>t c k w. \<exists>w'. session_fetch A t c k w = (Inr (map_option fst (contents (owner t) w (c, k))), w') \<and>
        (\<forall>s'. contents s' w' = contents s' w)) \<and>
     (\<forall>t c k v tags w w'. session_insert A t c k v tags w = (Inr (), w') \<longrightarrow>
        contents (owner t) w (c, k) = None \<and>
        contents (owner t) w' = (contents (owner t) w)((c, k) \<mapsto> (v, tags))) \<and>
     (\<forall>t c k v tags w w'. session_replace A t c k v tags w = (Inr (), w') \<longrightarrow>
        contents (owner t) w' = (contents (owner t) w)((c, k) \<mapsto> (v, tags))) \<and>
     (\<forall>t w r w' s'. session_commit A t w = (r, w') \<longrightarrow> contents s' w' = contents s' w) \<and>
     (\<forall>n w r w' s'. getrandom A n w = (r, w') \<longrightarrow> contents s' w' = contents s' w \<and>
        (\<forall>bs. r = Inr bs \<longrightarrow> length bs = n))"

lemma askar_law_insert:
  "askar_law A contents owner \<Longrightarrow> session_insert A t c k v tags w = (Inr (), w') \<Longrightarrow>
     contents (owner t) w (c, k) = None \<and>
     contents (owner t) w' = (contents (owner t) w)((c, k) \<mapsto> (v, tags))"
  unfolding askar_law_def by (elim conjE) simp

lemma askar_law_replace:
  "askar_law A contents owner \<Longrightarrow> session_replace A t c k v tags w = (Inr (), w') \<Longrightarrow>
     contents (owner t) w' = (contents (owner t) w)((c, k) \<mapsto> (v, tags))"
  unfolding askar_law_def by (elim conjE) simp

lemma askar_law_commit:
  "askar_law A contents owner \<Longrightarrow> session_commit A t w = (r, w') \<Longrightarrow> contents s' w' = contents s' w"
  unfolding askar_law_def by (elim conjE) simp

lemma askar_law_random:
  "askar_law A contents owner \<Longrightarrow> getrandom A n w = (r, w') \<Longrightarrow>
     contents s' w' = contents s' w \<and> (\<forall>bs. r = Inr bs \<longrightarrow> length bs = n)"
  unfolding askar_law_def by (elim conjE) simp

lemma askar_law_session:
  assumes "askar_law A contents owner"
  obtains t w' where "store_session A s w = (Inr t, w')" "owner t = s" "\<And>s'. contents s' w' = contents s' w"
  using assms unfolding askar_law_def by metis

lemma askar_law_fetch:
  assumes "askar_law A contents owner"
  obtains w' where "session_fetch A t c k w = (Inr (map_option fst (contents (owner t) w (c, k))), w')"
    "\<forall>s'. contents s' w' = contents s' w"
  using assms unfolding askar_law_def by metis

section \<open>Reading\<close>

lemma fetch_entry_eq:
  assumes law: "askar_law A contents owner" and st: "askar_store wal = Some s"
  obtains t w' where "owner t = s" "\<forall>s'. contents s' w' = contents s' w"
    "fetch_entry A wal absent c k w =
       (case contents s w (c, k) of None \<Rightarrow> Inl absent | Some (v, _) \<Rightarrow> Inr (t, v), w')"
proof -
  obtain t w1 where t: "store_session A s w = (Inr t, w1)" "owner t = s"
    and c1: "\<And>s'. contents s' w1 = contents s' w"
    using askar_law_session [OF law] by metis
  obtain w2 where f: "session_fetch A t c k w1 = (Inr (map_option fst (contents (owner t) w1 (c, k))), w2)"
    and c2: "\<forall>s'. contents s' w2 = contents s' w1"
    using askar_law_fetch [OF law] by metis
  have "fetch_entry A wal absent c k w =
       (case contents s w (c, k) of None \<Rightarrow> Inl absent | Some (v, _) \<Rightarrow> Inr (t, v), w2)"
    using f unfolding fetch_entry_def store_of_def storage_def st
    by (auto simp: res_simps t c1 split: option.split)
  with t(2) c1 c2 show thesis using that by metis
qed

text \<open>What the wallet reads under an identifier, as a function of the entries.\<close>

definition read_credential :: "'c prims \<Rightarrow> string \<Rightarrow> entries \<Rightarrow> string \<Rightarrow> json wallet_result" where
  "read_credential P pass m c =
     (case m (''credentials'', c) of
        None \<Rightarrow> Inl (CredentialNotFound c)
      | Some (v, _) \<Rightarrow>
          bind_res (map_err (\<lambda>e. StorageError (wallet_error_display (fmt P) e))
            (decrypt_wallet_record P v (as_bytes pass))) (\<lambda>cleartext.
          map_err SerializationError (from_slice (json_parse P) dec_value cleartext)))"

lemma get_credential_eq:
  assumes law: "askar_law A contents owner" and st: "askar_store wal = Some s"
    and pw: "askar_passphrase wal = Some pass"
  shows "\<exists>w'. get_credential P A wal c w = (read_credential P pass (contents s w) c, w') \<and>
    (\<forall>s'. contents s' w' = contents s' w)"
proof -
  obtain t w' where "owner t = s" and t: "\<forall>s'. contents s' w' = contents s' w"
    "fetch_entry A wal (CredentialNotFound c) ''credentials'' c w =
       (case contents s w (''credentials'', c) of None \<Rightarrow> Inl (CredentialNotFound c)
          | Some (v, _) \<Rightarrow> Inr (t, v), w')"
    by (rule fetch_entry_eq [OF law st, where w = w and absent = "CredentialNotFound c"
        and c = "''credentials''" and k = c])
  show ?thesis
  proof (cases "contents s w (''credentials'', c)")
    case None
    then show ?thesis using t by (simp add: get_credential_def res_simps read_credential_def)
  next
    case (Some e)
    then show ?thesis using t
      by (cases e) (simp add: get_credential_def res_simps read_credential_def pw
          get_askar_passphrase_def split: sum.split)
  qed
qed

section \<open>Storing\<close>

lemma store_credential_Inr:
  assumes law: "askar_law A contents owner" and st: "askar_store wal = Some s"
    and pw: "askar_passphrase wal = Some pass"
    and run: "store_credential P A wal c v w = (Inr (), w')"
  shows "\<exists>nonce env tags. length nonce = 12 \<and>
    encrypt_wallet_record P (Inr nonce) (value_print A v) (as_bytes pass) = Inr env \<and>
    contents s w (''credentials'', c) = None \<and>
    contents s w' = (contents s w)((''credentials'', c) \<mapsto> (env, tags))"
proof -
  from run st pw obtain random w1 env t w2 tags w3 where
    r: "getrandom A 12 w = (random, w1)"
    and e: "encrypt_wallet_record P random (value_print A v) (as_bytes pass) = Inr env"
    and t: "store_session A s w1 = (Inr t, w2)"
    and i: "session_insert A t ''credentials'' c env tags w2 = (Inr (), w3)"
    and c: "session_commit A t w3 = (Inr (), w')"
    unfolding store_credential_def store_of_def storage_def get_askar_passphrase_def
    by (auto simp: io_Inr io_result_def split: prod.splits)
  from e obtain nonce where n: "random = Inr nonce"
    by (cases random) (auto simp: encrypt_wallet_record_def Let_def)
  from t have "owner t = s" "contents s w2 = contents s w1"
    using askar_law_session [OF law, of s w1] by (metis Pair_inject sum.inject(2))+
  then show ?thesis
    using askar_law_random [OF law r] askar_law_insert [OF law i] askar_law_commit [OF law c] e n
    by (intro exI [of _ nonce] exI [of _ env] exI [of _ tags]) auto
qed

section \<open>The interface\<close>

locale keyed_vault =
  fixes put :: "string \<Rightarrow> 'v \<Rightarrow> ('w, 'e, unit) io"
    and look :: "string \<Rightarrow> 'w \<Rightarrow> 'e + 'v"
    and storable :: "'v \<Rightarrow> bool"
  assumes put_look: "storable v \<Longrightarrow> put c v w = (Inr (), w') \<Longrightarrow> look c w' = Inr v"
    and put_other: "put c v w = (Inr (), w') \<Longrightarrow> d \<noteq> c \<Longrightarrow> look d w' = look d w"
    and put_fresh: "put c v w = (Inr (), w') \<Longrightarrow> \<exists>e. look c w = Inl e"
begin

primrec put_all :: "(string \<times> 'v) list \<Rightarrow> ('w, 'e, unit) io" where
  "put_all [] = io_return ()"
| "put_all (cv # cvs) = io_bind (put (fst cv) (snd cv)) (\<lambda>_. put_all cvs)"

lemma put_all_kept:
  "put_all cvs w = (Inr (), w') \<Longrightarrow> look c w = Inr v \<Longrightarrow> look c w' = Inr v \<and> c \<notin> fst ` set cvs"
proof (induction cvs arbitrary: w)
  case Nil
  then show ?case by (simp add: res_simps)
next
  case (Cons cv cvs)
  then obtain w1 where w1: "put (fst cv) (snd cv) w = (Inr (), w1)" "put_all cvs w1 = (Inr (), w')"
    by (auto simp: io_Inr)
  from put_fresh [OF w1(1)] Cons.prems(2) have "c \<noteq> fst cv" by auto
  with put_other [OF w1(1)] Cons.prems(2) have "look c w1 = Inr v" by simp
  with Cons.IH [OF w1(2)] \<open>c \<noteq> fst cv\<close> show ?case by auto
qed

lemma put_all_look:
  "put_all cvs w = (Inr (), w') \<Longrightarrow> (\<forall>(c, v)\<in>set cvs. storable v) \<Longrightarrow>
     distinct (map fst cvs) \<and> (\<forall>(c, v)\<in>set cvs. look c w' = Inr v)"
proof (induction cvs arbitrary: w)
  case Nil
  then show ?case by simp
next
  case (Cons cv cvs)
  then obtain w1 where w1: "put (fst cv) (snd cv) w = (Inr (), w1)" "put_all cvs w1 = (Inr (), w')"
    by (auto simp: io_Inr)
  have "look (fst cv) w1 = Inr (snd cv)"
    using put_look [OF _ w1(1)] Cons.prems(2) by (auto split: prod.splits)
  with put_all_kept [OF w1(2)] Cons.IH [OF w1(2)] Cons.prems(2) show ?case by auto
qed

end

section \<open>The wallet provides it\<close>

lemma wallet_keyed_vault:
  assumes law: "askar_law A contents owner" and st: "askar_store wal = Some s"
    and pw: "askar_passphrase wal = Some pass"
    and P: "sha_law P" "gcm_law P" "print_parse_law (value_print A) (json_parse P)"
  shows "keyed_vault (store_credential P A wal) (\<lambda>c w. fst (get_credential P A wal c w)) json_wf"
proof
  fix c v w w'
  have look: "fst (get_credential P A wal d u) = read_credential P pass (contents s u) d" for d u
    using get_credential_eq [OF law st pw, of P d u] by auto
  assume run: "store_credential P A wal c v w = (Inr (), w')"
  obtain nonce env tags where n: "length nonce = 12"
    "encrypt_wallet_record P (Inr nonce) (value_print A v) (as_bytes pass) = Inr env"
    and c: "contents s w (''credentials'', c) = None"
    "contents s w' = (contents s w)((''credentials'', c) \<mapsto> (env, tags))"
    using store_credential_Inr [OF law st pw run] by blast
  have dec: "decrypt_wallet_record P env (as_bytes pass) = Inr (value_print A v)"
    using encrypted_record_decrypts [OF P(1,2) n] .
  show "fst (get_credential P A wal c w') = Inr v" if "json_wf v"
    using that P(3) by (simp add: look read_credential_def c dec from_slice_def dec_value_def
        print_parse_law_def)
  show "fst (get_credential P A wal d w') = fst (get_credential P A wal d w)" if "d \<noteq> c" for d
    using that by (simp add: look read_credential_def c)
  show "\<exists>e. fst (get_credential P A wal c w) = Inl e"
    by (simp add: look read_credential_def c)
qed

text \<open>The enclave secrets, likewise.\<close>

definition read_ciphertexts :: "'c prims \<Rightarrow> entries \<Rightarrow> string \<Rightarrow> (string \<times> string) wallet_result" where
  "read_ciphertexts P m c =
     (case m (''enclave_secrets'', c) of
        None \<Rightarrow> Inl (StorageError (''No enclave secrets found for credential: '' @ c))
      | Some (value, _) \<Rightarrow>
          bind_res (map_err SerializationError (from_slice (json_parse P) dec_value value)) (\<lambda>v.
          bind_res (ok_or (StorageError ''Invalid wallet_key_ciphertext in Askar'')
            (as_str (json_index v ''wallet_key_ciphertext''))) (\<lambda>a.
          bind_res (ok_or (StorageError ''Invalid master_seed_ciphertext in Askar'')
            (as_str (json_index v ''master_seed_ciphertext''))) (\<lambda>b.
          Inr (a, b)))))"

lemma fetch_ciphertexts_eq:
  assumes law: "askar_law A contents owner" and st: "askar_store wal = Some s"
  shows "\<exists>w'. fetch_enclave_vault_ciphertexts P A wal c w = (read_ciphertexts P (contents s w) c, w')"
proof -
  obtain t w' where "owner t = s" "\<forall>s'. contents s' w' = contents s' w" and t: "fetch_entry A wal
      (StorageError (''No enclave secrets found for credential: '' @ c)) ''enclave_secrets'' c w =
       (case contents s w (''enclave_secrets'', c) of
          None \<Rightarrow> Inl (StorageError (''No enclave secrets found for credential: '' @ c))
        | Some (v, _) \<Rightarrow> Inr (t, v), w')"
    by (rule fetch_entry_eq [OF law st, where w = w and c = "''enclave_secrets''" and k = c
        and absent = "StorageError (''No enclave secrets found for credential: '' @ c)"])
  then show ?thesis
    by (cases "contents s w (''enclave_secrets'', c)")
      (auto simp: fetch_enclave_vault_ciphertexts_def io_bind_def io_lift_def read_ciphertexts_def)
qed

lemma store_ciphertexts_Inr:
  assumes law: "askar_law A contents owner" and st: "askar_store wal = Some s"
    and run: "store_enclave_vault_ciphertexts A wal c a b w = (Inr (), w')"
  shows "\<exists>now. contents s w (''enclave_secrets'', c) = None \<and>
    contents s w' = (contents s w)((''enclave_secrets'', c) \<mapsto> (value_print A (enclave_record c a b now), []))"
proof -
  from run st obtain t w1 now w2 where t: "store_session A s w = (Inr t, w1)"
    and i: "session_insert A t ''enclave_secrets'' c (value_print A (enclave_record c a b now)) [] w1 =
      (Inr (), w2)"
    and c: "session_commit A t w2 = (Inr (), w')"
    unfolding store_enclave_vault_ciphertexts_def store_of_def storage_def by (auto simp: io_Inr)
  from t have "owner t = s" "contents s w1 = contents s w"
    using askar_law_session [OF law, of s w] by (metis Pair_inject sum.inject(2))+
  then show ?thesis
    using askar_law_insert [OF law i] askar_law_commit [OF law c] by (intro exI [of _ now]) auto
qed

lemma enclave_keyed_vault:
  assumes law: "askar_law A contents owner" and st: "askar_store wal = Some s"
    and P: "print_parse_law (value_print A) (json_parse P)"
  shows "keyed_vault (\<lambda>c (a, b). store_enclave_vault_ciphertexts A wal c a b)
    (\<lambda>c w. fst (fetch_enclave_vault_ciphertexts P A wal c w)) (\<lambda>_. True)"
proof
  fix c w w' and v :: "string \<times> string"
  obtain a b where v: "v = (a, b)" by (cases v)
  have look: "fst (fetch_enclave_vault_ciphertexts P A wal d u) = read_ciphertexts P (contents s u) d" for d u
    using fetch_ciphertexts_eq [OF law st, of P d u] by auto
  assume "(case v of (a, b) \<Rightarrow> store_enclave_vault_ciphertexts A wal c a b) w = (Inr (), w')"
  then obtain now where c: "contents s w (''enclave_secrets'', c) = None"
    "contents s w' = (contents s w)((''enclave_secrets'', c) \<mapsto> (value_print A (enclave_record c a b now), []))"
    using store_ciphertexts_Inr [OF law st, of c a b w w'] v by auto
  have "json_wf (enclave_record c a b now)" by (simp add: enclave_record_def)
  then have "json_parse P (value_print A (enclave_record c a b now)) = Inr (enclave_record c a b now)"
    using P by (simp add: print_parse_law_def)
  then show "fst (fetch_enclave_vault_ciphertexts P A wal c w') = Inr v"
    unfolding look c read_ciphertexts_def v
    by (simp add: from_slice_def dec_value_def) (simp add: enclave_record_def json_index_def)
  show "fst (fetch_enclave_vault_ciphertexts P A wal d w') =
      fst (fetch_enclave_vault_ciphertexts P A wal d w)" if "d \<noteq> c" for d
    using that by (simp add: look read_ciphertexts_def c)
  show "\<exists>e. fst (fetch_enclave_vault_ciphertexts P A wal c w) = Inl e"
    by (simp add: look read_ciphertexts_def c)
qed

section \<open>A store in memory\<close>

definition mem_askar :: "(unit, unit, entries) askar" where
  "mem_askar = \<lparr>path_exists = (\<lambda>_ _. True), create_dir_all = (\<lambda>_. io_return ()),
     store_open = (\<lambda>_ _. io_return ()), store_provision = (\<lambda>_ _. io_return ()),
     store_session = io_return, session_fetch = (\<lambda>_ c k m. (Inr (map_option fst (m (c, k))), m)),
     session_insert = (\<lambda>_ c k v tags m. case m (c, k) of
         None \<Rightarrow> (Inr (), m((c, k) \<mapsto> (v, tags))) | Some _ \<Rightarrow> (Inl ''Duplicate entry'', m)),
     session_replace = (\<lambda>_ c k v tags m. (Inr (), m((c, k) \<mapsto> (v, tags)))),
     session_commit = (\<lambda>_. io_return ()), getrandom = (\<lambda>n. io_return (replicate n 7)),
     utc_now = (\<lambda>_. 5), to_rfc3339 = show_nat, value_print = unary_print\<rparr>"

lemma mem_askar_law: "askar_law mem_askar (\<lambda>_ m. m) id"
  by (simp add: askar_law_def mem_askar_def io_return_def split: option.split)

definition mem_wallet :: "unit wallet" where
  "mem_wallet = \<lparr>askar_store_path = ''w'', askar_store = Some (), askar_passphrase = Some ''pw''\<rparr>"

definition mem_prims :: "unit prims" where
  "mem_prims = plain_prims unary_parse"

lemma mem_prims_laws: "sha_law mem_prims" "gcm_law mem_prims"
  "print_parse_law (value_print mem_askar) (json_parse mem_prims)"
  by (simp_all add: mem_prims_def plain_prims_laws)
    (simp add: plain_prims_def mem_askar_def unary_law)

lemma mem_wallet_open: "askar_store mem_wallet = Some ()" "askar_passphrase mem_wallet = Some ''pw''"
  by (simp_all add: mem_wallet_def)

interpretation credentials: keyed_vault
  "store_credential mem_prims mem_askar mem_wallet"
  "\<lambda>c w. fst (get_credential mem_prims mem_askar mem_wallet c w)" json_wf
  by (rule wallet_keyed_vault [OF mem_askar_law mem_wallet_open mem_prims_laws])

interpretation secrets: keyed_vault
  "\<lambda>c (a, b). store_enclave_vault_ciphertexts mem_askar mem_wallet c a b"
  "\<lambda>c w. fst (fetch_enclave_vault_ciphertexts mem_prims mem_askar mem_wallet c w)" "\<lambda>_. True"
  by (rule enclave_keyed_vault [OF mem_askar_law mem_wallet_open(1) mem_prims_laws(3)])

section \<open>Properties\<close>

primrec store_credentials ::
  "'c prims \<Rightarrow> ('s, 't, 'w) askar \<Rightarrow> 's wallet \<Rightarrow> (string \<times> json) list \<Rightarrow> ('w, unit) store_io" where
  "store_credentials P A wal [] = io_return ()"
| "store_credentials P A wal (cv # cvs) =
     io_bind (store_credential P A wal (fst cv) (snd cv)) (\<lambda>_. store_credentials P A wal cvs)"

lemma store_credentials_put_all:
  assumes "keyed_vault (store_credential P A wal) look ok"
  shows "store_credentials P A wal cvs = keyed_vault.put_all (store_credential P A wal) cvs"
  by (induction cvs) (simp_all add: keyed_vault.put_all.simps [OF assms])

text \<open>
  C27. The wallet keeps what it stored: after any sequence of successful stores, the identifiers
  were all different and every credential is read back unchanged, through encryption under the
  wallet's passphrase and the printed form in the database.
\<close>

theorem stored_credentials_read_back:
  assumes "askar_law A contents owner" "askar_store wal = Some s" "askar_passphrase wal = Some pass"
    and "sha_law P" "gcm_law P" "print_parse_law (value_print A) (json_parse P)"
    and "store_credentials P A wal cvs w = (Inr (), w')" "\<forall>(c, v)\<in>set cvs. json_wf v"
  shows "distinct (map fst cvs) \<and> (\<forall>(c, v)\<in>set cvs. fst (get_credential P A wal c w') = Inr v)"
proof -
  note kv = wallet_keyed_vault [OF assms(1-6)]
  from assms(7) show ?thesis
    unfolding store_credentials_put_all [OF kv]
    by (rule keyed_vault.put_all_look [OF kv _ assms(8)])
qed

lemma mem_askar_ops:
  "getrandom mem_askar n m = (Inr (replicate n 7), m)" "store_session mem_askar u m = (Inr u, m)"
  "session_insert mem_askar t c k v tags m = (case m (c, k) of
     None \<Rightarrow> (Inr (), m((c, k) \<mapsto> (v, tags))) | Some _ \<Rightarrow> (Inl ''Duplicate entry'', m))"
  "session_replace mem_askar t c k v tags m = (Inr (), m((c, k) \<mapsto> (v, tags)))"
  "session_fetch mem_askar t c k m = (Inr (map_option fst (m (c, k))), m)"
  "session_commit mem_askar t m = (Inr (), m)" "value_print mem_askar = unary_print"
  by (simp_all add: mem_askar_def io_return_def)

lemma mem_store:
  assumes "m (''credentials'', c) = None"
  shows "\<exists>e. store_credential mem_prims mem_askar mem_wallet c v m = (Inr (), m((''credentials'', c) \<mapsto> e))"
proof -
  obtain env where "encrypt_wallet_record mem_prims (Inr (replicate 12 7)) (unary_print v) (as_bytes ''pw'') = Inr env"
    using encrypt_succeeds [OF mem_prims_laws(1,2), of "replicate 12 7"] by fastforce
  with assms show ?thesis
    by (auto simp: store_credential_def store_of_def storage_def res_simps mem_wallet_open
        get_askar_passphrase_def mem_askar_ops)
qed

theorem stored_credentials_read_back_witness:
  "\<exists>w'. store_credentials mem_prims mem_askar mem_wallet
       [(''c1'', JString ''a''), (''c2'', JNull)] Map.empty = (Inr (), w') \<and>
     fst (get_credential mem_prims mem_askar mem_wallet ''c1'' w') = Inr (JString ''a'')"
proof -
  have "\<exists>w'. store_credentials mem_prims mem_askar mem_wallet
      [(''c1'', JString ''a''), (''c2'', JNull)] Map.empty = (Inr (), w')"
  proof -
    obtain e1 where e1: "store_credential mem_prims mem_askar mem_wallet ''c1'' (JString ''a'') Map.empty =
        (Inr (), [(''credentials'', ''c1'') \<mapsto> e1])"
      using mem_store [of Map.empty "''c1''" "JString ''a''"] by auto
    obtain e2 where "store_credential mem_prims mem_askar mem_wallet ''c2'' JNull
        [(''credentials'', ''c1'') \<mapsto> e1] =
        (Inr (), [(''credentials'', ''c1'') \<mapsto> e1, (''credentials'', ''c2'') \<mapsto> e2])"
      using mem_store [of "[(''credentials'', ''c1'') \<mapsto> e1]" "''c2''" JNull] by auto
    with e1 show ?thesis by (simp add: res_simps)
  qed
  then obtain w' where run: "store_credentials mem_prims mem_askar mem_wallet
      [(''c1'', JString ''a''), (''c2'', JNull)] Map.empty = (Inr (), w')" ..
  from stored_credentials_read_back [OF mem_askar_law mem_wallet_open mem_prims_laws run] run
  show ?thesis by auto
qed

text \<open>
  The two Vault ciphertexts stored for a credential come back exactly, whatever was stored
  for other credentials before and after; storing a second pair for the same credential fails.
\<close>

theorem enclave_ciphertexts_roundtrip:
  assumes "askar_law A contents owner" "askar_store wal = Some s"
    and "print_parse_law (value_print A) (json_parse P)"
    and "store_enclave_vault_ciphertexts A wal c a b w = (Inr (), w1)"
    and "d \<noteq> c" "store_enclave_vault_ciphertexts A wal d x y w1 = (Inr (), w2)"
  shows "fst (fetch_enclave_vault_ciphertexts P A wal c w2) = Inr (a, b) \<and>
    fst (fetch_enclave_vault_ciphertexts P A wal d w2) = Inr (x, y) \<and>
    (\<forall>e f w3. store_enclave_vault_ciphertexts A wal c e f w2 \<noteq> (Inr (), w3))"
proof -
  note kv = enclave_keyed_vault [OF assms(1-3)]
  have 1: "fst (fetch_enclave_vault_ciphertexts P A wal c w1) = Inr (a, b)"
    using keyed_vault.put_look [OF kv, where v = "(a, b)" and c = c and w = w and w' = w1] assms(4) by simp
  then have 2: "fst (fetch_enclave_vault_ciphertexts P A wal c w2) = Inr (a, b)"
    using keyed_vault.put_other [OF kv, where c = d and v = "(x, y)" and w = w1 and w' = w2 and d = c] assms(5,6) by simp
  moreover have "fst (fetch_enclave_vault_ciphertexts P A wal d w2) = Inr (x, y)"
    using keyed_vault.put_look [OF kv, where v = "(x, y)" and c = d and w = w1 and w' = w2] assms(6) by simp
  moreover have "store_enclave_vault_ciphertexts A wal c e f w2 \<noteq> (Inr (), w3)" for e f w3
    using keyed_vault.put_fresh [OF kv, where c = c and v = "(e, f)" and w = w2 and w' = w3] 2 by auto
  ultimately show ?thesis by blast
qed

lemma mem_store_ciphertexts:
  assumes "m (''enclave_secrets'', c) = None"
  shows "\<exists>e. store_enclave_vault_ciphertexts mem_askar mem_wallet c a b m =
    (Inr (), m((''enclave_secrets'', c) \<mapsto> e))"
  using assms
  by (auto simp: store_enclave_vault_ciphertexts_def store_of_def storage_def res_simps
      mem_wallet_open mem_askar_ops)

theorem enclave_ciphertexts_roundtrip_witness:
  "\<exists>w2. fst (fetch_enclave_vault_ciphertexts mem_prims mem_askar mem_wallet ''c1'' w2) = Inr (''a'', ''b'')"
proof -
  obtain e where 1: "store_enclave_vault_ciphertexts mem_askar mem_wallet ''c1'' ''a'' ''b'' Map.empty =
      (Inr (), [(''enclave_secrets'', ''c1'') \<mapsto> e])"
    using mem_store_ciphertexts [of Map.empty "''c1''" "''a''" "''b''"] by auto
  obtain f where 2: "store_enclave_vault_ciphertexts mem_askar mem_wallet ''c2'' ''x'' ''y''
      [(''enclave_secrets'', ''c1'') \<mapsto> e] =
      (Inr (), [(''enclave_secrets'', ''c1'') \<mapsto> e, (''enclave_secrets'', ''c2'') \<mapsto> f])"
    using mem_store_ciphertexts [of "[(''enclave_secrets'', ''c1'') \<mapsto> e]" "''c2''" "''x''" "''y''"] by auto
  show ?thesis
    using enclave_ciphertexts_roundtrip [OF mem_askar_law mem_wallet_open(1) mem_prims_laws(3) 1 _ 2]
    by auto
qed

lemma stored_seed_returned:
  assumes law: "askar_law A contents owner" and st: "askar_store wal = Some s"
    and kept: "contents s u (''keys'', ''master_zkp_seed'') = Some (v, tags)"
  shows "fst (get_or_create_zkp_secret_seed A wal u) = Inr v"
proof -
  obtain t u1 where t: "store_session A s u = (Inr t, u1)" "owner t = s"
    and c: "\<And>s'. contents s' u1 = contents s' u"
    using askar_law_session [OF law] by metis
  obtain u2 where "session_fetch A t ''keys'' ''master_zkp_seed'' u1 =
      (Inr (map_option fst (contents (owner t) u1 (''keys'', ''master_zkp_seed''))), u2)"
    using askar_law_fetch [OF law] by metis
  then show ?thesis
    using t c kept by (simp add: get_or_create_zkp_secret_seed_def store_of_def storage_def st res_simps)
qed

lemma seed_call_Inr:
  assumes law: "askar_law A contents owner" and st: "askar_store wal = Some s"
    and run: "get_or_create_zkp_secret_seed A wal w = (Inr seed, w')"
  shows "\<exists>tags. contents s w' (''keys'', ''master_zkp_seed'') = Some (seed, tags)"
    and "contents s w (''keys'', ''master_zkp_seed'') = None \<Longrightarrow> length seed = 32"
    and "k \<noteq> (''keys'', ''master_zkp_seed'') \<Longrightarrow> contents s w' k = contents s w k"
proof -
  obtain t w1 where t: "store_session A s w = (Inr t, w1)" "owner t = s"
    and c1: "\<And>s'. contents s' w1 = contents s' w"
    using askar_law_session [OF law] by metis
  obtain w2 where f: "session_fetch A t ''keys'' ''master_zkp_seed'' w1 =
      (Inr (map_option fst (contents s w (''keys'', ''master_zkp_seed''))), w2)"
    and c2: "\<And>s'. contents s' w2 = contents s' w"
  proof -
    obtain w2 where "session_fetch A t ''keys'' ''master_zkp_seed'' w1 =
        (Inr (map_option fst (contents (owner t) w1 (''keys'', ''master_zkp_seed''))), w2)"
      "\<forall>s'. contents s' w2 = contents s' w1"
      by (rule askar_law_fetch [OF law, where t = t and c = "''keys''" and k = "''master_zkp_seed''" and w = w1])
    then show thesis using that t(2) c1 by simp
  qed
  have "(\<exists>tags. contents s w' (''keys'', ''master_zkp_seed'') = Some (seed, tags)) \<and>
    (contents s w (''keys'', ''master_zkp_seed'') = None \<longrightarrow> length seed = 32) \<and>
    (\<forall>k. k \<noteq> (''keys'', ''master_zkp_seed'') \<longrightarrow> contents s w' k = contents s w k)"
  proof (cases "contents s w (''keys'', ''master_zkp_seed'')")
    case (Some vt)
    then have "seed = fst vt" "w' = w2"
      using run t f by (simp_all add: get_or_create_zkp_secret_seed_def store_of_def storage_def st res_simps)
    then show ?thesis using Some c2 by (cases vt) simp
  next
    case None
    then obtain w3 w4 where r: "getrandom A 32 w2 = (Inr seed, w3)"
      and i: "session_insert A t ''keys'' ''master_zkp_seed'' seed [] w3 = (Inr (), w4)"
      and c: "session_commit A t w4 = (Inr (), w')"
      using run t f unfolding get_or_create_zkp_secret_seed_def store_of_def storage_def st
      by (auto simp: io_Inr)
    have "contents s w' = (contents s w)((''keys'', ''master_zkp_seed'') \<mapsto> (seed, []))" "length seed = 32"
      using askar_law_insert [OF law i] askar_law_commit [OF law c, of s] t(2) c2 askar_law_random [OF law r]
      by auto
    then show ?thesis by simp
  qed
  then show "\<exists>tags. contents s w' (''keys'', ''master_zkp_seed'') = Some (seed, tags)"
    and "contents s w (''keys'', ''master_zkp_seed'') = None \<Longrightarrow> length seed = 32"
    and "k \<noteq> (''keys'', ''master_zkp_seed'') \<Longrightarrow> contents s w' k = contents s w k" by blast+
qed

text \<open>
  The master seed is created once: the bytes of the first successful call are the ones every
  later call returns, and a freshly created seed has 32 bytes.
\<close>

theorem master_seed_stable:
  assumes law: "askar_law A contents owner" and st: "askar_store wal = Some s"
    and run: "get_or_create_zkp_secret_seed A wal w = (Inr seed, w')"
  shows "fst (get_or_create_zkp_secret_seed A wal w') = Inr seed \<and>
    (contents s w (''keys'', ''master_zkp_seed'') = None \<longrightarrow> length seed = 32)"
  using seed_call_Inr(1,2) [OF assms] stored_seed_returned [OF law st] by blast

theorem master_seed_stable_witness:
  "\<exists>w'. fst (get_or_create_zkp_secret_seed mem_askar mem_wallet w') = Inr (replicate 32 7)"
proof -
  have "\<exists>w'. get_or_create_zkp_secret_seed mem_askar mem_wallet Map.empty = (Inr (replicate 32 7), w')"
    by (simp add: get_or_create_zkp_secret_seed_def store_of_def storage_def res_simps
        mem_wallet_open mem_askar_ops)
  then show ?thesis
    using master_seed_stable [OF mem_askar_law mem_wallet_open(1)] by blast
qed

text \<open>Marking a credential revoked touches its tags only: what is read stays readable.\<close>

lemma mark_revoked_keeps_record:
  assumes law: "askar_law A contents owner" and st: "askar_store wal = Some s"
    and run: "mark_credential_revoked A wal c w = (Inr (), w')"
  shows "\<exists>v old tags. contents s w (''credentials'', c) = Some (v, old) \<and>
    contents s w' = (contents s w)((''credentials'', c) \<mapsto> (v, tags)) \<and> (''revoked'', ''true'') \<in> set tags"
proof -
  obtain t w1 where t: "owner t = s" "\<forall>s'. contents s' w1 = contents s' w"
    and f: "fetch_entry A wal (CredentialNotFound c) ''credentials'' c w =
       (case contents s w (''credentials'', c) of None \<Rightarrow> Inl (CredentialNotFound c)
          | Some (v, _) \<Rightarrow> Inr (t, v), w1)"
    by (rule fetch_entry_eq [OF law st, where w = w and absent = "CredentialNotFound c"
        and c = "''credentials''" and k = c])
  from run f obtain v old tags w2 where
    e: "contents s w (''credentials'', c) = Some (v, old)"
    and r: "session_replace A t ''credentials'' c v tags w1 = (Inr (), w2)"
    and tg: "(''revoked'', ''true'') \<in> set tags"
    and cm: "session_commit A t w2 = (Inr (), w')"
    unfolding mark_credential_revoked_def storage_def
    by (auto simp: io_Inr split: option.splits prod.splits)
  show ?thesis
    using askar_law_replace [OF law r] askar_law_commit [OF law cm, of s] t e tg by auto
qed

end
