(* ===== verification/SeedRace.thy ===== *)
theory SeedRace
  imports Wallet
begin

text \<open>
  Concurrent first use of the wallet. \<open>get_or_create_zkp_secret_seed\<close> of
  \<open>src/dzta-wallet/src/lib.rs\<close> takes the store under a read lock, so several tasks can be inside it
  at once, and each \<open>await\<close> is a point where another task may run. Here the routine is cut at its
  awaits: \<open>seed_pc\<close> is what a task has still to do and \<open>seed_step\<close> runs it to the next await.
  \<open>race_step\<close> lets any task make a step, or any other operation of the program change entries other
  than the seed.

  Results: cut and uncut routine compute the same, every task ends within five steps of its own, and
  in every interleaving all tasks that return a seed return the one that is stored.
\<close>

datatype 't seed_pc =
    Opening
  | Fetching 't
  | Drawing 't
  | Inserting 't bytes
  | Committing 't bytes
  | Finished "wallet_error + bytes"

definition awaiting :: "(wallet_error + 'a) \<times> 'w \<Rightarrow> ('a \<Rightarrow> 't seed_pc) \<Rightarrow> 't seed_pc \<times> 'w" where
  "awaiting rw k = (case rw of (Inl e, w) \<Rightarrow> (Finished (Inl e), w) | (Inr a, w) \<Rightarrow> (k a, w))"

fun seed_step :: "('s, 't, 'w) askar \<Rightarrow> 's wallet \<Rightarrow> 't seed_pc \<Rightarrow> 'w \<Rightarrow> 't seed_pc \<times> 'w" where
  "seed_step A wal Opening w =
     awaiting (io_bind (store_of wal) (\<lambda>store. storage (store_session A store)) w) Fetching"
| "seed_step A wal (Fetching session) w =
     awaiting (storage (session_fetch A session ''keys'' ''master_zkp_seed'') w)
       (\<lambda>entry. case entry of Some value \<Rightarrow> Finished (Inr value) | None \<Rightarrow> Drawing session)"
| "seed_step A wal (Drawing session) w =
     awaiting (io_map_err (\<lambda>e. StorageError (''RNG generation failed: '' @ e)) (getrandom A 32) w)
       (Inserting session)"
| "seed_step A wal (Inserting session seed) w =
     awaiting (storage (session_insert A session ''keys'' ''master_zkp_seed'' seed []) w)
       (\<lambda>_. Committing session seed)"
| "seed_step A wal (Committing session seed) w =
     awaiting (storage (session_commit A session) w) (\<lambda>_. Finished (Inr seed))"
| "seed_step A wal (Finished r) w = (Finished r, w)"

fun steps_left :: "'t seed_pc \<Rightarrow> nat" where
  "steps_left Opening = 5"
| "steps_left (Fetching t) = 4"
| "steps_left (Drawing t) = 3"
| "steps_left (Inserting t sd) = 2"
| "steps_left (Committing t sd) = 1"
| "steps_left (Finished r) = 0"

lemma steps_left_0 [simp]: "steps_left pc = 0 \<longleftrightarrow> (\<exists>r. pc = Finished r)"
  by (cases pc) auto

lemma awaiting_cases:
  obtains e w' where "rw = (Inl e, w')" "awaiting rw k = (Finished (Inl e), w')"
  | a w' where "rw = (Inr a, w')" "awaiting rw k = (k a, w')"
  by (cases rw; cases "fst rw") (auto simp: awaiting_def)

lemma seed_step_progress:
  "steps_left (fst (seed_step A wal pc w)) \<le> steps_left pc - 1"
  by (cases pc) (auto simp: awaiting_def split: prod.split sum.split option.split)

section \<open>One task alone\<close>

definition run_alone :: "nat \<Rightarrow> ('s, 't, 'w) askar \<Rightarrow> 's wallet \<Rightarrow> 't seed_pc \<times> 'w \<Rightarrow> 't seed_pc \<times> 'w" where
  "run_alone n A wal = ((\<lambda>(pc, w). seed_step A wal pc w) ^^ n)"

lemma run_alone_0 [simp]: "run_alone 0 A wal pcw = pcw"
  by (simp add: run_alone_def)

lemma run_alone_Suc [simp]: "run_alone (Suc n) A wal (pc, w) = run_alone n A wal (seed_step A wal pc w)"
  by (simp add: run_alone_def funpow_Suc_right del: funpow.simps)

lemma run_alone_Finished [simp]: "run_alone n A wal (Finished r, w) = (Finished r, w)"
  by (induction n) simp_all

lemma run_alone_awaiting:
  "run_alone n A wal (awaiting rw k) =
     (case rw of (Inl e, w) \<Rightarrow> (Finished (Inl e), w) | (Inr a, w) \<Rightarrow> run_alone n A wal (k a, w))"
  by (simp add: awaiting_def split: prod.split sum.split)

lemma io_bind_case:
  "io_bind m f w = (case m w of (Inl e, w') \<Rightarrow> (Inl e, w') | (Inr a, w') \<Rightarrow> f a w')"
  by (simp add: io_bind_def split: prod.split sum.split)

text \<open>
  The routine cut at its awaits and run without interruption is the routine of theory \<open>Wallet\<close>:
  five steps always end it, with the same result in the same world.
\<close>

lemma seed_steps_are_routine:
  "run_alone 5 A wal (Opening, w) =
     (case get_or_create_zkp_secret_seed A wal w of (r, w') \<Rightarrow> (Finished r, w'))"
proof -
  have five: "(5::nat) = Suc (Suc (Suc (Suc (Suc 0))))" by simp
  show ?thesis
    unfolding get_or_create_zkp_secret_seed_def five
    by (simp add: io_bind_case run_alone_awaiting io_return_def
        split: prod.split sum.split option.split)
qed

section \<open>Many tasks\<close>

abbreviation seed_key :: "string \<times> string" where
  "seed_key \<equiv> (''keys'', ''master_zkp_seed'')"

text \<open>
  A state is what each task has still to do and the world. \<open>other\<close> is a step of anything else that
  leaves the seed's entry of the store \<open>s\<close> alone.
\<close>

inductive race_step ::
  "('s, 't, 'w) askar \<Rightarrow> 's wallet \<Rightarrow> ('s \<Rightarrow> 'w \<Rightarrow> entries) \<Rightarrow> 's \<Rightarrow>
   't seed_pc list \<times> 'w \<Rightarrow> 't seed_pc list \<times> 'w \<Rightarrow> bool"
  for A wal contents s where
  task: "i < length pcs \<Longrightarrow> seed_step A wal (pcs ! i) w = (pc', w') \<Longrightarrow>
    race_step A wal contents s (pcs, w) (pcs[i := pc'], w')"
| other: "contents s w' seed_key = contents s w seed_key \<Longrightarrow>
    race_step A wal contents s (pcs, w) (pcs, w')"

abbreviation race ::
  "('s, 't, 'w) askar \<Rightarrow> 's wallet \<Rightarrow> ('s \<Rightarrow> 'w \<Rightarrow> entries) \<Rightarrow> 's \<Rightarrow>
   't seed_pc list \<times> 'w \<Rightarrow> 't seed_pc list \<times> 'w \<Rightarrow> bool" where
  "race A wal contents s \<equiv> (race_step A wal contents s)\<^sup>*\<^sup>*"

text \<open>An insert that fails changes no entry.\<close>

definition failed_insert_keeps :: "('s, 't, 'w) askar \<Rightarrow> ('s \<Rightarrow> 'w \<Rightarrow> entries) \<Rightarrow> bool" where
  "failed_insert_keeps A contents \<longleftrightarrow>
     (\<forall>t c k v tags w e w' s. session_insert A t c k v tags w = (Inl e, w') \<longrightarrow>
        contents s w' = contents s w)"

text \<open>What a task knows: the session it holds is one of \<open>s\<close>, and a seed past the insert is stored.\<close>

fun knows :: "('t \<Rightarrow> 's) \<Rightarrow> 's \<Rightarrow> bytes option \<Rightarrow> 't seed_pc \<Rightarrow> bool" where
  "knows owner s kept Opening \<longleftrightarrow> True"
| "knows owner s kept (Fetching t) \<longleftrightarrow> owner t = s"
| "knows owner s kept (Drawing t) \<longleftrightarrow> owner t = s"
| "knows owner s kept (Inserting t sd) \<longleftrightarrow> owner t = s"
| "knows owner s kept (Committing t sd) \<longleftrightarrow> owner t = s \<and> kept = Some sd"
| "knows owner s kept (Finished r) \<longleftrightarrow> (\<forall>sd. r = Inr sd \<longrightarrow> kept = Some sd)"

definition kept_seed :: "('s \<Rightarrow> 'w \<Rightarrow> entries) \<Rightarrow> 's \<Rightarrow> 'w \<Rightarrow> bytes option" where
  "kept_seed contents s w = map_option fst (contents s w seed_key)"

lemma knows_Finished_Inl [simp]: "knows owner s kept (Finished (Inl e))"
  by simp

lemma knows_mono: "knows owner s None pc \<Longrightarrow> knows owner s kept pc"
  by (cases pc) auto

text \<open>
  A step changes the stored seed only from nothing to the seed of the task that makes the step, and
  the task knows afterwards what it should.
\<close>

lemma seed_step_knows:
  assumes law: "askar_law A contents owner" "failed_insert_keeps A contents"
    and st: "askar_store wal = Some s" and run: "seed_step A wal pc w = (pc', w')"
    and pre: "knows owner s (kept_seed contents s w) pc"
  shows "knows owner s (kept_seed contents s w') pc' \<and>
    (kept_seed contents s w' = kept_seed contents s w \<or> kept_seed contents s w = None)"
proof (cases pc)
  case Opening
  obtain t w1 where "store_session A s w = (Inr t, w1)" "owner t = s" "\<And>s'. contents s' w1 = contents s' w"
    using askar_law_session [OF law(1)] by metis
  with Opening run st show ?thesis
    by (auto simp: store_of_def storage_def res_simps awaiting_def kept_seed_def)
next
  case (Fetching t)
  obtain w1 where "session_fetch A t ''keys'' ''master_zkp_seed'' w =
      (Inr (map_option fst (contents (owner t) w seed_key)), w1)" "\<forall>s'. contents s' w1 = contents s' w"
    using askar_law_fetch [OF law(1)] by metis
  with Fetching run pre show ?thesis
    by (auto simp: storage_def res_simps awaiting_def kept_seed_def split: option.splits)
next
  case (Drawing t)
  obtain r w1 where r: "getrandom A 32 w = (r, w1)" by (meson surj_pair)
  with Drawing run pre askar_law_random [OF law(1) r, of s] show ?thesis
    by (cases r) (auto simp: res_simps awaiting_def kept_seed_def)
next
  case (Inserting t sd)
  obtain r w1 where r: "session_insert A t ''keys'' ''master_zkp_seed'' sd [] w = (r, w1)" by (meson surj_pair)
  show ?thesis
  proof (cases r)
    case (Inl e)
    with law(2) r have "contents s w1 = contents s w" unfolding failed_insert_keeps_def by metis
    with Inserting run r Inl show ?thesis
      by (auto simp: storage_def res_simps awaiting_def kept_seed_def)
  next
    case (Inr u)
    with r askar_law_insert [OF law(1), of t "''keys''" "''master_zkp_seed''" sd "[]" w w1]
      Inserting run pre show ?thesis
      by (auto simp: storage_def res_simps awaiting_def kept_seed_def)
  qed
next
  case (Committing t sd)
  obtain r w1 where r: "session_commit A t w = (r, w1)" by (meson surj_pair)
  with Committing run pre askar_law_commit [OF law(1) r, of s] show ?thesis
    by (cases r) (auto simp: storage_def res_simps awaiting_def kept_seed_def)
next
  case (Finished r)
  with run pre show ?thesis by auto
qed

lemma race_knows:
  assumes law: "askar_law A contents owner" "failed_insert_keeps A contents"
    and st: "askar_store wal = Some s" and step: "race_step A wal contents s (pcs, w) (pcs', w')"
    and pre: "\<forall>pc\<in>set pcs. knows owner s (kept_seed contents s w) pc"
  shows "\<forall>pc\<in>set pcs'. knows owner s (kept_seed contents s w') pc"
  using step
proof cases
  case (task i pc')
  then have "knows owner s (kept_seed contents s w) (pcs ! i)" using pre by simp
  from seed_step_knows [OF law st task(3) this] pre task(1,2) show ?thesis
    using set_update_subset_insert [of pcs i pc'] by (auto dest!: subsetD intro: knows_mono)
next
  case other
  then show ?thesis using pre by (simp add: kept_seed_def)
qed

lemma reached_knows:
  assumes "askar_law A contents owner" "failed_insert_keeps A contents" "askar_store wal = Some s"
    and "race A wal contents s (replicate n Opening, w) c"
  shows "\<forall>pc\<in>set (fst c). knows owner s (kept_seed contents s (snd c)) pc"
  using assms(4)
proof (induction rule: rtranclp_induct)
  case base
  then show ?case by simp
next
  case (step c c')
  then show ?case using race_knows [OF assms(1-3), of "fst c" "snd c" "fst c'" "snd c'"] by simp
qed

lemma steps_end:
  "steps_left pc \<le> length ws \<Longrightarrow> \<exists>r. fold (\<lambda>u pc. fst (seed_step A wal pc u)) ws pc = Finished r"
proof (induction ws arbitrary: pc)
  case Nil
  then show ?case by auto
next
  case (Cons u ws)
  with seed_step_progress [of A wal pc u] show ?case by simp
qed

text \<open>
  C13. No two callers ever hold different master seeds. However many tasks call
  \<open>get_or_create_zkp_secret_seed\<close> on an open store, and however their steps interleave with each
  other and with operations on other entries, every task that returned a seed returned the one now
  stored; in particular they all returned the same. Five steps of its own end a task, whatever the
  worlds it finds at each.
\<close>

theorem concurrent_seed_agreement:
  assumes "askar_law A contents owner" "failed_insert_keeps A contents" "askar_store wal = Some s"
    and "race A wal contents s (replicate n Opening, w) (pcs, w')"
  shows "(\<forall>sd. Finished (Inr sd) \<in> set pcs \<longrightarrow> kept_seed contents s w' = Some sd) \<and>
    (\<forall>ws. length ws = 5 \<longrightarrow> (\<exists>r. fold (\<lambda>u pc. fst (seed_step A wal pc u)) ws Opening = Finished r))"
proof
  show "\<forall>sd. Finished (Inr sd) \<in> set pcs \<longrightarrow> kept_seed contents s w' = Some sd"
    using reached_knows [OF assms] by fastforce
qed (simp add: steps_end)

section \<open>A lost race\<close>

text \<open>A schedule names the task that moves next.\<close>

fun run_schedule ::
  "('s, 't, 'w) askar \<Rightarrow> 's wallet \<Rightarrow> nat list \<Rightarrow> 't seed_pc list \<times> 'w \<Rightarrow> 't seed_pc list \<times> 'w" where
  "run_schedule A wal [] c = c"
| "run_schedule A wal (i # is) (pcs, w) =
     (let (pc', w') = seed_step A wal (pcs ! i) w in run_schedule A wal is (pcs[i := pc'], w'))"

lemma run_schedule_race:
  "\<forall>i\<in>set is. i < length (fst c) \<Longrightarrow> race A wal contents s c (run_schedule A wal is c)"
proof (induction "is" arbitrary: c)
  case Nil
  then show ?case by simp
next
  case (Cons i "is")
  obtain pcs w where c: "c = (pcs, w)" by (cases c)
  obtain pc' w' where st: "seed_step A wal (pcs ! i) w = (pc', w')" by (meson surj_pair)
  have "race_step A wal contents s (pcs, w) (pcs[i := pc'], w')"
    using Cons.prems st c by (intro race_step.task) auto
  moreover have "race A wal contents s (pcs[i := pc'], w') (run_schedule A wal is (pcs[i := pc'], w'))"
    using Cons.prems c by (intro Cons.IH) auto
  ultimately show ?case using st c by (simp add: converse_rtranclp_into_rtranclp)
qed

text \<open>
  Two tasks that both look before either inserts: the first gets its seed, the second fails on the
  duplicate although a seed is stored.
\<close>

lemma lost_race:
  "run_schedule mem_askar mem_wallet [0, 1, 0, 1, 0, 1, 0, 1, 0] ([Opening, Opening], Map.empty) =
     ([Finished (Inr (replicate 32 7)), Finished (Inl (StorageError ''Duplicate entry''))],
      [seed_key \<mapsto> (replicate 32 7, [])])"
  by (simp add: mem_askar_ops store_of_def storage_def mem_wallet_open res_simps awaiting_def Let_def)

lemma mem_failed_insert: "failed_insert_keeps mem_askar (\<lambda>_ m. m)"
  by (auto simp: failed_insert_keeps_def mem_askar_ops split: option.splits)

theorem concurrent_seed_agreement_witness:
  "kept_seed (\<lambda>_ m. m) () (snd (run_schedule mem_askar mem_wallet [0, 1, 0, 1, 0, 1, 0, 1, 0]
     ([Opening, Opening], Map.empty))) = Some (replicate 32 7)"
proof -
  have "race mem_askar mem_wallet (\<lambda>_ m. m) () (replicate 2 Opening, Map.empty)
      (run_schedule mem_askar mem_wallet [0, 1, 0, 1, 0, 1, 0, 1, 0] (replicate 2 Opening, Map.empty))"
    by (rule run_schedule_race) simp
  then have "race mem_askar mem_wallet (\<lambda>_ m. m) () (replicate 2 Opening, Map.empty)
     ([Finished (Inr (replicate 32 7)), Finished (Inl (StorageError ''Duplicate entry''))],
      [seed_key \<mapsto> (replicate 32 7, [])])"
    using lost_race by (simp add: numeral_2_eq_2)
  from concurrent_seed_agreement [OF mem_askar_law mem_failed_insert mem_wallet_open(1) this]
  show ?thesis unfolding lost_race by simp
qed

end
