(* ===== verification/EdgeHost.thy ===== *)
theory EdgeHost
  imports Edge
begin

text \<open>
  The filter inside its host: the contexts of \<open>src/dzta-edge-wasm/src/lib.rs\<close>. A plugin instance has
  one root context (\<open>ZkpAuthzRoot\<close>), which holds the configuration, one HTTP context
  (\<open>ZkpAuthzHttp\<close>) per stream, which holds a copy of it made when the stream was opened, and the cell
  \<open>PVK\<close>, which is filled at its first use. The host calls are \<open>host_call\<close>s; it calls a stream's
  context only between its creation and its end.

  Results: over any sequence of host calls the instance behaves as \<open>Edge.serve\<close> does on the
  requests paired with the configuration of their stream, so neither the cell nor the copies show;
  and nothing is marked unless a configuration that enables administration was delivered before.
\<close>

record 'v plugin =
  zkp_authz_root :: plugin_config
  pvk_cell :: "'v option option"
  zkp_authz_http :: "nat \<rightharpoonup> plugin_config"

definition start_plugin :: "'v plugin" where
  "start_plugin = \<lparr>zkp_authz_root = plugin_config_default, pvk_cell = None, zkp_authz_http = Map.empty\<rparr>"

definition get_or_init_pvk :: "'v edge_crypto \<Rightarrow> 'v plugin \<Rightarrow> 'v option \<times> 'v plugin" where
  "get_or_init_pvk K vm =
     (case pvk_cell vm of
        Some key \<Rightarrow> (key, vm)
      | None \<Rightarrow> let key = get_pvk K in (key, vm\<lparr>pvk_cell := Some key\<rparr>))"

definition create_http_context :: "nat \<Rightarrow> 'v plugin \<Rightarrow> 'v plugin" where
  "create_http_context context_id vm =
     vm\<lparr>zkp_authz_http := (zkp_authz_http vm)(context_id \<mapsto> zkp_authz_root vm)\<rparr>"

definition http_context_request ::
  "'v edge_crypto \<Rightarrow> (string \<Rightarrow> bool) \<Rightarrow> plugin_config \<Rightarrow> headers \<Rightarrow> shared_data \<Rightarrow> 'v plugin \<Rightarrow>
   edge_outcome \<times> 'v plugin" where
  "http_context_request K refuses cfg hs s vm =
     (let p = header_or_default hs '':path'' in
      if starts_with ''/_wasm_admin/revoke'' p then (admin_revoke refuses cfg hs p s, vm)
      else let (key, vm') = get_or_init_pvk K vm in (validate_public_request K key hs s, vm'))"

datatype host_call =
    Configure "bytes option"
  | CreateContext nat
  | RequestHeaders nat headers
  | EndContext nat

fun host_step ::
  "'v edge_crypto \<Rightarrow> (string \<Rightarrow> bool) \<Rightarrow> json_parser \<Rightarrow> host_call \<Rightarrow> 'v plugin \<times> shared_data \<Rightarrow>
   edge_outcome option \<times> 'v plugin \<times> shared_data" where
  "host_step K refuses parse (Configure b) (vm, s) =
     (None, vm\<lparr>zkp_authz_root := snd (on_configure parse b (zkp_authz_root vm))\<rparr>, s)"
| "host_step K refuses parse (CreateContext i) (vm, s) = (None, create_http_context i vm, s)"
| "host_step K refuses parse (RequestHeaders i hs) (vm, s) =
     (case zkp_authz_http vm i of
        None \<Rightarrow> (None, vm, s)
      | Some cfg \<Rightarrow> let (out, vm') = http_context_request K refuses cfg hs s vm
          in (Some out, vm', eo_store out))"
| "host_step K refuses parse (EndContext i) (vm, s) =
     (None, vm\<lparr>zkp_authz_http := (zkp_authz_http vm)(i := None)\<rparr>, s)"

fun host_run ::
  "'v edge_crypto \<Rightarrow> (string \<Rightarrow> bool) \<Rightarrow> json_parser \<Rightarrow> host_call list \<Rightarrow> 'v plugin \<times> shared_data \<Rightarrow>
   edge_outcome list \<times> 'v plugin \<times> shared_data" where
  "host_run K refuses parse [] vs = ([], vs)"
| "host_run K refuses parse (c # cs) vs =
     (let (out, vs1) = host_step K refuses parse c vs; (outs, vs2) = host_run K refuses parse cs vs1
      in (case out of None \<Rightarrow> outs | Some r \<Rightarrow> r # outs, vs2))"

section \<open>The cell and the copies do not show\<close>

text \<open>The requests of a run with the configuration in force for their stream.\<close>

fun configured_requests ::
  "json_parser \<Rightarrow> plugin_config \<Rightarrow> (nat \<rightharpoonup> plugin_config) \<Rightarrow> host_call list \<Rightarrow> (plugin_config \<times> headers) list" where
  "configured_requests parse cfg streams [] = []"
| "configured_requests parse cfg streams (Configure b # cs) =
     configured_requests parse (snd (on_configure parse b cfg)) streams cs"
| "configured_requests parse cfg streams (CreateContext i # cs) =
     configured_requests parse cfg (streams(i \<mapsto> cfg)) cs"
| "configured_requests parse cfg streams (RequestHeaders i hs # cs) =
     (case streams i of None \<Rightarrow> [] | Some c \<Rightarrow> [(c, hs)]) @ configured_requests parse cfg streams cs"
| "configured_requests parse cfg streams (EndContext i # cs) =
     configured_requests parse cfg (streams(i := None)) cs"

definition cell_ok :: "'v edge_crypto \<Rightarrow> 'v plugin \<Rightarrow> bool" where
  "cell_ok K vm \<longleftrightarrow> (\<forall>key. pvk_cell vm = Some key \<longrightarrow> key = get_pvk K)"

lemma http_context_request_eq:
  assumes "cell_ok K vm"
  obtains vm' where "http_context_request K refuses cfg hs s vm = (on_http_request_headers K refuses cfg hs s, vm')"
    "cell_ok K vm'" "zkp_authz_root vm' = zkp_authz_root vm" "zkp_authz_http vm' = zkp_authz_http vm"
proof -
  define admin where "admin \<longleftrightarrow> starts_with ''/_wasm_admin/revoke'' (header_or_default hs '':path'')"
  have cell: "get_or_init_pvk K vm = (get_pvk K, vm\<lparr>pvk_cell := Some (get_pvk K)\<rparr>)"
    using assms by (cases "pvk_cell vm") (simp_all add: get_or_init_pvk_def cell_ok_def Let_def)
  show ?thesis
  proof (cases admin)
    case True
    then show ?thesis
      using that [of vm] assms by (simp add: http_context_request_def on_http_request_headers_def admin_def)
  next
    case False
    then show ?thesis
      using that [of "vm\<lparr>pvk_cell := Some (get_pvk K)\<rparr>"] cell
      by (simp add: http_context_request_def on_http_request_headers_def admin_def cell_ok_def)
  qed
qed

lemma host_run_Cons:
  assumes "host_step K refuses parse c (vm, s) = (None, vm1, s)"
    and "host_run K refuses parse cs (vm1, s) = (fst R, vm2, snd R)"
  shows "host_run K refuses parse (c # cs) (vm, s) = (fst R, vm2, snd R)"
  using assms by simp

lemma host_run_serves:
  assumes "cell_ok K vm"
  shows "\<exists>vm'. host_run K refuses parse cs (vm, s) =
    (fst (serve K refuses (configured_requests parse (zkp_authz_root vm) (zkp_authz_http vm) cs) s), vm',
     snd (serve K refuses (configured_requests parse (zkp_authz_root vm) (zkp_authz_http vm) cs) s))"
  using assms
proof (induction cs arbitrary: vm s)
  case Nil
  then show ?case by simp
next
  case (Cons c cs)
  show ?case
  proof (cases c)
    case (Configure b)
    let ?vm = "vm\<lparr>zkp_authz_root := snd (on_configure parse b (zkp_authz_root vm))\<rparr>"
    have "cell_ok K ?vm" using Cons.prems by (simp add: cell_ok_def)
    from Cons.IH [OF this, of s] obtain vm' where "host_run K refuses parse cs (?vm, s) =
      (fst (serve K refuses (configured_requests parse (zkp_authz_root vm) (zkp_authz_http vm) (c # cs)) s), vm',
       snd (serve K refuses (configured_requests parse (zkp_authz_root vm) (zkp_authz_http vm) (c # cs)) s))"
      using Configure by auto
    with host_run_Cons [OF _ this] Configure show ?thesis by (metis host_step.simps(1))
  next
    case (CreateContext i)
    let ?vm = "create_http_context i vm"
    have ok: "cell_ok K ?vm" using Cons.prems by (simp add: cell_ok_def create_http_context_def)
    have "zkp_authz_http ?vm = (zkp_authz_http vm)(i \<mapsto> zkp_authz_root vm)" "zkp_authz_root ?vm = zkp_authz_root vm"
      by (simp_all add: create_http_context_def)
    with Cons.IH [OF ok, of s] obtain vm' where "host_run K refuses parse cs (?vm, s) =
      (fst (serve K refuses (configured_requests parse (zkp_authz_root vm) (zkp_authz_http vm) (c # cs)) s), vm',
       snd (serve K refuses (configured_requests parse (zkp_authz_root vm) (zkp_authz_http vm) (c # cs)) s))"
      unfolding CreateContext configured_requests.simps by metis
    with host_run_Cons [OF _ this] CreateContext show ?thesis by (metis host_step.simps(2))
  next
    case (RequestHeaders i hs)
    show ?thesis
    proof (cases "zkp_authz_http vm i")
      case None
      with Cons.IH [OF Cons.prems, of s] RequestHeaders show ?thesis by auto
    next
      case (Some cfg)
      let ?o = "on_http_request_headers K refuses cfg hs s"
      obtain vm' where vm': "http_context_request K refuses cfg hs s vm = (?o, vm')" "cell_ok K vm'"
        "zkp_authz_root vm' = zkp_authz_root vm" "zkp_authz_http vm' = zkp_authz_http vm"
        by (rule http_context_request_eq [OF Cons.prems])
      from Cons.IH [OF vm'(2), of "eo_store ?o"] RequestHeaders Some vm' show ?thesis
        by (auto simp: Let_def split_beta)
    qed
  next
    case (EndContext i)
    let ?vm = "vm\<lparr>zkp_authz_http := (zkp_authz_http vm)(i := None)\<rparr>"
    have ok: "cell_ok K ?vm" using Cons.prems by (simp add: cell_ok_def)
    have "zkp_authz_http ?vm = (zkp_authz_http vm)(i := None)" "zkp_authz_root ?vm = zkp_authz_root vm"
      by simp_all
    with Cons.IH [OF ok, of s] obtain vm' where "host_run K refuses parse cs (?vm, s) =
      (fst (serve K refuses (configured_requests parse (zkp_authz_root vm) (zkp_authz_http vm) (c # cs)) s), vm',
       snd (serve K refuses (configured_requests parse (zkp_authz_root vm) (zkp_authz_http vm) (c # cs)) s))"
      unfolding EndContext configured_requests.simps by metis
    with host_run_Cons [OF _ this] EndContext show ?thesis by (metis host_step.simps(4))
  qed
qed

lemma start_plugin_serves:
  "\<exists>vm. host_run K refuses parse calls (start_plugin, s) =
    (fst (serve K refuses (configured_requests parse plugin_config_default Map.empty calls) s), vm,
     snd (serve K refuses (configured_requests parse plugin_config_default Map.empty calls) s))"
  using host_run_serves [of K start_plugin refuses parse calls s]
  by (simp add: start_plugin_def cell_ok_def)

text \<open>
  C16. The filter as the host runs it is the filter as a function of one request: from the start of
  the plugin, over any sequence of configurations, stream openings, requests and stream ends, the
  outcomes and the store are those of serving each request with the configuration its stream was
  opened under. The cached verification key and later configurations make no difference to it.
\<close>

theorem host_run_refines_serve:
  "\<exists>vm. host_run K refuses parse calls (start_plugin, s) =
    (case serve K refuses (configured_requests parse plugin_config_default Map.empty calls) s of
       (outs, s') \<Rightarrow> (outs, vm, s'))"
  using start_plugin_serves [of K refuses parse calls s] by (simp add: case_prod_beta)

section \<open>Administration has to be configured\<close>

definition delivered_configs :: "json_parser \<Rightarrow> host_call list \<Rightarrow> plugin_config set" where
  "delivered_configs parse calls =
     {cfg. \<exists>b. Configure (Some b) \<in> set calls \<and> from_slice parse dec_plugin_config b = Inr cfg}"

lemma on_configure_cases:
  "snd (on_configure parse b cfg) = cfg \<or>
   (\<exists>bs. b = Some bs \<and> from_slice parse dec_plugin_config bs = Inr (snd (on_configure parse b cfg)))"
  by (auto simp: on_configure_def split: option.split sum.split)

lemma delivered_configs_Cons: "delivered_configs parse cs \<subseteq> delivered_configs parse (c # cs)"
  by (auto simp: delivered_configs_def)

lemma ran_streams: "ran (streams(i \<mapsto> cfg)) \<subseteq> insert cfg (ran streams)" "ran (streams(i := None)) \<subseteq> ran streams"
  by (auto simp: ran_def)

lemma configured_requests_configs:
  "(c, hs) \<in> set (configured_requests parse cfg streams calls) \<Longrightarrow>
   c \<in> insert cfg (ran streams) \<union> delivered_configs parse calls"
proof (induction parse cfg streams calls rule: configured_requests.induct)
  case (2 parse cfg streams b cs)
  have "snd (on_configure parse b cfg) \<in> insert cfg (delivered_configs parse (Configure b # cs))"
    using on_configure_cases [of parse b cfg] by (auto simp: delivered_configs_def)
  with 2 delivered_configs_Cons [of parse cs "Configure b"] show ?case by auto
next
  case (3 parse cfg streams i cs)
  then have "c \<in> insert cfg (ran (streams(i \<mapsto> cfg))) \<union> delivered_configs parse cs"
    by (simp only: configured_requests.simps)
  with ran_streams(1) [of streams i cfg] delivered_configs_Cons [of parse cs "CreateContext i"]
  show ?case by blast
next
  case (4 parse cfg streams i hs' cs)
  show ?case
  proof (cases "(c, hs) \<in> set (configured_requests parse cfg streams cs)")
    case True
    with 4 delivered_configs_Cons [of parse cs "RequestHeaders i hs'"] show ?thesis by blast
  next
    case False
    with 4(2) have "streams i = Some c" by (auto split: option.splits)
    then show ?thesis by (auto intro: ranI)
  qed
next
  case (5 parse cfg streams i cs)
  then have "c \<in> insert cfg (ran (streams(i := None))) \<union> delivered_configs parse cs"
    by (simp only: configured_requests.simps)
  with ran_streams(2) [of streams i] delivered_configs_Cons [of parse cs "EndContext i"]
  show ?case by blast
qed simp

lemma serve_changes_store:
  assumes "serve K refuses rs s = (outs, s')" "s' \<noteq> s"
  shows "\<exists>cfg hs. (cfg, hs) \<in> set rs \<and> pc_mode cfg = ''admin_enabled'' \<and> pc_admin_token cfg \<noteq> [] \<and>
    hs ''X-Wasm-Admin-Token'' = Some (pc_admin_token cfg)"
  using assms
proof (induction rs arbitrary: s outs)
  case Nil
  then show ?case by simp
next
  case (Cons r rs)
  obtain cfg hs where r: "r = (cfg, hs)" by (cases r)
  let ?o = "on_http_request_headers K refuses cfg hs s"
  from Cons.prems(1) r obtain outs' where "serve K refuses rs (eo_store ?o) = (outs', s')"
    by (auto simp: Let_def split: prod.splits)
  with Cons.IH Cons.prems(2) show ?case
  proof (cases "eo_store ?o = s")
    case True
    with Cons.IH [of s outs'] \<open>serve K refuses rs (eo_store ?o) = (outs', s')\<close> Cons.prems(2) obtain c h where
      "(c, h) \<in> set rs" "pc_mode c = ''admin_enabled''" "pc_admin_token c \<noteq> []"
      "h ''X-Wasm-Admin-Token'' = Some (pc_admin_token c)" by auto
    then show ?thesis by (intro exI [of _ c] exI [of _ h]) simp
  next
    case False
    from store_changes [OF this] r show ?thesis by (intro exI [of _ cfg] exI [of _ hs]) auto
  qed
qed

text \<open>
  C22. Nothing is ever marked revoked unless administration was configured: if a run of the plugin
  changed the shared store, the host had delivered a configuration with mode \<open>admin_enabled\<close> and a
  non-empty token, and some request carried this token.
\<close>

theorem marks_need_configured_admin:
  assumes "host_run K refuses parse calls (start_plugin, s) = (outs, vm, s')" "s' \<noteq> s"
  shows "\<exists>cfg\<in>delivered_configs parse calls. pc_mode cfg = ''admin_enabled'' \<and> pc_admin_token cfg \<noteq> [] \<and>
    (\<exists>i hs. RequestHeaders i hs \<in> set calls \<and> hs ''X-Wasm-Admin-Token'' = Some (pc_admin_token cfg))"
proof -
  let ?rs = "configured_requests parse plugin_config_default Map.empty calls"
  have "serve K refuses ?rs s = (outs, s')"
    using start_plugin_serves [of K refuses parse calls s] assms(1)
    by (metis Pair_inject prod.collapse)
  from serve_changes_store [OF this assms(2)] obtain cfg hs where c: "(cfg, hs) \<in> set ?rs"
    "pc_mode cfg = ''admin_enabled''" "pc_admin_token cfg \<noteq> []" "hs ''X-Wasm-Admin-Token'' = Some (pc_admin_token cfg)"
    by blast
  have "\<exists>i. RequestHeaders i hs \<in> set calls"
    if "(cfg, hs) \<in> set (configured_requests parse c0 st calls)" for c0 st
    using that
    by (induction parse c0 st calls rule: configured_requests.induct) (auto split: option.splits)
  moreover have "cfg \<in> delivered_configs parse calls"
    using configured_requests_configs [OF c(1)] c(2) by (auto simp: plugin_config_default_def)
  ultimately show ?thesis using c by blast
qed

definition admin_run :: "host_call list" where
  "admin_run = [Configure (Some (unary_print (JObject
     [(''mode'', JString ''admin_enabled''), (''admin_token'', JString ''tok'')]))),
     CreateContext 7, RequestHeaders 7 (admin_headers ''tok'' ''c1'')]"

theorem marks_need_configured_admin_witness:
  "\<exists>cfg\<in>delivered_configs unary_parse admin_run. pc_mode cfg = ''admin_enabled''"
proof -
  let ?R = "host_run demo_crypto (\<lambda>_. False) unary_parse admin_run (start_plugin, Map.empty)"
  have dec: "from_slice unary_parse dec_plugin_config (unary_print (JObject
     [(''mode'', JString ''admin_enabled''), (''admin_token'', JString ''tok'')])) = Inr admin_config"
    by (simp add: from_slice_def dec_plugin_config_def field_defs admin_config_def)
  have "snd (snd ?R) \<noteq> Map.empty"
    by (simp add: admin_run_def on_configure_def dec create_http_context_def http_context_request_def
        admin_revoke_def admin_headers_def admin_config_def header_or_default_def starts_with_def
        respond_def Let_def start_plugin_def target_id_def id_of_pair_def)
  moreover obtain outs vm s' where "?R = (outs, vm, s')" by (metis prod.collapse)
  ultimately show ?thesis
    using marks_need_configured_admin [of demo_crypto "\<lambda>_. False" unary_parse admin_run Map.empty outs vm s']
    by auto
qed

text \<open>
  A configuration that does not parse leaves the previous one in force, also one that enables
  administration.
\<close>

lemma bad_configuration_keeps_previous:
  "from_slice parse dec_plugin_config b = Inl e \<Longrightarrow> on_configure parse (Some b) cfg = (True, cfg)"
  by (simp add: on_configure_def)

end
