(* ===== verification/Vault.thy ===== *)
theory Vault
  imports Errors Json Config
begin

text \<open>
  The clients of HashiCorp Vault: \<open>src/shared/src/vault_client.rs\<close> and the providers of
  \<open>src/dzta-attestation-broker/src/lib.rs\<close>. An HTTP exchange is one \<open>http_send\<close> of the record
  \<open>http_env\<close>, which also holds base64, RSA-OAEP and the JSON parser of other crates; the random
  generator RSA-OAEP draws from is part of the world \<open>'w\<close>. A response is its status and its body
  (or the text of the error met while reading it).

  What is relied on of Vault is \<open>transit_law\<close>: \<open>holds ct p\<close> says that Vault issued the ciphertext
  \<open>ct\<close> for the plaintext \<open>p\<close>. The interface the broker uses is the locale \<open>vault_cipher\<close>.
\<close>

record http_request =
  hq_method :: string
  hq_url :: string
  hq_headers :: "(string \<times> string) list"
  hq_json :: "json option"

record http_response =
  hp_status :: nat
  hp_body :: "string + bytes"

record vault_client =
  vc_accept_invalid_certs :: bool
  vc_root_certificate :: "bytes option"

record ('k, 'w) http_env =
  http_send :: "vault_client \<Rightarrow> http_request \<Rightarrow> ('w, string, http_response) io"
  client_build :: "vault_client \<Rightarrow> string + vault_client"
  certificate_from_pem :: "bytes \<Rightarrow> string + bytes"
  b64_encode :: "bytes \<Rightarrow> string"
  b64_decode :: "string \<Rightarrow> string + bytes"
  he_json_parse :: json_parser
  text_of :: "bytes \<Rightarrow> string"
  decode_error_text :: "serde_error \<Rightarrow> string"
  rsa_from_pem :: "string \<Rightarrow> string + 'k"
  rsa_oaep_encrypt :: "'k \<Rightarrow> bytes \<Rightarrow> ('w, string, bytes) io"
  he_fmt :: fmt_env
  he_env_var :: "string \<Rightarrow> string option"
  he_files :: file_system

type_synonym ('w, 'a) broker_io = "('w, broker_error, 'a) io"

definition is_success :: "nat \<Rightarrow> bool" where
  "is_success st \<longleftrightarrow> 200 \<le> st \<and> st < 300"

definition json_body :: "('k, 'w) http_env \<Rightarrow> 'a decoder \<Rightarrow> http_response \<Rightarrow> reqwest_error + 'a" where
  "json_body E d r =
     (case hp_body r of
        Inl e \<Rightarrow> Inl (ReqwestError e)
      | Inr bs \<Rightarrow> map_err (\<lambda>e. ReqwestError (decode_error_text E e)) (from_slice (he_json_parse E) d bs))"

definition vault_token_header :: "string \<Rightarrow> (string \<times> string) list" where
  "vault_token_header token = [(''X-Vault-Token'', token)]"

definition bearer_auth :: "string \<Rightarrow> (string \<times> string) list" where
  "bearer_auth token = [(''Authorization'', ''Bearer '' @ token)]"

section \<open>The client\<close>

definition build_vault_client :: "('k, 'w) http_env \<Rightarrow> vault_client broker_result" where
  "build_vault_client E =
     (let plain = \<lparr>vc_accept_invalid_certs = False, vc_root_certificate = None\<rparr>;
          builder =
            (if (case he_env_var E ''VAULT_INSECURE_SKIP_VERIFY'' of
                   Some v \<Rightarrow> v = ''1'' \<or> v = ''true'' | None \<Rightarrow> False)
             then plain\<lparr>vc_accept_invalid_certs := True\<rparr>
             else (case he_env_var E ''VAULT_CACERT'' of
                 None \<Rightarrow> plain
               | Some ca_path \<Rightarrow>
                   (case fs_read (he_files E) ca_path of
                      Inl e \<Rightarrow> plain
                    | Inr ca_cert_bytes \<Rightarrow>
                        (case certificate_from_pem E ca_cert_bytes of
                           Inl e \<Rightarrow> plain
                         | Inr cert \<Rightarrow> plain\<lparr>vc_root_certificate := Some cert\<rparr>))))
      in map_err (\<lambda>e. BrokerRequest (ReqwestError e)) (client_build E builder))"

section \<open>Vault's answers\<close>

definition dec_errors :: "fields \<Rightarrow> serde_error + string list" where
  "dec_errors fs = default_field [] (dec_vec dec_string) [''errors''] fs"

definition dec_decrypt_response :: "(string option \<times> string list) decoder" where
  "dec_decrypt_response v =
     bind_res (struct_fields [''data'', ''errors''] v) (\<lambda>fs.
     bind_res (default_field None (\<lambda>u. bind_res (struct_fields [''plaintext''] u)
       (option_field dec_string [''plaintext''])) [''data''] fs) (\<lambda>plaintext.
     bind_res (dec_errors fs) (\<lambda>errors. Inr (plaintext, errors))))"

definition dec_datakey_response :: "((string \<times> string) \<times> string list) decoder" where
  "dec_datakey_response v =
     bind_res (struct_fields [''data'', ''errors''] v) (\<lambda>fs.
     bind_res (default_field ([], []) (\<lambda>u. bind_res (struct_fields [''plaintext'', ''ciphertext''] u) (\<lambda>gs.
       bind_res (required_field dec_string [''plaintext''] gs) (\<lambda>p.
       bind_res (required_field dec_string [''ciphertext''] gs) (\<lambda>c. Inr (p, c))))) [''data''] fs) (\<lambda>dt.
     bind_res (dec_errors fs) (\<lambda>errors. Inr (dt, errors))))"

definition dec_seed_response :: "(string \<times> string list) decoder" where
  "dec_seed_response v =
     bind_res (struct_fields [''data'', ''errors''] v) (\<lambda>fs.
     bind_res (default_field [] (\<lambda>u. bind_res (struct_fields [''random_bytes''] u)
       (required_field dec_string [''random_bytes''])) [''data''] fs) (\<lambda>random_bytes.
     bind_res (dec_errors fs) (\<lambda>errors. Inr (random_bytes, errors))))"

section \<open>The data key engine\<close>

record vault_datakey_engine =
  vault_addr :: string
  vault_token :: string
  secret_key_name :: string
  vde_client :: vault_client

definition VaultDatakeyEngine_with_client ::
  "string \<Rightarrow> string \<Rightarrow> string \<Rightarrow> vault_client \<Rightarrow> vault_datakey_engine" where
  "VaultDatakeyEngine_with_client address token transit_key cl =
     \<lparr>vault_addr = trim_end_matches (CHR ''/'') address, vault_token = token,
      secret_key_name = transit_key, vde_client = cl\<rparr>"

definition VaultDatakeyEngine_new ::
  "('k, 'w) http_env \<Rightarrow> string \<Rightarrow> string \<Rightarrow> string \<Rightarrow> vault_datakey_engine broker_result" where
  "VaultDatakeyEngine_new E address token transit_key =
     bind_res (build_vault_client E) (\<lambda>cl.
     Inr \<lparr>vault_addr = trim_end_matches (CHR ''/'') address, vault_token = token,
          secret_key_name = transit_key, vde_client = cl\<rparr>)"

definition env_default :: "('k, 'w) http_env \<Rightarrow> string \<Rightarrow> string \<Rightarrow> string" where
  "env_default E name d = (case he_env_var E name of Some v \<Rightarrow> v | None \<Rightarrow> d)"

definition VaultDatakeyEngine_from_env ::
  "('k, 'w) http_env \<Rightarrow> string \<Rightarrow> vault_datakey_engine broker_result" where
  "VaultDatakeyEngine_from_env E transit_key =
     VaultDatakeyEngine_new E (env_default E ''DZTA_VAULT_ADDR'' ''http://127.0.0.1:8200'')
       (env_default E ''DZTA_VAULT_TOKEN'' ''root'') transit_key"

definition wrap_bytes_for_enclave ::
  "('k, 'w) http_env \<Rightarrow> bytes \<Rightarrow> string \<Rightarrow> ('w, string) broker_io" where
  "wrap_bytes_for_enclave E raw_bytes enclave_public_key_pem =
     io_bind (io_lift (map_err (\<lambda>e. Response (''invalid enclave public key: '' @ e))
       (rsa_from_pem E enclave_public_key_pem))) (\<lambda>rsa_pub.
     io_bind (io_map_err (\<lambda>e. Response (''failed to wrap bytes for enclave: '' @ e))
       (rsa_oaep_encrypt E rsa_pub raw_bytes)) (\<lambda>encrypted_bytes.
     io_return (b64_encode E encrypted_bytes)))"

definition generate_vault_random_seed ::
  "('k, 'w) http_env \<Rightarrow> vault_datakey_engine \<Rightarrow> ('w, bytes) broker_io" where
  "generate_vault_random_seed E eng =
     io_bind (io_map_err (\<lambda>e. BrokerRequest (ReqwestError e)) (http_send E (vde_client eng)
       \<lparr>hq_method = ''POST'', hq_url = vault_addr eng @ ''/v1/transit/random/32'',
        hq_headers = vault_token_header (vault_token eng),
        hq_json = Some (JObject [(''format'', JString ''base64'')])\<rparr>)) (\<lambda>response.
     io_bind (io_lift (map_err BrokerRequest (json_body E dec_seed_response response))) (\<lambda>(random_bytes, errors).
     if \<not> is_success (hp_status response) then
       io_fail (Provider (hp_status response) (join_str '', '' errors))
     else io_lift (map_err (\<lambda>e. Response (''invalid Vault random bytes: '' @ e))
       (b64_decode E random_bytes))))"

text \<open>\<open>VaultEncryptor::encrypt\<close>; the issuer's signer has the same body.\<close>

definition transit_encrypt ::
  "('k, 'w) http_env \<Rightarrow> vault_client \<Rightarrow> string \<Rightarrow> string \<Rightarrow> string \<Rightarrow> bytes \<Rightarrow> ('w, string) broker_io" where
  "transit_encrypt E cl addr token key payload =
     io_bind (io_map_err (\<lambda>e. Response (''Vault encrypt request failed: '' @ e)) (http_send E cl
       \<lparr>hq_method = ''POST'', hq_url = addr @ ''/v1/transit/encrypt/'' @ key,
        hq_headers = bearer_auth token,
        hq_json = Some (JObject [(''plaintext'', JString (b64_encode E payload))])\<rparr>)) (\<lambda>response.
     io_bind (io_lift (map_err (\<lambda>e. Response (''Vault encrypt response read failed: '' @ reqwest_display e))
       (json_body E dec_value response))) (\<lambda>body.
     io_lift (ok_or (Response ''Vault returned no ciphertext'')
       (as_str (json_index (json_index body ''data'') ''ciphertext'')))))"

definition engine_encrypt ::
  "('k, 'w) http_env \<Rightarrow> vault_datakey_engine \<Rightarrow> bytes \<Rightarrow> ('w, string) broker_io" where
  "engine_encrypt E eng payload =
     transit_encrypt E (vde_client eng) (vault_addr eng) (vault_token eng) (secret_key_name eng) payload"

definition error_texts :: "json \<Rightarrow> string list option" where
  "error_texts v = map_option (\<lambda>arr. List.map_filter as_str arr) (as_array (json_index v ''errors''))"

definition engine_decrypt ::
  "('k, 'w) http_env \<Rightarrow> vault_datakey_engine \<Rightarrow> string \<Rightarrow> ('w, bytes) broker_io" where
  "engine_decrypt E eng ciphertext =
     io_bind (io_map_err (\<lambda>e. Response (''Vault decrypt request failed: '' @ e)) (http_send E (vde_client eng)
       \<lparr>hq_method = ''POST'', hq_url = vault_addr eng @ ''/v1/transit/decrypt/'' @ secret_key_name eng,
        hq_headers = vault_token_header (vault_token eng),
        hq_json = Some (JObject [(''ciphertext'', JString ciphertext)])\<rparr>)) (\<lambda>response.
     io_bind (io_lift (map_err (\<lambda>e. Response (''Vault decrypt response read failed: '' @ reqwest_display e))
       (json_body E dec_value response))) (\<lambda>resp_json.
     if \<not> is_success (hp_status response) then
       io_fail (Response (case error_texts resp_json of
           Some es \<Rightarrow> join_str '', '' es
         | None \<Rightarrow> ''Vault transit decrypt failed with status '' @
                    status_display (he_fmt E) (hp_status response)))
     else
       io_bind (io_lift (ok_or (Response ''Vault response missing plaintext field'')
         (as_str (json_index (json_index resp_json ''data'') ''plaintext'')))) (\<lambda>b64_plaintext.
       io_lift (map_err (\<lambda>e. Response (''invalid Vault plaintext: '' @ e))
         (b64_decode E b64_plaintext)))))"

record provisioning_datakey_response =
  pr_wallet_ciphertext :: string
  pr_encrypted_wallet_key :: string
  pr_seed_ciphertext :: string
  pr_encrypted_master_seed :: string

definition engine_provision_datakey ::
  "('k, 'w) http_env \<Rightarrow> vault_datakey_engine \<Rightarrow> string \<Rightarrow> ('w, provisioning_datakey_response) broker_io" where
  "engine_provision_datakey E eng enclave_public_key_pem =
     io_bind (io_map_err (\<lambda>e. BrokerRequest (ReqwestError e)) (http_send E (vde_client eng)
       \<lparr>hq_method = ''POST'',
        hq_url = vault_addr eng @ ''/v1/transit/datakey/plaintext/'' @ secret_key_name eng,
        hq_headers = vault_token_header (vault_token eng), hq_json = None\<rparr>)) (\<lambda>response.
     io_bind (io_lift (map_err BrokerRequest (json_body E dec_datakey_response response)))
       (\<lambda>((plaintext, ciphertext), errors).
     if \<not> is_success (hp_status response) then
       io_fail (Provider (hp_status response) (join_str '', '' errors))
     else
       io_bind (io_lift (map_err (\<lambda>e. Response (''invalid Vault plaintext: '' @ e))
         (b64_decode E plaintext))) (\<lambda>raw_dek_bytes.
       io_bind (wrap_bytes_for_enclave E raw_dek_bytes enclave_public_key_pem) (\<lambda>encrypted_wallet_key.
       io_bind (generate_vault_random_seed E eng) (\<lambda>raw_master_seed.
       io_bind (engine_encrypt E eng raw_master_seed) (\<lambda>seed_ciphertext.
       io_bind (wrap_bytes_for_enclave E raw_master_seed enclave_public_key_pem) (\<lambda>encrypted_master_seed.
       io_return \<lparr>pr_wallet_ciphertext = ciphertext, pr_encrypted_wallet_key = encrypted_wallet_key,
         pr_seed_ciphertext = seed_ciphertext, pr_encrypted_master_seed = encrypted_master_seed\<rparr>)))))))"

definition unwrap_datakey_for_enclave ::
  "('k, 'w) http_env \<Rightarrow> vault_datakey_engine \<Rightarrow> string \<Rightarrow> string \<Rightarrow> ('w, string) broker_io" where
  "unwrap_datakey_for_enclave E eng wallet_ciphertext enclave_public_key_pem =
     io_bind (io_map_err (\<lambda>e. Response (broker_error_display (he_fmt E) e))
       (engine_decrypt E eng wallet_ciphertext)) (\<lambda>raw_dek_bytes.
     wrap_bytes_for_enclave E raw_dek_bytes enclave_public_key_pem)"

section \<open>The transit provider and the release adapters\<close>

record vault_transit_provider =
  vtp_client :: vault_client
  vtp_address :: string
  vtp_token :: string
  vtp_transit_key :: string

definition VaultTransitProvider_new ::
  "('k, 'w) http_env \<Rightarrow> string \<Rightarrow> string \<Rightarrow> string \<Rightarrow> vault_transit_provider broker_result" where
  "VaultTransitProvider_new E address token transit_key =
     bind_res (build_vault_client E) (\<lambda>cl.
     Inr \<lparr>vtp_client = cl, vtp_address = trim_end_matches (CHR ''/'') address, vtp_token = token,
          vtp_transit_key = transit_key\<rparr>)"

definition decrypt_envelope ::
  "('k, 'w) http_env \<Rightarrow> vault_transit_provider \<Rightarrow> string \<Rightarrow> ('w, bytes) broker_io" where
  "decrypt_envelope E p ciphertext =
     io_bind (io_map_err (\<lambda>e. BrokerRequest (ReqwestError e)) (http_send E (vtp_client p)
       \<lparr>hq_method = ''POST'', hq_url = vtp_address p @ ''/v1/transit/decrypt/'' @ vtp_transit_key p,
        hq_headers = vault_token_header (vtp_token p),
        hq_json = Some (JObject [(''ciphertext'', JString ciphertext)])\<rparr>)) (\<lambda>response.
     io_bind (io_lift (map_err BrokerRequest (json_body E dec_decrypt_response response))) (\<lambda>(plaintext, errors).
     if \<not> is_success (hp_status response) then
       io_fail (Provider (hp_status response) (join_str '', '' errors))
     else
       io_bind (io_lift (ok_or (Response ''Vault returned no plaintext'') plaintext)) (\<lambda>b64_plaintext.
       io_lift (map_err (\<lambda>e. Response (''invalid Vault plaintext: '' @ e))
         (b64_decode E b64_plaintext)))))"

record verified_enclave =
  ve_quote :: bytes
  ve_report_data :: bytes
  ve_enclave_public_key :: string
  ve_mrenclave :: string
  ve_mrsigner :: string

record wrapped_enclave_secrets =
  ws_encrypted_wallet_key :: string
  ws_encrypted_master_seed :: string
  ws_key_encryption_algorithm :: string

definition dec_wrapped_enclave_secrets :: "wrapped_enclave_secrets decoder" where
  "dec_wrapped_enclave_secrets v =
     bind_res (struct_fields [''encrypted_wallet_key'', ''encrypted_master_seed'',
       ''key_encryption_algorithm''] v) (\<lambda>fs.
     bind_res (required_field dec_string [''encrypted_wallet_key''] fs) (\<lambda>a.
     bind_res (required_field dec_string [''encrypted_master_seed''] fs) (\<lambda>b.
     bind_res (required_field dec_string [''key_encryption_algorithm''] fs) (\<lambda>c.
     Inr \<lparr>ws_encrypted_wallet_key = a, ws_encrypted_master_seed = b,
          ws_key_encryption_algorithm = c\<rparr>))))"

record https_kms_provider =
  hk_client :: vault_client
  hk_endpoint :: string
  hk_bearer_token :: "string option"

definition HttpsKmsProvider_new ::
  "('k, 'w) http_env \<Rightarrow> string \<Rightarrow> string option \<Rightarrow> https_kms_provider broker_result" where
  "HttpsKmsProvider_new E endpoint bearer_token =
     bind_res (map_err (\<lambda>e. BrokerRequest (ReqwestError e)) (client_build E
       \<lparr>vc_accept_invalid_certs = False, vc_root_certificate = None\<rparr>)) (\<lambda>cl.
     Inr \<lparr>hk_client = cl, hk_endpoint = endpoint, hk_bearer_token = bearer_token\<rparr>)"

text \<open>The two implementations of the trait \<open>SecretProvider\<close>.\<close>

datatype secret_provider =
    VaultSecretRelease vault_transit_provider
  | HttpsKms https_kms_provider

definition release_from_vault ::
  "('k, 'w) http_env \<Rightarrow> vault_transit_provider \<Rightarrow> verified_enclave \<Rightarrow> string \<Rightarrow> string \<Rightarrow> string \<Rightarrow>
   ('w, wrapped_enclave_secrets) broker_io" where
  "release_from_vault E provider enclave credential_key_id wallet_ciphertext seed_ciphertext =
     (if ve_quote enclave = [] \<or> ve_report_data enclave = [] \<or> ve_enclave_public_key enclave = [] then
        io_fail (Configuration ''verified enclave identity is incomplete'')
      else
        io_bind (decrypt_envelope E provider wallet_ciphertext) (\<lambda>wallet_key.
        io_bind (decrypt_envelope E provider seed_ciphertext) (\<lambda>master_seed.
        io_bind (io_lift (map_err (\<lambda>e. Response (''invalid enclave public key: '' @ e))
          (rsa_from_pem E (ve_enclave_public_key enclave)))) (\<lambda>public_key.
        io_bind (io_map_err (\<lambda>e. Response (''failed to wrap wallet key: '' @ e))
          (rsa_oaep_encrypt E public_key wallet_key)) (\<lambda>encrypted_wallet_key.
        io_bind (io_map_err (\<lambda>e. Response (''failed to wrap master seed: '' @ e))
          (rsa_oaep_encrypt E public_key master_seed)) (\<lambda>encrypted_master_seed.
        io_return \<lparr>ws_encrypted_wallet_key = b64_encode E encrypted_wallet_key,
          ws_encrypted_master_seed = b64_encode E encrypted_master_seed,
          ws_key_encryption_algorithm = ''RSA-OAEP-SHA256:'' @ credential_key_id\<rparr>))))))"

definition json_of_kms_request :: "verified_enclave \<Rightarrow> string \<Rightarrow> string \<Rightarrow> string \<Rightarrow> json" where
  "json_of_kms_request enclave credential_key_id wallet_ciphertext seed_ciphertext = JObject
     [(''quote'', json_of_bytes (ve_quote enclave)),
      (''report_data'', json_of_bytes (ve_report_data enclave)),
      (''enclave_public_key'', JString (ve_enclave_public_key enclave)),
      (''mrenclave'', JString (ve_mrenclave enclave)), (''mrsigner'', JString (ve_mrsigner enclave)),
      (''credential_key_id'', JString credential_key_id),
      (''wallet_ciphertext'', JString wallet_ciphertext),
      (''seed_ciphertext'', JString seed_ciphertext)]"

definition release_from_kms ::
  "('k, 'w) http_env \<Rightarrow> https_kms_provider \<Rightarrow> verified_enclave \<Rightarrow> string \<Rightarrow> string \<Rightarrow> string \<Rightarrow>
   ('w, wrapped_enclave_secrets) broker_io" where
  "release_from_kms E provider enclave credential_key_id wallet_ciphertext seed_ciphertext =
     io_bind (io_map_err (\<lambda>e. BrokerRequest (ReqwestError e)) (http_send E (hk_client provider)
       \<lparr>hq_method = ''POST'', hq_url = hk_endpoint provider,
        hq_headers = (case hk_bearer_token provider of Some t \<Rightarrow> bearer_auth t | None \<Rightarrow> []),
        hq_json = Some (json_of_kms_request enclave credential_key_id wallet_ciphertext
          seed_ciphertext)\<rparr>)) (\<lambda>response.
     if \<not> is_success (hp_status response) then
       (case hp_body response of
          Inl e \<Rightarrow> io_fail (BrokerRequest (ReqwestError e))
        | Inr bs \<Rightarrow> io_fail (Provider (hp_status response) (text_of E bs)))
     else io_lift (map_err BrokerRequest (json_body E dec_wrapped_enclave_secrets response)))"

fun release_for_verified_enclave ::
  "('k, 'w) http_env \<Rightarrow> secret_provider \<Rightarrow> verified_enclave \<Rightarrow> string \<Rightarrow> string \<Rightarrow> string \<Rightarrow>
   ('w, wrapped_enclave_secrets) broker_io" where
  "release_for_verified_enclave E (VaultSecretRelease p) = release_from_vault E p"
| "release_for_verified_enclave E (HttpsKms p) = release_from_kms E p"

section \<open>The interface of the cipher\<close>

locale vault_cipher =
  fixes encrypt :: "bytes \<Rightarrow> ('w, broker_error, string) io"
    and decrypt :: "string \<Rightarrow> ('w, broker_error, bytes) io"
    and holds :: "string \<Rightarrow> bytes \<Rightarrow> bool"
  assumes encrypt_holds: "encrypt p w = (Inr ct, w') \<Longrightarrow> holds ct p"
    and decrypt_holds: "holds ct p \<Longrightarrow> decrypt ct w = (Inr q, w') \<Longrightarrow> q = p"
begin

lemma decrypt_encrypt:
  "encrypt p w = (Inr ct, w1) \<Longrightarrow> decrypt ct w2 = (Inr q, w3) \<Longrightarrow> q = p"
  by (rule decrypt_holds [OF encrypt_holds])

end

text \<open>
  The documented behaviour of the transit engine for one key: a success of \<open>encrypt\<close> names a
  ciphertext that holds the plaintext sent, a success of \<open>decrypt\<close> returns the plaintext the
  ciphertext holds; and base64 decoding inverts encoding.
\<close>

definition transit_law ::
  "('k, 'w) http_env \<Rightarrow> string \<Rightarrow> string \<Rightarrow> (string \<Rightarrow> bytes \<Rightarrow> bool) \<Rightarrow> bool" where
  "transit_law E addr key holds \<longleftrightarrow>
     (\<forall>bs. b64_decode E (b64_encode E bs) = Inr bs) \<and>
     (\<forall>cl hs p w r w' v ct. http_send E cl \<lparr>hq_method = ''POST'',
          hq_url = addr @ ''/v1/transit/encrypt/'' @ key, hq_headers = hs,
          hq_json = Some (JObject [(''plaintext'', JString (b64_encode E p))])\<rparr> w = (Inr r, w') \<longrightarrow>
        json_body E dec_value r = Inr v \<longrightarrow>
        as_str (json_index (json_index v ''data'') ''ciphertext'') = Some ct \<longrightarrow> holds ct p) \<and>
     (\<forall>cl hs ct p w r w' v b. http_send E cl \<lparr>hq_method = ''POST'',
          hq_url = addr @ ''/v1/transit/decrypt/'' @ key, hq_headers = hs,
          hq_json = Some (JObject [(''ciphertext'', JString ct)])\<rparr> w = (Inr r, w') \<longrightarrow>
        is_success (hp_status r) \<longrightarrow> json_body E dec_value r = Inr v \<longrightarrow>
        as_str (json_index (json_index v ''data'') ''plaintext'') = Some b \<longrightarrow>
        holds ct p \<longrightarrow> b = b64_encode E p)"

lemma engine_vault_cipher:
  assumes "transit_law E (vault_addr eng) (secret_key_name eng) holds"
  shows "vault_cipher (engine_encrypt E eng) (engine_decrypt E eng) holds"
proof
  fix p w ct w'
  assume "engine_encrypt E eng p w = (Inr ct, w')"
  then obtain r v where
    "http_send E (vde_client eng) \<lparr>hq_method = ''POST'',
       hq_url = vault_addr eng @ ''/v1/transit/encrypt/'' @ secret_key_name eng,
       hq_headers = bearer_auth (vault_token eng),
       hq_json = Some (JObject [(''plaintext'', JString (b64_encode E p))])\<rparr> w = (Inr r, w')"
    "json_body E dec_value r = Inr v"
    "as_str (json_index (json_index v ''data'') ''ciphertext'') = Some ct"
    unfolding engine_encrypt_def transit_encrypt_def
    by (auto simp: io_Inr)
  with assms show "holds ct p" unfolding transit_law_def by blast
next
  fix ct p w q w'
  assume h: "holds ct p" and "engine_decrypt E eng ct w = (Inr q, w')"
  then obtain r v b where
    "http_send E (vde_client eng) \<lparr>hq_method = ''POST'',
       hq_url = vault_addr eng @ ''/v1/transit/decrypt/'' @ secret_key_name eng,
       hq_headers = vault_token_header (vault_token eng),
       hq_json = Some (JObject [(''ciphertext'', JString ct)])\<rparr> w = (Inr r, w')"
    "is_success (hp_status r)" "json_body E dec_value r = Inr v"
    "as_str (json_index (json_index v ''data'') ''plaintext'') = Some b" "b64_decode E b = Inr q"
    unfolding engine_decrypt_def
    by (auto simp: io_Inr io_fail_app split: if_splits)
  moreover from this(1-4) h assms have "b = b64_encode E p" unfolding transit_law_def by blast
  moreover have "b64_decode E (b64_encode E p) = Inr p"
    using assms unfolding transit_law_def by blast
  ultimately show "q = p" by simp
qed

section \<open>A Vault in memory\<close>

text \<open>
  An instance of the parameters: a ciphertext is the plaintext with Vault's prefix, RSA-OAEP puts
  the key in front, and the world counts the requests.
\<close>

definition mem_answer :: "http_request \<Rightarrow> json" where
  "mem_answer q =
     (case hq_json q of
        Some (JObject [(k, JString s)]) \<Rightarrow>
          if k = ''plaintext'' then JObject [(''data'', JObject [(''ciphertext'', JString (''vault:v1:'' @ s))])]
          else if k = ''ciphertext'' then JObject [(''data'', JObject [(''plaintext'', JString (drop 9 s))])]
          else JObject [(''data'', JObject [(''random_bytes'', JString ''seed'')])]
      | _ \<Rightarrow> JObject [(''data'', JObject [(''plaintext'', JString ''dek''),
               (''ciphertext'', JString ''vault:v1:dek'')])])"

definition mem_env :: "(bytes, nat) http_env" where
  "mem_env = \<lparr>http_send = (\<lambda>_ q n. (Inr \<lparr>hp_status = 200, hp_body = Inr (unary_print (mem_answer q))\<rparr>, n + 1)),
     client_build = Inr, certificate_from_pem = Inr,
     b64_encode = str_of_bytes, b64_decode = (\<lambda>s. Inr (as_bytes s)), he_json_parse = unary_parse,
     text_of = str_of_bytes, decode_error_text = (\<lambda>_. []),
     rsa_from_pem = (\<lambda>pem. if pem = [] then Inl ''empty'' else Inr (as_bytes pem)),
     rsa_oaep_encrypt = (\<lambda>k m n. (Inr (k @ m), n)),
     he_fmt = \<lparr>serde_display = (\<lambda>_. []), status_display = (\<lambda>_. [])\<rparr>, he_env_var = (\<lambda>_. None),
     he_files = \<lparr>fs_exists = (\<lambda>_. False), fs_read_to_string = (\<lambda>_. Inl []), fs_read = (\<lambda>_. Inl [])\<rparr>\<rparr>"

definition mem_holds :: "string \<Rightarrow> bytes \<Rightarrow> bool" where
  "mem_holds ct p \<longleftrightarrow> ct = ''vault:v1:'' @ str_of_bytes p"

lemma as_bytes_str_of_bytes [simp]: "as_bytes (str_of_bytes bs) = bs"
proof -
  have "word_of_nat (unat b) = b" for b :: byte by simp
  then show ?thesis
    using unat_byte_less by (induction bs) (auto simp: as_bytes_def str_of_bytes_def)
qed

lemma mem_transit_law: "transit_law mem_env addr key mem_holds"
  unfolding transit_law_def
  by (simp add: mem_env_def mem_answer_def mem_holds_def json_body_def from_slice_def dec_value_def
      json_index_def)

interpretation mem: vault_cipher
  "engine_encrypt mem_env eng" "engine_decrypt mem_env eng" mem_holds for eng
  by (rule engine_vault_cipher [OF mem_transit_law])

end
