(* ===== verification/SchemaEngine.thy ===== *)
theory SchemaEngine
  imports Models
begin

text \<open>
  \<open>src/fabric-client/src/schema_engine.rs\<close>: the fields of a credential subject against the
  attributes of a schema. The JSON printer used in messages and chrono's RFC 3339 parser are
  arguments. The specification is \<open>conforms\<close>; validation succeeds exactly on the subjects all
  of whose attributes conform, and otherwise reports the first attribute that does not.
\<close>

definition quoted :: "string \<Rightarrow> string" where
  "quoted s = CHR 0x27 # s @ [CHR 0x27]"

definition validate_field ::
  "(json \<Rightarrow> string) \<Rightarrow> (string \<Rightarrow> bool) \<Rightarrow> json \<Rightarrow> schema_attribute \<Rightarrow> unit wallet_result" where
  "validate_field print rfc3339_ok subject attr =
     bind_res (ok_or (InvalidWitness (''Missing required schema field: '' @ quoted (attr_name attr)))
       (json_get (attr_name attr) subject)) (\<lambda>field_value.
     if attr_type attr = ''string'' then
       (if \<not> is_string field_value then
          Inl (InvalidWitness (''Type mismatch for '' @ quoted (attr_name attr) @
            ''. Expected string, found value: '' @ print field_value))
        else Inr ())
     else if attr_type attr = ''integer'' then
       (if \<not> is_i64 field_value \<and> \<not> is_u64 field_value then
          Inl (InvalidWitness (''Type mismatch for '' @ quoted (attr_name attr) @
            ''. Expected integer, found value: '' @ print field_value))
        else Inr ())
     else if attr_type attr = ''timestamp'' then
       (case as_i64 field_value of
          Some ts \<Rightarrow>
            (if ts \<le> 0 then
               Inl (InvalidWitness (''Invalid negative timestamp range for '' @
                 quoted (attr_name attr)))
             else Inr ())
        | None \<Rightarrow>
            (case as_str field_value of
               Some ts_str \<Rightarrow>
                 (if \<not> rfc3339_ok ts_str then
                    Inl (InvalidWitness (''Field '' @ quoted (attr_name attr) @
                      '' is not a valid RFC3339 timestamp string''))
                  else Inr ())
             | None \<Rightarrow>
                 Inl (InvalidWitness (''Type mismatch for '' @ quoted (attr_name attr) @
                   ''. Expected Unix timestamp integer or RFC3339 string format.''))))
     else
       Inl (ConfigError (''Unrecognized schema type constraint '' @ quoted (attr_type attr) @
         '' on field '' @ quoted (attr_name attr))))"

definition validate_fields ::
  "(json \<Rightarrow> string) \<Rightarrow> (string \<Rightarrow> bool) \<Rightarrow> credential_schema \<Rightarrow> json \<Rightarrow> unit wallet_result" where
  "validate_fields print rfc3339_ok schema subject =
     iter_res (validate_field print rfc3339_ok subject) (cs_attributes schema)"

text \<open>What the documentation says of one field.\<close>

definition conforms :: "(string \<Rightarrow> bool) \<Rightarrow> json \<Rightarrow> schema_attribute \<Rightarrow> bool" where
  "conforms rfc3339_ok subject attr \<longleftrightarrow>
     (\<exists>v. json_get (attr_name attr) subject = Some v \<and>
        (attr_type attr = ''string'' \<and> (\<exists>s. v = JString s) \<or>
         attr_type attr = ''integer'' \<and>
           (\<exists>n. v = JNumber (PosInt n) \<or> (\<exists>i. v = JNumber (NegInt i))) \<or>
         attr_type attr = ''timestamp'' \<and>
           ((\<exists>n. v = JNumber (PosInt n) \<and> 0 < uint n \<and> uint n \<le> i64_max) \<or>
            (\<exists>i. v = JNumber (NegInt i) \<and> 0 < i) \<or>
            (\<exists>s. v = JString s \<and> rfc3339_ok s))))"

lemma accessor_iffs:
  "is_string v \<longleftrightarrow> (\<exists>s. v = JString s)"
  "is_i64 v \<or> is_u64 v \<longleftrightarrow> (\<exists>n. v = JNumber (PosInt n) \<or> (\<exists>i. v = JNumber (NegInt i)))"
  "as_i64 v = Some t \<longleftrightarrow>
     (\<exists>n. v = JNumber (PosInt n) \<and> t = uint n \<and> uint n \<le> i64_max) \<or> v = JNumber (NegInt t)"
  "as_str v = Some s \<longleftrightarrow> v = JString s"
  by (cases v rule: as_i64.cases; auto simp: is_string_def is_i64_def is_u64_def)+

lemma uint_pos_iff: "0 < uint n \<longleftrightarrow> uint n \<noteq> 0"
  by (metis order_less_le uint_ge_0)

lemma validate_field_iff:
  "validate_field print rfc3339_ok subject attr = Inr () \<longleftrightarrow> conforms rfc3339_ok subject attr"
proof (cases "json_get (attr_name attr) subject")
  case None
  then show ?thesis by (simp add: validate_field_def conforms_def)
next
  case (Some v)
  have "(\<not> is_i64 v \<and> \<not> is_u64 v) = (\<not> (is_i64 v \<or> is_u64 v))"
    by simp
  with Some show ?thesis
    by (cases v rule: as_i64.cases)
      (auto simp: validate_field_def conforms_def accessor_iffs(1) is_i64_def is_u64_def uint_pos_iff)
qed

text \<open>
  C39. Schema validation against its specification: a subject is accepted exactly when every
  attribute of the schema is present with a value of its declared type (a positive Unix time or
  an RFC 3339 string for timestamps); a rejected subject has a first non-conforming attribute,
  all attributes before it conform, and the error reported is that attribute's.
\<close>

theorem validate_fields_correct:
  "(validate_fields print rfc3339_ok schema subject = Inr () \<longleftrightarrow>
     (\<forall>a\<in>set (cs_attributes schema). conforms rfc3339_ok subject a)) \<and>
   (\<forall>e. validate_fields print rfc3339_ok schema subject = Inl e \<longrightarrow>
     (\<exists>as a bs. cs_attributes schema = as @ a # bs \<and>
        (\<forall>x\<in>set as. conforms rfc3339_ok subject x) \<and> \<not> conforms rfc3339_ok subject a \<and>
        validate_field print rfc3339_ok subject a = Inl e))"
proof (intro conjI allI impI)
  show "validate_fields print rfc3339_ok schema subject = Inr () \<longleftrightarrow>
      (\<forall>a\<in>set (cs_attributes schema). conforms rfc3339_ok subject a)"
    by (simp add: validate_fields_def iter_res_Inr_iff validate_field_iff)
next
  fix e
  assume "validate_fields print rfc3339_ok schema subject = Inl e"
  then obtain as a bs where "cs_attributes schema = as @ a # bs"
      and "\<forall>x\<in>set as. validate_field print rfc3339_ok subject x = Inr ()"
      and err: "validate_field print rfc3339_ok subject a = Inl e"
    unfolding validate_fields_def by (blast dest: iter_res_Inl)
  moreover have "\<not> conforms rfc3339_ok subject a"
    using err by (simp flip: validate_field_iff [where print = print])
  ultimately show "\<exists>as a bs. cs_attributes schema = as @ a # bs \<and>
      (\<forall>x\<in>set as. conforms rfc3339_ok subject x) \<and> \<not> conforms rfc3339_ok subject a \<and>
      validate_field print rfc3339_ok subject a = Inl e"
    by (auto simp: validate_field_iff)
qed

definition example_schema :: credential_schema where
  "example_schema = \<lparr>cs_schema_id = ''s'', cs_issuer_did = ''i'', cs_name = ''n'',
     cs_version = ''1'', cs_attributes =
       [\<lparr>attr_name = ''orgId'', attr_type = ''string'', attr_predicate = False\<rparr>,
        \<lparr>attr_name = ''level'', attr_type = ''integer'', attr_predicate = True\<rparr>],
     cs_created = 0\<rparr>"

theorem validate_fields_correct_witness:
  "\<exists>as a bs. cs_attributes example_schema = as @ a # bs \<and>
     \<not> conforms (\<lambda>_. True) (JObject [(''orgId'', JString ''o'')]) a"
proof -
  have "validate_fields (\<lambda>_. []) (\<lambda>_. True) example_schema (JObject [(''orgId'', JString ''o'')]) =
      Inl (InvalidWitness (''Missing required schema field: '' @ quoted ''level''))"
    by (simp add: validate_fields_def example_schema_def validate_field_def is_string_def)
  then show ?thesis
    using validate_fields_correct [of "\<lambda>_. []" "\<lambda>_. True" example_schema
        "JObject [(''orgId'', JString ''o'')]"] by blast
qed

end
