(* ===== verification/Issuer.thy ===== *)
theory Issuer
  imports Fabric Vault SchemaEngine Wallet
begin

text \<open>
  The issuer: \<open>src/dzta-issuer/src/signer.rs\<close> (the local and the Vault signer) and
  \<open>src/dzta-issuer/src/lib.rs\<close> (registration, credential creation and revocation). A signer is the
  record \<open>signer\<close> of its two trait methods; the contract a credential relies on is the locale
  \<open>credential_signer\<close>, interpreted for both signers. Ed25519, base64url, base58, JCS, UUIDs and
  chrono are the record \<open>issuer_env\<close>.
\<close>

record 'w issuer_env =
  verifying_key :: "bytes \<Rightarrow> bytes"
  ed25519_sign :: "bytes \<Rightarrow> bytes \<Rightarrow> bytes"
  key_from_bytes :: "bytes \<Rightarrow> string + bytes"
  signature_from_slice :: "bytes \<Rightarrow> string + bytes"
  ed25519_verify :: "bytes \<Rightarrow> bytes \<Rightarrow> bytes \<Rightarrow> string + unit"
  b64url_encode :: "bytes \<Rightarrow> string"
  b64url_decode :: "string \<Rightarrow> string + bytes"
  multibase_base58 :: "bytes \<Rightarrow> string"
  ie_getrandom :: "nat \<Rightarrow> ('w, string, bytes) io"
  new_uuid :: "'w \<Rightarrow> string \<times> 'w"
  ie_now :: "'w \<Rightarrow> datetime"
  ie_rfc3339 :: "datetime \<Rightarrow> string"
  ie_in_range :: "i64 \<Rightarrow> bool"
  ie_rfc3339_ok :: "string \<Rightarrow> bool"
  ie_value_display :: "json \<Rightarrow> string"
  jcs_to_vec :: "json \<Rightarrow> string + bytes"

record 'w signer =
  sg_public_key_multibase :: "('w, wallet_error, string) io"
  sg_sign :: "bytes \<Rightarrow> ('w, wallet_error, string) io"

section \<open>The local signer\<close>

definition local_generate :: "'w issuer_env \<Rightarrow> ('w, wallet_error, bytes) io" where
  "local_generate I = io_map_err (\<lambda>e. SigningError (''Signing key generation failed: '' @ e)) (ie_getrandom I 32)"

definition public_key_multibase_value :: "'w issuer_env \<Rightarrow> bytes \<Rightarrow> string" where
  "public_key_multibase_value I seed = multibase_base58 I (verifying_key I seed)"

definition sign_value :: "'w issuer_env \<Rightarrow> bytes \<Rightarrow> bytes \<Rightarrow> string" where
  "sign_value I seed payload = ''u'' @ b64url_encode I (ed25519_sign I seed payload)"

definition local_verify :: "'w issuer_env \<Rightarrow> bytes \<Rightarrow> bytes \<Rightarrow> string \<Rightarrow> unit wallet_result" where
  "local_verify I public_key payload proof_value =
     bind_res (map_err (\<lambda>e. SigningError (''Invalid credential public key: '' @ e))
       (key_from_bytes I public_key)) (\<lambda>key.
     bind_res (ok_or (SigningError ''Proof value must use base64url encoding'')
       (strip_prefix ''u'' proof_value)) (\<lambda>encoded.
     bind_res (map_err (\<lambda>e. SigningError (''Invalid proof encoding: '' @ e))
       (b64url_decode I encoded)) (\<lambda>signature_bytes.
     bind_res (map_err (\<lambda>e. SigningError (''Invalid proof signature: '' @ e))
       (signature_from_slice I signature_bytes)) (\<lambda>sig.
     map_err (\<lambda>e. SigningError (''Credential proof verification failed: '' @ e))
       (ed25519_verify I key payload sig)))))"

definition local_signer :: "'w issuer_env \<Rightarrow> bytes \<Rightarrow> 'w signer" where
  "local_signer I seed = \<lparr>sg_public_key_multibase = io_return (public_key_multibase_value I seed),
     sg_sign = (\<lambda>payload. io_return (sign_value I seed payload))\<rparr>"

section \<open>The Vault signer\<close>

record vault_credential_signer =
  vs_client :: vault_client
  vs_address :: string
  vs_token :: string
  vs_transit_key :: string

definition VaultCredentialSigner_new ::
  "('k, 'w) http_env \<Rightarrow> string \<Rightarrow> string \<Rightarrow> string \<Rightarrow> vault_credential_signer broker_result" where
  "VaultCredentialSigner_new E address token transit_key =
     bind_res (build_vault_client E) (\<lambda>cl.
     Inr \<lparr>vs_client = cl, vs_address = trim_end_matches (CHR ''/'') address, vs_token = token,
          vs_transit_key = transit_key\<rparr>)"

definition required_env :: "('k, 'w) http_env \<Rightarrow> string \<Rightarrow> string broker_result" where
  "required_env E name = ok_or (Configuration (name @ '' is required'')) (he_env_var E name)"

definition VaultCredentialSigner_from_env :: "('k, 'w) http_env \<Rightarrow> vault_credential_signer broker_result" where
  "VaultCredentialSigner_from_env E =
     bind_res (required_env E ''DZTA_VAULT_ADDR'') (\<lambda>address.
     bind_res (required_env E ''DZTA_VAULT_TOKEN'') (\<lambda>token.
     bind_res (required_env E ''DZTA_CREDENTIAL_SIGNING_KEY'') (\<lambda>key.
     VaultCredentialSigner_new E address token key)))"

definition vault_request :: "('k, 'w) http_env \<Rightarrow> 'a decoder \<Rightarrow> http_response \<Rightarrow> 'a wallet_result" where
  "vault_request E d response =
     bind_res (map_err (\<lambda>e. NetworkError (''Vault response read failed: '' @ e)) (hp_body response)) (\<lambda>body.
     if \<not> is_success (hp_status response) then
       Inl (SigningError (''Vault returned '' @ status_display (he_fmt E) (hp_status response) @ '': '' @
         text_of E body))
     else map_err SerializationError (from_slice (he_json_parse E) d (as_bytes (text_of E body))))"

record vault_key_data =
  vk_type :: "string option"
  vk_latest_version :: json
  vk_keys :: "(string \<times> string) list"

fun dec_key_versions :: "(string \<times> json) list \<Rightarrow> serde_error + (string \<times> string) list" where
  "dec_key_versions [] = Inr []"
| "dec_key_versions ((k, v) # kvs) =
     bind_res (bind_res (struct_fields [''public_key''] v) (required_field dec_string [''public_key''])) (\<lambda>p.
     bind_res (dec_key_versions kvs) (\<lambda>rest. Inr ((k, p) # rest)))"

fun dec_key_map :: "(string \<times> string) list decoder" where
  "dec_key_map (JObject kvs) = dec_key_versions kvs"
| "dec_key_map _ = Inl InvalidType"

definition dec_vault_key_data :: "vault_key_data decoder" where
  "dec_vault_key_data v =
     bind_res (struct_fields [''type'', ''latest_version'', ''keys''] v) (\<lambda>fs.
     bind_res (default_field None (dec_option dec_string) [''type''] fs) (\<lambda>t.
     bind_res (required_field dec_value [''latest_version''] fs) (\<lambda>l.
     bind_res (required_field dec_key_map [''keys''] fs) (\<lambda>ks.
     Inr \<lparr>vk_type = t, vk_latest_version = l, vk_keys = ks\<rparr>))))"

definition dec_data :: "'a decoder \<Rightarrow> 'a decoder" where
  "dec_data d v = bind_res (struct_fields [''data''] v) (required_field d [''data''])"

definition dec_vault_signature :: "string decoder" where
  "dec_vault_signature v = bind_res (struct_fields [''signature''] v) (required_field dec_string [''signature''])"

definition fetch_key_data ::
  "('k, 'w) http_env \<Rightarrow> vault_credential_signer \<Rightarrow> string \<Rightarrow> ('w, wallet_error, vault_key_data) io" where
  "fetch_key_data E vs what =
     io_bind (io_map_err (\<lambda>e. NetworkError (what @ e)) (http_send E (vs_client vs)
       \<lparr>hq_method = ''GET'', hq_url = vs_address vs @ ''/v1/transit/keys/'' @ vs_transit_key vs,
        hq_headers = bearer_auth (vs_token vs), hq_json = None\<rparr>)) (\<lambda>response.
     io_lift (vault_request E (dec_data dec_vault_key_data) response))"

definition get_key_type :: "('k, 'w) http_env \<Rightarrow> vault_credential_signer \<Rightarrow> ('w, wallet_error, string) io" where
  "get_key_type E vs =
     io_bind (fetch_key_data E vs ''Vault key info request failed: '') (\<lambda>data.
     io_return (case vk_type data of Some t \<Rightarrow> t | None \<Rightarrow> ''ed25519''))"

fun version_string :: "json \<Rightarrow> string option" where
  "version_string (JNumber (PosInt n)) = Some (show_nat (unat n))"
| "version_string (JNumber (NegInt i)) = Some (show_int i)"
| "version_string (JNumber (Float s)) = Some s"
| "version_string (JString s) = Some s"
| "version_string _ = None"

definition vault_public_key_multibase ::
  "('k, 'w) http_env \<Rightarrow> 'w issuer_env \<Rightarrow> vault_credential_signer \<Rightarrow> ('w, wallet_error, string) io" where
  "vault_public_key_multibase E I vs =
     io_bind (fetch_key_data E vs ''Vault public-key request failed: '') (\<lambda>data. io_lift (
     bind_res (ok_or (SigningError ''Invalid latest_version format'')
       (version_string (vk_latest_version data))) (\<lambda>version_str.
     bind_res (ok_or (SigningError ''Vault returned no latest public key'')
       (map_of (rev (vk_keys data)) version_str)) (\<lambda>key.
     bind_res (map_err (\<lambda>e. SigningError (''Vault public-key decoding failed: '' @ e))
       (b64_decode E key)) (\<lambda>public_key.
     if length public_key \<noteq> 32 then Inl (SigningError ''Vault Ed25519 public key must be 32 bytes'')
     else Inr (multibase_base58 I public_key))))))"

definition sign_body :: "('k, 'w) http_env \<Rightarrow> string \<Rightarrow> bytes \<Rightarrow> json" where
  "sign_body E key_type payload =
     (if starts_with ''rsa'' key_type then JObject
        [(''input'', JString (b64_encode E payload)), (''hash_algorithm'', JString ''sha2-256''),
         (''signature_algorithm'', JString ''pkcs1v15'')]
      else if starts_with ''ecdsa'' key_type then JObject
        [(''input'', JString (b64_encode E payload)), (''hash_algorithm'', JString ''sha2-256'')]
      else JObject [(''input'', JString (b64_encode E payload))])"

definition vault_sign ::
  "('k, 'w) http_env \<Rightarrow> 'w issuer_env \<Rightarrow> vault_credential_signer \<Rightarrow> bytes \<Rightarrow> ('w, wallet_error, string) io" where
  "vault_sign E I vs payload =
     io_bind (get_key_type E vs) (\<lambda>key_type.
     io_bind (io_map_err (\<lambda>e. NetworkError (''Vault signing request failed: '' @ e))
       (http_send E (vs_client vs)
       \<lparr>hq_method = ''POST'', hq_url = vs_address vs @ ''/v1/transit/sign/'' @ vs_transit_key vs,
        hq_headers = bearer_auth (vs_token vs), hq_json = Some (sign_body E key_type payload)\<rparr>)) (\<lambda>response.
     io_bind (io_lift (vault_request E (dec_data dec_vault_signature) response)) (\<lambda>sig.
     io_lift (
       bind_res (map_err (\<lambda>e. SigningError (''Vault signature decoding failed: '' @ e))
         (b64_decode E (last (split_on (CHR '':'') sig)))) (\<lambda>signature.
       Inr (''u'' @ b64url_encode I signature)))))) "

definition vault_signer ::
  "('k, 'w) http_env \<Rightarrow> 'w issuer_env \<Rightarrow> vault_credential_signer \<Rightarrow> 'w signer" where
  "vault_signer E I vs = \<lparr>sg_public_key_multibase = vault_public_key_multibase E I vs,
     sg_sign = vault_sign E I vs\<rparr>"

definition signer_encrypt ::
  "('k, 'w) http_env \<Rightarrow> vault_credential_signer \<Rightarrow> bytes \<Rightarrow> ('w, string) broker_io" where
  "signer_encrypt E vs payload =
     transit_encrypt E (vs_client vs) (vs_address vs) (vs_token vs) (vs_transit_key vs) payload"

section \<open>The issuer\<close>

record 'w issuer =
  iss_fabric :: fabric_client
  iss_signer :: "'w signer"

type_synonym ('w, 'a) issuer_io = "('w, halt, 'a) io"

definition issuer_register_did ::
  "('h, 'w) sdk \<Rightarrow> 'w issuer \<Rightarrow> string \<Rightarrow> string \<Rightarrow> string \<Rightarrow> ('w, string) issuer_io" where
  "issuer_register_did S iss did issuer_did public_key =
     register_did S (iss_fabric iss) did issuer_did public_key"

definition register_signing_did ::
  "('h, 'w) sdk \<Rightarrow> 'w issuer \<Rightarrow> string \<Rightarrow> ('w, string) issuer_io" where
  "register_signing_did S iss issuer_did =
     io_bind (io_map_err Failed (sg_public_key_multibase (iss_signer iss))) (\<lambda>public_key.
     register_did S (iss_fabric iss) issuer_did issuer_did public_key)"

definition issuer_resolve_did ::
  "('h, 'w) sdk \<Rightarrow> 'w issuer \<Rightarrow> string \<Rightarrow> ('w, did_document) wallet_io" where
  "issuer_resolve_did S iss did = resolve_did S (iss_fabric iss) did"

definition issuer_query_dids_by_issuer ::
  "('h, 'w) sdk \<Rightarrow> 'w issuer \<Rightarrow> string \<Rightarrow> ('w, did_document list) wallet_io" where
  "issuer_query_dids_by_issuer S iss issuer_did = query_dids_by_issuer S (iss_fabric iss) issuer_did"

definition issuer_register_schema ::
  "('h, 'w) sdk \<Rightarrow> 'w issuer_env \<Rightarrow> 'w issuer \<Rightarrow> string \<Rightarrow> string \<Rightarrow> string \<Rightarrow> schema_attribute list \<Rightarrow>
   ('w, string) issuer_io" where
  "issuer_register_schema S I iss issuer_did name version attributes = (\<lambda>w.
     let (schema_id, w1) = new_uuid I w in
     io_bind (register_schema S (iss_fabric iss) schema_id issuer_did name version attributes) (\<lambda>_.
     io_return schema_id) w1)"

definition credential_subject :: "string \<Rightarrow> credential_attributes \<Rightarrow> json" where
  "credential_subject subject_did attributes = JObject
     [(''id'', JString subject_did), (''userRoleId'', JString (user_role_id attributes)),
      (''orgId'', JString (org_id attributes)),
      (''clearanceLevel'', JNumber (PosInt (clearance_level attributes))),
      (''timestamp'', json_of_i64 (timestamp attributes))]"

definition unsigned_credential :: "'w issuer_env \<Rightarrow> string \<Rightarrow> datetime \<Rightarrow> datetime \<Rightarrow> json \<Rightarrow> json" where
  "unsigned_credential I issuer_did issued_at expires_at subject = JObject
     [(''@context'', JArray [JString ''https://www.w3.org/2018/credentials/v1'',
        JString ''https://www.w3.org/2018/credentials/examples/v1'']),
      (''type'', JArray [JString ''VerifiableCredential'']), (''issuer'', JString issuer_did),
      (''issuanceDate'', JString (ie_rfc3339 I issued_at)),
      (''expirationDate'', JString (ie_rfc3339 I expires_at)), (''credentialSubject'', subject)]"

definition proof_options :: "'w issuer_env \<Rightarrow> string \<Rightarrow> datetime \<Rightarrow> (string \<times> json) list" where
  "proof_options I issuer_did issued_at =
     [(''type'', JString ''DataIntegrityProof''), (''cryptosuite'', JString ''eddsa-jcs-2022''),
      (''created'', JString (ie_rfc3339 I issued_at)), (''proofPurpose'', JString ''assertionMethod''),
      (''verificationMethod'', JString (issuer_did @ ''#key-1''))]"

definition signing_input :: "'w issuer_env \<Rightarrow> string \<Rightarrow> datetime \<Rightarrow> json \<Rightarrow> string + bytes" where
  "signing_input I issuer_did issued_at credential = jcs_to_vec I
     (JObject [(''credential'', credential), (''proof'', JObject (proof_options I issuer_did issued_at))])"

definition create_credential ::
  "('h, 'w) sdk \<Rightarrow> 'w issuer_env \<Rightarrow> 'w issuer \<Rightarrow> string \<Rightarrow> string \<Rightarrow> string \<Rightarrow> credential_attributes \<Rightarrow> i64 \<Rightarrow>
   ('w, issued_credential) issuer_io" where
  "create_credential S I iss schema_id issuer_did subject_did attributes expires_at_unix = (\<lambda>w0.
     if trim issuer_did = [] \<or> trim subject_did = [] then
       (Inl (Failed (ConfigError ''Issuer DID and subject DID are required'')), w0)
     else if expires_at_unix \<le> dt_secs (ie_now I w0) then
       (Inl (Failed (ConfigError ''Credential expiration must be in the future'')), w0)
     else
       let (credential_id, w1) = new_uuid I w0 in
       io_bind (io_map_err Failed (get_schema S (iss_fabric iss) schema_id)) (\<lambda>schema.
       let subject = credential_subject subject_did attributes in
       io_bind (io_map_err Failed (io_lift
         (validate_fields (ie_value_display I) (ie_rfc3339_ok I) schema subject))) (\<lambda>_ w.
       let issued_at = ie_now I w in
       io_bind (io_map_err Failed (io_lift (ok_or (ConfigError ''Invalid expiration timestamp'')
         (timestamp_opt (ie_in_range I) expires_at_unix)))) (\<lambda>expires_at.
       let credential = unsigned_credential I issuer_did issued_at expires_at subject in
       io_bind (io_map_err Failed (io_lift
         (map_err (\<lambda>e. SigningError (''JCS canonicalization failed: '' @ e))
           (signing_input I issuer_did issued_at credential)))) (\<lambda>input.
       io_bind (io_map_err Failed (sg_sign (iss_signer iss) input)) (\<lambda>signature.
       let credential_data = json_insert ''proof''
             (JObject (proof_options I issuer_did issued_at @ [(''proofValue'', JString signature)])) credential in
       io_bind (record_credential_metadata S (iss_fabric iss) credential_id schema_id issuer_did
         subject_did expires_at_unix) (\<lambda>_.
       io_return \<lparr>ic_credential_id = credential_id, ic_schema_id = schema_id,
         ic_issuer_did = issuer_did, ic_subject_did = subject_did,
         ic_credential_data = credential_data, ic_issued_at = issued_at,
         ic_expires_at = Some expires_at\<rparr>)))) w)) w1)"

definition issuer_revoke_credential ::
  "('h, 'w) sdk \<Rightarrow> 'w issuer \<Rightarrow> string \<Rightarrow> ('w, unit) issuer_io" where
  "issuer_revoke_credential S iss credential_id =
     io_bind (revoke_credential_tx S (iss_fabric iss) credential_id) (\<lambda>_. io_return ())"

section \<open>The contract of a signer\<close>

locale credential_signer =
  fixes G :: "'w signer"
    and enc :: "bytes \<Rightarrow> string"
  assumes sign_form: "sg_sign G payload w = (Inr v, w') \<Longrightarrow> \<exists>sig. v = ''u'' @ enc sig"
begin

text \<open>Every proof value of a credential made with the signer is multibase base64url.\<close>

lemma created_proof_value:
  assumes "iss_signer iss = G"
    and "create_credential S I iss schema_id issuer_did subject_did attributes expires w = (Inr cred, w')"
  shows "\<exists>sig pf. json_get ''proof'' (ic_credential_data cred) = Some pf \<and>
    json_get ''proofValue'' pf = Some (JString (''u'' @ enc sig))"
  using assms(2) unfolding create_credential_def assms(1) Let_def
  by (auto simp: io_Inr unsigned_credential_def split: if_splits prod.splits dest!: sign_form)

end

interpretation local_sig: credential_signer "local_signer I seed" "b64url_encode I" for I seed
  by unfold_locales (auto simp: local_signer_def sign_value_def res_simps)

interpretation vault_sig: credential_signer "vault_signer E I vs" "b64url_encode I" for E I vs
  by unfold_locales (auto simp: vault_signer_def vault_sign_def io_Inr bind_res_Inr_iff)

section \<open>Local signatures\<close>

text \<open>Documented behaviour of Ed25519 and base64url.\<close>

definition ed25519_law :: "'w issuer_env \<Rightarrow> bool" where
  "ed25519_law I \<longleftrightarrow>
     (\<forall>bs. b64url_decode I (b64url_encode I bs) = Inr bs) \<and>
     (\<forall>seed. key_from_bytes I (verifying_key I seed) = Inr (verifying_key I seed)) \<and>
     (\<forall>seed m. signature_from_slice I (ed25519_sign I seed m) = Inr (ed25519_sign I seed m)) \<and>
     (\<forall>seed m. ed25519_verify I (verifying_key I seed) m (ed25519_sign I seed m) = Inr ())"

text \<open>
  A proof value made by the local signer verifies under its public key, and a proof value
  without the base64url prefix is refused whatever the key.
\<close>

theorem local_signature_verifies:
  assumes "ed25519_law I"
  shows "local_verify I (verifying_key I seed) m (sign_value I seed m) = Inr () \<and>
    (\<forall>pv. \<not> starts_with ''u'' pv \<longrightarrow> (\<exists>e. local_verify I (verifying_key I seed) m pv = Inl e))"
  using assms
  by (simp add: ed25519_law_def local_verify_def sign_value_def strip_prefix_def starts_with_def)

definition demo_issuer_env :: "(ledger \<times> nat) issuer_env" where
  "demo_issuer_env = \<lparr>verifying_key = id, ed25519_sign = (\<lambda>s m. s @ m), key_from_bytes = Inr,
     signature_from_slice = Inr,
     ed25519_verify = (\<lambda>k m sig. if sig = k @ m then Inr () else Inl ''bad''),
     b64url_encode = str_of_bytes, b64url_decode = (\<lambda>s. Inr (as_bytes s)), multibase_base58 = str_of_bytes,
     ie_getrandom = (\<lambda>n. io_return (replicate n 1)), new_uuid = (\<lambda>w. (''uuid'', w)),
     ie_now = (\<lambda>_. \<lparr>dt_secs = 8, dt_nanos = 0\<rparr>), ie_rfc3339 = (\<lambda>d. show_int (dt_secs d)),
     ie_in_range = (\<lambda>t. \<bar>t\<bar> < 8000000000000), ie_rfc3339_ok = (\<lambda>_. True),
     ie_value_display = (\<lambda>_. []), jcs_to_vec = (\<lambda>v. Inr (unary_print v))\<rparr>"

theorem local_signature_verifies_witness:
  "local_verify demo_issuer_env [3] [1, 2] (sign_value demo_issuer_env [3] [1, 2]) = Inr ()"
proof -
  have law: "ed25519_law demo_issuer_env" by (simp add: ed25519_law_def demo_issuer_env_def)
  have "verifying_key demo_issuer_env [3] = [3]" by (simp add: demo_issuer_env_def)
  with local_signature_verifies [OF law, of "[3]" "[1, 2]"] show ?thesis by simp
qed

section \<open>Creating a credential\<close>

lemma create_credential_InrE:
  assumes "create_credential S I iss schema_id issuer_did subject_did attributes expires w = (Inr cred, w')"
  obtains cid w1 schema w2 input sig w3 tx where
    "trim issuer_did \<noteq> []" "trim subject_did \<noteq> []" "dt_secs (ie_now I w) < expires"
    "new_uuid I w = (cid, w1)"
    "get_schema S (iss_fabric iss) schema_id w1 = (Inr schema, w2)"
    "validate_fields (ie_value_display I) (ie_rfc3339_ok I) schema (credential_subject subject_did attributes) = Inr ()"
    "ie_in_range I expires"
    "signing_input I issuer_did (ie_now I w2) (unsigned_credential I issuer_did (ie_now I w2)
       \<lparr>dt_secs = expires, dt_nanos = 0\<rparr> (credential_subject subject_did attributes)) = Inr input"
    "sg_sign (iss_signer iss) input w2 = (Inr sig, w3)"
    "record_credential_metadata S (iss_fabric iss) cid schema_id issuer_did subject_did expires w3 = (Inr tx, w')"
    "cred = \<lparr>ic_credential_id = cid, ic_schema_id = schema_id, ic_issuer_did = issuer_did,
       ic_subject_did = subject_did, ic_credential_data = json_insert ''proof''
         (JObject (proof_options I issuer_did (ie_now I w2) @ [(''proofValue'', JString sig)]))
         (unsigned_credential I issuer_did (ie_now I w2) \<lparr>dt_secs = expires, dt_nanos = 0\<rparr>
           (credential_subject subject_did attributes)),
       ic_issued_at = ie_now I w2, ic_expires_at = Some \<lparr>dt_secs = expires, dt_nanos = 0\<rparr>\<rparr>"
proof -
  obtain cid w1 where uuid: "new_uuid I w = (cid, w1)" by (meson surj_pair)
  from assms show thesis
    unfolding create_credential_def Let_def uuid
    by (auto simp: io_Inr timestamp_opt_def not_le split: if_splits intro: that [OF _ _ _ uuid])
qed

text \<open>A document without one of its members.\<close>

fun json_without :: "string \<Rightarrow> json \<Rightarrow> json" where
  "json_without k (JObject kvs) = JObject (filter (\<lambda>(k', _). k' \<noteq> k) kvs)"
| "json_without k v = v"

lemma filter_key_fresh: "k \<notin> fst ` set kvs \<Longrightarrow> filter (\<lambda>(k', _). k' \<noteq> k) kvs = kvs"
  by (induction kvs) auto

lemma json_without_insert:
  "k \<notin> fst ` set kvs \<Longrightarrow> json_without k (json_insert k x (JObject kvs)) = JObject kvs"
  by (simp add: filter_key_fresh)

lemma issued_without_proof:
  "json_without ''proof'' (json_insert ''proof'' pf (unsigned_credential I iss t u subject)) =
     unsigned_credential I iss t u subject"
  unfolding unsigned_credential_def by (rule json_without_insert) simp

lemma issued_proof:
  "json_get ''proof'' (json_insert ''proof'' pf (unsigned_credential I iss t u subject)) = Some pf"
  unfolding unsigned_credential_def by (rule json_get_insert_same)

text \<open>
  C30. A credential is issued only after every check, and in this order: both DIDs are given and
  the expiry is in the future; the schema read from the ledger accepts the subject; the signer
  signed the canonical form of exactly the credential returned without its proof, together with
  the proof options, and its answer is the proof value beside the same options; and the ledger
  recorded the metadata of the returned identifier, schema, issuer, subject and expiry. The document
  and the record returned name the issuer, the subject, the schema and the dates that were asked for.
\<close>

theorem create_credential_sound:
  assumes "create_credential S I iss schema_id issuer_did subject_did attributes expires w = (Inr cred, w')"
  shows "trim issuer_did \<noteq> [] \<and> trim subject_did \<noteq> [] \<and> dt_secs (ie_now I w) < expires \<and>
    ic_schema_id cred = schema_id \<and> ic_issuer_did cred = issuer_did \<and> ic_subject_did cred = subject_did \<and>
    ic_expires_at cred = Some \<lparr>dt_secs = expires, dt_nanos = 0\<rparr> \<and>
    (\<exists>schema w1 w2 w3 unsigned options input sig tx.
       new_uuid I w = (ic_credential_id cred, w1) \<and>
       get_schema S (iss_fabric iss) schema_id w1 = (Inr schema, w2) \<and>
       (\<forall>a\<in>set (cs_attributes schema).
          conforms (ie_rfc3339_ok I) (credential_subject subject_did attributes) a) \<and>
       ic_issued_at cred = ie_now I w2 \<and>
       unsigned = json_without ''proof'' (ic_credential_data cred) \<and>
       json_get ''issuer'' unsigned = Some (JString issuer_did) \<and>
       json_get ''issuanceDate'' unsigned = Some (JString (ie_rfc3339 I (ic_issued_at cred))) \<and>
       json_get ''expirationDate'' unsigned =
         Some (JString (ie_rfc3339 I \<lparr>dt_secs = expires, dt_nanos = 0\<rparr>)) \<and>
       json_get ''credentialSubject'' unsigned = Some (credential_subject subject_did attributes) \<and>
       options = [(''type'', JString ''DataIntegrityProof''), (''cryptosuite'', JString ''eddsa-jcs-2022''),
         (''created'', JString (ie_rfc3339 I (ic_issued_at cred))),
         (''proofPurpose'', JString ''assertionMethod''),
         (''verificationMethod'', JString (issuer_did @ ''#key-1''))] \<and>
       jcs_to_vec I (JObject [(''credential'', unsigned), (''proof'', JObject options)]) = Inr input \<and>
       sg_sign (iss_signer iss) input w2 = (Inr sig, w3) \<and>
       json_get ''proof'' (ic_credential_data cred) =
         Some (JObject (options @ [(''proofValue'', JString sig)])) \<and>
       record_credential_metadata S (iss_fabric iss) (ic_credential_id cred) schema_id issuer_did
         subject_did expires w3 = (Inr tx, w'))"
proof -
  from assms obtain cid w1 schema w2 input sig w3 tx where
    c: "trim issuer_did \<noteq> []" "trim subject_did \<noteq> []" "dt_secs (ie_now I w) < expires"
    and uuid: "new_uuid I w = (cid, w1)"
    and sch: "get_schema S (iss_fabric iss) schema_id w1 = (Inr schema, w2)"
    and val: "validate_fields (ie_value_display I) (ie_rfc3339_ok I) schema
      (credential_subject subject_did attributes) = Inr ()"
    and inp: "signing_input I issuer_did (ie_now I w2) (unsigned_credential I issuer_did (ie_now I w2)
       \<lparr>dt_secs = expires, dt_nanos = 0\<rparr> (credential_subject subject_did attributes)) = Inr input"
    and sg: "sg_sign (iss_signer iss) input w2 = (Inr sig, w3)"
    and rec: "record_credential_metadata S (iss_fabric iss) cid schema_id issuer_did subject_did expires w3 =
      (Inr tx, w')"
    and cred: "cred = \<lparr>ic_credential_id = cid, ic_schema_id = schema_id, ic_issuer_did = issuer_did,
       ic_subject_did = subject_did, ic_credential_data = json_insert ''proof''
         (JObject (proof_options I issuer_did (ie_now I w2) @ [(''proofValue'', JString sig)]))
         (unsigned_credential I issuer_did (ie_now I w2) \<lparr>dt_secs = expires, dt_nanos = 0\<rparr>
           (credential_subject subject_did attributes)),
       ic_issued_at = ie_now I w2, ic_expires_at = Some \<lparr>dt_secs = expires, dt_nanos = 0\<rparr>\<rparr>"
    by (rule create_credential_InrE)
  let ?u = "unsigned_credential I issuer_did (ie_now I w2) \<lparr>dt_secs = expires, dt_nanos = 0\<rparr>
           (credential_subject subject_did attributes)"
  let ?o = "proof_options I issuer_did (ie_now I w2)"
  have conf: "\<forall>a\<in>set (cs_attributes schema).
      conforms (ie_rfc3339_ok I) (credential_subject subject_did attributes) a"
    using val by (simp add: validate_fields_def iter_res_Inr_iff validate_field_iff)
  have data: "ic_credential_data cred = json_insert ''proof''
      (JObject (?o @ [(''proofValue'', JString sig)])) ?u" by (simp add: cred)
  have doc: "?u = json_without ''proof'' (ic_credential_data cred)"
    "json_get ''proof'' (ic_credential_data cred) = Some (JObject (?o @ [(''proofValue'', JString sig)]))"
    unfolding data by (simp_all only: issued_without_proof issued_proof)
  have members: "json_get ''issuer'' ?u = Some (JString issuer_did)"
    "json_get ''issuanceDate'' ?u = Some (JString (ie_rfc3339 I (ie_now I w2)))"
    "json_get ''expirationDate'' ?u = Some (JString (ie_rfc3339 I \<lparr>dt_secs = expires, dt_nanos = 0\<rparr>))"
    "json_get ''credentialSubject'' ?u = Some (credential_subject subject_did attributes)"
    by (simp_all add: unsigned_credential_def)
  have fields: "ic_credential_id cred = cid" "ic_schema_id cred = schema_id" "ic_issuer_did cred = issuer_did"
    "ic_subject_did cred = subject_did" "ic_issued_at cred = ie_now I w2"
    "ic_expires_at cred = Some \<lparr>dt_secs = expires, dt_nanos = 0\<rparr>" by (simp_all add: cred)
  show ?thesis
    using c uuid sch conf doc members inp sg rec unfolding fields signing_input_def proof_options_def
    by blast
qed

definition schema_ledger :: ledger where
  "schema_ledger = put_state ''SCHEMA_s'' (SchemaDoc \<lparr>cs_schema_id = ''s'', cs_issuer_did = ''i'',
     cs_name = ''n'', cs_version = ''1'', cs_attributes =
       [\<lparr>attr_name = ''orgId'', attr_type = ''string'', attr_predicate = False\<rparr>], cs_created = 1\<rparr>) genesis"

definition demo_issuer :: "(ledger \<times> nat) issuer" where
  "demo_issuer = \<lparr>iss_fabric = demo_client, iss_signer = local_signer demo_issuer_env [3]\<rparr>"

definition demo_attributes :: credential_attributes where
  "demo_attributes = \<lparr>user_role_id = ''admin'', org_id = ''org'', clearance_level = 4, timestamp = 7\<rparr>"

lemma demo_get_schema:
  "\<exists>schema. get_schema demo_sdk demo_client ''s'' (schema_ledger, 0) = (Inr schema, (schema_ledger, 0)) \<and>
     cs_attributes schema = [\<lparr>attr_name = ''orgId'', attr_type = ''string'', attr_predicate = False\<rparr>]"
proof -
  obtain schema where g: "GetSchema ''s'' schema_ledger = Inr schema" "cs_created schema = 1"
    "cs_attributes schema = [\<lparr>attr_name = ''orgId'', attr_type = ''string'', attr_predicate = False\<rparr>]"
    by (simp add: GetSchema_def schema_ledger_def)
  have "contract_query (''GetSchema'', [''s'']) (fst (schema_ledger, 0 :: nat)) =
      Some (Inr (json_of_go_schema schema))"
    by (simp add: contract_query_def g)
  moreover have "dec_credential_schema (json_of_go_schema schema) = Inr schema"
    by (rule dec_go_schema) (simp add: g i64_ok_def i64_max_def)
  ultimately show ?thesis using g(3) by (simp add: get_schema_def demo_query_as)
qed

lemma demo_create:
  "\<exists>cred. create_credential demo_sdk demo_issuer_env demo_issuer ''s'' ''i'' ''u'' demo_attributes 9
     (schema_ledger, 0) = (Inr cred, (schema_ledger, 0))"
proof -
  obtain schema where sch: "get_schema demo_sdk demo_client ''s'' (schema_ledger, 0) = (Inr schema, (schema_ledger, 0))"
    "cs_attributes schema = [\<lparr>attr_name = ''orgId'', attr_type = ''string'', attr_predicate = False\<rparr>]"
    using demo_get_schema by blast
  have t: "trim ''i'' \<noteq> []" "trim ''u'' \<noteq> []" by code_simp+
  have env: "ie_now demo_issuer_env w = \<lparr>dt_secs = 8, dt_nanos = 0\<rparr>" "new_uuid demo_issuer_env w = (''uuid'', w)"
    "ie_in_range demo_issuer_env 9" "jcs_to_vec demo_issuer_env v = Inr (unary_print v)" for w v
    by (simp_all add: demo_issuer_env_def)
  have val: "validate_fields (ie_value_display demo_issuer_env) (ie_rfc3339_ok demo_issuer_env) schema
      (credential_subject ''u'' demo_attributes) = Inr ()"
    by (simp add: validate_fields_def sch(2) validate_field_def credential_subject_def is_string_def)
  show ?thesis
    using demo_invoke
    by (simp add: create_credential_def t env Let_def res_simps demo_issuer_def sch(1) val timestamp_opt_def
        signing_input_def local_signer_def record_credential_metadata_def)
qed

theorem create_credential_sound_witness:
  "\<exists>schema w1 w2. get_schema demo_sdk (iss_fabric demo_issuer) ''s'' w1 = (Inr schema, w2) \<and>
     (\<forall>a\<in>set (cs_attributes schema).
        conforms (ie_rfc3339_ok demo_issuer_env) (credential_subject ''u'' demo_attributes) a)"
proof -
  obtain cred where "create_credential demo_sdk demo_issuer_env demo_issuer ''s'' ''i'' ''u''
      demo_attributes 9 (schema_ledger, 0) = (Inr cred, (schema_ledger, 0))"
    using demo_create by blast
  from create_credential_sound [OF this] show ?thesis by blast
qed

section \<open>An issued credential in the wallet and in the enclave\<close>

lemma issued_credential_read:
  assumes run: "create_credential S I iss schema_id issuer_did subject_did attributes expires w = (Inr cred, w')"
    and ts: "i64_ok (timestamp attributes)" and law: "print_parse_law pr (json_parse P)"
  shows "proofable_fields_of (ic_credential_data cred) = Inr attributes \<and>
    parse_credential_subject P (pr (ic_credential_data cred)) (Some (ic_credential_id cred)) =
      Inr \<lparr>dcs_user_clearance_level = clearance_level attributes,
           dcs_user_role_scalar = user_role_id attributes, dcs_subject_did = subject_did,
           dcs_credential_id = ic_credential_id cred\<rparr>"
proof -
  from run obtain t dt sig where data: "ic_credential_data cred = json_insert ''proof''
         (JObject (proof_options I issuer_did t @ [(''proofValue'', JString sig)]))
         (unsigned_credential I issuer_did t dt (credential_subject subject_did attributes))"
    by (elim create_credential_InrE) simp
  let ?v = "ic_credential_data cred"
  have subj: "json_get ''credentialSubject'' ?v = Some (credential_subject subject_did attributes)"
    unfolding data by (simp add: unsigned_credential_def)
  have i64: "as_i64 (json_of_i64 (timestamp attributes)) = Some (timestamp attributes)"
    using ts by (simp add: i64_ok_def as_i64_json_of_i64)
  have "json_wf ?v"
    using ts unfolding data
    by (simp add: unsigned_credential_def proof_options_def credential_subject_def i64_ok_def)
  then have parse: "json_parse P (pr ?v) = Inr ?v"
    using law by (simp add: print_parse_law_def)
  have "\<exists>e. dec_subject ?v = Inl e"
    unfolding data by (simp add: unsigned_credential_def dec_subject_def field_defs)
  then obtain e where e: "dec_subject ?v = Inl e" ..
  show ?thesis
  proof
    show "proofable_fields_of ?v = Inr attributes"
      unfolding proofable_fields_of_def subj by (simp add: credential_subject_def i64)
    show "parse_credential_subject P (pr ?v) (Some (ic_credential_id cred)) =
      Inr \<lparr>dcs_user_clearance_level = clearance_level attributes,
           dcs_user_role_scalar = user_role_id attributes, dcs_subject_did = subject_did,
           dcs_credential_id = ic_credential_id cred\<rparr>"
      unfolding parse_credential_subject_def from_slice_def parse
      by (simp add: e dec_value_def subj) (simp add: credential_subject_def)
  qed
qed

text \<open>
  C31. What the issuer writes, the holder's software reads: from the credential data the issuer
  returned, the wallet extracts exactly the attributes that were certified, and the enclave,
  given the stored bytes and the credential identifier, recovers the certified clearance level
  and role and the subject's DID.
\<close>

theorem issued_credential_understood:
  assumes "create_credential S I iss schema_id issuer_did subject_did attributes expires w = (Inr cred, w')"
    and "i64_ok (timestamp attributes)" "print_parse_law pr (json_parse P)"
  shows "proofable_fields_of (ic_credential_data cred) = Inr attributes \<and>
    parse_credential_subject P (pr (ic_credential_data cred)) (Some (ic_credential_id cred)) =
      Inr \<lparr>dcs_user_clearance_level = clearance_level attributes,
           dcs_user_role_scalar = user_role_id attributes, dcs_subject_did = subject_did,
           dcs_credential_id = ic_credential_id cred\<rparr>"
  using issued_credential_read [OF assms] .

theorem issued_credential_understood_witness:
  "\<exists>cred :: issued_credential. proofable_fields_of (ic_credential_data cred) = Inr demo_attributes"
proof -
  obtain cred where run: "create_credential demo_sdk demo_issuer_env demo_issuer ''s'' ''i'' ''u''
      demo_attributes 9 (schema_ledger, 0) = (Inr cred, (schema_ledger, 0))"
    using demo_create by blast
  have ts: "i64_ok (timestamp demo_attributes)" by (simp add: i64_ok_def demo_attributes_def i64_max_def)
  have "print_parse_law unary_print (json_parse mem_prims)"
    by (simp add: mem_prims_def plain_prims_def unary_law)
  from issued_credential_understood [OF run ts this] show ?thesis by blast
qed

end
