(* ===== verification/CredentialManager.thy ===== *)
theory CredentialManager
  imports Issuer
begin

text \<open>
  \<open>src/fabric-client/src/credential_manager.rs\<close>: the older manager that issues, stores and revokes
  credentials in one object. The crate does not declare it as a module; \<open>dzta-wallet\<close> and
  \<open>dzta-issuer\<close> took over its operations, and the last section compares them. The store, the
  passphrase and the path are the fields of \<open>Wallet.wallet\<close>; an Askar entry with its tags is read by
  the additional operation of \<open>askar_tags\<close>. An \<open>unwrap\<close> of a timestamp outside chrono's range is
  \<open>Panicked\<close>.
\<close>

record ('s, 't, 'w) askar_tags = "('s, 't, 'w) askar" +
  session_fetch_tags :: "'t \<Rightarrow> string \<Rightarrow> string \<Rightarrow> ('w, string, entry_tags option) io"

record 's credential_manager =
  cm_fabric_client :: fabric_client
  cm_wallet :: "'s wallet"

definition CredentialManager_new :: "fabric_client \<Rightarrow> string \<Rightarrow> 's credential_manager" where
  "CredentialManager_new fc p = \<lparr>cm_fabric_client = fc,
     cm_wallet = \<lparr>askar_store_path = p, askar_store = None, askar_passphrase = None\<rparr>\<rparr>"

definition storage_step :: "string \<Rightarrow> ('w, string, 'a) io \<Rightarrow> ('w, 'a) store_io" where
  "storage_step what op = io_map_err (\<lambda>e. StorageError (what @ e)) op"

section \<open>The store\<close>

definition cm_initialize_askar_store ::
  "('s, 't, 'w) askar \<Rightarrow> 's wallet \<Rightarrow> string \<Rightarrow> ('w, 's wallet) store_io" where
  "cm_initialize_askar_store A wal pass_key =
     io_bind (case path_parent (askar_store_path wal) of
         Some parent \<Rightarrow> storage_step ''Directory provisioning failed: '' (create_dir_all A parent)
       | None \<Rightarrow> io_return ()) (\<lambda>_.
     io_bind (storage_step ''Askar store initialization failed: ''
       (\<lambda>w. if path_exists A (askar_store_path wal) w
         then store_open A (db_uri (askar_store_path wal)) pass_key w
         else store_provision A (db_uri (askar_store_path wal)) pass_key w)) (\<lambda>store.
     io_return (wal\<lparr>askar_store := Some store, askar_passphrase := Some pass_key\<rparr>)))"

definition cm_get_askar_passphrase :: "'s wallet \<Rightarrow> bytes wallet_result" where
  "cm_get_askar_passphrase wal =
     bind_res (ok_or (StorageError ''Askar store passphrase not cached'') (askar_passphrase wal)) (\<lambda>pass.
     Inr (as_bytes pass))"

definition cm_fetch ::
  "('s, 't, 'w) askar \<Rightarrow> 's wallet \<Rightarrow> string \<Rightarrow> wallet_error \<Rightarrow> string \<Rightarrow> ('w, 't \<times> bytes) store_io" where
  "cm_fetch A wal what absent credential_id =
     io_bind (store_of wal) (\<lambda>store.
     io_bind (storage_step ''Session creation failed: '' (store_session A store)) (\<lambda>session.
     io_bind (storage_step what (session_fetch A session ''credentials'' credential_id)) (\<lambda>entry.
     io_bind (io_lift (ok_or absent entry)) (\<lambda>value.
     io_return (session, value)))))"

definition cm_fetch_raw_encrypted_record ::
  "('s, 't, 'w) askar \<Rightarrow> 's wallet \<Rightarrow> string \<Rightarrow> ('w, bytes) store_io" where
  "cm_fetch_raw_encrypted_record A wal credential_id =
     io_bind (cm_fetch A wal ''Raw record retrieval failed: '' (CredentialNotFound credential_id) credential_id)
       (\<lambda>(_, value). io_return value)"

definition cm_credential_absent :: "string \<Rightarrow> wallet_error" where
  "cm_credential_absent credential_id = StorageError (''Credential not found: '' @ credential_id)"

definition get_credential_metadata_from_askar ::
  "('s, 't, 'w) askar_tags \<Rightarrow> 's wallet \<Rightarrow> string \<Rightarrow> ('w, json) store_io" where
  "get_credential_metadata_from_askar A wal credential_id =
     io_bind (store_of wal) (\<lambda>store.
     io_bind (storage_step ''Session creation failed: '' (store_session A store)) (\<lambda>session.
     io_bind (storage_step ''Metadata retrieval failed: ''
       (session_fetch_tags A session ''credentials'' credential_id)) (\<lambda>entry.
     io_bind (io_lift (ok_or (cm_credential_absent credential_id) entry)) (\<lambda>tags.
     let is_revoked = (case find (\<lambda>tag. fst tag = ''revoked'') tags of
         Some tag \<Rightarrow> snd tag = ''true'' | None \<Rightarrow> False)
     in io_return (JObject [(''revoked'', JBool is_revoked)])))))"

definition cm_get_or_create_zkp_secret_seed ::
  "('s, 't, 'w) askar \<Rightarrow> 's wallet \<Rightarrow> ('w, bytes) store_io" where
  "cm_get_or_create_zkp_secret_seed A wal =
     io_bind (store_of wal) (\<lambda>store.
     io_bind (storage_step ''Session creation failed: '' (store_session A store)) (\<lambda>session.
     io_bind (storage_step ''Fetch failed: '' (session_fetch A session ''keys'' ''master_zkp_seed'')) (\<lambda>entry.
     case entry of
       Some value \<Rightarrow> io_return value
     | None \<Rightarrow>
         io_bind (storage_step ''RNG generation failed: '' (getrandom A 32)) (\<lambda>new_seed.
         io_bind (storage_step ''Failed to save ZKP seed: ''
           (session_insert A session ''keys'' ''master_zkp_seed'' new_seed [])) (\<lambda>_.
         io_bind (storage_step ''Commit failed: '' (session_commit A session)) (\<lambda>_.
         io_return new_seed))))))"

definition store_credential_in_askar ::
  "'c prims \<Rightarrow> ('s, 't, 'w) askar \<Rightarrow> 's wallet \<Rightarrow> string \<Rightarrow> json \<Rightarrow> ('w, unit) store_io" where
  "store_credential_in_askar P A wal credential_id credential_data =
     io_bind (store_of wal) (\<lambda>store.
     io_bind (io_lift (cm_get_askar_passphrase wal)) (\<lambda>passphrase.
     io_bind (io_result (getrandom A 12)) (\<lambda>random.
     io_bind (io_lift (map_err (\<lambda>e. StorageError (wallet_error_display (fmt P) e))
       (encrypt_wallet_record P random (value_print A credential_data) passphrase))) (\<lambda>encrypted_record.
     io_bind (storage_step ''Session creation failed: '' (store_session A store)) (\<lambda>session.
     io_bind (\<lambda>w. storage_step ''Credential storage failed: '' (session_insert A session ''credentials''
       credential_id encrypted_record
       [(''stored_at'', to_rfc3339 A (utc_now A w)), (''revoked'', ''false'')]) w) (\<lambda>_.
     storage_step ''Session commit failed: '' (session_commit A session)))))))"

definition retrieve_credential_from_askar ::
  "'c prims \<Rightarrow> ('s, 't, 'w) askar \<Rightarrow> 's wallet \<Rightarrow> string \<Rightarrow> ('w, json) store_io" where
  "retrieve_credential_from_askar P A wal credential_id =
     io_bind (cm_fetch A wal ''Credential retrieval failed: '' (cm_credential_absent credential_id) credential_id)
       (\<lambda>(_, value).
     io_bind (io_lift (cm_get_askar_passphrase wal)) (\<lambda>passphrase.
     io_bind (io_lift (map_err (\<lambda>e. StorageError (wallet_error_display (fmt P) e))
       (decrypt_wallet_record P value passphrase))) (\<lambda>cleartext.
     io_lift (map_err (\<lambda>e. StorageError (''Deserialization failed: '' @ serde_display (fmt P) e))
       (from_slice (json_parse P) dec_value cleartext)))))"

definition mark_credential_revoked_in_askar ::
  "('s, 't, 'w) askar \<Rightarrow> 's wallet \<Rightarrow> string \<Rightarrow> ('w, unit) store_io" where
  "mark_credential_revoked_in_askar A wal credential_id =
     io_bind (cm_fetch A wal ''Fetch failed: '' (cm_credential_absent credential_id) credential_id)
       (\<lambda>(session, value).
     io_bind (\<lambda>w. storage_step ''Revocation update failed: '' (session_replace A session ''credentials''
       credential_id value [(''revoked'', ''true''), (''revoked_at'', to_rfc3339 A (utc_now A w))]) w) (\<lambda>_.
     storage_step ''Session commit failed: '' (session_commit A session)))"

section \<open>Credentials on the ledger and in the store\<close>

definition cm_subject_payload :: "string \<Rightarrow> credential_attributes \<Rightarrow> json" where
  "cm_subject_payload subject_did attributes = JObject
     [(''id'', JString subject_did), (''userRoleId'', JString (user_role_id attributes)),
      (''orgId'', JString (org_id attributes)),
      (''clearanceLevel'', JNumber (PosInt (clearance_level attributes))),
      (''timestamp'', json_of_i64 (timestamp attributes))]"

definition cm_credential ::
  "'w issuer_env \<Rightarrow> string \<Rightarrow> datetime \<Rightarrow> datetime \<Rightarrow> json \<Rightarrow> json" where
  "cm_credential I issuer_did now expires subject = JObject
     [(''@context'', JArray [JString ''https://www.w3.org/2018/credentials/v1'',
        JString ''https://www.w3.org/2018/credentials/examples/v1'']),
      (''type'', JArray [JString ''VerifiableCredential'']), (''issuer'', JString issuer_did),
      (''issuanceDate'', JString (ie_rfc3339 I now)), (''expirationDate'', JString (ie_rfc3339 I expires)),
      (''credentialSubject'', subject),
      (''proof'', JObject [(''type'', JString ''Ed25519Signature2018''),
         (''verificationMethod'', JString (issuer_did @ ''#key-1'')),
         (''signatureValue'', JString ''placeholder_signature'')])]"

definition cm_get_schema ::
  "('h, 'w) sdk \<Rightarrow> 's credential_manager \<Rightarrow> string \<Rightarrow> ('w, credential_schema) wallet_io" where
  "cm_get_schema S cm schema_id = get_schema S (cm_fabric_client cm) schema_id"

definition cm_create_credential ::
  "('h, 'w) sdk \<Rightarrow> 'w issuer_env \<Rightarrow> 'c prims \<Rightarrow> ('s, 't, 'w) askar \<Rightarrow> 's credential_manager \<Rightarrow> string \<Rightarrow>
   string \<Rightarrow> string \<Rightarrow> credential_attributes \<Rightarrow> i64 \<Rightarrow> ('w, halt, stored_credential) io" where
  "cm_create_credential S I P A cm schema_id issuer_did subject_did attributes expires_at_unix = (\<lambda>w0.
     let (credential_id, w1) = new_uuid I w0 in
     io_bind (io_map_err Failed (cm_get_schema S cm schema_id)) (\<lambda>schema.
     let subject = cm_subject_payload subject_did attributes in
     io_bind (io_map_err Failed (io_lift
       (validate_fields (ie_value_display I) (ie_rfc3339_ok I) schema subject))) (\<lambda>_ w.
     io_bind (io_lift (ok_or Panicked (timestamp_opt (ie_in_range I) expires_at_unix))) (\<lambda>expires.
     let vc = cm_credential I issuer_did (ie_now I w) expires subject in
     io_bind (io_map_err Failed (store_credential_in_askar P A (cm_wallet cm) credential_id vc)) (\<lambda>_.
     io_bind (record_credential_metadata S (cm_fabric_client cm) credential_id schema_id issuer_did
       subject_did expires_at_unix) (\<lambda>_ w'.
     (Inr \<lparr>sc_credential_id = credential_id, sc_schema_id = schema_id, sc_issuer_did = issuer_did,
       sc_subject_did = subject_did, sc_credential_data = vc, sc_issued_at = ie_now I w',
       sc_expires_at = timestamp_opt (ie_in_range I) expires_at_unix, sc_stored_in_askar = True\<rparr>, w')))) w)) w1)"

definition cm_get_credential ::
  "('h, 'w) sdk \<Rightarrow> 'w issuer_env \<Rightarrow> 'c prims \<Rightarrow> ('s, 't, 'w) askar \<Rightarrow> 's credential_manager \<Rightarrow> string \<Rightarrow>
   ('w, halt, stored_credential) io" where
  "cm_get_credential S I P A cm credential_id =
     io_bind (io_map_err Failed (retrieve_credential_from_askar P A (cm_wallet cm) credential_id)) (\<lambda>vc_data.
     io_bind (io_map_err Failed (get_credential_metadata S (cm_fabric_client cm) credential_id)) (\<lambda>metadata.
     io_bind (io_lift (ok_or Panicked (timestamp_opt (ie_in_range I) (cm_issued_at metadata)))) (\<lambda>issued_at.
     io_return \<lparr>sc_credential_id = cm_credential_id metadata, sc_schema_id = cm_schema_id metadata,
       sc_issuer_did = cm_issuer_did metadata, sc_subject_did = cm_subject_did metadata,
       sc_credential_data = vc_data, sc_issued_at = issued_at,
       sc_expires_at = timestamp_opt (ie_in_range I) (cm_expires_at metadata), sc_stored_in_askar = True\<rparr>)))"

definition cm_verify_credential_active ::
  "('h, 'w) sdk \<Rightarrow> 'w issuer_env \<Rightarrow> 's credential_manager \<Rightarrow> string \<Rightarrow> ('w, bool) wallet_io" where
  "cm_verify_credential_active S I cm credential_id =
     io_bind (is_credential_revoked S (cm_fabric_client cm) credential_id) (\<lambda>is_revoked.
     if is_revoked then io_fail (RevocationError (''Credential revoked: '' @ credential_id))
     else
       io_bind (get_credential_metadata S (cm_fabric_client cm) credential_id) (\<lambda>metadata w.
         if dt_secs (ie_now I w) > cm_expires_at metadata
         then (Inl (RevocationError (''Credential expired: '' @ credential_id)), w)
         else (Inr True, w)))"

definition cm_proofable_fields :: "json \<Rightarrow> credential_attributes wallet_result" where
  "cm_proofable_fields credential_data =
     bind_res (ok_or (InvalidWitness ''Missing credentialSubject'')
       (json_get ''credentialSubject'' credential_data)) (\<lambda>subject.
     bind_res (ok_or (InvalidWitness ''Missing userRoleId'')
       (Option.bind (json_get ''userRoleId'' subject) as_str)) (\<lambda>role.
     bind_res (ok_or (InvalidWitness ''Missing orgId'')
       (Option.bind (json_get ''orgId'' subject) as_str)) (\<lambda>org.
     bind_res (ok_or (InvalidWitness ''Missing clearanceLevel'')
       (Option.bind (json_get ''clearanceLevel'' subject) as_u64)) (\<lambda>level.
     bind_res (ok_or (InvalidWitness ''Missing timestamp'')
       (Option.bind (json_get ''timestamp'' subject) as_i64)) (\<lambda>ts.
     Inr \<lparr>user_role_id = role, org_id = org, clearance_level = level, timestamp = ts\<rparr>)))))"

definition cm_extract_proofable_fields ::
  "('h, 'w) sdk \<Rightarrow> 'w issuer_env \<Rightarrow> 'c prims \<Rightarrow> ('s, 't, 'w) askar \<Rightarrow> 's credential_manager \<Rightarrow> string \<Rightarrow>
   ('w, halt, credential_attributes) io" where
  "cm_extract_proofable_fields S I P A cm credential_id =
     io_bind (cm_get_credential S I P A cm credential_id) (\<lambda>credential.
     io_map_err Failed (io_lift (cm_proofable_fields (sc_credential_data credential))))"

definition cm_revoke_credential ::
  "('h, 'w) sdk \<Rightarrow> ('s, 't, 'w) askar \<Rightarrow> 's credential_manager \<Rightarrow> string \<Rightarrow> ('w, halt, unit) io" where
  "cm_revoke_credential S A cm credential_id =
     io_bind (revoke_credential_tx S (cm_fabric_client cm) credential_id) (\<lambda>_.
     io_map_err Failed (mark_credential_revoked_in_askar A (cm_wallet cm) credential_id))"

definition cm_register_schema ::
  "('h, 'w) sdk \<Rightarrow> 'w issuer_env \<Rightarrow> 's credential_manager \<Rightarrow> string \<Rightarrow> string \<Rightarrow> string \<Rightarrow>
   schema_attribute list \<Rightarrow> ('w, halt, string) io" where
  "cm_register_schema S I cm issuer_did name version attributes = (\<lambda>w.
     let (schema_id, w1) = new_uuid I w in
     io_bind (register_schema S (cm_fabric_client cm) schema_id issuer_did name version attributes) (\<lambda>_.
     io_return schema_id) w1)"

section \<open>The manager and its successors\<close>

text \<open>
  How an error of the manager corresponds to the wallet's: both are the same; or both are storage
  errors and the manager puts a context before the wallet's text; or they name a failed opening each
  in its own words; or the manager has made a storage error of what the wallet reports as
  \<open>CredentialNotFound\<close> or as \<open>SerializationError\<close>.
\<close>

definition manager_error :: "fmt_env \<Rightarrow> string \<Rightarrow> wallet_error \<Rightarrow> wallet_error \<Rightarrow> bool" where
  "manager_error F c e e' \<longleftrightarrow>
     e = e' \<or>
     (\<exists>what t. e = StorageError (what @ t) \<and> e' = StorageError t) \<or>
     (\<exists>t. e = StorageError (''Askar store initialization failed: '' @ t) \<and>
        e' = StorageError (''Askar initialization failed: '' @ t)) \<or>
     e = StorageError (''Credential not found: '' @ c) \<and> e' = CredentialNotFound c \<or>
     (\<exists>x. e = StorageError (''Deserialization failed: '' @ serde_display F x) \<and>
        e' = SerializationError x)"

text \<open>
  Two computations that take every world to the same world, where they return the same value or
  fail with errors related by \<open>R\<close>.
\<close>

definition same_outcome :: "('e \<Rightarrow> 'f \<Rightarrow> bool) \<Rightarrow> ('w, 'e, 'a) io \<Rightarrow> ('w, 'f, 'a) io \<Rightarrow> bool" where
  "same_outcome R m n \<longleftrightarrow>
     (\<forall>w. rel_sum R (=) (fst (m w)) (fst (n w)) \<and> snd (m w) = snd (n w))"

abbreviation same_op :: "fmt_env \<Rightarrow> string \<Rightarrow> ('w, 'a) store_io \<Rightarrow> ('w, 'a) store_io \<Rightarrow> bool" where
  "same_op F c \<equiv> same_outcome (manager_error F c)"

lemma manager_error_refl [simp]: "manager_error F c e e"
  by (simp add: manager_error_def)

lemma same_outcome_refl: "same_op F c m m"
  by (auto simp: same_outcome_def sum.rel_refl)

lemma rel_sum_map_err: "(\<And>e. R (f e) (g e)) \<Longrightarrow> rel_sum R (=) (map_err f x) (map_err g x)"
  by (cases x) simp_all

lemma same_outcome_map_err:
  "(\<And>e. manager_error F c (f e) (g e)) \<Longrightarrow> same_op F c (io_map_err f m) (io_map_err g m)"
  by (simp add: same_outcome_def io_map_err_def rel_sum_map_err split: prod.split)

lemma same_outcome_bind:
  assumes "same_outcome R m n" "\<And>a. same_outcome R (f a) (g a)"
  shows "same_outcome R (io_bind m f) (io_bind n g)"
  unfolding same_outcome_def
proof
  fix w
  obtain r w1 where m: "m w = (r, w1)" by (meson surj_pair)
  obtain q w2 where n: "n w = (q, w2)" by (meson surj_pair)
  from assms(1) m n have "rel_sum R (=) r q" "w1 = w2"
    unfolding same_outcome_def by (metis fst_conv snd_conv)+
  then show "rel_sum R (=) (fst (io_bind m f w)) (fst (io_bind n g w)) \<and>
      snd (io_bind m f w) = snd (io_bind n g w)"
    using m n assms(2) by (cases r; cases q) (simp_all add: io_bind_def same_outcome_def)
qed

lemma same_outcome_lift: "rel_sum R (=) x y \<Longrightarrow> same_outcome R (io_lift x) (io_lift y)"
  by (simp add: same_outcome_def io_lift_def)

lemma context_error: "manager_error F c (StorageError (what @ t)) (StorageError t)"
  by (auto simp: manager_error_def)

lemma same_outcome_step: "same_op F c (storage_step what op) (storage op)"
  unfolding storage_step_def storage_def by (rule same_outcome_map_err) (rule context_error)

lemma same_outcome_step_at:
  "same_op F c (\<lambda>w. storage_step what (op w) w) (\<lambda>w. storage (op w) w)"
  by (simp add: same_outcome_def storage_step_def storage_def io_map_err_def rel_sum_map_err
      context_error split: prod.split)

lemma same_passphrase: "cm_get_askar_passphrase wal = get_askar_passphrase wal"
  by (cases "askar_passphrase wal") (simp_all add: cm_get_askar_passphrase_def get_askar_passphrase_def)

lemmas same_outcome_rules = same_outcome_bind same_outcome_step same_outcome_step_at same_outcome_refl

lemma same_fetch:
  assumes "manager_error F c absent (CredentialNotFound c)"
  shows "same_op F c (cm_fetch A wal what absent c)
    (fetch_entry A wal (CredentialNotFound c) ''credentials'' c)"
  unfolding cm_fetch_def fetch_entry_def
proof (intro same_outcome_rules)
  show "same_op F c (io_lift (ok_or absent e)) (io_lift (ok_or (CredentialNotFound c) e))" for e
    by (rule same_outcome_lift) (cases e; simp add: assms)
qed

lemma absent_error: "manager_error F c (cm_credential_absent c) (CredentialNotFound c)"
  by (simp add: manager_error_def cm_credential_absent_def)

lemma same_initialize: "same_op F c (cm_initialize_askar_store A wal p) (initialize A wal p)"
  unfolding cm_initialize_askar_store_def initialize_def storage_step_def
proof (intro same_outcome_rules same_outcome_map_err)
  show "manager_error F c (StorageError (''Askar store initialization failed: '' @ e))
      (StorageError (''Askar initialization failed: '' @ e))" for e
    unfolding manager_error_def by blast
qed

lemma same_seed:
  "same_op F c (cm_get_or_create_zkp_secret_seed A wal) (get_or_create_zkp_secret_seed A wal)"
  unfolding cm_get_or_create_zkp_secret_seed_def get_or_create_zkp_secret_seed_def
proof (intro same_outcome_bind same_outcome_step same_outcome_refl)
  fix session and entry :: "bytes option"
  show "same_op F c
    (case entry of None \<Rightarrow>
         io_bind (storage_step ''RNG generation failed: '' (getrandom A 32)) (\<lambda>new_seed.
         io_bind (storage_step ''Failed to save ZKP seed: ''
           (session_insert A session ''keys'' ''master_zkp_seed'' new_seed [])) (\<lambda>_.
         io_bind (storage_step ''Commit failed: '' (session_commit A session)) (\<lambda>_.
         io_return new_seed)))
     | Some value \<Rightarrow> io_return value)
    (case entry of None \<Rightarrow>
         io_bind (io_map_err (\<lambda>e. StorageError (''RNG generation failed: '' @ e)) (getrandom A 32)) (\<lambda>seed.
         io_bind (storage (session_insert A session ''keys'' ''master_zkp_seed'' seed [])) (\<lambda>_.
         io_bind (storage (session_commit A session)) (\<lambda>_.
         io_return seed)))
     | Some value \<Rightarrow> io_return value)"
    unfolding storage_step_def [of "''RNG generation failed: ''"]
    by (cases entry) (simp_all only: option.case, (intro same_outcome_rules)+)
qed

lemma same_store:
  "same_op F c (store_credential_in_askar P A wal c v) (store_credential P A wal c v)"
  unfolding store_credential_in_askar_def store_credential_def same_passphrase
  by (intro same_outcome_rules)

lemma same_retrieve:
  "same_op (fmt P) c (retrieve_credential_from_askar P A wal c) (get_credential P A wal c)"
  unfolding retrieve_credential_from_askar_def get_credential_def same_passphrase split_def
proof (intro same_outcome_rules same_fetch absent_error same_outcome_lift rel_sum_map_err)
  show "manager_error (fmt P) c (StorageError (''Deserialization failed: '' @ serde_display (fmt P) e))
      (SerializationError e)" for e
    unfolding manager_error_def by blast
qed

lemma same_mark:
  "same_op F c (mark_credential_revoked_in_askar A wal c) (mark_credential_revoked A wal c)"
  unfolding mark_credential_revoked_in_askar_def mark_credential_revoked_def split_def
  by (intro same_outcome_rules same_fetch absent_error)

lemma same_raw:
  "same_op F c (cm_fetch_raw_encrypted_record A wal c) (fetch_raw_encrypted_record A wal c)"
  unfolding cm_fetch_raw_encrypted_record_def fetch_raw_encrypted_record_def split_def
  by (intro same_outcome_rules same_fetch manager_error_refl)

text \<open>
  C29. The manager's store operations are the wallet's: on every store, wallet and world, opening the
  store, storing, reading and marking a credential, reading the raw record and drawing the master
  seed give the same value and the same world, and fail in the same worlds. A failure differs in its
  value only as \<open>manager_error\<close> says: by a context in front of the text or the words for a failed
  opening, or by the variant, where the manager has a storage error for the wallet's
  \<open>CredentialNotFound\<close> and \<open>SerializationError\<close>.
\<close>

theorem manager_matches_wallet:
  "same_op (fmt P) c (cm_initialize_askar_store A wal p) (initialize A wal p) \<and>
   same_op (fmt P) c (store_credential_in_askar P A wal c v) (store_credential P A wal c v) \<and>
   same_op (fmt P) c (retrieve_credential_from_askar P A wal c) (get_credential P A wal c) \<and>
   same_op (fmt P) c (mark_credential_revoked_in_askar A wal c) (mark_credential_revoked A wal c) \<and>
   same_op (fmt P) c (cm_fetch_raw_encrypted_record A wal c) (fetch_raw_encrypted_record A wal c) \<and>
   same_op (fmt P) c (cm_get_or_create_zkp_secret_seed A wal) (get_or_create_zkp_secret_seed A wal) \<and>
   cm_get_askar_passphrase wal = get_askar_passphrase wal"
  by (intro conjI same_initialize same_store same_retrieve same_mark same_raw same_seed same_passphrase)

end
