(* ===== verification/Broker.thy ===== *)
theory Broker
  imports Vault ZkpCore
begin

text \<open>
  The attestation broker: the handlers of \<open>src/dzta-attestation-broker/src/routes/\<close> and the start
  up of \<open>bin/attestation-broker.rs\<close>. Handlers run in the world \<open>'w\<close>; an \<open>ApiError\<close> is a status and
  a message. The DCAP library is the record \<open>quote_env\<close>: \<open>dcap_verify\<close> is verification of a quote
  with its collateral under the strict policy at a time, and yields the SGX report, or \<open>None\<close> when
  the quote is of another technology.
\<close>

record sgx_report =
  mr_enclave :: bytes
  mr_signer :: bytes
  rp_report_data :: bytes

record ('q, 'w) quote_env =
  pccs_client :: "string \<Rightarrow> string + 'q"
  fetch_collateral :: "'q \<Rightarrow> bytes \<Rightarrow> ('w, string, 'q) io"
  dcap_verify :: "bytes \<Rightarrow> 'q \<Rightarrow> nat \<Rightarrow> string + sgx_report option"
  unix_now :: "'w \<Rightarrow> string + nat"
  q_sha256 :: "bytes \<Rightarrow> bytes"
  q_hex_encode :: "bytes \<Rightarrow> string"
  q_hex_decode :: "string \<Rightarrow> string + bytes"

record app_state =
  pccs_url :: string
  expected_mrenclave :: bytes
  expected_mrsigner :: bytes
  kms :: secret_provider
  datakey_engine :: "vault_datakey_engine option"

type_synonym api_error = "nat \<times> string"
type_synonym ('w, 'a) api_io = "('w, api_error, 'a) io"

definition api_error_of_broker :: "('k, 'w) http_env \<Rightarrow> broker_error \<Rightarrow> api_error" where
  "api_error_of_broker E err = (500, broker_error_display (he_fmt E) err)"

definition into_response :: "api_error \<Rightarrow> nat \<times> json" where
  "into_response e = (fst e, JObject [(''error'', JString (snd e))])"

section \<open>Requests\<close>

record unwrap_request =
  ur_quote :: string
  ur_enclave_public_key :: string
  ur_required_clearance_level :: u64
  ur_wallet_ciphertext :: string
  ur_seed_ciphertext :: string

record release_request = unwrap_request +
  ur_credential_key_id :: string

record unwrap_response =
  un_encrypted_wallet_key :: string
  un_encrypted_master_seed :: string

definition dec_provision_request :: "string decoder" where
  "dec_provision_request v =
     bind_res (struct_fields [''enclave_public_key''] v) (required_field dec_string [''enclave_public_key''])"

definition dec_unwrap_request :: "unwrap_request decoder" where
  "dec_unwrap_request v =
     bind_res (struct_fields [''quote'', ''enclave_public_key'', ''required_clearance_level'',
       ''wallet_ciphertext'', ''seed_ciphertext''] v) (\<lambda>fs.
     bind_res (required_field dec_string [''quote''] fs) (\<lambda>q.
     bind_res (required_field dec_string [''enclave_public_key''] fs) (\<lambda>k.
     bind_res (required_field dec_u64 [''required_clearance_level''] fs) (\<lambda>c.
     bind_res (required_field dec_string [''wallet_ciphertext''] fs) (\<lambda>wc.
     bind_res (required_field dec_string [''seed_ciphertext''] fs) (\<lambda>sc.
     Inr \<lparr>ur_quote = q, ur_enclave_public_key = k, ur_required_clearance_level = c,
          ur_wallet_ciphertext = wc, ur_seed_ciphertext = sc\<rparr>))))))"

definition dec_release_request :: "release_request decoder" where
  "dec_release_request v =
     bind_res (struct_fields [''quote'', ''enclave_public_key'', ''credential_key_id'',
       ''required_clearance_level'', ''wallet_ciphertext'', ''seed_ciphertext''] v) (\<lambda>fs.
     bind_res (required_field dec_string [''quote''] fs) (\<lambda>q.
     bind_res (required_field dec_string [''enclave_public_key''] fs) (\<lambda>k.
     bind_res (required_field dec_string [''credential_key_id''] fs) (\<lambda>i.
     bind_res (required_field dec_u64 [''required_clearance_level''] fs) (\<lambda>c.
     bind_res (required_field dec_string [''wallet_ciphertext''] fs) (\<lambda>wc.
     bind_res (required_field dec_string [''seed_ciphertext''] fs) (\<lambda>sc.
     Inr \<lparr>ur_quote = q, ur_enclave_public_key = k, ur_required_clearance_level = c,
          ur_wallet_ciphertext = wc, ur_seed_ciphertext = sc, ur_credential_key_id = i\<rparr>)))))))"

section \<open>Quote verification\<close>

definition session_binding :: "string \<Rightarrow> u64 \<Rightarrow> bytes" where
  "session_binding enclave_public_key required_clearance_level =
     as_bytes ''dZTA_SGX_SESSION_v1'' @ as_bytes enclave_public_key @
     to_be_bytes required_clearance_level"

definition check_report ::
  "('q, 'w) quote_env \<Rightarrow> app_state \<Rightarrow> bytes \<Rightarrow> string \<Rightarrow> u64 \<Rightarrow> sgx_report \<Rightarrow>
   api_error + verified_enclave" where
  "check_report Q state quote enclave_public_key required_clearance_level report =
     (if mr_enclave report \<noteq> expected_mrenclave state \<or> mr_signer report \<noteq> expected_mrsigner state
      then Inl (400, ''Unexpected enclave measurement or signer'')
      else
        let expected_report_data = q_sha256 Q (session_binding enclave_public_key required_clearance_level)
        in if take 32 (rp_report_data report) \<noteq> expected_report_data
           then Inl (400, ''Quote report data does not match requested session'')
           else Inr \<lparr>ve_quote = quote, ve_report_data = rp_report_data report,
             ve_enclave_public_key = enclave_public_key,
             ve_mrenclave = q_hex_encode Q (mr_enclave report),
             ve_mrsigner = q_hex_encode Q (mr_signer report)\<rparr>)"

definition verify_sgx_quote ::
  "('k, 'w) http_env \<Rightarrow> ('q, 'w) quote_env \<Rightarrow> app_state \<Rightarrow> string \<Rightarrow> string \<Rightarrow> u64 \<Rightarrow>
   ('w, verified_enclave) api_io" where
  "verify_sgx_quote E Q state quote_b64 enclave_public_key required_clearance_level =
     io_bind (io_lift (map_err (\<lambda>e. (400, ''Invalid base64 quote: '' @ e)) (b64_decode E quote_b64))) (\<lambda>quote.
     io_bind (io_lift (map_err (\<lambda>e. (500, ''PCCS client error: '' @ e)) (pccs_client Q (pccs_url state)))) (\<lambda>cl.
     io_bind (io_map_err (\<lambda>e. (500, ''Failed to fetch collateral: '' @ e)) (fetch_collateral Q cl quote)) (\<lambda>collateral.
     io_bind (\<lambda>w. (map_err (\<lambda>e. (500, e)) (unix_now Q w), w)) (\<lambda>now.
     io_bind (io_lift (map_err (\<lambda>e. (400, ''Quote verification failed: '' @ e))
       (dcap_verify Q quote collateral now))) (\<lambda>claims.
     io_bind (io_lift (ok_or (400, ''Quote is not an SGX quote'') claims)) (\<lambda>report.
     io_lift (check_report Q state quote enclave_public_key required_clearance_level report)))))))"

section \<open>Handlers\<close>

definition engine_of :: "app_state \<Rightarrow> api_error + vault_datakey_engine" where
  "engine_of state = ok_or (500, ''Datakey engine not initialized'') (datakey_engine state)"

definition provision_datakey ::
  "('k, 'w) http_env \<Rightarrow> app_state \<Rightarrow> string \<Rightarrow> ('w, provisioning_datakey_response) api_io" where
  "provision_datakey E state enclave_public_key =
     (if trim enclave_public_key = [] then io_fail (400, ''Enclave public key cannot be empty'')
      else
        io_bind (io_lift (engine_of state)) (\<lambda>engine.
        io_bind (io_map_err (api_error_of_broker E)
          (engine_provision_datakey E engine enclave_public_key)) (\<lambda>wallet_provision.
        io_bind (io_map_err (api_error_of_broker E) (generate_vault_random_seed E engine)) (\<lambda>raw_master_seed.
        io_bind (io_map_err (api_error_of_broker E) (engine_encrypt E engine raw_master_seed)) (\<lambda>seed_ciphertext.
        io_bind (io_map_err (api_error_of_broker E)
          (wrap_bytes_for_enclave E raw_master_seed enclave_public_key)) (\<lambda>encrypted_master_seed.
        io_return \<lparr>pr_wallet_ciphertext = pr_wallet_ciphertext wallet_provision,
          pr_encrypted_wallet_key = pr_encrypted_wallet_key wallet_provision,
          pr_seed_ciphertext = seed_ciphertext,
          pr_encrypted_master_seed = encrypted_master_seed\<rparr>))))))"

definition unwrap_datakey ::
  "('k, 'w) http_env \<Rightarrow> ('q, 'w) quote_env \<Rightarrow> app_state \<Rightarrow> unwrap_request \<Rightarrow>
   ('w, unwrap_response) api_io" where
  "unwrap_datakey E Q state request =
     (if trim (ur_quote request) = [] then io_fail (400, ''Invalid or empty enclave quote'')
      else if trim (ur_wallet_ciphertext request) = [] \<or> trim (ur_seed_ciphertext request) = []
      then io_fail (400, ''Missing stored wallet or seed ciphertext'')
      else
        io_bind (io_lift (engine_of state)) (\<lambda>engine.
        io_bind (verify_sgx_quote E Q state (ur_quote request) (ur_enclave_public_key request)
          (ur_required_clearance_level request)) (\<lambda>enclave.
        io_bind (io_map_err (api_error_of_broker E) (unwrap_datakey_for_enclave E engine
          (ur_wallet_ciphertext request) (ve_enclave_public_key enclave))) (\<lambda>encrypted_wallet_key.
        io_bind (io_map_err (api_error_of_broker E) (unwrap_datakey_for_enclave E engine
          (ur_seed_ciphertext request) (ve_enclave_public_key enclave))) (\<lambda>encrypted_master_seed.
        io_return \<lparr>un_encrypted_wallet_key = encrypted_wallet_key,
          un_encrypted_master_seed = encrypted_master_seed\<rparr>)))))"

definition release_key ::
  "('k, 'w) http_env \<Rightarrow> ('q, 'w) quote_env \<Rightarrow> app_state \<Rightarrow> release_request \<Rightarrow>
   ('w, wrapped_enclave_secrets) api_io" where
  "release_key E Q state request =
     io_bind (verify_sgx_quote E Q state (ur_quote request) (ur_enclave_public_key request)
       (ur_required_clearance_level request)) (\<lambda>enclave.
     io_map_err (api_error_of_broker E) (release_for_verified_enclave E (kms state) enclave
       (ur_credential_key_id request) (ur_wallet_ciphertext request) (ur_seed_ciphertext request)))"

section \<open>Start up\<close>

definition hex_env :: "('k, 'w) http_env \<Rightarrow> ('q, 'w) quote_env \<Rightarrow> string \<Rightarrow> string + bytes" where
  "hex_env E Q name =
     bind_res (ok_or (''missing '' @ name) (he_env_var E name)) (\<lambda>value.
     map_err (\<lambda>e. ''invalid '' @ name @ '': '' @ e) (q_hex_decode Q value))"

definition select_provider :: "('k, 'w) http_env \<Rightarrow> string + secret_provider" where
  "select_provider E =
     (let name = env_default E ''DZTA_SECRET_PROVIDER'' ''https'';
          addr = env_default E ''VAULT_ADDR'' ''http://127.0.0.1:8200'';
          show_err = broker_error_display (he_fmt E)
      in if name = ''https'' then
           bind_res (ok_or ''environment variable not found'' (he_env_var E ''DZTA_KMS_ENDPOINT'')) (\<lambda>endpoint.
           bind_res (map_err show_err (HttpsKmsProvider_new E endpoint
             (he_env_var E ''DZTA_KMS_BEARER_TOKEN''))) (\<lambda>p. Inr (HttpsKms p)))
         else if name = ''vault'' then
           bind_res (ok_or ''missing VAULT_TOKEN for Vault provider'' (he_env_var E ''VAULT_TOKEN'')) (\<lambda>token.
           bind_res (ok_or ''missing DZTA_VAULT_TRANSIT_KEY for Vault provider''
             (he_env_var E ''DZTA_VAULT_TRANSIT_KEY'')) (\<lambda>key.
           bind_res (map_err show_err (VaultTransitProvider_new E addr token key)) (\<lambda>p.
           Inr (VaultSecretRelease p))))
         else Inl (''unsupported DZTA_SECRET_PROVIDER: '' @ name))"

definition broker_main :: "('k, 'w) http_env \<Rightarrow> ('q, 'w) quote_env \<Rightarrow> string + app_state" where
  "broker_main E Q =
     bind_res (select_provider E) (\<lambda>secret_provider.
     bind_res (case (he_env_var E ''VAULT_TOKEN'', he_env_var E ''DZTA_VAULT_TRANSIT_KEY'') of
         (Some token, Some key) \<Rightarrow>
           map_err (broker_error_display (he_fmt E)) (bind_res (VaultDatakeyEngine_new E
             (env_default E ''VAULT_ADDR'' ''http://127.0.0.1:8200'') token key) (\<lambda>e. Inr (Some e)))
       | _ \<Rightarrow> Inr None) (\<lambda>engine.
     bind_res (hex_env E Q ''DZTA_MRENCLAVE'') (\<lambda>mrenclave.
     bind_res (hex_env E Q ''DZTA_MRSIGNER'') (\<lambda>mrsigner.
     Inr \<lparr>pccs_url = env_default E ''PCCS_URL'' ''https://pccs.phala.network'',
       expected_mrenclave = mrenclave, expected_mrsigner = mrsigner, kms = secret_provider,
       datakey_engine = engine\<rparr>))))"

section \<open>No secret without attestation\<close>

text \<open>
  The contract of the gate: a quote that DCAP accepts, of the expected enclave and signer, whose
  report data is the digest of this public key and this clearance level.
\<close>

definition attested ::
  "('k, 'w) http_env \<Rightarrow> ('q, 'w) quote_env \<Rightarrow> app_state \<Rightarrow> string \<Rightarrow> string \<Rightarrow> u64 \<Rightarrow> bool" where
  "attested E Q state quote_b64 pk level \<longleftrightarrow>
     (\<exists>quote collateral now report. b64_decode E quote_b64 = Inr quote \<and>
        dcap_verify Q quote collateral now = Inr (Some report) \<and>
        mr_enclave report = expected_mrenclave state \<and> mr_signer report = expected_mrsigner state \<and>
        take 32 (rp_report_data report) = q_sha256 Q (session_binding pk level))"

lemma check_report_Inr:
  "check_report Q state quote pk level report = Inr enclave \<longleftrightarrow>
     mr_enclave report = expected_mrenclave state \<and> mr_signer report = expected_mrsigner state \<and>
     take 32 (rp_report_data report) = q_sha256 Q (session_binding pk level) \<and>
     enclave = \<lparr>ve_quote = quote, ve_report_data = rp_report_data report, ve_enclave_public_key = pk,
       ve_mrenclave = q_hex_encode Q (mr_enclave report), ve_mrsigner = q_hex_encode Q (mr_signer report)\<rparr>"
  by (auto simp: check_report_def Let_def)

lemma verify_sgx_quote_Inr:
  assumes "verify_sgx_quote E Q state quote_b64 pk level w = (Inr enclave, w')"
  shows "attested E Q state quote_b64 pk level \<and> ve_enclave_public_key enclave = pk"
  using assms unfolding verify_sgx_quote_def attested_def
  by (auto simp: io_Inr check_report_Inr)

lemma wrap_bytes_Inr:
  "wrap_bytes_for_enclave E raw pem w = (Inr c, w') \<longleftrightarrow>
     (\<exists>k ct. rsa_from_pem E pem = Inr k \<and> rsa_oaep_encrypt E k raw w = (Inr ct, w') \<and> c = b64_encode E ct)"
  by (auto simp: wrap_bytes_for_enclave_def io_Inr)

lemma unwrap_datakey_for_enclave_Inr:
  "unwrap_datakey_for_enclave E eng ct pem w = (Inr c, w') \<longleftrightarrow>
     (\<exists>raw w1 k enc. engine_decrypt E eng ct w = (Inr raw, w1) \<and> rsa_from_pem E pem = Inr k \<and>
        rsa_oaep_encrypt E k raw w1 = (Inr enc, w') \<and> c = b64_encode E enc)"
  by (auto simp: unwrap_datakey_for_enclave_def io_Inr wrap_bytes_Inr)

text \<open>
  C9. The unwrap endpoint answers with secrets only for an attested enclave: when it succeeds the
  quote in the request passed DCAP verification with the expected measurement and signer and is
  bound to the public key and clearance level of the request, and what is returned are Vault's
  plaintexts of the two stored ciphertexts, each encrypted to that public key.
\<close>

theorem unwrap_only_when_attested:
  assumes "unwrap_datakey E Q state rq w = (Inr resp, w')"
  shows "attested E Q state (ur_quote rq) (ur_enclave_public_key rq) (ur_required_clearance_level rq) \<and>
    (\<exists>eng k dek seed w1 w2 w3 w4 w5 c1 c2. datakey_engine state = Some eng \<and>
       rsa_from_pem E (ur_enclave_public_key rq) = Inr k \<and>
       engine_decrypt E eng (ur_wallet_ciphertext rq) w1 = (Inr dek, w2) \<and>
       rsa_oaep_encrypt E k dek w2 = (Inr c1, w3) \<and>
       engine_decrypt E eng (ur_seed_ciphertext rq) w3 = (Inr seed, w4) \<and>
       rsa_oaep_encrypt E k seed w4 = (Inr c2, w5) \<and>
       resp = \<lparr>un_encrypted_wallet_key = b64_encode E c1, un_encrypted_master_seed = b64_encode E c2\<rparr>)"
proof -
  from assms obtain eng enclave w1 a w3 b where
    eng: "datakey_engine state = Some eng"
    and ver: "verify_sgx_quote E Q state (ur_quote rq) (ur_enclave_public_key rq)
      (ur_required_clearance_level rq) w = (Inr enclave, w1)"
    and a: "unwrap_datakey_for_enclave E eng (ur_wallet_ciphertext rq)
      (ve_enclave_public_key enclave) w1 = (Inr a, w3)"
    and b: "unwrap_datakey_for_enclave E eng (ur_seed_ciphertext rq)
      (ve_enclave_public_key enclave) w3 = (Inr b, w')"
    and r: "resp = \<lparr>un_encrypted_wallet_key = a, un_encrypted_master_seed = b\<rparr>"
    unfolding unwrap_datakey_def engine_of_def
    by (auto simp: io_Inr io_fail_app split: if_splits)
  from verify_sgx_quote_Inr [OF ver] a b eng r show ?thesis
    unfolding unwrap_datakey_for_enclave_Inr by auto blast
qed

definition demo_quote_env :: "(unit, nat) quote_env" where
  "demo_quote_env = \<lparr>pccs_client = (\<lambda>_. Inr ()), fetch_collateral = (\<lambda>_ _. io_return ()),
     dcap_verify = (\<lambda>q _ _. Inr (Some \<lparr>mr_enclave = [1], mr_signer = [2],
        rp_report_data = q @ replicate 32 0\<rparr>)),
     unix_now = (\<lambda>_. Inr 0), q_sha256 = (\<lambda>bs. take 32 (rev bs @ replicate 32 0)),
     q_hex_encode = str_of_bytes, q_hex_decode = (\<lambda>s. Inr (as_bytes s))\<rparr>"

definition demo_engine :: vault_datakey_engine where
  "demo_engine = \<lparr>vault_addr = ''http://v'', vault_token = ''t'', secret_key_name = ''k'',
     vde_client = \<lparr>vc_accept_invalid_certs = False, vc_root_certificate = None\<rparr>\<rparr>"

definition demo_state :: app_state where
  "demo_state = \<lparr>pccs_url = ''p'', expected_mrenclave = [1], expected_mrsigner = [2],
     kms = VaultSecretRelease \<lparr>vtp_client = \<lparr>vc_accept_invalid_certs = False, vc_root_certificate = None\<rparr>,
       vtp_address = ''http://v'', vtp_token = ''t'', vtp_transit_key = ''k''\<rparr>,
     datakey_engine = Some demo_engine\<rparr>"

definition demo_release :: release_request where
  "demo_release = \<lparr>ur_quote = str_of_bytes (q_sha256 demo_quote_env (session_binding ''PEM'' 3)),
     ur_enclave_public_key = ''PEM'', ur_required_clearance_level = 3,
     ur_wallet_ciphertext = ''vault:v1:a'', ur_seed_ciphertext = ''vault:v1:b'',
     ur_credential_key_id = ''id''\<rparr>"

lemma demo_verify:
  "verify_sgx_quote mem_env demo_quote_env demo_state (ur_quote demo_release) ''PEM'' 3 n =
     (Inr \<lparr>ve_quote = q_sha256 demo_quote_env (session_binding ''PEM'' 3),
        ve_report_data = q_sha256 demo_quote_env (session_binding ''PEM'' 3) @ replicate 32 0,
        ve_enclave_public_key = ''PEM'', ve_mrenclave = str_of_bytes [1],
        ve_mrsigner = str_of_bytes [2]\<rparr>, n)"
proof -
  have len: "length (q_sha256 demo_quote_env bs) = 32" for bs by (simp add: demo_quote_env_def)
  have env: "b64_decode mem_env (str_of_bytes bs) = Inr bs"
    "pccs_client demo_quote_env u = Inr ()" "fetch_collateral demo_quote_env c q n = (Inr (), n)"
    "unix_now demo_quote_env n = Inr 0"
    "dcap_verify demo_quote_env q c t = Inr (Some \<lparr>mr_enclave = [1], mr_signer = [2],
        rp_report_data = q @ replicate 32 0\<rparr>)"
    "q_hex_encode demo_quote_env = str_of_bytes" for bs u c q n t
    by (simp_all add: mem_env_def demo_quote_env_def io_return_def)
  have st: "expected_mrenclave demo_state = [1]" "expected_mrsigner demo_state = [2]"
    by (simp_all add: demo_state_def)
  show ?thesis
    by (simp add: verify_sgx_quote_def res_simps env demo_release_def check_report_def st len)
qed

lemma mem_engine_decrypt:
  "engine_decrypt mem_env eng (''vault:v1:'' @ s) n = (Inr (as_bytes s), n + 1)"
  by (simp add: engine_decrypt_def mem_env_def mem_answer_def res_simps json_body_def from_slice_def
      dec_value_def json_index_def is_success_def)

lemma mem_rsa:
  "rsa_from_pem mem_env pem = (if pem = [] then Inl ''empty'' else Inr (as_bytes pem))"
  "rsa_oaep_encrypt mem_env k m n = (Inr (k @ m), n)" "b64_encode mem_env = str_of_bytes"
  by (simp_all add: mem_env_def)

lemma mem_unwrap:
  "pem \<noteq> [] \<Longrightarrow> unwrap_datakey_for_enclave mem_env eng (''vault:v1:'' @ s) pem n =
     (Inr (str_of_bytes (as_bytes pem @ as_bytes s)), n + 1)"
  using mem_engine_decrypt [of eng s n]
  by (simp add: unwrap_datakey_for_enclave_def wrap_bytes_for_enclave_def res_simps mem_rsa)

theorem unwrap_only_when_attested_witness:
  "attested mem_env demo_quote_env demo_state (ur_quote demo_release) ''PEM'' 3"
proof -
  let ?rq = "\<lparr>ur_quote = ur_quote demo_release, ur_enclave_public_key = ''PEM'',
    ur_required_clearance_level = 3, ur_wallet_ciphertext = ''vault:v1:a'',
    ur_seed_ciphertext = ''vault:v1:b''\<rparr>"
  have q: "trim (ur_quote demo_release) \<noteq> []" by code_simp
  have t: "trim ''vault:v1:a'' \<noteq> []" "trim ''vault:v1:b'' \<noteq> []" by code_simp+
  have e: "datakey_engine demo_state = Some demo_engine" by (simp add: demo_state_def)
  have "\<exists>r. unwrap_datakey mem_env demo_quote_env demo_state ?rq 0 = (Inr r, 2)"
    using mem_unwrap [of "''PEM''" demo_engine "''a''" 0] mem_unwrap [of "''PEM''" demo_engine "''b''" 1]
    by (simp add: unwrap_datakey_def res_simps q t engine_of_def e demo_verify)
  then obtain r where "unwrap_datakey mem_env demo_quote_env demo_state ?rq 0 = (Inr r, 2)" ..
  from unwrap_only_when_attested [OF this] show ?thesis by simp
qed

text \<open>
  The release endpoint passes a request on to the secret provider only after the same
  verification, and it hands the provider the verified public key; the Vault provider's answer is
  then encrypted to that key, and names it only by the credential key identifier.
\<close>

theorem release_only_when_attested:
  assumes "release_key E Q state rq w = (Inr resp, w')"
  shows "attested E Q state (ur_quote rq) (ur_enclave_public_key rq) (ur_required_clearance_level rq) \<and>
    (\<exists>enclave w1. ve_enclave_public_key enclave = ur_enclave_public_key rq \<and>
       release_for_verified_enclave E (kms state) enclave (ur_credential_key_id rq)
         (ur_wallet_ciphertext rq) (ur_seed_ciphertext rq) w1 = (Inr resp, w')) \<and>
    (\<forall>p. kms state = VaultSecretRelease p \<longrightarrow>
       (\<exists>k dek seed w2 w3 c1 c2 w4. rsa_from_pem E (ur_enclave_public_key rq) = Inr k \<and>
          rsa_oaep_encrypt E k dek w2 = (Inr c1, w3) \<and> rsa_oaep_encrypt E k seed w3 = (Inr c2, w4) \<and>
          resp = \<lparr>ws_encrypted_wallet_key = b64_encode E c1,
            ws_encrypted_master_seed = b64_encode E c2,
            ws_key_encryption_algorithm = ''RSA-OAEP-SHA256:'' @ ur_credential_key_id rq\<rparr>))"
proof -
  from assms obtain enclave w1 where
    ver: "verify_sgx_quote E Q state (ur_quote rq) (ur_enclave_public_key rq)
      (ur_required_clearance_level rq) w = (Inr enclave, w1)"
    and rel: "release_for_verified_enclave E (kms state) enclave (ur_credential_key_id rq)
         (ur_wallet_ciphertext rq) (ur_seed_ciphertext rq) w1 = (Inr resp, w')"
    unfolding release_key_def by (auto simp: io_Inr)
  note v = verify_sgx_quote_Inr [OF ver]
  have "\<exists>k dek seed w2 w3 c1 c2 w4. rsa_from_pem E (ur_enclave_public_key rq) = Inr k \<and>
          rsa_oaep_encrypt E k dek w2 = (Inr c1, w3) \<and> rsa_oaep_encrypt E k seed w3 = (Inr c2, w4) \<and>
          resp = \<lparr>ws_encrypted_wallet_key = b64_encode E c1,
            ws_encrypted_master_seed = b64_encode E c2,
            ws_key_encryption_algorithm = ''RSA-OAEP-SHA256:'' @ ur_credential_key_id rq\<rparr>"
    if "kms state = VaultSecretRelease p" for p
    using rel v unfolding that release_for_verified_enclave.simps release_from_vault_def
    by (auto simp: io_Inr io_fail_app split: if_splits) blast
  then show ?thesis using v rel by blast
qed

lemma mem_decrypt_envelope:
  "decrypt_envelope mem_env p (''vault:v1:'' @ s) n = (Inr (as_bytes s), n + 1)"
  by (simp add: decrypt_envelope_def mem_env_def mem_answer_def res_simps json_body_def from_slice_def
      dec_decrypt_response_def dec_errors_def field_defs dec_option_def is_success_def)

theorem release_only_when_attested_witness:
  "attested mem_env demo_quote_env demo_state (ur_quote demo_release) (ur_enclave_public_key demo_release)
     (ur_required_clearance_level demo_release)"
proof -
  have len: "q_sha256 demo_quote_env bs \<noteq> []" for bs by (simp add: demo_quote_env_def)
  obtain p where p: "kms demo_state = VaultSecretRelease p" by (simp add: demo_state_def)
  have f: "ur_enclave_public_key demo_release = ''PEM''" "ur_required_clearance_level demo_release = 3"
    "ur_wallet_ciphertext demo_release = ''vault:v1:a''" "ur_seed_ciphertext demo_release = ''vault:v1:b''"
    by (simp_all add: demo_release_def)
  have "\<exists>r. release_key mem_env demo_quote_env demo_state demo_release 0 = (Inr r, 2)"
    using mem_decrypt_envelope [of p "''a''" 0] mem_decrypt_envelope [of p "''b''" 1]
    by (simp add: release_key_def res_simps f p demo_verify release_from_vault_def len mem_rsa)
  then obtain r where "release_key mem_env demo_quote_env demo_state demo_release 0 = (Inr r, 2)" ..
  from release_only_when_attested [OF this] show ?thesis by blast
qed

section \<open>One quote, one session\<close>

lemma session_binding_inject:
  "session_binding a x = session_binding b y \<longleftrightarrow> a = b \<and> x = y"
  by (auto simp: session_binding_def as_bytes_inject to_be_bytes_inject)

text \<open>Verifying a quote again, with other collateral or later, reads the same report.\<close>

definition quote_law :: "('q, 'w) quote_env \<Rightarrow> bool" where
  "quote_law Q \<longleftrightarrow> (\<forall>q c n r c' n' r'. dcap_verify Q q c n = Inr (Some r) \<longrightarrow>
     dcap_verify Q q c' n' = Inr (Some r') \<longrightarrow> r = r')"

text \<open>
  A quote is good for one session only: a quote accepted for one public key and clearance
  level is not accepted for another key or another level, unless the two sessions' bindings
  collide under SHA-256.
\<close>

theorem quote_serves_one_session:
  assumes "quote_law Q" "attested E Q state q pk1 c1" "attested E Q state q pk2 c2"
    and "q_sha256 Q (session_binding pk1 c1) = q_sha256 Q (session_binding pk2 c2) \<Longrightarrow>
      session_binding pk1 c1 = session_binding pk2 c2"
  shows "pk1 = pk2 \<and> c1 = c2"
proof -
  from assms(2,3) obtain quote quote' col now r col' now' r' where
    "b64_decode E q = Inr quote" "b64_decode E q = Inr quote'"
    and v: "dcap_verify Q quote col now = Inr (Some r)" "dcap_verify Q quote' col' now' = Inr (Some r')"
    and h: "take 32 (rp_report_data r) = q_sha256 Q (session_binding pk1 c1)"
      "take 32 (rp_report_data r') = q_sha256 Q (session_binding pk2 c2)"
    unfolding attested_def by blast
  then have "quote' = quote" by simp
  with assms(1) v have "r = r'" unfolding quote_law_def by blast
  with h assms(4) show ?thesis by (simp add: session_binding_inject)
qed

theorem quote_serves_one_session_witness:
  "\<not> attested mem_env demo_quote_env demo_state (ur_quote demo_release) ''PEM'' 4"
proof
  assume a: "attested mem_env demo_quote_env demo_state (ur_quote demo_release) ''PEM'' 4"
  have ql: "quote_law demo_quote_env" by (simp add: quote_law_def demo_quote_env_def)
  have b: "attested mem_env demo_quote_env demo_state (ur_quote demo_release) ''PEM'' 3"
    using verify_sgx_quote_Inr [OF demo_verify] by blast
  have "q_sha256 demo_quote_env (session_binding ''PEM'' 4) \<noteq>
      q_sha256 demo_quote_env (session_binding ''PEM'' 3)" by code_simp
  with quote_serves_one_session [OF ql a b] show False by simp
qed

section \<open>Provisioning\<close>

text \<open>
  Provisioning is consistent: the master seed the enclave receives encrypted is the one whose
  Vault ciphertext is handed out for storage, so decrypting the stored ciphertext at any later
  time gives the bytes that were wrapped for the enclave.
\<close>

theorem provisioned_seed_consistent:
  assumes law: "transit_law E (vault_addr eng) (secret_key_name eng) holds"
    and eng: "datakey_engine state = Some eng"
    and prov: "provision_datakey E state pk w = (Inr resp, w')"
    and dec: "engine_decrypt E eng (pr_seed_ciphertext resp) v = (Inr seed, v')"
  shows "\<exists>k c w1. rsa_from_pem E pk = Inr k \<and> rsa_oaep_encrypt E k seed w1 = (Inr c, w') \<and>
    pr_encrypted_master_seed resp = b64_encode E c"
proof -
  from prov eng obtain raw w1 w2 where
    enc: "engine_encrypt E eng raw w1 = (Inr (pr_seed_ciphertext resp), w2)"
    and wrap: "wrap_bytes_for_enclave E raw pk w2 = (Inr (pr_encrypted_master_seed resp), w')"
    unfolding provision_datakey_def engine_of_def
    by (auto simp: io_Inr io_fail_app split: if_splits)
  from vault_cipher.decrypt_encrypt [OF engine_vault_cipher [OF law] enc dec] have "seed = raw" .
  with wrap show ?thesis by (auto simp: wrap_bytes_Inr)
qed

lemma mem_seed: "generate_vault_random_seed mem_env eng n = (Inr (as_bytes ''seed''), n + 1)"
  by (simp add: generate_vault_random_seed_def mem_env_def mem_answer_def res_simps json_body_def
      from_slice_def dec_seed_response_def dec_errors_def field_defs is_success_def)

lemma mem_encrypt: "engine_encrypt mem_env eng bs n = (Inr (''vault:v1:'' @ str_of_bytes bs), n + 1)"
  by (simp add: engine_encrypt_def transit_encrypt_def mem_env_def mem_answer_def res_simps
      json_body_def from_slice_def dec_value_def json_index_def)

lemma mem_wrap:
  "pem \<noteq> [] \<Longrightarrow> wrap_bytes_for_enclave mem_env raw pem n = (Inr (str_of_bytes (as_bytes pem @ raw)), n)"
  by (simp add: wrap_bytes_for_enclave_def res_simps mem_rsa)

lemma mem_datakey:
  "http_send mem_env cl \<lparr>hq_method = ''POST'', hq_url = u, hq_headers = hs, hq_json = None\<rparr> n =
     (Inr \<lparr>hp_status = 200, hp_body = Inr (unary_print (JObject [(''data'',
        JObject [(''plaintext'', JString ''dek''), (''ciphertext'', JString ''vault:v1:dek'')])]))\<rparr>, n + 1)"
  "he_json_parse mem_env = unary_parse" "b64_decode mem_env s = Inr (as_bytes s)"
  by (simp_all add: mem_env_def mem_answer_def)

lemma mem_provision:
  "pem \<noteq> [] \<Longrightarrow> \<exists>r. engine_provision_datakey mem_env eng pem n = (Inr r, n + 3)"
  by (simp add: engine_provision_datakey_def mem_datakey res_simps json_body_def from_slice_def
      dec_datakey_response_def dec_errors_def field_defs is_success_def mem_wrap mem_seed mem_encrypt)

theorem provisioned_seed_consistent_witness:
  "\<exists>k c w1. rsa_from_pem mem_env ''PEM'' = Inr k \<and>
     rsa_oaep_encrypt mem_env k (as_bytes ''seed'') w1 = (Inr c, 5)"
proof -
  have t: "trim ''PEM'' \<noteq> []" by code_simp
  have e: "datakey_engine demo_state = Some demo_engine" by (simp add: demo_state_def)
  obtain r where r: "engine_provision_datakey mem_env demo_engine ''PEM'' 0 = (Inr r, 3)"
    using mem_provision [of "''PEM''" demo_engine 0] by auto
  obtain resp where prov: "provision_datakey mem_env demo_state ''PEM'' 0 = (Inr resp, 5)"
    and ct: "pr_seed_ciphertext resp = ''vault:v1:'' @ ''seed''"
    by (simp add: provision_datakey_def t engine_of_def e res_simps r mem_seed mem_encrypt mem_wrap
        str_of_bytes_as_bytes)
  have "engine_decrypt mem_env demo_engine (pr_seed_ciphertext resp) 9 = (Inr (as_bytes ''seed''), 10)"
    unfolding ct mem_engine_decrypt by simp
  from provisioned_seed_consistent [OF mem_transit_law e prov this] show ?thesis by blast
qed

end
