(* ===== verification/Circuit.thy ===== *)
theory Circuit
  imports Prelude
begin

text \<open>
  The zero-knowledge circuit of \<open>src/zkp-core-crypto/src/lib.rs\<close>. The source is generic in a
  prime field; here the field is given by its modulus \<open>p\<close> and its elements are the naturals
  below \<open>p\<close>. \<open>generate_constraints\<close> allocates the three witnesses and the two public inputs in
  the source's order and records, for every \<open>enforce_equal\<close>, whether the assignment meets it;
  \<open>is_satisfied\<close> is the check the prover runs before it synthesises a proof. Reading the
  gadgets: \<open>to_bits_le\<close> yields the bits of the canonical representative, as many as the
  modulus has, and \<open>le_bits_to_fp\<close> sums them back. The slice \<open>[0..8]\<close> panics when the field
  has fewer than eight bits.

  Results: what a satisfying assignment means (the clearance window and the commitment
  equation), and that the commitment equation alone does not tie the public commitment to one
  clearance level.
\<close>

datatype synthesis_error = AssignmentMissing | SlicePanic

record role_verification_circuit =
  user_clearance_level :: "nat option"
  user_role_scalar :: "nat option"
  secret_nullifier :: "nat option"
  required_clearance_level :: "nat option"
  public_commitment :: "nat option"

record constraint_system =
  cs_witness :: "nat list"
  cs_instance :: "nat list"
  cs_enforced :: "bool list"

definition fp_sub :: "nat \<Rightarrow> nat \<Rightarrow> nat \<Rightarrow> nat" where
  "fp_sub p a b = (a + (p - b)) mod p"

definition fp_mul :: "nat \<Rightarrow> nat \<Rightarrow> nat \<Rightarrow> nat" where
  "fp_mul p a b = (a * b) mod p"

fun bit_size :: "nat \<Rightarrow> nat" where
  "bit_size n = (if n = 0 then 0 else Suc (bit_size (n div 2)))"

declare bit_size.simps [simp del]

definition to_bits_le :: "nat \<Rightarrow> nat \<Rightarrow> bool list" where
  "to_bits_le p n = map (\<lambda>i. odd (n div 2 ^ i)) [0..<bit_size p]"

fun le_bits_to_nat :: "bool list \<Rightarrow> nat" where
  "le_bits_to_nat [] = 0"
| "le_bits_to_nat (b # bs) = of_bool b + 2 * le_bits_to_nat bs"

definition le_bits_to_fp :: "nat \<Rightarrow> bool list \<Rightarrow> nat" where
  "le_bits_to_fp p bs = le_bits_to_nat bs mod p"

definition generate_constraints ::
  "nat \<Rightarrow> role_verification_circuit \<Rightarrow> synthesis_error + constraint_system" where
  "generate_constraints p c =
     bind_res (ok_or AssignmentMissing (user_clearance_level c)) (\<lambda>user_clearance.
     bind_res (ok_or AssignmentMissing (user_role_scalar c)) (\<lambda>role_scalar.
     bind_res (ok_or AssignmentMissing (secret_nullifier c)) (\<lambda>nullifier.
     bind_res (ok_or AssignmentMissing (required_clearance_level c)) (\<lambda>req_clearance.
     bind_res (ok_or AssignmentMissing (public_commitment c)) (\<lambda>commitment.
       let diff = fp_sub p user_clearance req_clearance;
           diff_bits = to_bits_le p diff
       in if length diff_bits < 8 then Inl SlicePanic
          else
            let truncated_diff = le_bits_to_fp p (take 8 diff_bits);
                expected_commitment = fp_mul p (fp_mul p nullifier user_clearance) role_scalar
            in Inr \<lparr>cs_witness = [user_clearance, role_scalar, nullifier],
                    cs_instance = [req_clearance, commitment],
                    cs_enforced = [diff = truncated_diff, expected_commitment = commitment]\<rparr>)))))"

definition is_satisfied :: "constraint_system \<Rightarrow> bool" where
  "is_satisfied cs \<longleftrightarrow> list_all id (cs_enforced cs)"

definition assignment :: "nat \<Rightarrow> nat \<Rightarrow> nat \<Rightarrow> nat \<Rightarrow> nat \<Rightarrow> role_verification_circuit" where
  "assignment u role nul req com =
     \<lparr>user_clearance_level = Some u, user_role_scalar = Some role, secret_nullifier = Some nul,
      required_clearance_level = Some req, public_commitment = Some com\<rparr>"

section \<open>The gadgets\<close>

lemma bit_size_0 [simp]: "bit_size 0 = 0"
  by (subst bit_size.simps) simp

lemma bit_size_pos: "0 < n \<Longrightarrow> bit_size n = Suc (bit_size (n div 2))"
  by (subst bit_size.simps) simp

lemma bit_size_ge: "2 ^ k \<le> n \<Longrightarrow> k < bit_size n"
proof (induction k arbitrary: n)
  case 0
  then show ?case by (simp add: bit_size_pos)
next
  case (Suc k)
  then have "2 ^ k \<le> n div 2" by simp
  then have "k < bit_size (n div 2)" by (rule Suc.IH)
  moreover have "0 < n"
    using Suc.prems by (metis gr0I not_exp_less_eq_0_int of_nat_0 of_nat_numeral of_nat_power
        le_0_eq power_eq_0_iff zero_neq_numeral)
  ultimately show ?case by (simp add: bit_size_pos)
qed

lemma le_bits_to_nat_bits: "le_bits_to_nat (map (\<lambda>i. odd (n div 2 ^ i)) [0..<k]) = n mod 2 ^ k"
proof (induction k arbitrary: n)
  case 0
  then show ?case by simp
next
  case (Suc k)
  have "map (\<lambda>i. odd (n div 2 ^ i)) [0..<Suc k] =
        odd n # map (\<lambda>i. odd ((n div 2) div 2 ^ i)) [0..<k]"
    by (simp add: upt_conv_Cons map_Suc_upt [symmetric] div_mult2_eq del: upt_Suc)
  then have "le_bits_to_nat (map (\<lambda>i. odd (n div 2 ^ i)) [0..<Suc k]) =
      n mod 2 + 2 * (n div 2 mod 2 ^ k)"
    by (simp add: Suc.IH mod2_eq_if del: upt_Suc)
  also have "\<dots> = n mod (2 * 2 ^ k)"
    by (simp add: mod_mult2_eq)
  finally show ?case by (simp del: upt_Suc)
qed

lemma truncated_bits:
  assumes "256 \<le> p"
  shows "8 < length (to_bits_le p n)" and "le_bits_to_fp p (take 8 (to_bits_le p n)) = n mod 256"
proof -
  have len: "8 < bit_size p"
    using assms by (intro bit_size_ge) simp
  then show "8 < length (to_bits_le p n)" by (simp add: to_bits_le_def)
  from len have "take 8 (to_bits_le p n) = map (\<lambda>i. odd (n div 2 ^ i)) [0..<8]"
    by (simp add: to_bits_le_def take_map)
  then have "le_bits_to_fp p (take 8 (to_bits_le p n)) = (n mod 2 ^ 8) mod p"
    by (simp only: le_bits_to_fp_def le_bits_to_nat_bits)
  also have "\<dots> = n mod 256"
    using assms by (simp add: order_less_le_trans [of "n mod 256" 256])
  finally show "le_bits_to_fp p (take 8 (to_bits_le p n)) = n mod 256" .
qed

lemma fp_sub_window:
  assumes "req + 255 < p" "u < p"
  shows "fp_sub p u req < 256 \<longleftrightarrow> req \<le> u \<and> u \<le> req + 255"
proof (cases "req \<le> u")
  case True
  with assms have "fp_sub p u req = u - req"
    by (simp add: fp_sub_def mod_if)
  with True show ?thesis by auto
next
  case False
  with assms have "fp_sub p u req = u + (p - req)"
    by (simp add: fp_sub_def)
  with False assms show ?thesis by auto
qed

section \<open>What the circuit proves\<close>

lemma constraints_of_assignment:
  assumes "256 \<le> p" "req + 255 < p" "u < p"
  obtains cs where "generate_constraints p (assignment u role nul req com) = Inr cs"
    and "cs_instance cs = [req, com]" and "cs_witness cs = [u, role, nul]"
    and "is_satisfied cs \<longleftrightarrow> req \<le> u \<and> u \<le> req + 255 \<and> com = (nul * u * role) mod p"
proof -
  have "fp_sub p u req = fp_sub p u req mod 256 \<longleftrightarrow> fp_sub p u req < 256"
    by (metis mod_less mod_less_divisor zero_less_numeral)
  moreover have "fp_mul p (fp_mul p nul u) role = (nul * u * role) mod p"
    by (simp add: fp_mul_def mod_mult_left_eq)
  ultimately show ?thesis
    using truncated_bits [OF assms(1), of "fp_sub p u req"] fp_sub_window [OF assms(2,3)]
    by (intro that) (auto simp: generate_constraints_def assignment_def is_satisfied_def Let_def)
qed

text \<open>
  C10. Soundness and completeness of the circuit on a complete assignment. For a required level
  whose window fits in the field, synthesis succeeds with the required level and the commitment
  as the two public inputs, in this order, and the constraint system is satisfied exactly when
  the secret clearance lies between the required level and 255 above it and the public
  commitment is the product of nullifier, clearance and role scalar in the field.
\<close>

theorem circuit_satisfied_iff:
  assumes "256 \<le> p" "req + 255 < p" "u < p"
  shows "\<exists>cs. generate_constraints p (assignment u role nul req com) = Inr cs \<and>
    cs_instance cs = [req, com] \<and>
    (is_satisfied cs \<longleftrightarrow>
       req \<le> u \<and> u \<le> req + 255 \<and> com = (nul * u * role) mod p)"
  by (rule constraints_of_assignment [OF assms, of role nul com]) blast

theorem circuit_satisfied_iff_witness:
  "\<exists>cs. generate_constraints 65537 (assignment 5 7 11 3 385) = Inr cs \<and> is_satisfied cs"
  using circuit_satisfied_iff [of 65537 3 5 7 11 385] by auto

text \<open>
  C40. The commitment constraint does not bind the prover to a credential: for every public
  commitment, and every clearance inside the window that is invertible modulo \<open>p\<close>, there is a
  role scalar and a nullifier that satisfy all constraints. Whoever knows only the two public
  inputs can produce a satisfying witness.
\<close>

theorem commitment_not_binding:
  assumes "256 \<le> p" "req + 255 < p" "req \<le> u" "u \<le> req + 255" "coprime u p" "com < p"
  shows "\<exists>role nul cs. nul < p \<and> role < p \<and>
    generate_constraints p (assignment u role nul req com) = Inr cs \<and> is_satisfied cs"
proof -
  from assms(1,5) have "u \<noteq> 0" by (auto intro: ccontr)
  then obtain v y where "u * v = p * y + gcd u p"
    using bezout_nat by blast
  with assms(5) have "u * v = 1 + p * y"
    by (simp add: coprime_iff_gcd_eq_1)
  with assms(1) have v: "(u * v) mod p = 1"
    by (simp only: mod_mult_self2) simp
  define nul where "nul = (v * com) mod p"
  have "(nul * u * 1) mod p = (u * v) mod p * com mod p"
    by (simp add: nul_def mod_simps mult.assoc mult.commute mult.left_commute)
  also have "\<dots> = com"
    using v assms(1,6) by simp
  finally have "com = (nul * u * 1) mod p" by simp
  moreover have "u < p" "nul < p" "1 < p"
    using assms by (auto simp: nul_def)
  ultimately show ?thesis
    using constraints_of_assignment [of p req u 1 nul com] assms by metis
qed

theorem commitment_not_binding_witness:
  "\<exists>role nul cs. nul < 65537 \<and> role < 65537 \<and>
    generate_constraints 65537 (assignment 9 role nul 4 12345) = Inr cs \<and> is_satisfied cs"
  by (rule commitment_not_binding) (simp_all add: coprime_iff_gcd_eq_1 gcd_non_0_nat)

end
