(* ===== verification/Enclave.thy ===== *)
theory Enclave
  imports Broker Circuit
begin

text \<open>
  The proving enclave: \<open>attestation.rs\<close> and \<open>main.rs\<close> of \<open>src/dzta-gramine-prover/src\<close>. The
  attestation devices Gramine offers as files are the record \<open>attestation_device\<close>; OpenSSL's RSA,
  arkworks, base64, hexadecimal and the standard streams are the record \<open>prover_env\<close>. A line
  written to standard output includes the flush. An \<open>anyhow\<close> error is the text of its chain, as
  \<open>{:#}\<close> prints it: a context, a colon and the cause. Scrubbing of memory has no observable effect
  and is left out.

  Results: the prover succeeds exactly inside the clearance window, a quote it asks for passes the
  broker's report check, and the broker's decoders do not accept the request it prints.
\<close>

section \<open>The attestation devices\<close>

record 'w attestation_device =
  dev_exists :: "string \<Rightarrow> 'w \<Rightarrow> bool"
  dev_open_write :: "string \<Rightarrow> ('w, string, unit) io"
  dev_write_all :: "string \<Rightarrow> bytes \<Rightarrow> ('w, string, unit) io"
  dev_open_read :: "string \<Rightarrow> ('w, string, unit) io"
  dev_read_to_end :: "string \<Rightarrow> ('w, string, bytes) io"

definition context_text :: "string \<Rightarrow> string \<Rightarrow> string" where
  "context_text c e = c @ '': '' @ e"

definition ATTESTATION_TYPE_PATH :: string where
  "ATTESTATION_TYPE_PATH = ''/dev/attestation/attestation_type''"

definition USER_REPORT_DATA_PATH :: string where
  "USER_REPORT_DATA_PATH = ''/dev/attestation/user_report_data''"

definition QUOTE_PATH :: string where
  "QUOTE_PATH = ''/dev/attestation/quote''"

definition is_sgx_hardware_active :: "'w attestation_device \<Rightarrow> 'w \<Rightarrow> bool" where
  "is_sgx_hardware_active D w = dev_exists D ATTESTATION_TYPE_PATH w"

definition padded_report :: "bytes \<Rightarrow> bytes" where
  "padded_report data = (let len = min (length data) 64 in take len data @ replicate (64 - len) 0)"

definition bind_user_report_data :: "'w attestation_device \<Rightarrow> bytes \<Rightarrow> ('w, string, unit) io" where
  "bind_user_report_data D data = (\<lambda>w.
     if \<not> is_sgx_hardware_active D w then (Inr (), w)
     else
       io_bind (io_map_err (context_text ''Failed to open Gramine user_report_data device'')
         (dev_open_write D USER_REPORT_DATA_PATH)) (\<lambda>_.
       dev_write_all D USER_REPORT_DATA_PATH (padded_report data)) w)"

definition bind_session :: "(bytes \<Rightarrow> bytes) \<Rightarrow> 'w attestation_device \<Rightarrow> bytes \<Rightarrow> ('w, string, unit) io" where
  "bind_session sha D data = bind_user_report_data D (sha (as_bytes ''dZTA_SGX_SESSION_v1'' @ data))"

definition is_provisioning_capable :: "'w attestation_device \<Rightarrow> 'w \<Rightarrow> bool" where
  "is_provisioning_capable D w \<longleftrightarrow>
     is_sgx_hardware_active D w \<and> dev_exists D USER_REPORT_DATA_PATH w \<and> dev_exists D QUOTE_PATH w"

definition fetch_sgx_quote :: "'w attestation_device \<Rightarrow> ('w, string, bytes option) io" where
  "fetch_sgx_quote D = (\<lambda>w.
     if \<not> is_sgx_hardware_active D w then (Inr None, w)
     else
       io_bind (io_map_err (context_text ''Failed to open Gramine quote device'')
         (dev_open_read D QUOTE_PATH)) (\<lambda>_.
       io_bind (dev_read_to_end D QUOTE_PATH) (\<lambda>quote. io_return (Some quote))) w)"

section \<open>The prover's environment\<close>

record ('c, 'r, 'v, 'w) prover_env =
  pv_prims :: "'c prims"
  pv_device :: "'w attestation_device"
  stdin_read_line :: "('w, string, string) io"
  stdout_write_line :: "string \<Rightarrow> ('w, string, unit) io"
  rsa_generate :: "('w, string, 'r) io"
  rsa_public_key_to_pem :: "'r \<Rightarrow> string + bytes"
  rsa_private_decrypt :: "'r \<Rightarrow> bytes \<Rightarrow> string + bytes"
  utf8_error_text :: "bytes \<Rightarrow> string"
  slice_error_text :: string
  pv_b64_encode :: "bytes \<Rightarrow> string"
  pv_b64_decode :: "string \<Rightarrow> string + bytes"
  pv_hex_encode :: "bytes \<Rightarrow> string"
  pv_json_print :: "json \<Rightarrow> string"
  proving_key_bytes :: bytes
  proving_key_deserialize :: "bytes \<Rightarrow> string + 'v"
  groth16_prove :: "role_verification_circuit \<Rightarrow> 'v \<Rightarrow> bytes \<Rightarrow> string + 'v"
  proof_serialize :: "'v \<Rightarrow> string + bytes"
  inputs_serialize :: "nat list \<Rightarrow> string + bytes"
  synthesis_text :: "synthesis_error \<Rightarrow> string"

definition json_of_prover_output :: "prover_output_response \<Rightarrow> json" where
  "json_of_prover_output r = JObject
     [(''x_dzta_proof'', JString (x_dzta_proof r)),
      (''x_dzta_public_inputs'', JString (x_dzta_public_inputs r)),
      (''sgx_dcap_quote_hex'', case sgx_dcap_quote_hex r of None \<Rightarrow> JNull | Some q \<Rightarrow> JString q)]"

section \<open>The confidential handshake\<close>

definition decrypt_secret :: "('c, 'r, 'v, 'w) prover_env \<Rightarrow> 'r \<Rightarrow> string \<Rightarrow> string + bytes" where
  "decrypt_secret V rsa encoded =
     bind_res (pv_b64_decode V encoded) (\<lambda>ciphertext. rsa_private_decrypt V rsa ciphertext)"

definition enclave_request ::
  "('c, 'r, 'v, 'w) prover_env \<Rightarrow> enclave_ingestion_payload \<Rightarrow> ('w, string, 'r \<times> attestation_request) io" where
  "enclave_request V payload =
     io_bind (io_map_err (context_text ''Failed to generate enclave key pair'') (rsa_generate V)) (\<lambda>rsa.
     io_bind (io_lift (rsa_public_key_to_pem V rsa)) (\<lambda>public_key_pem.
     io_bind (bind_session (sha256 (pv_prims V)) (pv_device V)
       (public_key_pem @ to_be_bytes (payload_required_clearance payload))) (\<lambda>_.
     io_bind (fetch_sgx_quote (pv_device V)) (\<lambda>fetched.
     io_bind (io_lift (ok_or ''SGX quote unavailable for confidential handshake'' fetched)) (\<lambda>quote.
     io_bind (io_lift (ok_or (utf8_error_text V public_key_pem) (from_utf8 public_key_pem))) (\<lambda>pem.
     io_bind (io_lift (ok_or ''credential_id required'' (payload_credential_id payload))) (\<lambda>key_id.
     io_return (rsa, \<lparr>ar_quote = pv_b64_encode V quote, ar_enclave_public_key_pem = pem,
       ar_credential_key_id = key_id,
       ar_required_clearance_level = payload_required_clearance payload\<rparr>))))))))"

definition receive_secrets ::
  "('c, 'r, 'v, 'w) prover_env \<Rightarrow> 'r \<Rightarrow> enclave_ingestion_payload \<Rightarrow> ('w, string, enclave_ingestion_payload) io" where
  "receive_secrets V rsa payload =
     io_bind (io_map_err (context_text ''Failed to read wrapped enclave secrets'') (stdin_read_line V)) (\<lambda>line.
     io_bind (io_lift (map_err (serde_display (fmt (pv_prims V)))
       (from_slice (json_parse (pv_prims V)) dec_attestation_response (as_bytes (trim line))))) (\<lambda>response.
     io_bind (io_lift (decrypt_secret V rsa (as_encrypted_wallet_key response))) (\<lambda>key.
     io_bind (io_lift (decrypt_secret V rsa (as_encrypted_master_seed response))) (\<lambda>seed.
     if length seed \<noteq> 32 then
       io_fail (context_text ''master seed must be 32 bytes'' (slice_error_text V))
     else io_return (payload\<lparr>wallet_db_key := Some key, master_seed := Some seed\<rparr>)))))"

definition handshake ::
  "('c, 'r, 'v, 'w) prover_env \<Rightarrow> enclave_ingestion_payload \<Rightarrow> ('w, string, enclave_ingestion_payload) io" where
  "handshake V payload =
     io_bind (enclave_request V payload) (\<lambda>(rsa, request).
     io_bind (stdout_write_line V (pv_json_print V (json_of_attestation_request request))) (\<lambda>_.
     receive_secrets V rsa payload))"

section \<open>Proving\<close>

definition prover_circuit :: "derived_enclave_witness \<Rightarrow> nat \<Rightarrow> u64 \<Rightarrow> role_verification_circuit" where
  "prover_circuit wit role_biguint required =
     \<lparr>user_clearance_level = Some (fr_of_u64 (dw_clearance_level wit)),
      user_role_scalar = Some (fr_from_le_bytes_mod_order (biguint_to_bytes_le role_biguint)),
      secret_nullifier = Some (fr_from_le_bytes_mod_order (dw_secret_nullifier wit)),
      required_clearance_level = Some (fr_of_u64 required),
      public_commitment = Some (fr_from_le_bytes_mod_order (dw_public_commitment wit))\<rparr>"

definition synthesize_proof ::
  "('c, 'r, 'v, 'w) prover_env \<Rightarrow> derived_enclave_witness \<Rightarrow> u64 \<Rightarrow> string + (bytes \<times> bytes)" where
  "synthesize_proof V wit required =
     bind_res (map_err (context_text ''Failed to parse user_role_scalar BigUint'')
       (biguint_from_str (pv_prims V) (dw_user_role_scalar wit))) (\<lambda>role_biguint.
     bind_res (map_err (context_text ''Failed to deserialize BLS12-381 Proving Key'')
       (proving_key_deserialize V (proving_key_bytes V))) (\<lambda>proving_key.
     if length (dw_secret_nullifier wit) \<noteq> 32 then Inl ''secret_nullifier must be exactly 32 bytes''
     else
       let circuit = prover_circuit wit role_biguint required in
       bind_res (map_err (\<lambda>e. context_text ''Failed to synthesize circuit constraints for validation''
           (synthesis_text V e)) (generate_constraints bls_modulus circuit)) (\<lambda>cs.
       if \<not> is_satisfied cs then
         Inl ''Circuit constraints not satisfied for provided witness (clearance level below required threshold)''
       else
         bind_res (map_err (\<lambda>e. ''ZKP Generation Failed: '' @ e)
           (groth16_prove V circuit proving_key (dw_secret_nullifier wit))) (\<lambda>prf.
         bind_res (proof_serialize V prf) (\<lambda>proof_bytes.
         bind_res (inputs_serialize V [fr_of_u64 required,
           fr_from_le_bytes_mod_order (dw_public_commitment wit)]) (\<lambda>public_inputs_bytes.
         Inr (proof_bytes, public_inputs_bytes)))))))"

definition prove_payload ::
  "('c, 'r, 'v, 'w) prover_env \<Rightarrow> enclave_ingestion_payload \<Rightarrow> bytes \<Rightarrow> bytes \<Rightarrow>
   ('w, string, prover_output_response) io" where
  "prove_payload V payload db_key seed =
     io_bind (io_lift (map_err (\<lambda>e. ''Enclave unseal/witness derivation failed: '' @
         wallet_error_display (fmt (pv_prims V)) e)
       (unseal_and_derive_witness_with_credential_id (pv_prims V) (raw_wallet_ciphertext payload)
         db_key seed (payload_credential_id payload)))) (\<lambda>wit.
     io_bind (io_lift (synthesize_proof V wit (payload_required_clearance payload))) (\<lambda>(proof_bytes, inputs_bytes).
     io_bind (bind_session (sha256 (pv_prims V)) (pv_device V) inputs_bytes) (\<lambda>_.
     io_bind (fetch_sgx_quote (pv_device V)) (\<lambda>sgx_quote.
     io_return \<lparr>x_dzta_proof = pv_b64_encode V proof_bytes,
       x_dzta_public_inputs = pv_b64_encode V inputs_bytes,
       sgx_dcap_quote_hex = map_option (pv_hex_encode V) sgx_quote\<rparr>))))"

definition prover_main :: "('c, 'r, 'v, 'w) prover_env \<Rightarrow> ('w, string, unit) io" where
  "prover_main V =
     io_bind (io_map_err (context_text ''Failed to read JSON payload from stdin'') (stdin_read_line V)) (\<lambda>line.
     io_bind (io_lift (map_err (\<lambda>e. context_text ''Invalid EnclaveIngestionPayload JSON structure''
         (serde_display (fmt (pv_prims V)) e))
       (from_slice (json_parse (pv_prims V)) dec_ingestion_payload (as_bytes line)))) (\<lambda>received.
     io_bind (if wallet_db_key received = None \<or> master_seed received = None
         then handshake V received else io_return received) (\<lambda>payload.
     io_bind (io_lift (ok_or ''wallet key missing'' (wallet_db_key payload))) (\<lambda>db_key.
     io_bind (io_lift (ok_or ''master seed missing'' (master_seed payload))) (\<lambda>seed.
     io_bind (prove_payload V payload db_key seed) (\<lambda>response.
     stdout_write_line V (pv_json_print V (json_of_prover_output response))))))))"

section \<open>What the libraries promise\<close>

text \<open>
  The proving key loads, a satisfied circuit has a proof, proofs and inputs serialise. The devices
  answer: in direct mode they are absent and never asked.
\<close>

definition prover_law :: "('c, 'r, 'v, 'w) prover_env \<Rightarrow> bool" where
  "prover_law V \<longleftrightarrow>
     (\<exists>pk. proving_key_deserialize V (proving_key_bytes V) = Inr pk \<and>
        (\<forall>circuit cs seed. generate_constraints bls_modulus circuit = Inr cs \<longrightarrow> is_satisfied cs \<longrightarrow>
           (\<exists>prf bs. groth16_prove V circuit pk seed = Inr prf \<and> proof_serialize V prf = Inr bs))) \<and>
     (\<forall>xs. \<exists>bs. inputs_serialize V xs = Inr bs)"

definition device_answers :: "'w attestation_device \<Rightarrow> bool" where
  "device_answers D \<longleftrightarrow>
     (\<forall>w. \<not> dev_exists D ''/dev/attestation/attestation_type'' w) \<or>
     (\<forall>w. (\<exists>w'. dev_open_write D ''/dev/attestation/user_report_data'' w = (Inr (), w')) \<and>
        (\<forall>bs. \<exists>w'. dev_write_all D ''/dev/attestation/user_report_data'' bs w = (Inr (), w')) \<and>
        (\<exists>w'. dev_open_read D ''/dev/attestation/quote'' w = (Inr (), w')) \<and>
        (\<exists>q w'. dev_read_to_end D ''/dev/attestation/quote'' w = (Inr q, w')))"

lemmas device_paths = ATTESTATION_TYPE_PATH_def USER_REPORT_DATA_PATH_def QUOTE_PATH_def

lemma device_binds:
  assumes "device_answers D"
  shows "\<exists>w'. bind_user_report_data D data w = (Inr (), w')"
proof (cases "is_sgx_hardware_active D w")
  case True
  with assms have ok: "\<exists>w'. dev_open_write D USER_REPORT_DATA_PATH w = (Inr (), w')"
    "\<exists>w'. dev_write_all D USER_REPORT_DATA_PATH bs v = (Inr (), w')" for bs w v
    by (auto simp: device_answers_def is_sgx_hardware_active_def device_paths)
  from ok(1) [of w] obtain w1 where "dev_open_write D USER_REPORT_DATA_PATH w = (Inr (), w1)" by blast
  with True ok(2) [of "padded_report data" w1] show ?thesis
    by (auto simp: bind_user_report_data_def res_simps)
qed (simp add: bind_user_report_data_def)

lemma device_quotes:
  assumes "device_answers D"
  shows "\<exists>q w'. fetch_sgx_quote D w = (Inr q, w')"
proof (cases "is_sgx_hardware_active D w")
  case True
  with assms have ok: "\<exists>w'. dev_open_read D QUOTE_PATH w = (Inr (), w')"
    "\<exists>q w'. dev_read_to_end D QUOTE_PATH v = (Inr q, w')" for w v
    by (auto simp: device_answers_def is_sgx_hardware_active_def device_paths)
  from ok(1) [of w] obtain w1 where "dev_open_read D QUOTE_PATH w = (Inr (), w1)" by blast
  with True ok(2) [of w1] show ?thesis
    by (auto simp: fetch_sgx_quote_def res_simps)
qed (simp add: fetch_sgx_quote_def)

definition in_window :: "u64 \<Rightarrow> u64 \<Rightarrow> bool" where
  "in_window required level \<longleftrightarrow> unat required \<le> unat level \<and> unat level \<le> unat required + 255"

section \<open>The clearance window\<close>

lemma u64_in_field: "unat (n :: u64) + 255 < bls_modulus"
proof -
  have "unat n < 2 ^ 64" using unsigned_less [of n] by simp
  then show ?thesis by (simp add: bls_modulus_def)
qed

lemma unsealed_is_witness_of:
  assumes "unseal_and_derive_witness_with_credential_id P raw key seed cid = Inr wit"
  obtains subject where "wit = witness_of P seed subject"
  using assms by (auto simp: unseal_cases bind_res_Inr_iff)

lemma prover_constraints:
  assumes "biguint_law P" "wit = witness_of P seed subject"
  obtains n cs where "biguint_from_str P (dw_user_role_scalar wit) = Inr n"
    and "generate_constraints bls_modulus (prover_circuit wit n required) = Inr cs"
    and "cs_instance cs = [unat required, fr_from_le_bytes_mod_order (dw_public_commitment wit)]"
    and "is_satisfied cs \<longleftrightarrow> in_window required (dw_clearance_level wit)"
proof -
  let ?u = "unat (dw_clearance_level wit)"
  let ?nul = "fr_from_le_bytes_mod_order (dw_secret_nullifier wit)"
  let ?com = "fr_from_le_bytes_mod_order (dw_public_commitment wit)"
  from string_to_scalar_parses [OF assms(1)] obtain n
    where n: "biguint_from_str P (string_to_scalar P (dcs_user_role_scalar subject)) = Inr n" by blast
  then have com: "?com = (?nul * ?u * (n mod bls_modulus)) mod bls_modulus"
    unfolding assms(2) by (simp add: witness_of_def Let_def commitment_fr_eq role_fr_def)
  have circuit: "prover_circuit wit n required = assignment ?u (n mod bls_modulus) ?nul (unat required) ?com"
    by (simp add: prover_circuit_def assignment_def)
  have "256 \<le> bls_modulus" "?u < bls_modulus"
    using u64_in_field [of "dw_clearance_level wit"] by (simp_all add: bls_modulus_def)
  from constraints_of_assignment [OF this(1) u64_in_field [of required] this(2),
      where role = "n mod bls_modulus" and nul = ?nul and com = ?com]
  obtain cs where "generate_constraints bls_modulus (prover_circuit wit n required) = Inr cs"
      and "cs_instance cs = [unat required, ?com]"
      and "is_satisfied cs \<longleftrightarrow> in_window required (dw_clearance_level wit)"
    unfolding circuit in_window_def using com by metis
  then show ?thesis
    using that n assms(2) by (simp add: witness_of_def Let_def)
qed

lemma length_witness_nullifier:
  "sha_law P \<Longrightarrow> length (dw_secret_nullifier (witness_of P seed subject)) = 32"
  by (simp add: witness_of_def Let_def derive_nullifier_def sha_law_def)

lemma synthesize_proof_cases:
  assumes laws: "sha_law (pv_prims V)" "biguint_law (pv_prims V)" "prover_law V"
    and wit: "wit = witness_of (pv_prims V) seed subject"
  shows "if in_window required (dw_clearance_level wit)
    then \<exists>n cs pk prf pb ib. synthesize_proof V wit required = Inr (pb, ib) \<and>
      proving_key_deserialize V (proving_key_bytes V) = Inr pk \<and>
      generate_constraints bls_modulus (prover_circuit wit n required) = Inr cs \<and> is_satisfied cs \<and>
      cs_instance cs = [unat required, fr_from_le_bytes_mod_order (dw_public_commitment wit)] \<and>
      groth16_prove V (prover_circuit wit n required) pk (dw_secret_nullifier wit) = Inr prf \<and>
      proof_serialize V prf = Inr pb \<and> inputs_serialize V (cs_instance cs) = Inr ib
    else synthesize_proof V wit required = Inl
      ''Circuit constraints not satisfied for provided witness (clearance level below required threshold)''"
proof -
  obtain n cs where n: "biguint_from_str (pv_prims V) (dw_user_role_scalar wit) = Inr n"
    and cs: "generate_constraints bls_modulus (prover_circuit wit n required) = Inr cs"
    and inst: "cs_instance cs = [unat required, fr_from_le_bytes_mod_order (dw_public_commitment wit)]"
    and sat: "is_satisfied cs \<longleftrightarrow> in_window required (dw_clearance_level wit)"
    using prover_constraints [OF laws(2) wit] by blast
  from laws(3) obtain pk where pk: "proving_key_deserialize V (proving_key_bytes V) = Inr pk"
    and prove: "\<forall>circuit cs seed. generate_constraints bls_modulus circuit = Inr cs \<longrightarrow> is_satisfied cs \<longrightarrow>
      (\<exists>prf bs. groth16_prove V circuit pk seed = Inr prf \<and> proof_serialize V prf = Inr bs)"
    and ser: "\<forall>xs. \<exists>bs. inputs_serialize V xs = Inr bs"
    unfolding prover_law_def by blast
  have len: "length (dw_secret_nullifier wit) = 32"
    unfolding wit by (rule length_witness_nullifier [OF laws(1)])
  show ?thesis
  proof (cases "is_satisfied cs")
    case True
    with prove cs obtain pf pb where
      "groth16_prove V (prover_circuit wit n required) pk (dw_secret_nullifier wit) = Inr pf"
      "proof_serialize V pf = Inr pb" by blast
    moreover obtain ib where "inputs_serialize V (cs_instance cs) = Inr ib" using ser by blast
    ultimately show ?thesis
      using True n cs pk len sat inst by (simp add: synthesize_proof_def Let_def) metis
  next
    case False
    then show ?thesis
      using n cs pk len sat by (simp add: synthesize_proof_def Let_def)
  qed
qed

lemma prove_payload_after:
  assumes "unseal_and_derive_witness_with_credential_id (pv_prims V) (raw_wallet_ciphertext payload)
      key seed (payload_credential_id payload) = Inr wit"
    and "synthesize_proof V wit (payload_required_clearance payload) = Inr (pb, ib)"
    and "device_answers (pv_device V)"
  obtains q w' where "prove_payload V payload key seed w =
    (Inr \<lparr>x_dzta_proof = pv_b64_encode V pb, x_dzta_public_inputs = pv_b64_encode V ib,
        sgx_dcap_quote_hex = map_option (pv_hex_encode V) q\<rparr>, w')"
proof -
  obtain w1 where "bind_session (sha256 (pv_prims V)) (pv_device V) ib w = (Inr (), w1)"
    using device_binds [OF assms(3)] unfolding bind_session_def by metis
  moreover obtain q w2 where "fetch_sgx_quote (pv_device V) w1 = (Inr q, w2)"
    using device_quotes [OF assms(3)] by metis
  ultimately show ?thesis
    using that assms(1,2) by (simp add: prove_payload_def res_simps)
qed

text \<open>
  C11. The enclave proves exactly inside the clearance window. For a record it can unseal, whatever
  its format, the prover returns a response if and only if the credential's clearance is at least
  the required level and at most 255 above it; otherwise it stops with the constraint error and
  touches no device.
\<close>

theorem prover_succeeds_iff_cleared:
  assumes "sha_law (pv_prims V)" "biguint_law (pv_prims V)" "prover_law V" "device_answers (pv_device V)"
    and "unseal_and_derive_witness_with_credential_id (pv_prims V) (raw_wallet_ciphertext payload)
      key seed (payload_credential_id payload) = Inr wit"
  shows "if in_window (payload_required_clearance payload) (dw_clearance_level wit)
    then \<exists>resp w'. prove_payload V payload key seed w = (Inr resp, w')
    else prove_payload V payload key seed w = (Inl
      ''Circuit constraints not satisfied for provided witness (clearance level below required threshold)'', w)"
proof -
  obtain subject where wit: "wit = witness_of (pv_prims V) seed subject"
    using unsealed_is_witness_of [OF assms(5)] .
  let ?req = "payload_required_clearance payload"
  note syn = synthesize_proof_cases [OF assms(1-3) wit, of ?req]
  show ?thesis
  proof (cases "in_window ?req (dw_clearance_level wit)")
    case True
    with syn obtain pb ib where "synthesize_proof V wit ?req = Inr (pb, ib)" by auto
    then show ?thesis
      using prove_payload_after [OF assms(5) _ assms(4), of pb ib w] True by (metis (no_types))
  next
    case False
    with syn assms(5) show ?thesis by (simp add: prove_payload_def res_simps)
  qed
qed

text \<open>
  An instance for witnesses: no device, a prover that answers for satisfied circuits only, inputs
  of 32 bytes each. It satisfies \<open>prover_law\<close> and \<open>device_answers\<close>.
\<close>

definition no_device :: "nat attestation_device" where
  "no_device = \<lparr>dev_exists = (\<lambda>_ _. False), dev_open_write = (\<lambda>_. io_fail ''absent''),
     dev_write_all = (\<lambda>_ _. io_fail ''absent''), dev_open_read = (\<lambda>_. io_fail ''absent''),
     dev_read_to_end = (\<lambda>_. io_fail ''absent'')\<rparr>"

definition demo_prover :: "'c prims \<Rightarrow> 'w attestation_device \<Rightarrow> ('c, unit, nat, 'w) prover_env" where
  "demo_prover P D = \<lparr>pv_prims = P, pv_device = D,
     stdin_read_line = io_return ''line'', stdout_write_line = (\<lambda>_. io_return ()),
     rsa_generate = io_return (), rsa_public_key_to_pem = (\<lambda>_. Inr (as_bytes ''PEM'')),
     rsa_private_decrypt = (\<lambda>_ bs. Inr bs), utf8_error_text = (\<lambda>_. ''utf8''), slice_error_text = ''slice'',
     pv_b64_encode = str_of_bytes, pv_b64_decode = (\<lambda>s. Inr (as_bytes s)), pv_hex_encode = str_of_bytes,
     pv_json_print = (\<lambda>v. str_of_bytes (unary_print v)), proving_key_bytes = [],
     proving_key_deserialize = (\<lambda>_. Inr 0),
     groth16_prove = (\<lambda>circuit _ _. case generate_constraints bls_modulus circuit of
         Inr cs \<Rightarrow> if is_satisfied cs then Inr 1 else Inl ''unsatisfied'' | Inl e \<Rightarrow> Inl ''synthesis''),
     proof_serialize = (\<lambda>n. Inr (replicate (Suc n) 0)),
     inputs_serialize = (\<lambda>xs. Inr (1 # concat (map (le_bytes 32) xs))), synthesis_text = (\<lambda>_. ''synthesis'')\<rparr>"

lemma demo_prover_law: "prover_law (demo_prover P D)"
  by (simp add: prover_law_def demo_prover_def)

lemma no_device_answers: "device_answers no_device"
  by (simp add: device_answers_def no_device_def)

definition demo_payload :: "u64 \<Rightarrow> enclave_ingestion_payload" where
  "demo_payload required = \<lparr>raw_wallet_ciphertext = [1, 2], wallet_db_key = Some [9],
     payload_credential_id = Some ''c1'', payload_required_clearance = required,
     master_seed = Some (replicate 32 1)\<rparr>"

theorem prover_succeeds_iff_cleared_witness:
  "(\<exists>resp w'. prove_payload (demo_prover (plain_prims (\<lambda>_. Inr example_vc)) no_device) (demo_payload 3)
      [9] (replicate 32 1) 0 = (Inr resp, w')) \<and>
   (\<exists>e. prove_payload (demo_prover (plain_prims (\<lambda>_. Inr example_vc)) no_device) (demo_payload 6)
      [9] (replicate 32 1) 0 = (Inl e, 0))"
proof -
  let ?P = "plain_prims (\<lambda>_. Inr example_vc)"
  let ?V = "demo_prover ?P no_device"
  have V: "pv_prims ?V = ?P" "pv_device ?V = no_device" by (simp_all add: demo_prover_def)
  have err: "dec_subject example_vc = Inl (MissingField ''user_clearance_level'')"
    by (simp add: dec_subject_def example_vc_def field_defs)
  have "parse_credential_subject ?P [1, 2] (Some ''c1'') = Inr \<lparr>dcs_user_clearance_level = 5,
      dcs_user_role_scalar = ''admin'', dcs_subject_did = ''did:dzta:1'', dcs_credential_id = ''c1''\<rparr>"
    by (simp add: parse_credential_subject_def from_slice_def plain_prims_def err dec_value_def)
      (simp add: example_vc_def)
  moreover have "decrypt_wallet_record ?P [1, 2] [9] = Inl (ExecutionFailed ''Invalid wallet record envelope'')"
    by (simp add: decrypt_wallet_record_def)
  ultimately obtain wit where wit: "unseal_and_derive_witness_with_credential_id ?P [1, 2] [9]
      (replicate 32 1) (Some ''c1'') = Inr wit" "dw_clearance_level wit = 5"
    by (simp add: unseal_cases witness_of_def Let_def)
  then have unseal: "unseal_and_derive_witness_with_credential_id (pv_prims ?V)
      (raw_wallet_ciphertext (demo_payload r)) [9] (replicate 32 1)
      (payload_credential_id (demo_payload r)) = Inr wit" for r
    by (simp add: demo_payload_def V)
  note run = prover_succeeds_iff_cleared [of ?V, unfolded V(1,2), OF plain_prims_laws(1,3) demo_prover_law
      no_device_answers unseal [unfolded V(1)], of _ 0]
  have "in_window 3 5" "\<not> in_window 6 5" by (simp_all add: in_window_def)
  then show ?thesis
    using run [of 3] run [of 6] wit(2) by (simp add: demo_payload_def)
qed

section \<open>The handshake and the broker\<close>

text \<open>
  What Gramine and the hardware promise of the device files: once 64 bytes have been written to the
  opened \<open>user_report_data\<close>, the quote then read from \<open>quote\<close> reports, when it is verified, exactly
  these bytes and the measurements of this enclave.
\<close>

definition sgx_law :: "'w attestation_device \<Rightarrow> ('q, 'v) quote_env \<Rightarrow> app_state \<Rightarrow> bool" where
  "sgx_law D Q state \<longleftrightarrow>
     (\<forall>bs w w1 w2 w3 q w4 collateral now report. length bs = 64 \<longrightarrow>
        dev_open_write D ''/dev/attestation/user_report_data'' w = (Inr (), w1) \<longrightarrow>
        dev_write_all D ''/dev/attestation/user_report_data'' bs w1 = (Inr (), w2) \<longrightarrow>
        dev_open_read D ''/dev/attestation/quote'' w2 = (Inr (), w3) \<longrightarrow>
        dev_read_to_end D ''/dev/attestation/quote'' w3 = (Inr q, w4) \<longrightarrow>
        dcap_verify Q q collateral now = Inr (Some report) \<longrightarrow>
        rp_report_data report = bs \<and> mr_enclave report = expected_mrenclave state \<and>
        mr_signer report = expected_mrsigner state)"

lemma take_padded_report: "length data = 32 \<Longrightarrow> take 32 (padded_report data) = data"
  by (simp add: padded_report_def)

lemma length_padded_report: "length (padded_report data) = 64"
  by (simp add: padded_report_def Let_def)

lemma bound_quote_reports:
  assumes "sgx_law D Q state" "bind_user_report_data D data w = (Inr (), w1)"
    and "fetch_sgx_quote D w1 = (Inr (Some q), w2)" "dcap_verify Q q collateral now = Inr (Some report)"
  shows "rp_report_data report = padded_report data \<and> mr_enclave report = expected_mrenclave state \<and>
    mr_signer report = expected_mrsigner state"
proof -
  have "is_sgx_hardware_active D w"
    using assms(2,3) by (auto simp: bind_user_report_data_def fetch_sgx_quote_def split: if_splits)
  with assms(2) obtain v where "dev_open_write D ''/dev/attestation/user_report_data'' w = (Inr (), v)"
    "dev_write_all D ''/dev/attestation/user_report_data'' (padded_report data) v = (Inr (), w1)"
    by (auto simp: bind_user_report_data_def io_Inr device_paths)
  moreover from assms(3) obtain v' where "dev_open_read D ''/dev/attestation/quote'' w1 = (Inr (), v')"
    "dev_read_to_end D ''/dev/attestation/quote'' v' = (Inr q, w2)"
    by (auto simp: fetch_sgx_quote_def io_Inr device_paths split: if_splits)
  ultimately show ?thesis
    using assms(1,4) length_padded_report [of data] unfolding sgx_law_def by blast
qed

lemma enclave_request_InrE:
  assumes "enclave_request V payload w = (Inr (rsa, r), w')"
  obtains pem q cid w1 w2 w3 where
    "bind_session (sha256 (pv_prims V)) (pv_device V)
       (as_bytes pem @ to_be_bytes (payload_required_clearance payload)) w1 = (Inr (), w2)"
    "fetch_sgx_quote (pv_device V) w2 = (Inr (Some q), w3)"
    "payload_credential_id payload = Some cid"
    "r = \<lparr>ar_quote = pv_b64_encode V q, ar_enclave_public_key_pem = pem, ar_credential_key_id = cid,
        ar_required_clearance_level = payload_required_clearance payload\<rparr>"
proof -
  from assms obtain bs q cid w1 w2 w3 where
    "bind_session (sha256 (pv_prims V)) (pv_device V)
       (bs @ to_be_bytes (payload_required_clearance payload)) w1 = (Inr (), w2)"
    "fetch_sgx_quote (pv_device V) w2 = (Inr (Some q), w3)"
    "payload_credential_id payload = Some cid"
    "r = \<lparr>ar_quote = pv_b64_encode V q, ar_enclave_public_key_pem = str_of_bytes bs,
        ar_credential_key_id = cid,
        ar_required_clearance_level = payload_required_clearance payload\<rparr>"
    unfolding enclave_request_def by (auto simp: io_Inr from_utf8_def split: if_splits)
  then show ?thesis
    using that [of "str_of_bytes bs" w1 w2 q w3 cid] by simp
qed

lemma received_secrets:
  assumes "receive_secrets V rsa payload w = (Inr payload', w')"
  obtains key seed where "payload' = payload\<lparr>wallet_db_key := Some key, master_seed := Some seed\<rparr>"
    "length seed = 32"
  using assms by (auto simp: receive_secrets_def io_Inr io_fail_app split: if_splits)

text \<open>
  C17. An honest enclave is recognised. When the enclave has built its attestation request, the
  request names the payload's credential and clearance level, its quote decodes, and the broker's
  quote verification accepts it for the key and level of the same request whenever the DCAP service
  answers and accepts the quote.
\<close>

theorem honest_enclave_attested:
  assumes "enclave_request V payload w = (Inr (rsa, r), w')" "sgx_law (pv_device V) Q state"
    and "sha256 (pv_prims V) = q_sha256 Q" "sha_law (pv_prims V)"
    and "\<And>bs. b64_decode E (pv_b64_encode V bs) = Inr bs"
  shows "ar_required_clearance_level r = payload_required_clearance payload \<and>
    payload_credential_id payload = Some (ar_credential_key_id r) \<and>
    (\<exists>q. b64_decode E (ar_quote r) = Inr q \<and>
      (\<forall>cl u collateral u1 now report. pccs_client Q (pccs_url state) = Inr cl \<longrightarrow>
         fetch_collateral Q cl q u = (Inr collateral, u1) \<longrightarrow> unix_now Q u1 = Inr now \<longrightarrow>
         dcap_verify Q q collateral now = Inr (Some report) \<longrightarrow>
         (\<exists>enclave. verify_sgx_quote E Q state (ar_quote r) (ar_enclave_public_key_pem r)
            (ar_required_clearance_level r) u = (Inr enclave, u1) \<and>
            ve_enclave_public_key enclave = ar_enclave_public_key_pem r)))"
proof -
  let ?lvl = "payload_required_clearance payload"
  obtain pem q cid w1 w2 w3 where
    bind: "bind_session (sha256 (pv_prims V)) (pv_device V) (as_bytes pem @ to_be_bytes ?lvl) w1 = (Inr (), w2)"
    and fetch: "fetch_sgx_quote (pv_device V) w2 = (Inr (Some q), w3)"
    and cid: "payload_credential_id payload = Some cid"
    and r: "r = \<lparr>ar_quote = pv_b64_encode V q, ar_enclave_public_key_pem = pem, ar_credential_key_id = cid,
        ar_required_clearance_level = ?lvl\<rparr>"
    by (rule enclave_request_InrE [OF assms(1)])
  have "bind_user_report_data (pv_device V) (q_sha256 Q (session_binding pem ?lvl)) w1 = (Inr (), w2)"
    using bind assms(3) by (simp add: bind_session_def session_binding_def)
  moreover have "length (q_sha256 Q (session_binding pem ?lvl)) = 32"
    using assms(4) by (simp add: sha_law_def flip: assms(3))
  ultimately have check: "\<exists>enclave. check_report Q state q pem ?lvl report = Inr enclave"
    if "dcap_verify Q q collateral now = Inr (Some report)" for collateral now report
    using bound_quote_reports [OF assms(2) _ fetch that] unfolding check_report_Inr
    by (metis take_padded_report)
  have "\<exists>enclave. verify_sgx_quote E Q state (ar_quote r) pem ?lvl u = (Inr enclave, u1) \<and>
      ve_enclave_public_key enclave = pem"
    if dcap: "pccs_client Q (pccs_url state) = Inr cl" "fetch_collateral Q cl q u = (Inr collateral, u1)"
      "unix_now Q u1 = Inr now" "dcap_verify Q q collateral now = Inr (Some report)"
    for cl u collateral u1 now report
  proof -
    obtain enclave where "check_report Q state q pem ?lvl report = Inr enclave" using check dcap(4) by blast
    moreover from this have "ve_enclave_public_key enclave = pem"
      by (auto simp: check_report_def Let_def split: if_splits)
    ultimately show ?thesis
      using dcap by (simp add: verify_sgx_quote_def res_simps r assms(5))
  qed
  then show ?thesis using r cid assms(5) by auto
qed

text \<open>A device for the witness: it keeps the bytes last written and quotes them.\<close>

definition echo_device :: "bytes attestation_device" where
  "echo_device = \<lparr>dev_exists = (\<lambda>_ _. True), dev_open_write = (\<lambda>_. io_return ()),
     dev_write_all = (\<lambda>_ bs _. (Inr (), bs)), dev_open_read = (\<lambda>_. io_return ()),
     dev_read_to_end = (\<lambda>_ w. (Inr w, w))\<rparr>"

definition demo_secrets :: json where
  "demo_secrets = JObject [(''encrypted_wallet_key'', JString ''k''),
     (''encrypted_master_seed'', JString (replicate 32 (CHR ''s''))),
     (''key_encryption_algorithm'', JString ''RSA-OAEP'')]"

definition echo_quotes :: "(unit, nat) quote_env" where
  "echo_quotes = demo_quote_env\<lparr>q_sha256 := sha256 (plain_prims (\<lambda>_. Inr demo_secrets)),
     dcap_verify := (\<lambda>q _ _. Inr (Some \<lparr>mr_enclave = [1], mr_signer = [2], rp_report_data = q\<rparr>))\<rparr>"

lemma echo_sgx_law: "sgx_law echo_device echo_quotes demo_state"
  by (auto simp: sgx_law_def echo_device_def echo_quotes_def demo_state_def res_simps)

lemma demo_request_built:
  "\<exists>r w'. enclave_request (demo_prover (plain_prims (\<lambda>_. Inr demo_secrets)) echo_device)
     (demo_payload 3) [] = (Inr ((), r), w') \<and> ar_enclave_public_key_pem r = ''PEM''"
proof -
  have "utf8_valid (as_bytes ''PEM'')" by code_simp
  then show ?thesis
    by (simp add: enclave_request_def demo_prover_def demo_payload_def res_simps bind_session_def
        bind_user_report_data_def fetch_sgx_quote_def is_sgx_hardware_active_def echo_device_def
        from_utf8_def plain_prims_def)
qed

lemma demo_handshake:
  "\<exists>payload' w'. handshake (demo_prover (plain_prims (\<lambda>_. Inr demo_secrets)) echo_device)
     (demo_payload 3) [] = (Inr payload', w')"
proof -
  obtain r w' where "enclave_request (demo_prover (plain_prims (\<lambda>_. Inr demo_secrets)) echo_device)
     (demo_payload 3) [] = (Inr ((), r), w')"
    using demo_request_built by blast
  moreover have "dec_attestation_response demo_secrets = Inr \<lparr>as_encrypted_wallet_key = ''k'',
      as_encrypted_master_seed = replicate 32 (CHR ''s''), as_key_encryption_algorithm = ''RSA-OAEP''\<rparr>"
    by (simp add: demo_secrets_def dec_attestation_response_def field_defs)
  ultimately show ?thesis
    by (simp add: handshake_def receive_secrets_def res_simps)
      (simp add: demo_prover_def res_simps from_slice_def plain_prims_def decrypt_secret_def)
qed

theorem honest_enclave_attested_witness:
  "\<exists>r enclave. ar_required_clearance_level r = 3 \<and> ar_enclave_public_key_pem r = ''PEM'' \<and>
    verify_sgx_quote mem_env echo_quotes demo_state (ar_quote (r :: attestation_request)) ''PEM'' 3 0 =
      (Inr enclave, 0)"
proof -
  let ?P = "plain_prims (\<lambda>_. Inr demo_secrets)"
  let ?V = "demo_prover ?P echo_device"
  obtain r w' where run: "enclave_request ?V (demo_payload 3) [] = (Inr ((), r), w')"
    and pem: "ar_enclave_public_key_pem r = ''PEM''"
    using demo_request_built by blast
  have V: "pv_prims ?V = ?P" "pv_device ?V = echo_device" "pv_b64_encode ?V = str_of_bytes"
    by (simp_all add: demo_prover_def)
  have sha: "sha256 (pv_prims ?V) = q_sha256 echo_quotes" by (simp add: V echo_quotes_def)
  have b64: "b64_decode mem_env (pv_b64_encode ?V bs) = Inr bs" for bs by (simp add: V mem_env_def)
  have dcap: "pccs_client echo_quotes u = Inr ()" "fetch_collateral echo_quotes () q 0 = (Inr (), 0)"
    "unix_now echo_quotes 0 = Inr 0" "dcap_verify echo_quotes q c t =
      Inr (Some \<lparr>mr_enclave = [1], mr_signer = [2], rp_report_data = q\<rparr>)" for u q c t
    by (simp_all add: echo_quotes_def demo_quote_env_def io_return_def)
  have "payload_required_clearance (demo_payload 3) = 3" by (simp add: demo_payload_def)
  then show ?thesis
    using honest_enclave_attested [OF run _ sha _ b64, of demo_state] dcap pem
    unfolding V using echo_sgx_law plain_prims_laws(1) by metis
qed

text \<open>
  The request the enclave prints is not one the broker understands: it names the key
  \<open>enclave_public_key_pem\<close> and carries no ciphertexts, so the decoders of all three endpoints
  refuse it, whatever its contents.
\<close>

lemma attestation_request_refused:
  "\<exists>e1 e2 e3. dec_unwrap_request (json_of_attestation_request r) = Inl e1 \<and>
     dec_release_request (json_of_attestation_request r) = Inl e2 \<and>
     dec_provision_request (json_of_attestation_request r) = Inl e3"
  by (simp add: json_of_attestation_request_def dec_unwrap_request_def dec_release_request_def
      dec_provision_request_def field_defs)

end
