(* ===== verification/BareProver.thy ===== *)
theory BareProver
  imports Enclave
begin

text \<open>
  The two provers without an enclave protocol: \<open>src/dzta-protected-prover/src/main.rs\<close>, which reads
  a witness as JSON and prints a proof in hexadecimal, and
  \<open>src/tee-runner-enclave/src/main.rs\<close>, a C function over raw pointers.

  Memory is a function from 64-bit addresses to bytes and the null pointer is 0. Reads and writes
  through the pointers of the caller are taken to be permitted; arithmetic on addresses wraps. A
  \<open>usize\<close> is eight bytes, little endian. The return code is an \<open>i32\<close>.
\<close>

section \<open>The protected prover\<close>

record prover_inputs =
  pi_user_clearance_level :: byte
  pi_user_role_scalar :: string
  pi_secret_nullifier :: bytes
  pi_required_clearance_level :: byte
  pi_public_commitment :: bytes

definition dec_prover_inputs :: "prover_inputs decoder" where
  "dec_prover_inputs v =
     bind_res (struct_fields [''user_clearance_level'', ''user_role_scalar'', ''secret_nullifier'',
       ''required_clearance_level'', ''public_commitment''] v) (\<lambda>fs.
     bind_res (required_field dec_u8 [''user_clearance_level''] fs) (\<lambda>u.
     bind_res (required_field dec_string [''user_role_scalar''] fs) (\<lambda>r.
     bind_res (required_field (dec_vec dec_u8) [''secret_nullifier''] fs) (\<lambda>n.
     bind_res (required_field dec_u8 [''required_clearance_level''] fs) (\<lambda>q.
     bind_res (required_field (dec_vec dec_u8) [''public_commitment''] fs) (\<lambda>c.
     Inr \<lparr>pi_user_clearance_level = u, pi_user_role_scalar = r, pi_secret_nullifier = n,
          pi_required_clearance_level = q, pi_public_commitment = c\<rparr>))))))"

definition fr_of_u8 :: "byte \<Rightarrow> nat" where
  "fr_of_u8 b = unat b mod bls_modulus"

text \<open>\<open>stdin\<close> is the text read to its end, or the error met; the result is the line printed.\<close>

definition protected_prover_main ::
  "('c, 'r, 'v, 'w) prover_env \<Rightarrow> string + string \<Rightarrow> string + string" where
  "protected_prover_main V stdin =
     bind_res stdin (\<lambda>buffer.
     bind_res (map_err (serde_display (fmt (pv_prims V)))
       (from_slice (json_parse (pv_prims V)) dec_prover_inputs (as_bytes buffer))) (\<lambda>inputs.
     bind_res (biguint_from_str (pv_prims V) (pi_user_role_scalar inputs)) (\<lambda>role_biguint.
     bind_res (proving_key_deserialize V (proving_key_bytes V)) (\<lambda>proving_key.
     if length (pi_secret_nullifier inputs) \<noteq> 32 then
       Inl ''secret_nullifier must be exactly 32 bytes for RNG initialization''
     else
       let circuit =
         \<lparr>user_clearance_level = Some (fr_of_u8 (pi_user_clearance_level inputs)),
          user_role_scalar = Some (fr_from_le_bytes_mod_order (biguint_to_bytes_le role_biguint)),
          secret_nullifier = Some (fr_from_le_bytes_mod_order (pi_secret_nullifier inputs)),
          required_clearance_level = Some (fr_of_u8 (pi_required_clearance_level inputs)),
          public_commitment = Some (fr_from_le_bytes_mod_order (pi_public_commitment inputs))\<rparr>
       in bind_res (map_err (\<lambda>e. ''ZKP Generation Failed: '' @ e)
            (groth16_prove V circuit proving_key (pi_secret_nullifier inputs))) (\<lambda>prf.
          bind_res (proof_serialize V prf) (\<lambda>proof_bytes.
          Inr (pv_hex_encode V proof_bytes)))))))"

section \<open>The C entry point\<close>

type_synonym memory = "u64 \<Rightarrow> byte"

definition read_bytes :: "memory \<Rightarrow> u64 \<Rightarrow> nat \<Rightarrow> bytes" where
  "read_bytes m p n = map (\<lambda>i. m (p + word_of_nat i)) [0..<n]"

fun write_bytes :: "memory \<Rightarrow> u64 \<Rightarrow> bytes \<Rightarrow> memory" where
  "write_bytes m p [] = m"
| "write_bytes m p (b # bs) = write_bytes (m(p := b)) (p + 1) bs"

record 'v tee_lib =
  tee_key_deserialize :: "bytes \<Rightarrow> string + 'v"
  tee_prove :: "'v \<Rightarrow> role_verification_circuit \<Rightarrow> bytes \<Rightarrow> string + 'v"
  tee_serialize :: "'v \<Rightarrow> bytes"

definition tee_circuit :: "u64 \<Rightarrow> bytes \<Rightarrow> bytes \<Rightarrow> u64 \<Rightarrow> bytes \<Rightarrow> role_verification_circuit" where
  "tee_circuit clearance role nullifier required commitment =
     \<lparr>user_clearance_level = Some (fr_of_u64 clearance),
      user_role_scalar = Some (fr_from_le_bytes_mod_order role),
      secret_nullifier = Some (fr_from_le_bytes_mod_order nullifier),
      required_clearance_level = Some (fr_of_u64 required),
      public_commitment = Some (fr_from_le_bytes_mod_order commitment)\<rparr>"

text \<open>Serialising into the buffer of 512 bytes fails when the proof does not fit.\<close>

definition execute_tee_zkp_generation ::
  "'v tee_lib \<Rightarrow> u64 \<Rightarrow> u64 \<Rightarrow> u64 \<Rightarrow> u64 \<Rightarrow> u64 \<Rightarrow> u64 \<Rightarrow> u64 \<Rightarrow> u64 \<Rightarrow> u64 \<Rightarrow> memory \<Rightarrow> int \<times> memory" where
  "execute_tee_zkp_generation G user_clearance role_scalar_ptr nullifier_ptr required_clearance
     commitment_ptr pk_ptr pk_len out_proof_ptr out_proof_len m =
     (if role_scalar_ptr = 0 \<or> nullifier_ptr = 0 \<or> commitment_ptr = 0 \<or> pk_ptr = 0 \<or>
         out_proof_ptr = 0 \<or> out_proof_len = 0 then (- 4, m)
      else
        let role_scalar_bytes = read_bytes m role_scalar_ptr 32;
            nullifier_bytes = read_bytes m nullifier_ptr 32;
            commitment_bytes = read_bytes m commitment_ptr 32;
            pk_slice = read_bytes m pk_ptr (unat pk_len)
        in case tee_key_deserialize G pk_slice of
             Inl _ \<Rightarrow> (- 1, m)
           | Inr proving_key \<Rightarrow>
               (case tee_prove G proving_key (tee_circuit user_clearance role_scalar_bytes nullifier_bytes
                  required_clearance commitment_bytes) nullifier_bytes of
                  Inl _ \<Rightarrow> (- 2, m)
                | Inr prf \<Rightarrow>
                    let serialized = tee_serialize G prf in
                    if 512 < length serialized then (- 3, m)
                    else
                      let m1 = write_bytes m out_proof_ptr serialized
                      in (0, write_bytes m1 out_proof_len (le_bytes 8 (length serialized)))))"

section \<open>The provers agree\<close>

text \<open>
  C26. The protected prover computes the enclave's proof: given as JSON the witness the enclave
  derives, with both levels below 256, it prints the hexadecimal form of exactly the proof bytes the
  enclave serialises.
\<close>

theorem protected_prover_agrees:
  assumes "synthesize_proof V wit required = Inr (pb, ib)"
    and "from_slice (json_parse (pv_prims V)) dec_prover_inputs (as_bytes buffer) = Inr inputs"
    and "ucast (pi_user_clearance_level inputs) = dw_clearance_level wit"
      "ucast (pi_required_clearance_level inputs) = required"
      "pi_user_role_scalar inputs = dw_user_role_scalar wit"
      "pi_secret_nullifier inputs = dw_secret_nullifier wit"
      "pi_public_commitment inputs = dw_public_commitment wit"
  shows "protected_prover_main V (Inr buffer) = Inr (pv_hex_encode V pb)"
proof -
  have fr: "fr_of_u8 b = fr_of_u64 (ucast b)" for b
  proof -
    have "unat b < bls_modulus"
      by (rule order_less_trans [OF unat_byte_less]) (simp add: bls_modulus_def)
    then show ?thesis by (simp add: fr_of_u8_def)
  qed
  from assms(1) obtain n pk cs pf where
    "biguint_from_str (pv_prims V) (dw_user_role_scalar wit) = Inr n"
    "proving_key_deserialize V (proving_key_bytes V) = Inr pk"
    "length (dw_secret_nullifier wit) = 32"
    "groth16_prove V (prover_circuit wit n required) pk (dw_secret_nullifier wit) = Inr pf"
    "proof_serialize V pf = Inr pb"
    by (auto simp: synthesize_proof_def bind_res_Inr_iff map_err_Inr_iff Let_def split: if_splits)
  then show ?thesis
    using assms(2-) by (simp add: protected_prover_main_def Let_def fr prover_circuit_def)
qed

definition json_of_prover_inputs :: "prover_inputs \<Rightarrow> json" where
  "json_of_prover_inputs i = JObject
     [(''user_clearance_level'', JNumber (PosInt (ucast (pi_user_clearance_level i)))),
      (''user_role_scalar'', JString (pi_user_role_scalar i)),
      (''secret_nullifier'', json_of_bytes (pi_secret_nullifier i)),
      (''required_clearance_level'', JNumber (PosInt (ucast (pi_required_clearance_level i)))),
      (''public_commitment'', json_of_bytes (pi_public_commitment i))]"

lemma dec_json_of_prover_inputs: "dec_prover_inputs (json_of_prover_inputs i) = Inr i"
  by (simp add: dec_prover_inputs_def json_of_prover_inputs_def field_defs)

definition demo_wit :: derived_enclave_witness where
  "demo_wit = witness_of (plain_prims unary_parse) (replicate 32 1) \<lparr>dcs_user_clearance_level = 5,
     dcs_user_role_scalar = ''7'', dcs_subject_did = ''d'', dcs_credential_id = ''c''\<rparr>"

definition demo_inputs :: prover_inputs where
  "demo_inputs = \<lparr>pi_user_clearance_level = 5, pi_user_role_scalar = dw_user_role_scalar demo_wit,
     pi_secret_nullifier = dw_secret_nullifier demo_wit, pi_required_clearance_level = 3,
     pi_public_commitment = dw_public_commitment demo_wit\<rparr>"

theorem protected_prover_agrees_witness:
  "protected_prover_main (demo_prover (plain_prims unary_parse) no_device)
     (Inr (str_of_bytes (unary_print (json_of_prover_inputs demo_inputs)))) = Inr (str_of_bytes [0, 0])"
proof -
  let ?P = "plain_prims unary_parse"
  let ?V = "demo_prover ?P no_device"
  have V: "pv_prims ?V = ?P" "proof_serialize ?V n = Inr (replicate (Suc n) 0)"
    "pv_hex_encode ?V = str_of_bytes" "groth16_prove ?V c pk sd = Inr pf \<Longrightarrow> pf = 1" for n c pk sd pf
    by (auto simp: demo_prover_def split: sum.splits if_splits)
  have lvl: "dw_clearance_level demo_wit = 5" by (simp add: demo_wit_def witness_of_def Let_def)
  have "in_window 3 5" by (simp add: in_window_def)
  with synthesize_proof_cases [of ?V demo_wit "replicate 32 1" _ 3, unfolded V(1), OF plain_prims_laws(1,3)
      demo_prover_law demo_wit_def] lvl
  obtain ib where syn: "synthesize_proof ?V demo_wit 3 = Inr ([0, 0], ib)" by (auto simp: V(2) dest!: V(4))
  have "json_parse ?P = unary_parse" by (simp add: plain_prims_def)
  then have "from_slice (json_parse (pv_prims ?V)) dec_prover_inputs
      (as_bytes (str_of_bytes (unary_print (json_of_prover_inputs demo_inputs)))) = Inr demo_inputs"
    by (simp add: V from_slice_def dec_json_of_prover_inputs)
  from protected_prover_agrees [OF syn this] show ?thesis
    using lvl by (simp add: V demo_inputs_def)
qed

section \<open>What the entry point writes\<close>

definition region :: "u64 \<Rightarrow> nat \<Rightarrow> u64 set" where
  "region p n = (\<lambda>i. p + word_of_nat i) ` {..<n}"

lemma region_Suc: "region p (Suc n) = insert p (region (p + 1) n)"
  unfolding region_def lessThan_Suc_eq_insert_0 by (auto simp: image_image add.assoc)

lemma write_bytes_outside: "a \<notin> region p (length bs) \<Longrightarrow> write_bytes m p bs a = m a"
  by (induction bs arbitrary: m p) (auto simp: region_Suc)

lemma start_not_in_tail: "n < 2 ^ 64 - 1 \<Longrightarrow> p \<notin> region (p + 1) n"
proof
  assume n: "n < 2 ^ 64 - 1" and "p \<in> region (p + 1) n"
  then obtain i where i: "i < n" and "p = p + 1 + word_of_nat i" by (auto simp: region_def)
  then have "(word_of_nat (Suc i) :: u64) = 0" by (simp add: add.assoc)
  then have "2 ^ 64 dvd Suc i"
    using word_of_nat_eq_0_iff [of "Suc i", where 'a = 64] by (simp del: of_nat_Suc)
  with i n show False by (auto dest: dvd_imp_le)
qed

lemma write_bytes_inside:
  "length bs < 2 ^ 64 \<Longrightarrow> i < length bs \<Longrightarrow> write_bytes m p bs (p + word_of_nat i) = bs ! i"
proof (induction bs arbitrary: m p i)
  case Nil
  then show ?case by simp
next
  case (Cons b bs)
  show ?case
  proof (cases i)
    case 0
    with Cons.prems show ?thesis
      using start_not_in_tail [of "length bs" p] by (simp add: write_bytes_outside)
  next
    case (Suc j)
    with Cons.prems Cons.IH [of j "m(p := b)" "p + 1"] show ?thesis
      by (simp add: add.assoc del: fun_upd_apply)
  qed
qed

lemma read_write_bytes: "length bs < 2 ^ 64 \<Longrightarrow> read_bytes (write_bytes m p bs) p (length bs) = bs"
  by (rule nth_equalityI) (simp_all add: read_bytes_def write_bytes_inside)

lemma read_bytes_outside:
  "region q n \<inter> region p (length bs) = {} \<Longrightarrow> read_bytes (write_bytes m p bs) q n = read_bytes m q n"
  by (auto simp: read_bytes_def intro!: write_bytes_outside) (auto simp: region_def)

text \<open>
  C25. The C entry point returns one of its five codes. On every error the caller's memory is
  unchanged. On success at most 512 bytes were written at the output pointer and eight at the
  length pointer, nothing else changed, the length is the proof's length, and, when the two areas
  do not overlap, the output holds the proof the library made from the bytes behind the pointers.
\<close>

theorem tee_entry_memory:
  assumes "execute_tee_zkp_generation G u role_p nul_p req com_p pk_p pk_len out_p len_p m = (rc, m')"
  shows "rc \<in> {0, - 1, - 2, - 3, - 4} \<and> (rc \<noteq> 0 \<longrightarrow> m' = m) \<and>
    (0 \<in> {role_p, nul_p, com_p, pk_p, out_p, len_p} \<longleftrightarrow> rc = - 4) \<and>
    (rc = 0 \<longrightarrow> (\<exists>pk pf. tee_key_deserialize G (read_bytes m pk_p (unat pk_len)) = Inr pk \<and>
       tee_prove G pk (tee_circuit u (read_bytes m role_p 32) (read_bytes m nul_p 32) req
         (read_bytes m com_p 32)) (read_bytes m nul_p 32) = Inr pf \<and>
       length (tee_serialize G pf) \<le> 512 \<and>
       (\<forall>a. a \<notin> region out_p (length (tee_serialize G pf)) \<longrightarrow> a \<notin> region len_p 8 \<longrightarrow> m' a = m a) \<and>
       read_bytes m' len_p 8 = le_bytes 8 (length (tee_serialize G pf)) \<and>
       (region out_p (length (tee_serialize G pf)) \<inter> region len_p 8 = {} \<longrightarrow>
          read_bytes m' out_p (length (tee_serialize G pf)) = tee_serialize G pf)))"
proof -
  have len: "read_bytes (write_bytes m1 len_p (le_bytes 8 n)) len_p 8 = le_bytes 8 n" for m1 n
    using read_write_bytes [of "le_bytes 8 n" m1 len_p] by simp
  have keep: "write_bytes (write_bytes m out_p bs) len_p (le_bytes 8 n) a = m a"
    if "a \<notin> region out_p (length bs)" "a \<notin> region len_p 8" for bs n a
    using that by (simp add: write_bytes_outside)
  have out: "read_bytes (write_bytes (write_bytes m out_p bs) len_p (le_bytes 8 n)) out_p (length bs) = bs"
    if "region out_p (length bs) \<inter> region len_p 8 = {}" "length bs \<le> 512" for bs n
    using that by (simp add: read_bytes_outside read_write_bytes)
  show ?thesis
    using assms unfolding execute_tee_zkp_generation_def Let_def
    by (auto simp: len keep out split: if_splits sum.splits)
qed

definition demo_tee :: "nat tee_lib" where
  "demo_tee = \<lparr>tee_key_deserialize = (\<lambda>_. Inr 0), tee_prove = (\<lambda>_ _ _. Inr 1),
     tee_serialize = (\<lambda>_. [7, 8])\<rparr>"

theorem tee_entry_memory_witness:
  "read_bytes (snd (execute_tee_zkp_generation demo_tee 5 100 200 3 300 400 0 2000 3000 (\<lambda>_. 0))) 2000 2 = [7, 8]"
proof -
  obtain rc m' where run: "execute_tee_zkp_generation demo_tee 5 100 200 3 300 400 0 2000 3000 (\<lambda>_. 0) = (rc, m')"
    by (meson surj_pair)
  have ser: "tee_serialize demo_tee pf = [7, 8]" for pf by (simp add: demo_tee_def)
  have "rc = 0" using run by (simp add: execute_tee_zkp_generation_def demo_tee_def)
  moreover have "region 2000 2 \<inter> region 3000 8 = {}"
    by code_simp
  ultimately have "read_bytes m' 2000 2 = [7, 8]"
    using tee_entry_memory [OF run] by (auto simp: ser numeral_2_eq_2)
  then show ?thesis using run by simp
qed

end
