(* ===== verification/KeyGeneration.thy ===== *)
theory KeyGeneration
  imports Circuit
begin

text \<open>
  The trusted setup, \<open>src/toxic-waste/src/bin/generate_keys.rs\<close>: the Groth16 setup of the role
  circuit with every assignment left open, and the two key files it writes. Groth16, the generator
  and the file system are the record \<open>setup_env\<close>; the generator is a deterministic function of its
  64-bit seed. Result: the keys a successful run leaves on disk do not depend on the world it ran in.
\<close>

record ('g, 'k, 'v, 'w) setup_env =
  seed_from_u64 :: "u64 \<Rightarrow> 'g"
  groth16_setup :: "role_verification_circuit \<Rightarrow> 'g \<Rightarrow> string + ('k \<times> 'v)"
  setup_create_dir_all :: "string \<Rightarrow> ('w, string, unit) io"
  file_create :: "string \<Rightarrow> ('w, string, unit) io"
  file_write :: "string \<Rightarrow> bytes \<Rightarrow> ('w, string, unit) io"
  pk_serialize :: "'k \<Rightarrow> string + bytes"
  vk_serialize :: "'v \<Rightarrow> string + bytes"

definition blank_circuit :: role_verification_circuit where
  "blank_circuit = \<lparr>user_clearance_level = None, user_role_scalar = None, secret_nullifier = None,
     required_clearance_level = None, public_commitment = None\<rparr>"

definition save_key ::
  "('g, 'k, 'v, 'w) setup_env \<Rightarrow> string \<Rightarrow> string + bytes \<Rightarrow> ('w, string, unit) io" where
  "save_key T path serialized =
     io_bind (file_create T path) (\<lambda>_.
     io_bind (io_lift serialized) (\<lambda>bs.
     file_write T path bs))"

definition generate_keys_main :: "('g, 'k, 'v, 'w) setup_env \<Rightarrow> ('w, string, unit) io" where
  "generate_keys_main T =
     io_bind (io_lift (groth16_setup T blank_circuit (seed_from_u64 T 0xDEADBEEF))) (\<lambda>(pk, vk).
     io_bind (setup_create_dir_all T ''assets'') (\<lambda>_.
     io_bind (setup_create_dir_all T ''keys'') (\<lambda>_.
     io_bind (save_key T ''assets/proving_key.bin'' (pk_serialize T pk)) (\<lambda>_.
     save_key T ''keys/edge_verification_key.bin'' (vk_serialize T vk)))))"

text \<open>
  \<open>files w\<close> is the content of the files in a world: creating a file empties it, writing to a created
  file appends, and directories do not change files.
\<close>

definition files_law :: "('g, 'k, 'v, 'w) setup_env \<Rightarrow> ('w \<Rightarrow> string \<rightharpoonup> bytes) \<Rightarrow> bool" where
  "files_law T files \<longleftrightarrow>
     (\<forall>p w w'. setup_create_dir_all T p w = (Inr (), w') \<longrightarrow> files w' = files w) \<and>
     (\<forall>p w w'. file_create T p w = (Inr (), w') \<longrightarrow> files w' = (files w)(p \<mapsto> [])) \<and>
     (\<forall>p bs w w'. file_write T p bs w = (Inr (), w') \<longrightarrow>
        files w' = (files w)(p \<mapsto> (case files w p of None \<Rightarrow> bs | Some old \<Rightarrow> old @ bs)))"

lemma save_key_Inr:
  assumes "files_law T files" "save_key T p x w = (Inr (), w')"
  obtains bs where "x = Inr bs" "files w' = (files w)(p \<mapsto> bs)"
proof -
  from assms(2) obtain bs w1 where "x = Inr bs" "file_create T p w = (Inr (), w1)"
    "file_write T p bs w1 = (Inr (), w')"
    by (auto simp: save_key_def io_Inr)
  with assms(1) that show thesis by (simp add: files_law_def)
qed

lemma generated_key_files:
  assumes law: "files_law T files" and run: "generate_keys_main T w = (Inr (), w')"
  obtains pk vk pb vb where
    "groth16_setup T blank_circuit (seed_from_u64 T 0xDEADBEEF) = Inr (pk, vk)"
    "pk_serialize T pk = Inr pb" "vk_serialize T vk = Inr vb"
    "files w' = (files w)(''assets/proving_key.bin'' \<mapsto> pb, ''keys/edge_verification_key.bin'' \<mapsto> vb)"
proof -
  from run obtain pk vk w1 w2 w3 where
    keys: "groth16_setup T blank_circuit (seed_from_u64 T 0xDEADBEEF) = Inr (pk, vk)"
    and dirs: "setup_create_dir_all T ''assets'' w = (Inr (), w1)" "setup_create_dir_all T ''keys'' w1 = (Inr (), w2)"
    and p: "save_key T ''assets/proving_key.bin'' (pk_serialize T pk) w2 = (Inr (), w3)"
    and v: "save_key T ''keys/edge_verification_key.bin'' (vk_serialize T vk) w3 = (Inr (), w')"
    by (auto simp: generate_keys_main_def io_Inr)
  from dirs law have "files w2 = files w" by (auto simp: files_law_def)
  with save_key_Inr [OF law p] save_key_Inr [OF law v] show thesis
    using that [OF keys] by metis
qed

text \<open>
  Two successful runs, in whatever worlds, leave the same two keys, so whoever knows the source can
  repeat the setup and holds its secret randomness.
\<close>

lemma key_generation_reproducible:
  assumes "files_law T files" "generate_keys_main T w = (Inr (), w')" "generate_keys_main T u = (Inr (), u')"
    and "p \<in> {''assets/proving_key.bin'', ''keys/edge_verification_key.bin''}"
  shows "files w' p = files u' p \<and> files w' p \<noteq> None"
proof -
  obtain pk vk pb vb where w: "groth16_setup T blank_circuit (seed_from_u64 T 0xDEADBEEF) = Inr (pk, vk)"
    "pk_serialize T pk = Inr pb" "vk_serialize T vk = Inr vb"
    "files w' = (files w)(''assets/proving_key.bin'' \<mapsto> pb, ''keys/edge_verification_key.bin'' \<mapsto> vb)"
    by (rule generated_key_files [OF assms(1,2)])
  obtain pk' vk' pb' vb' where u: "groth16_setup T blank_circuit (seed_from_u64 T 0xDEADBEEF) = Inr (pk', vk')"
    "pk_serialize T pk' = Inr pb'" "vk_serialize T vk' = Inr vb'"
    "files u' = (files u)(''assets/proving_key.bin'' \<mapsto> pb', ''keys/edge_verification_key.bin'' \<mapsto> vb')"
    by (rule generated_key_files [OF assms(1,3)])
  from w(1-3) u(1-3) have "pb' = pb" "vb' = vb" by simp_all
  with w(4) u(4) assms(4) show ?thesis by auto
qed

end
