(* ===== verification/Lifecycle.thy ===== *)
theory Lifecycle
  imports Issuer
begin

text \<open>
  The life of a credential through all the parts that take part in it, as the end-to-end test
  \<open>src/dzta-e2e-tests/src/e2e_credential_lifecycle.rs\<close> drives them: identities and a schema are
  registered, a credential is issued, delivered to the wallet, found active, revoked and found
  revoked. The issuer and the Fabric client act on the network \<open>'w\<close>, the wallet on the disk \<open>'v\<close>.
  A test stops with \<open>TestPanic\<close> and the text of the failed \<open>expect\<close>, \<open>assert!\<close> or \<open>panic!\<close> (the
  error that \<open>expect\<close> appends to it is left out), or with \<open>UndefinedBehaviour\<close> where it transmutes
  zeroes to a configuration.
\<close>

datatype test_stop =
    TestPanic string
  | UndefinedBehaviour
  | NoFuel

definition expect :: "string \<Rightarrow> ('w, 'e, 'a) io \<Rightarrow> ('w, test_stop, 'a) io" where
  "expect msg m = io_map_err (\<lambda>_. TestPanic msg) m"

fun halt_stop :: "string \<Rightarrow> halt \<Rightarrow> test_stop" where
  "halt_stop msg OutOfFuel = NoFuel"
| "halt_stop msg Panicked = TestPanic msg"
| "halt_stop msg (Failed e) = TestPanic msg"

lemma halt_stop_panic [simp]: "halt_stop msg h = TestPanic x \<longleftrightarrow> h \<noteq> OutOfFuel \<and> x = msg"
  by (cases h) auto

definition expect_tx :: "string \<Rightarrow> ('w, halt, 'a) io \<Rightarrow> ('w, test_stop, 'a) io" where
  "expect_tx msg m = io_map_err (halt_stop msg) m"

definition on_net :: "('w, 'e, 'a) io \<Rightarrow> ('w \<times> 'v, 'e, 'a) io" where
  "on_net m = (\<lambda>(w, v). case m w of (r, w') \<Rightarrow> (r, (w', v)))"

definition on_disk :: "('v, 'e, 'a) io \<Rightarrow> ('w \<times> 'v, 'e, 'a) io" where
  "on_disk m = (\<lambda>(w, v). case m v of (r, v') \<Rightarrow> (r, (w, v')))"

lemma on_Inr [simp]:
  "on_net m (w, v) = (r, (w', v')) \<longleftrightarrow> m w = (r, w') \<and> v' = v"
  "on_disk n (w, v) = (r', (w', v')) \<longleftrightarrow> n v = (r', v') \<and> w' = w"
  by (auto simp: on_net_def on_disk_def split: prod.split)

lemma expect_Inr [simp]:
  "expect msg m w = (Inr a, w') \<longleftrightarrow> m w = (Inr a, w')"
  "expect_tx msg n w = (Inr b, w') \<longleftrightarrow> n w = (Inr b, w')"
  by (simp_all add: expect_def expect_tx_def io_Inr)

section \<open>The parts of the test\<close>

definition test_fabric_client :: "('h, 'w) sdk \<Rightarrow> test_stop + fabric_client" where
  "test_fabric_client S =
     (let config_path = ''config/connection-profile.yaml'' in
      case FabricClient_new S config_path ''dzta'' ''dztac'' ''Org1MSP'' ''org1-peer1'' of
        Inr c \<Rightarrow> Inr (set_mock False c)
      | Inl e \<Rightarrow>
          (case from_file (files S) (yaml_from_str S) config_path of
             Inr cfg \<Rightarrow> Inr \<lparr>fc_config = cfg, channel_name = ''dzta'', chaincode_name = ''dztac'',
               org_mspid = ''Org1MSP'',
               fc_peer_url = ''grpcs://org1-peer1.test-network.svc.cluster.local:7051'', is_mock = True\<rparr>
           | Inl _ \<Rightarrow> Inl UndefinedBehaviour))"

definition clean_database ::
  "('s, 't, 'v) askar \<Rightarrow> (string \<Rightarrow> ('v, string, unit) io) \<Rightarrow> string \<Rightarrow> ('v, test_stop, unit) io" where
  "clean_database A remove_file db_path = (\<lambda>v.
     if path_exists A db_path v then (Inr (), snd (remove_file db_path v)) else (Inr (), v))"

definition test_setup ::
  "('h, 'w) sdk \<Rightarrow> 'w issuer_env \<Rightarrow> ('s, 't, 'v) askar \<Rightarrow> (string \<Rightarrow> ('v, string, unit) io) \<Rightarrow> string \<Rightarrow> string \<Rightarrow>
   ('w \<times> 'v, test_stop, fabric_client \<times> 's wallet \<times> bytes \<times> string) io" where
  "test_setup S I A remove_file db_path init_msg =
     io_bind (io_lift (test_fabric_client S)) (\<lambda>fabric.
     io_bind (on_disk (clean_database A remove_file db_path)) (\<lambda>_.
     io_bind (on_net (expect ''Failed to generate credential signing key'' (local_generate I))) (\<lambda>seed.
     io_bind (on_disk (expect init_msg
       (initialize A (Wallet_new db_path) ''super_secure_passphrase_123''))) (\<lambda>wal.
     io_bind (io_lift (map_err (\<lambda>_. TestPanic ''Failed to generate issuer DID from public key'')
       (generate_did_from_public_key S (verifying_key I seed)))) (\<lambda>issuer_did.
     io_return (fabric, wal, seed, issuer_did))))))"

definition test_schema :: "schema_attribute list" where
  "test_schema =
     [\<lparr>attr_name = ''userRoleId'', attr_type = ''string'', attr_predicate = False\<rparr>,
      \<lparr>attr_name = ''orgId'', attr_type = ''string'', attr_predicate = False\<rparr>,
      \<lparr>attr_name = ''clearanceLevel'', attr_type = ''integer'', attr_predicate = True\<rparr>,
      \<lparr>attr_name = ''timestamp'', attr_type = ''timestamp'', attr_predicate = False\<rparr>]"

definition test_payload :: "i64 \<Rightarrow> credential_attributes" where
  "test_payload now = \<lparr>user_role_id = ''systems-engineer'', org_id = ''hyperledger-nigeria-hub'',
     clearance_level = 5, timestamp = now\<rparr>"

definition test_subject :: string where
  "test_subject = ''did:dzta:user-nathaniel-777''"

definition security_failure :: test_stop where
  "security_failure = TestPanic (''Security Failure: Credential remained active after running '' @
     ''administrative ledger revocation transactions.'')"

definition not_active :: test_stop where
  "not_active = TestPanic ''The generated credential should report active valid state metrics''"

section \<open>The test\<close>

definition check_then_revoke ::
  "('h, 'w) sdk \<Rightarrow> fabric_client \<Rightarrow> 'w issuer \<Rightarrow> string \<Rightarrow> ('w, test_stop, unit) io" where
  "check_then_revoke S fabric iss target_credential_id =
     io_bind (expect (''Zero-trust validation verification loop encountered '' @
       ''an unexpected processing error'') (verify_credential_active S fabric target_credential_id)) (\<lambda>validation_result.
     if \<not> validation_result then io_fail not_active
     else
       io_bind (expect_tx ''Administrative chain code modification failed during revocation routing''
         (issuer_revoke_credential S iss target_credential_id)) (\<lambda>_.
       io_bind (io_result (verify_credential_active S fabric target_credential_id)) (\<lambda>post_revocation_check.
       case post_revocation_check of
         Inl (RevocationError msg) \<Rightarrow> io_return ()
       | _ \<Rightarrow> io_fail security_failure)))"

definition issue_test_credential ::
  "('h, 'w) sdk \<Rightarrow> 'w issuer_env \<Rightarrow> 'w issuer \<Rightarrow> string \<Rightarrow> string \<Rightarrow> string \<Rightarrow>
   ('w, test_stop, issued_credential) io" where
  "issue_test_credential S I iss msg schema_id issuer_did = (\<lambda>w.
     let now = dt_secs (ie_now I w) in
     expect_tx msg (create_credential S I iss schema_id issuer_did test_subject (test_payload now)
       (now + 24 * 60 * 60)) w)"

text \<open>The test in two parts: up to the delivery of the credential, and from there.\<close>

definition lifecycle_issue ::
  "('h, 'w) sdk \<Rightarrow> 'w issuer_env \<Rightarrow> 'c prims \<Rightarrow> ('s, 't, 'v) askar \<Rightarrow> (string \<Rightarrow> ('v, string, unit) io) \<Rightarrow>
   ('w \<times> 'v, test_stop, fabric_client \<times> 'w issuer \<times> 's wallet \<times> issued_credential) io" where
  "lifecycle_issue S I P A remove_file =
     io_bind (test_setup S I A remove_file ''target/debug/test_askar_wallet.db''
       ''Failed to initialize secure Aries Askar local database instance'')
       (\<lambda>(fabric, wal, seed, issuer_did).
     let iss = \<lparr>iss_fabric = fabric, iss_signer = local_signer I seed\<rparr> in
     io_bind (on_net (expect_tx ''Failed to register Issuer identity document''
       (issuer_register_did S iss issuer_did issuer_did (public_key_multibase_value I seed)))) (\<lambda>_.
     io_bind (on_net (expect_tx ''Failed to register Subject identity document''
       (issuer_register_did S iss test_subject issuer_did
          ''ed25519_public_key_bytes_for_subject_placeholder''))) (\<lambda>_.
     io_bind (on_net (expect ''Failed to resolve newly registered DID document from Fabric world state''
       (resolve_did S fabric issuer_did))) (\<lambda>_.
     io_bind (on_net (expect_tx ''Schema registration execution pipeline failed''
       (issuer_register_schema S I iss issuer_did ''SecurityClearanceTemplate'' ''1.0.0'' test_schema))) (\<lambda>schema_id.
     io_bind (on_net (issue_test_credential S I iss
       ''Failed to execute credential template parsing or Fabric metadata anchor logging''
       schema_id issuer_did)) (\<lambda>stored_credential.
     io_bind (on_disk (expect ''Failed to deliver credential to holder wallet''
       (store_credential P A wal (ic_credential_id stored_credential) (ic_credential_data stored_credential)))) (\<lambda>_.
     io_return (fabric, iss, wal, stored_credential))))))))"

definition test_full_credential_lifecycle_e2e ::
  "('h, 'w) sdk \<Rightarrow> 'w issuer_env \<Rightarrow> 'c prims \<Rightarrow> ('s, 't, 'v) askar \<Rightarrow> (string \<Rightarrow> ('v, string, unit) io) \<Rightarrow>
   ('w \<times> 'v, test_stop, unit) io" where
  "test_full_credential_lifecycle_e2e S I P A remove_file =
     io_bind (lifecycle_issue S I P A remove_file) (\<lambda>(fabric, iss, _, stored_credential).
     on_net (check_then_revoke S fabric iss (ic_credential_id stored_credential)))"

section \<open>A ledger with one writer\<close>

text \<open>What a committed transaction does to the ledger.\<close>

inductive committed_call :: "string \<times> string list \<Rightarrow> ledger \<Rightarrow> ledger \<Rightarrow> bool" where
  "RegisterSchema um tx sid iss n v a l = Inr l' \<Longrightarrow> committed_call (''RegisterSchema'', [sid, iss, n, v, a]) l l'"
| "RecordCredentialMetadata tx cid sid iss sub ex l = Inr l' \<Longrightarrow>
     committed_call (''RecordCredentialMetadata'', [cid, sid, iss, sub, show_int ex]) l l'"
| "RevokeCredential tx cid l = Inr l' \<Longrightarrow> committed_call (''RevokeCredential'', [cid]) l l'"
| "RegisterDID did iss pk l = Inr l' \<Longrightarrow> committed_call (''RegisterDID'', [did, iss, pk]) l l'"

inductive_cases committed_recordE: "committed_call (''RecordCredentialMetadata'', args) l l'"
inductive_cases committed_revokeE: "committed_call (''RevokeCredential'', args) l l'"

text \<open>
  The network with this client as its only writer: operations other than the commit leave the
  ledger alone, the identifier of a proposal determines its call, and validation code 0 reports
  that the transaction has been applied.
\<close>

definition sole_client ::
  "('h, 'w) sdk \<Rightarrow> ('h \<Rightarrow> string \<times> string list) \<Rightarrow> (string \<Rightarrow> string \<times> string list) \<Rightarrow> ('w \<Rightarrow> ledger) \<Rightarrow> bool" where
  "sole_client S call_of tx_call led \<longleftrightarrow>
     runs_contract S call_of led \<and>
     (\<forall>p h. call_build_prepared S h = Inr p \<longrightarrow>
        (\<exists>t. prepared_tx_id S p = Some t \<and> tx_call t = call_of p)) \<and>
     (\<forall>h w. led (snd (client_connect S h w)) = led w) \<and>
     (\<forall>h w. led (snd (endpoint_connect S h w)) = led w) \<and>
     (\<forall>p h w. led (snd (prepared_endorse S p h w)) = led w) \<and>
     (\<forall>p h w. led (snd (prepared_evaluate S p h w)) = led w) \<and>
     (\<forall>h q w. led (snd (gateway_submit S h q w)) = led w) \<and>
     (\<forall>n w. led (sleep_ms S n w) = led w) \<and>
     (\<forall>h t c w. case client_commit_status S h t c w of (r, w') \<Rightarrow>
        (\<exists>b. r = Inr (0, b)) \<and> committed_call (tx_call t) (led w) (led w') \<or>
        (\<nexists>b. r = Inr (0, b)) \<and> led w' = led w)"

lemma sole_clientD:
  assumes "sole_client S call_of tx_call led"
  shows "runs_contract S call_of led"
    "call_build_prepared S h = Inr p \<Longrightarrow> \<exists>t. prepared_tx_id S p = Some t \<and> tx_call t = call_of p"
    "client_connect S h w = (r1, w') \<Longrightarrow> led w' = led w"
    "endpoint_connect S h w = (r1, w') \<Longrightarrow> led w' = led w"
    "prepared_endorse S p h w = (r3, w') \<Longrightarrow> led w' = led w"
    "prepared_evaluate S p h w = (r4, w') \<Longrightarrow> led w' = led w"
    "gateway_submit S h q w = (r5, w') \<Longrightarrow> led w' = led w"
    "led (sleep_ms S n w) = led w"
    "client_commit_status S h t c w = (Inr (0, b), w') \<Longrightarrow> committed_call (tx_call t) (led w) (led w')"
    "client_commit_status S h t c w = (r6, w') \<Longrightarrow> (\<nexists>b. r6 = Inr (0, b)) \<Longrightarrow> led w' = led w"
proof -
  note law = assms [unfolded sole_client_def]
  from law show "runs_contract S call_of led" by (elim conjE)
  from law have "\<forall>p h. call_build_prepared S h = Inr p \<longrightarrow>
      (\<exists>t. prepared_tx_id S p = Some t \<and> tx_call t = call_of p)" by (elim conjE)
  then show "call_build_prepared S h = Inr p \<Longrightarrow> \<exists>t. prepared_tx_id S p = Some t \<and> tx_call t = call_of p"
    by blast
  from law have "led (snd (client_connect S h w)) = led w" by (elim conjE) simp
  then show "client_connect S h w = (r1, w') \<Longrightarrow> led w' = led w" by simp
  from law have "led (snd (endpoint_connect S h w)) = led w" by (elim conjE) simp
  then show "endpoint_connect S h w = (r1, w') \<Longrightarrow> led w' = led w" by simp
  from law have "led (snd (prepared_endorse S p h w)) = led w" by (elim conjE) simp
  then show "prepared_endorse S p h w = (r3, w') \<Longrightarrow> led w' = led w" by simp
  from law have "led (snd (prepared_evaluate S p h w)) = led w" by (elim conjE) simp
  then show "prepared_evaluate S p h w = (r4, w') \<Longrightarrow> led w' = led w" by simp
  from law have "led (snd (gateway_submit S h q w)) = led w" by (elim conjE) simp
  then show "gateway_submit S h q w = (r5, w') \<Longrightarrow> led w' = led w" by simp
  from law show "led (sleep_ms S n w) = led w" by (elim conjE) simp
  from law have "\<forall>h t c w. case client_commit_status S h t c w of (r, w') \<Rightarrow>
        (\<exists>b. r = Inr (0, b)) \<and> committed_call (tx_call t) (led w) (led w') \<or>
        (\<nexists>b. r = Inr (0, b)) \<and> led w' = led w" by (elim conjE)
  from this [THEN spec [of _ h], THEN spec [of _ t], THEN spec [of _ c], THEN spec [of _ w]]
  show "client_commit_status S h t c w = (Inr (0, b), w') \<Longrightarrow> committed_call (tx_call t) (led w) (led w')"
    and "client_commit_status S h t c w = (r6, w') \<Longrightarrow> (\<nexists>b. r6 = Inr (0, b)) \<Longrightarrow> led w' = led w"
    by auto
qed

lemma commit_loop_applies:
  assumes law: "sole_client S call_of tx_call led"
    and run: "commit_loop n S fc cl t secs start w = (Inr (), w')"
  shows "committed_call (tx_call t) (led w) (led w')"
  using run
proof (induction n arbitrary: w)
  case 0
  then show ?case by simp
next
  case (Suc n)
  obtain r w1 where st: "client_commit_status S cl t (channel_name fc) w = (r, w1)"
    by (cases "client_commit_status S cl t (channel_name fc) w")
  show ?case
  proof (cases "\<exists>b. r = Inr (0, b)")
    case True
    with st sole_clientD(9) [OF law] Suc.prems show ?thesis by (auto split: if_splits)
  next
    case False
    then have "led (sleep_ms S 500 w1) = led w"
      using sole_clientD(8,10) [OF law] st by metis
    moreover have "commit_loop n S fc cl t secs start (sleep_ms S 500 w1) = (Inr (), w')"
      using Suc.prems False st by (auto split: if_splits sum.splits)
    ultimately show ?thesis using Suc.IH by metis
  qed
qed

lemma connect_keeps_ledger:
  assumes "sole_client S call_of tx_call led"
  shows "connect_gateway_client S fc idn cfg peer w = (Inr cl, w') \<Longrightarrow> led w' = led w"
    and "build_tls_gateway_client S fc uc w = (Inr gw, w') \<Longrightarrow> led w' = led w"
  using sole_clientD(3,4) [OF assms]
  by (auto simp: connect_gateway_client_def build_tls_gateway_client_def io_Inr io_fail_app
      split: if_splits)

text \<open>A transaction that the client reports as done has been applied.\<close>

lemma invoke_applies:
  assumes law: "sole_client S call_of tx_call led" and live: "\<not> is_mock fc"
    and run: "invoke_chaincode S fc iv w = (Inr tx, w')"
  shows "committed_call (ci_function iv, ci_args iv) (led w) (led w')"
proof -
  from run live obtain uc identity cl p env gw w1 w2 w3 w4 where
    conn: "connect_gateway_client S fc identity (fc_config fc) target_peer w = (Inr cl, w1)"
    and p: "prepare_call S fc ''Failed to construct prepared execution payload: '' cl iv = Inr p"
    and e: "prepared_endorse S p cl w1 = (Inr env, w2)"
    and g: "build_tls_gateway_client S fc uc w2 = (Inr gw, w3)"
    and s: "gateway_submit S gw \<lparr>sr_transaction_id = case_option [] (\<lambda>t. t) (prepared_tx_id S p),
      sr_channel_id = channel_name fc, sr_prepared_transaction = Some (env\<lparr>env_signature :=
        id_sign_message S identity (env_payload env)\<rparr>)\<rparr> w3 = (Inr (), w4)"
    and wait: "wait_for_transaction_commit S fc cl (case_option [] (\<lambda>t. t) (prepared_tx_id S p)) 30 w4 =
      (Inr (), w')"
    unfolding invoke_chaincode_def Let_def by (auto simp: io_Inr)
  have "led w4 = led w"
    using connect_keeps_ledger(1) [OF law conn] connect_keeps_ledger(2) [OF law g]
      sole_clientD(5) [OF law e] sole_clientD(7) [OF law s] by simp
  moreover obtain h where "call_build_prepared S h = Inr p"
    using p unfolding prepare_call_def by (auto simp: bind_res_Inr_iff)
  then obtain t where "prepared_tx_id S p = Some t" "tx_call t = call_of p"
    using sole_clientD(2) [OF law] by blast
  moreover have "call_of p = (ci_function iv, ci_args iv)"
    using prepare_call_of [OF sole_clientD(1) [OF law] p] .
  ultimately show ?thesis
    using commit_loop_applies [OF law] wait live
    unfolding wait_for_transaction_commit_def by (metis option.case(2))
qed

section \<open>Queries do not write\<close>

definition keeps :: "('w \<Rightarrow> ledger) \<Rightarrow> ('w, 'e, 'a) io \<Rightarrow> bool" where
  "keeps led m \<longleftrightarrow> (\<forall>w. led (snd (m w)) = led w)"

lemma keeps_basic [simp]:
  "keeps led (io_return x)" "keeps led (io_fail e)" "keeps led (io_lift r)"
  "keeps led m \<Longrightarrow> keeps led (io_map_err g m)" "keeps led (\<lambda>w. (h w, w))"
  by (simp_all add: keeps_def res_simps)

lemma keeps_bind: "keeps led m \<Longrightarrow> (\<And>x. keeps led (f x)) \<Longrightarrow> keeps led (io_bind m f)"
  unfolding keeps_def io_bind_def by (auto split: prod.splits sum.splits) (metis snd_conv)+

lemma query_keeps:
  assumes "sole_client S call_of tx_call led"
  shows "keeps led (query_as S fc d f args)"
proof -
  have base: "keeps led (client_connect S h)" "keeps led (prepared_evaluate S p h)" for h p
    using sole_clientD(3,6) [OF assms] by (auto simp: keeps_def) (metis prod.collapse)+
  then have "keeps led (query_chaincode S fc iv)" for iv
    by (cases "is_mock fc")
      (auto simp: query_chaincode_def connect_gateway_client_def intro!: keeps_bind)
  then show ?thesis by (auto simp: query_as_def intro!: keeps_bind)
qed

lemma verify_keeps:
  assumes "sole_client S call_of tx_call led"
  shows "keeps led (verify_credential_active S fc c)"
proof -
  have "keeps led (\<lambda>w. if P w then (Inl e, w) else (Inr True, w))" for P and e :: wallet_error
    by (simp add: keeps_def)
  then show ?thesis
    unfolding verify_credential_active_def is_credential_revoked_def get_credential_metadata_def
    by (intro keeps_bind query_keeps [OF assms]) (auto intro!: keeps_bind query_keeps [OF assms])
qed

section \<open>After the revocation\<close>

lemma verify_after_revocation:
  assumes law: "sole_client S call_of tx_call led" "json_law S" and live: "\<not> is_mock fc"
    and rev: "IsCredentialRevoked c (led w) = Inr True"
    and run: "verify_credential_active S fc c w = (r, w')"
  shows "IsCredentialRevoked c (led w') = Inr True \<and>
    (r = Inl (RevocationError (''Credential revoked: '' @ c)) \<or>
     (\<exists>e. is_credential_revoked S fc c w = (Inl e, w') \<and> r = Inl e))"
proof -
  have "led w' = led w"
    using verify_keeps [OF law(1), of fc c] run unfolding keeps_def by (metis snd_conv)
  moreover obtain q w1 where q: "is_credential_revoked S fc c w = (q, w1)" by fastforce
  moreover have "led w1 = led w"
    using query_keeps [OF law(1)] q unfolding keeps_def is_credential_revoked_def by (metis snd_conv)
  moreover have "b" if "q = Inr b" for b
    using is_credential_revoked_contract [OF sole_clientD(1) [OF law(1)] law(2) live, of c w b w1]
      q that rev \<open>led w1 = led w\<close> by auto
  ultimately show ?thesis
    using run rev by (cases q) (auto simp: verify_credential_active_def res_simps)
qed

lemma revoke_applies:
  assumes "sole_client S call_of tx_call led" "\<not> is_mock (iss_fabric iss)"
    and "issuer_revoke_credential S iss c w = (Inr (), w')"
  shows "IsCredentialRevoked c (led w') = Inr True"
proof -
  from assms(3) obtain tx where
    "invoke_chaincode S (iss_fabric iss) \<lparr>ci_function = ''RevokeCredential'', ci_args = [c]\<rparr> w = (Inr tx, w')"
    by (auto simp: issuer_revoke_credential_def revoke_credential_tx_def io_Inr)
  from invoke_applies [OF assms(1,2) this] obtain time where "RevokeCredential time c (led w) = Inr (led w')"
    by (auto elim: committed_revokeE)
  from revoke_lookup_contract [OF this, of c] show ?thesis by simp
qed

text \<open>The mock client cannot read the schema it registered.\<close>

lemma mock_get_schema_fails:
  assumes "json_law S" "is_mock fc"
  shows "\<exists>e. get_schema S fc sid w = (Inl e, w)"
proof -
  have "json_wf (mock_response (int (wall_clock S w)) \<lparr>ci_function = ''GetSchema'', ci_args = [sid]\<rparr>)"
    by (simp add: mock_response_def)
  from mock_query_as [OF assms this, of dec_credential_schema] show ?thesis
    by (simp add: get_schema_def mock_response_def dec_credential_schema_def field_defs)
qed

lemma check_then_revoke_cases:
  assumes law: "sole_client S call_of tx_call led" "json_law S"
    and live: "\<not> is_mock fc" "iss_fabric iss = fc"
    and run: "check_then_revoke S fc iss c w = (r, w')"
  shows "(r = Inr () \<longrightarrow> IsCredentialRevoked c (led w) = Inr False \<and> IsCredentialRevoked c (led w') = Inr True) \<and>
    r \<noteq> Inl not_active \<and>
    (r = Inl security_failure \<longrightarrow> (\<exists>w1 e. is_credential_revoked S fc c w1 = (Inl e, w')))"
proof -
  obtain a w1 where a: "verify_credential_active S fc c w = (a, w1)" by fastforce
  have true: "b" if "a = Inr b" for b
    using a that by (auto simp: verify_credential_active_def io_Inr io_fail_app split: if_splits)
  obtain b w2 where b: "issuer_revoke_credential S iss c w1 = (b, w2)" by fastforce
  obtain d w3 where d: "verify_credential_active S fc c w2 = (d, w3)" by fastforce
  show ?thesis
  proof (cases "\<exists>x. a = Inr x \<and> b = Inr ()")
    case False
    then have "r \<noteq> Inr () \<and> r \<noteq> Inl not_active \<and> r \<noteq> Inl security_failure"
      using run a b true unfolding check_then_revoke_def
      by (cases a; cases b rule: sum.exhaust)
        (auto simp: expect_def expect_tx_def res_simps not_active_def security_failure_def)
    then show ?thesis by blast
  next
    case True
    then have ok: "a = Inr True" "b = Inr ()" using true by auto
    then have rev: "IsCredentialRevoked c (led w2) = Inr True"
      using revoke_applies [OF law(1), of iss c w1 w2] live b by simp
    from ok a obtain w0 where q: "is_credential_revoked S fc c w = (Inr False, w0)"
      unfolding verify_credential_active_def by (auto simp: io_Inr io_fail_app split: if_splits)
    have "led w0 = led w"
      using query_keeps [OF law(1)] q unfolding keeps_def is_credential_revoked_def by (metis snd_conv)
    then have before: "IsCredentialRevoked c (led w) = Inr False"
      using is_credential_revoked_contract [OF sole_clientD(1) [OF law(1)] law(2) live(1) q] by simp
    have r: "r = (case d of Inl (RevocationError m) \<Rightarrow> Inr () | _ \<Rightarrow> Inl security_failure) \<and> w' = w3"
      using run a b d ok unfolding check_then_revoke_def
      by (auto simp: expect_def expect_tx_def res_simps split: sum.splits wallet_error.splits)
    from verify_after_revocation [OF law live(1) rev d] show ?thesis
      using r before by (auto simp: not_active_def security_failure_def split: wallet_error.splits)
  qed
qed

section \<open>The outcome of the test\<close>

text \<open>A stop that accuses neither the ledger nor the client of a wrong answer.\<close>

definition harmless :: "test_stop \<Rightarrow> bool" where
  "harmless e \<longleftrightarrow> e \<noteq> not_active \<and> e \<noteq> security_failure"

definition calm :: "('w, test_stop, 'a) io \<Rightarrow> bool" where
  "calm m \<longleftrightarrow> (\<forall>w e w'. m w = (Inl e, w') \<longrightarrow> harmless e)"

lemma calm_bind: "calm m \<Longrightarrow> (\<And>x. calm (f x)) \<Longrightarrow> calm (io_bind m f)"
  unfolding calm_def io_bind_def by (auto split: prod.splits sum.splits)

lemma calm_basic [simp]:
  "calm (io_return x)"
  "harmless (TestPanic msg) \<Longrightarrow> calm (expect msg m)"
  "harmless (TestPanic msg) \<Longrightarrow> calm (expect_tx msg m')"
  "calm n \<Longrightarrow> calm (on_net n)" "calm n \<Longrightarrow> calm (on_disk n)"
  by (auto simp: calm_def io_return_def expect_def expect_tx_def io_map_err_def on_net_def on_disk_def
      harmless_def not_active_def security_failure_def error_origin split: prod.splits)

lemma bind_past:
  "calm m \<Longrightarrow> \<nexists>e. r = Inl e \<and> harmless e \<Longrightarrow>
   io_bind m f w = (r, w') \<longleftrightarrow> (\<exists>a w1. m w = (Inr a, w1) \<and> f a w1 = (r, w'))"
  unfolding calm_def io_bind_def by (auto split: prod.splits sum.splits)

text \<open>The wallet after \<open>initialize\<close> is open, with the passphrase cached.\<close>

lemma initialize_opens:
  "initialize A wal pass v = (Inr wal', v') \<Longrightarrow>
   \<exists>s. askar_store wal' = Some s \<and> askar_passphrase wal' = Some pass"
  by (auto simp: initialize_def io_Inr)

lemma created_not_mock:
  assumes "json_law S" "issue_test_credential S I iss msg sid did w = (Inr cred, w')"
  shows "\<not> is_mock (iss_fabric iss)"
proof
  assume mock: "is_mock (iss_fabric iss)"
  from assms(2) obtain w1 schema w2 where "get_schema S (iss_fabric iss) sid w1 = (Inr schema, w2)"
    by (auto simp: issue_test_credential_def Let_def elim!: create_credential_InrE)
  with mock_get_schema_fails [OF assms(1) mock, of sid w1] show False by simp
qed

lemma calm_setup: "harmless (TestPanic msg) \<Longrightarrow> calm (test_setup S I A rm db msg)"
  unfolding test_setup_def
  by (intro calm_bind calm_basic)
    (auto simp: calm_def io_lift_def test_fabric_client_def clean_database_def harmless_def Let_def
      not_active_def security_failure_def error_origin split: sum.splits if_splits prod.splits)

lemma calm_issue: "harmless (TestPanic msg) \<Longrightarrow> calm (issue_test_credential S I iss msg sid did)"
  by (auto simp: calm_def issue_test_credential_def Let_def expect_tx_def io_map_err_def error_origin
      harmless_def not_active_def security_failure_def split: prod.splits)

lemma calm_lifecycle_issue: "calm (lifecycle_issue S I P A rm)"
proof -
  have h: "harmless (TestPanic ''Failed to initialize secure Aries Askar local database instance'')"
    "harmless (TestPanic ''Failed to register Issuer identity document'')"
    "harmless (TestPanic ''Failed to register Subject identity document'')"
    "harmless (TestPanic ''Failed to resolve newly registered DID document from Fabric world state'')"
    "harmless (TestPanic ''Schema registration execution pipeline failed'')"
    "harmless (TestPanic ''Failed to execute credential template parsing or Fabric metadata anchor logging'')"
    "harmless (TestPanic ''Failed to deliver credential to holder wallet'')"
    by (simp_all add: harmless_def not_active_def security_failure_def)
  show ?thesis
    unfolding lifecycle_issue_def Let_def split_def
    by (intro calm_bind calm_setup calm_issue calm_basic h)
qed

lemma lifecycle_issued:
  assumes "lifecycle_issue S I P A rm (w, v) = (Inr (fabric, iss, wal, cred), (w2, v2))"
  obtains seed did sid w1 v1 where "test_fabric_client S = Inr fabric"
    "askar_passphrase wal = Some ''super_secure_passphrase_123''" "\<exists>s. askar_store wal = Some s"
    "iss = \<lparr>iss_fabric = fabric, iss_signer = local_signer I seed\<rparr>"
    "issue_test_credential S I iss
       ''Failed to execute credential template parsing or Fabric metadata anchor logging'' sid did w1 = (Inr cred, w2)"
    "store_credential P A wal (ic_credential_id cred) (ic_credential_data cred) v1 = (Inr (), v2)"
proof -
  from assms obtain seed did sid w1 v1 wv where
    set: "test_setup S I A rm ''target/debug/test_askar_wallet.db''
      ''Failed to initialize secure Aries Askar local database instance'' (w, v) =
      (Inr (fabric, wal, seed, did), wv)"
    and rest: "iss = \<lparr>iss_fabric = fabric, iss_signer = local_signer I seed\<rparr>"
      "issue_test_credential S I iss
         ''Failed to execute credential template parsing or Fabric metadata anchor logging'' sid did w1 = (Inr cred, w2)"
      "store_credential P A wal (ic_credential_id cred) (ic_credential_data cred) v1 = (Inr (), v2)"
    unfolding lifecycle_issue_def Let_def by (auto simp: io_Inr)
  obtain wa va where wv: "wv = (wa, va)" by fastforce
  from set have "askar_passphrase wal = Some ''super_secure_passphrase_123''" "\<exists>s. askar_store wal = Some s"
    "test_fabric_client S = Inr fabric"
    unfolding test_setup_def by (auto simp: io_Inr wv dest!: initialize_opens)
  with rest show thesis using that by blast
qed

lemma issued_credential_wf:
  assumes "create_credential S I iss sid did sub attrs expires w = (Inr cred, w')" "i64_ok (timestamp attrs)"
  shows "json_wf (ic_credential_data cred) \<and> proofable_fields_of (ic_credential_data cred) = Inr attrs \<and>
    json_get ''credentialSubject'' (ic_credential_data cred) = Some (credential_subject sub attrs)"
  using assms
  by (elim create_credential_InrE)
    (simp add: unsigned_credential_def proof_options_def credential_subject_def i64_ok_def
      proofable_fields_of_def as_i64_json_of_i64)

text \<open>
  C6. The end-to-end story of a credential, for every network on which this client is the only
  writer and every wallet store. If the test passes, then in this very run the credential was issued
  and delivered, the ledger held it unrevoked when it had been delivered and holds it revoked at the
  end, and from the wallet it was delivered to, as it is at the end, one reads exactly the attributes
  that were certified. The test never finds a fresh credential inactive, and it reports a security
  failure only when the last ledger query itself failed: the ledger is never seen to accept a revoked
  credential. With the mock client it falls back to, it cannot pass. The laws of the store, the
  cipher and serde are assumed, and a clock whose seconds fit \<open>i64\<close>.
\<close>

theorem lifecycle_test_outcome:
  assumes net: "sole_client S call_of tx_call led" "json_law S"
    and disk: "askar_law A contents owner" "sha_law P" "gcm_law P"
      "print_parse_law (value_print A) (json_parse P)"
    and clock: "\<And>w. i64_ok (dt_secs (ie_now I w))"
    and run: "test_full_credential_lifecycle_e2e S I P A rm (w, v) = (r, (w', v'))"
  shows "(r = Inr () \<longrightarrow> (\<exists>fabric iss wal cred now w1.
        lifecycle_issue S I P A rm (w, v) = (Inr (fabric, iss, wal, cred), (w1, v')) \<and>
        IsCredentialRevoked (ic_credential_id cred) (led w1) = Inr False \<and>
        IsCredentialRevoked (ic_credential_id cred) (led w') = Inr True \<and>
        json_get ''credentialSubject'' (ic_credential_data cred) =
          Some (credential_subject test_subject (test_payload now)) \<and>
        fst (extract_proofable_fields P A wal (ic_credential_id cred) v') = Inr (test_payload now))) \<and>
    r \<noteq> Inl not_active \<and>
    (r = Inl security_failure \<longrightarrow>
       (\<exists>fc cid w1 e. \<not> is_mock fc \<and> is_credential_revoked S fc cid w1 = (Inl e, w'))) \<and>
    (\<forall>fc. test_fabric_client S = Inr fc \<and> is_mock fc \<longrightarrow> r \<noteq> Inr ())"
proof (cases "\<exists>e. r = Inl e \<and> harmless e")
  case True
  then show ?thesis by (auto simp: harmless_def)
next
  case False
  from run obtain fabric iss wal cred w1 where
    issued: "lifecycle_issue S I P A rm (w, v) = (Inr (fabric, iss, wal, cred), (w1, v'))"
    and check: "check_then_revoke S fabric iss (ic_credential_id cred) w1 = (r, w')"
    unfolding test_full_credential_lifecycle_e2e_def bind_past [OF calm_lifecycle_issue False] by auto
  from issued obtain seed did sid w0 v1 where fc: "test_fabric_client S = Inr fabric"
    and wal: "askar_passphrase wal = Some ''super_secure_passphrase_123''" "\<exists>s. askar_store wal = Some s"
    and iss: "iss = \<lparr>iss_fabric = fabric, iss_signer = local_signer I seed\<rparr>"
    and issue: "issue_test_credential S I iss
       ''Failed to execute credential template parsing or Fabric metadata anchor logging'' sid did w0 = (Inr cred, w1)"
    and store: "store_credential P A wal (ic_credential_id cred) (ic_credential_data cred) v1 = (Inr (), v')"
    by (rule lifecycle_issued)
  have live: "\<not> is_mock fabric" using created_not_mock [OF net(2) issue] by (simp add: iss)
  define now where "now = dt_secs (ie_now I w0)"
  from issue obtain expires where create: "create_credential S I iss sid did test_subject (test_payload now)
      expires w0 = (Inr cred, w1)"
    by (simp add: issue_test_credential_def Let_def now_def)
  from issued_credential_wf [OF this] clock [of w0]
  have cred: "json_wf (ic_credential_data cred)"
    "proofable_fields_of (ic_credential_data cred) = Inr (test_payload now)"
    "json_get ''credentialSubject'' (ic_credential_data cred) =
       Some (credential_subject test_subject (test_payload now))"
    by (simp_all add: test_payload_def now_def)
  obtain st where st: "askar_store wal = Some st" using wal(2) by blast
  from keyed_vault.put_look [OF wallet_keyed_vault [OF disk(1) st wal(1) disk(2-4)] cred(1) store] have
    "fst (extract_proofable_fields P A wal (ic_credential_id cred) v') = Inr (test_payload now)"
    using cred(2) by (auto simp: extract_proofable_fields_def res_simps split: prod.split sum.split)
  with check_then_revoke_cases [OF net live _ check] live issued fc iss cred(3) show ?thesis by fastforce
qed

end
