(* ===== verification/Runner.thy ===== *)
theory Runner
  imports Enclave Models
begin

text \<open>
  The host side of the proving enclave: \<open>runner.rs\<close> and \<open>tee_runner.rs\<close> of
  \<open>src/dzta-gramine-prover/src\<close>. Child processes are the operations of the record \<open>runner_env\<close>: a
  process is started, written to, read by lines and waited for; waiting closes its input and yields
  its exit status and the output not yet read. Both streams are requested as pipes, so taking their
  handles succeeds.
\<close>

datatype execution_mode = Direct | Sgx | Auto

record child_output =
  co_success :: bool
  co_status_text :: string
  co_stdout :: bytes
  co_stderr :: bytes

record ('k, 'h, 'w) runner_env =
  rn_device :: "'w attestation_device"
  rn_http :: "('k, 'w) http_env"
  spawn :: "string \<Rightarrow> string \<Rightarrow> string \<Rightarrow> ('w, string, 'h) io"
  child_write_all :: "'h \<Rightarrow> bytes \<Rightarrow> ('w, string, unit) io"
  child_read_line :: "'h \<Rightarrow> ('w, string, string) io"
  wait_with_output :: "'h \<Rightarrow> ('w, string, child_output) io"
  from_utf8_lossy :: "bytes \<Rightarrow> string"
  rn_utf8_error :: "bytes \<Rightarrow> string"
  rn_json_print :: "json \<Rightarrow> string"
  status_error_text :: "nat \<Rightarrow> string \<Rightarrow> string"

record gramine_prover_runner =
  target_path :: string
  run_mode :: execution_mode

section \<open>Mode\<close>

definition resolve :: "'w attestation_device \<Rightarrow> execution_mode \<Rightarrow> 'w \<Rightarrow> string" where
  "resolve D mode w =
     (case mode of
        Direct \<Rightarrow> ''gramine-direct''
      | Sgx \<Rightarrow> ''gramine-sgx''
      | Auto \<Rightarrow>
          if dev_exists D ''/dev/attestation/attestation_type'' w \<or>
             dev_exists D ''/dev/sgx_enclave'' w \<or> dev_exists D ''/dev/sgx/enclave'' w
          then ''gramine-sgx'' else ''gramine-direct'')"

definition is_hardware_backed :: "'w attestation_device \<Rightarrow> execution_mode \<Rightarrow> 'w \<Rightarrow> bool" where
  "is_hardware_backed D mode w \<longleftrightarrow> resolve D mode w = ''gramine-sgx''"

section \<open>Messages\<close>

definition dec_attestation_request :: "attestation_request decoder" where
  "dec_attestation_request v =
     bind_res (struct_fields [''quote'', ''enclave_public_key_pem'', ''credential_key_id'',
       ''required_clearance_level''] v) (\<lambda>fs.
     bind_res (required_field dec_string [''quote''] fs) (\<lambda>q.
     bind_res (required_field dec_string [''enclave_public_key_pem''] fs) (\<lambda>k.
     bind_res (required_field dec_string [''credential_key_id''] fs) (\<lambda>i.
     bind_res (required_field dec_u64 [''required_clearance_level''] fs) (\<lambda>c.
     Inr \<lparr>ar_quote = q, ar_enclave_public_key_pem = k, ar_credential_key_id = i,
          ar_required_clearance_level = c\<rparr>)))))"

definition json_of_attestation_response :: "attestation_response \<Rightarrow> json" where
  "json_of_attestation_response r = JObject
     [(''encrypted_wallet_key'', JString (as_encrypted_wallet_key r)),
      (''encrypted_master_seed'', JString (as_encrypted_master_seed r)),
      (''key_encryption_algorithm'', JString (as_key_encryption_algorithm r))]"

definition dec_prover_output :: "prover_output_response decoder" where
  "dec_prover_output v =
     bind_res (struct_fields [''x_dzta_proof'', ''x_dzta_public_inputs'', ''sgx_dcap_quote_hex''] v) (\<lambda>fs.
     bind_res (required_field dec_string [''x_dzta_proof''] fs) (\<lambda>p.
     bind_res (required_field dec_string [''x_dzta_public_inputs''] fs) (\<lambda>i.
     bind_res (option_field dec_string [''sgx_dcap_quote_hex''] fs) (\<lambda>q.
     Inr \<lparr>x_dzta_proof = p, x_dzta_public_inputs = i, sgx_dcap_quote_hex = q\<rparr>))))"

definition parse_line :: "('k, 'h, 'w) runner_env \<Rightarrow> 'a decoder \<Rightarrow> string \<Rightarrow> string \<Rightarrow> string + 'a" where
  "parse_line R d what line =
     map_err (\<lambda>e. context_text what (serde_display (he_fmt (rn_http R)) e))
       (from_slice (he_json_parse (rn_http R)) d (as_bytes line))"

definition newline :: string where
  "newline = [CHR 0x0A]"

section \<open>The runner\<close>

definition start_child ::
  "('k, 'h, 'w) runner_env \<Rightarrow> gramine_prover_runner \<Rightarrow> (string \<Rightarrow> string) \<Rightarrow> ('w, string, 'h) io" where
  "start_child R g what = (\<lambda>w.
     let runner_binary = resolve (rn_device R) (run_mode g) w;
         working_dir = (case path_parent (target_path g) of Some d \<Rightarrow> d | None \<Rightarrow> ''.'');
         binary_name = (case path_file_name (target_path g) of Some f \<Rightarrow> f | None \<Rightarrow> target_path g)
     in io_map_err (context_text (what runner_binary)) (spawn R runner_binary binary_name working_dir) w)"

definition ask_broker ::
  "('k, 'h, 'w) runner_env \<Rightarrow> string \<Rightarrow> attestation_request \<Rightarrow> ('w, string, attestation_response) io" where
  "ask_broker R broker_url request =
     io_bind (io_map_err (context_text ''Failed to contact dZTA attestation broker'')
       (http_send (rn_http R) \<lparr>vc_accept_invalid_certs = False, vc_root_certificate = None\<rparr>
         \<lparr>hq_method = ''POST'', hq_url = broker_url, hq_headers = [],
          hq_json = Some (json_of_attestation_request request)\<rparr>)) (\<lambda>response.
     if 400 \<le> hp_status response \<and> hp_status response < 600 then
       io_fail (context_text ''Attestation broker rejected the enclave''
         (status_error_text R (hp_status response) broker_url))
     else io_lift (map_err (\<lambda>e. context_text ''Invalid attestation broker response'' (reqwest_display e))
       (json_body (rn_http R) dec_attestation_response response)))"

definition execute_confidential_proof ::
  "('k, 'h, 'w) runner_env \<Rightarrow> gramine_prover_runner \<Rightarrow> enclave_ingestion_payload \<Rightarrow> string \<Rightarrow>
   ('w, string, prover_output_response) io" where
  "execute_confidential_proof R g payload broker_url =
     io_bind (start_child R g (\<lambda>b. ''Failed to spawn `'' @ b @ ''` executable'')) (\<lambda>child.
     io_bind (child_write_all R child
       (as_bytes (rn_json_print R (json_of_ingestion_payload payload) @ newline))) (\<lambda>_.
     io_bind (child_read_line R child) (\<lambda>request_line.
     io_bind (io_lift (parse_line R dec_attestation_request
       ''Enclave did not produce an attestation request'' (trim request_line))) (\<lambda>request.
     io_bind (ask_broker R broker_url request) (\<lambda>response.
     io_bind (child_write_all R child
       (as_bytes (rn_json_print R (json_of_attestation_response response) @ newline))) (\<lambda>_.
     io_bind (child_read_line R child) (\<lambda>output_line.
     io_bind (io_map_err (context_text ''Failed waiting for enclave'') (wait_with_output R child)) (\<lambda>output.
     if \<not> co_success output then
       io_fail (''Confidential Gramine execution failed: '' @ from_utf8_lossy R (co_stderr output))
     else io_lift (parse_line R dec_prover_output ''Invalid proof response from enclave''
       (trim output_line))))))))))"

definition looks_like_json :: "string \<Rightarrow> bool" where
  "looks_like_json line \<longleftrightarrow> starts_with ''{'' line \<and> ends_with ''}'' line"

definition execute_proof ::
  "('k, 'h, 'w) runner_env \<Rightarrow> gramine_prover_runner \<Rightarrow> enclave_ingestion_payload \<Rightarrow>
   ('w, string, prover_output_response) io" where
  "execute_proof R g payload =
     io_bind (start_child R g (\<lambda>b. ''Failed to spawn `'' @ b @
       ''` executable. Ensure Gramine is installed in PATH.'')) (\<lambda>child.
     io_bind (io_map_err (context_text ''Failed to write JSON payload into Gramine process stdin'')
       (child_write_all R child (as_bytes (rn_json_print R (json_of_ingestion_payload payload))))) (\<lambda>_.
     io_bind (io_map_err (context_text ''Failed while waiting for Gramine process execution'')
       (wait_with_output R child)) (\<lambda>output.
     if \<not> co_success output then
       io_fail (''Gramine execution failed with exit status: '' @ co_status_text output @ newline @
         ''Enclave Error Log:'' @ newline @ from_utf8_lossy R (co_stderr output))
     else
       io_bind (io_lift (ok_or (context_text ''Gramine stdout produced invalid UTF-8 string''
         (rn_utf8_error R (co_stdout output))) (from_utf8 (co_stdout output)))) (\<lambda>stdout_str.
       io_bind (io_lift (ok_or (''No valid JSON object found in Gramine stdout:'' @ newline @ stdout_str)
         (find looks_like_json (map trim (str_lines stdout_str))))) (\<lambda>json_line.
       io_lift (parse_line R dec_prover_output
         ''Failed to parse ProverOutputResponse JSON from Gramine stdout'' json_line))))))"

section \<open>The execution proxy\<close>

definition prove_confidential_wallet_record_in_gramine ::
  "('k, 'h, 'w) runner_env \<Rightarrow> gramine_prover_runner \<Rightarrow> bytes \<Rightarrow> string option \<Rightarrow> u64 \<Rightarrow>
   ('w, wallet_error, prover_output_response) io" where
  "prove_confidential_wallet_record_in_gramine R g ciphertext cid required = (\<lambda>w.
     if \<not> is_hardware_backed (rn_device R) (run_mode g) w \<or> \<not> is_provisioning_capable (rn_device R) w then
       (Inl (ExecutionFailed
          ''Confidential proving requires hardware SGX and Gramine attestation devices''), w)
     else
       io_bind (io_lift (ok_or (ExecutionFailed ''DZTA_ATTESTATION_BROKER_URL is not configured'')
         (he_env_var (rn_http R) ''DZTA_ATTESTATION_BROKER_URL''))) (\<lambda>broker_url.
       io_map_err (\<lambda>e. ExecutionFailed (''Confidential Gramine proof execution failed: '' @ e))
         (execute_confidential_proof R g \<lparr>raw_wallet_ciphertext = ciphertext, wallet_db_key = None,
           payload_credential_id = cid, payload_required_clearance = required, master_seed = None\<rparr>
           broker_url)) w)"

definition prove_raw_wallet_record_in_gramine ::
  "('k, 'h, 'w) runner_env \<Rightarrow> gramine_prover_runner \<Rightarrow> bytes \<Rightarrow> bytes \<Rightarrow> string option \<Rightarrow> u64 \<Rightarrow> bytes \<Rightarrow>
   ('w, wallet_error, prover_output_response) io" where
  "prove_raw_wallet_record_in_gramine R g ciphertext db_key cid required seed =
     io_map_err (\<lambda>e. ExecutionFailed (''Gramine proof execution failed: '' @ e))
       (execute_proof R g \<lparr>raw_wallet_ciphertext = ciphertext, wallet_db_key = Some db_key,
         payload_credential_id = cid, payload_required_clearance = required, master_seed = Some seed\<rparr>)"

record 'v groth16_lib =
  deserialize_compressed :: "bytes \<Rightarrow> string + 'v"
  deserialize_uncompressed :: "bytes \<Rightarrow> string + 'v"
  verify_with_processed_vk :: "'v \<Rightarrow> nat list \<Rightarrow> 'v \<Rightarrow> string + bool"

definition verify_groth16_proof ::
  "'v groth16_lib \<Rightarrow> bytes \<Rightarrow> u64 \<Rightarrow> nat \<Rightarrow> 'v \<Rightarrow> bool wallet_result" where
  "verify_groth16_proof G proof_bytes required commitment pvk =
     bind_res (map_err (\<lambda>e. ExecutionFailed (''Failed to deserialize proof: '' @ e))
       (case deserialize_compressed G proof_bytes of
          Inr p \<Rightarrow> Inr p
        | Inl _ \<Rightarrow> deserialize_uncompressed G proof_bytes)) (\<lambda>p.
     map_err (\<lambda>e. ExecutionFailed (''Groth16 verification error: '' @ e))
       (verify_with_processed_vk G pvk [fr_of_u64 required, commitment] p))"

text \<open>The time since the epoch is an argument; its seconds are cast from \<open>u64\<close> to \<open>i64\<close>.\<close>

definition build_verification_receipt ::
  "'c prims \<Rightarrow> (bytes \<Rightarrow> string) \<Rightarrow> string + u64 \<Rightarrow> string \<Rightarrow> string \<Rightarrow> prover_output_response \<Rightarrow>
   verification_receipt wallet_result" where
  "build_verification_receipt P hex since_epoch cid verifier response =
     bind_res (map_err ExecutionFailed since_epoch) (\<lambda>secs.
     let simulated = ''simulated_dcap_quote_v1:[proof_hash:'' @
           hex (sha256 P (as_bytes (x_dzta_proof response) @ as_bytes (x_dzta_public_inputs response))) @ '']'';
         tee_quote = (case sgx_dcap_quote_hex response of
             Some quote \<Rightarrow> if quote = [] then simulated else quote
           | None \<Rightarrow> simulated)
     in Inr \<lparr>vr_credential_id = cid, vr_verifier_mec = verifier, vr_verified_at = sint secs,
          vr_tee_quote = tee_quote\<rparr>)"

section \<open>The response in the output of the process\<close>

definition print_lines :: "string list \<Rightarrow> string" where
  "print_lines ls = concat (map (\<lambda>l. l @ newline) ls)"

lemma str_lines_print:
  assumes "\<forall>l\<in>set ls. CHR 0x0A \<notin> set l"
  shows "str_lines (print_lines ls) = map strip_cr ls"
proof -
  have "split_on (CHR 0x0A) (print_lines ls) = ls @ [[]]"
    using assms by (induction ls) (auto simp: print_lines_def newline_def split_on_append)
  then show ?thesis by (simp add: str_lines_def)
qed

text \<open>A line between braces, whatever is inside: what a printed JSON object looks like.\<close>

definition in_braces :: "string \<Rightarrow> bool" where
  "in_braces l \<longleftrightarrow> l \<noteq> [] \<and> hd l = CHR ''{'' \<and> last l = CHR ''}''"

lemma looks_like_json_iff: "looks_like_json l \<longleftrightarrow> in_braces l"
proof (cases l rule: rev_cases)
  case (snoc xs x)
  then show ?thesis
    by (cases xs) (auto simp: looks_like_json_def in_braces_def ends_with_def)
qed (simp add: looks_like_json_def in_braces_def)

text \<open>
  Compact JSON text of a well-formed object: one line, from brace to brace, that the parser reads
  back.
\<close>

definition json_line_law :: "(json \<Rightarrow> string) \<Rightarrow> json_parser \<Rightarrow> bool" where
  "json_line_law pr parse \<longleftrightarrow>
     (\<forall>kvs. json_wf (JObject kvs) \<longrightarrow> parse (as_bytes (pr (JObject kvs))) = Inr (JObject kvs) \<and>
        CHR 0x0A \<notin> set (pr (JObject kvs)) \<and> strip_cr (pr (JObject kvs)) = pr (JObject kvs) \<and>
        trim (pr (JObject kvs)) = pr (JObject kvs) \<and> in_braces (pr (JObject kvs)))"

lemma dec_json_of_prover_output: "dec_prover_output (json_of_prover_output r) = Inr r"
  by (cases "sgx_dcap_quote_hex r")
    (simp_all add: dec_prover_output_def json_of_prover_output_def field_defs dec_option_def)

lemma json_wf_prover_output: "json_wf (json_of_prover_output r)"
  by (simp add: json_of_prover_output_def split: option.split)

lemma find_skips: "\<forall>x\<in>set xs. \<not> P x \<Longrightarrow> P y \<Longrightarrow> find P (xs @ y # ys) = Some y"
  by (induction xs) auto

lemma runner_reads:
  assumes law: "json_line_law pr (he_json_parse (rn_http R))"
    and run: "start_child R g (\<lambda>b. ''Failed to spawn `'' @ b @
         ''` executable. Ensure Gramine is installed in PATH.'') w = (Inr child, w1)"
      "child_write_all R child (as_bytes (rn_json_print R (json_of_ingestion_payload payload))) w1 = (Inr (), w2)"
      "wait_with_output R child w2 = (Inr out, w3)" "co_success out"
    and out: "co_stdout out = as_bytes (print_lines (noise @ pr (json_of_prover_output r) # rest))"
      "utf8_valid (co_stdout out)"
    and noise: "\<forall>l\<in>set noise. CHR 0x0A \<notin> set l \<and> \<not> in_braces (trim (strip_cr l))"
      "\<forall>l\<in>set rest. CHR 0x0A \<notin> set l"
  shows "execute_proof R g payload w = (Inr r, w3)"
proof -
  let ?t = "pr (json_of_prover_output r)"
  obtain kvs where kvs: "json_of_prover_output r = JObject kvs" by (simp add: json_of_prover_output_def)
  have t: "he_json_parse (rn_http R) (as_bytes ?t) = Inr (json_of_prover_output r)"
    "CHR 0x0A \<notin> set ?t" "strip_cr ?t = ?t" "trim ?t = ?t" "in_braces ?t"
    using law json_wf_prover_output [of r] unfolding json_line_law_def kvs by blast+
  have "str_lines (print_lines (noise @ ?t # rest)) = map strip_cr (noise @ ?t # rest)"
    by (rule str_lines_print) (use noise t(2) in auto)
  moreover have "find looks_like_json (map trim (map strip_cr (noise @ ?t # rest))) = Some ?t"
    using noise(1) t(3-5) by (simp add: find_skips looks_like_json_iff)
  moreover have "from_utf8 (co_stdout out) = Some (print_lines (noise @ ?t # rest))"
    using out by (simp add: from_utf8_def)
  ultimately show ?thesis
    using run t(1) by (simp add: execute_proof_def res_simps parse_line_def from_slice_def
        dec_json_of_prover_output)
qed

text \<open>
  C24. The runner finds the proof in a noisy output: when the process ends successfully and its
  standard output is any number of lines that do not both begin with an opening and end with a
  closing brace (white space apart), then the line the prover prints for a response, then anything
  else, the runner returns exactly that response.
\<close>

theorem runner_reads_response:
  assumes law: "json_line_law pr (he_json_parse (rn_http R))"
    and run: "start_child R g (\<lambda>b. ''Failed to spawn `'' @ b @
         ''` executable. Ensure Gramine is installed in PATH.'') w = (Inr child, w1)"
      "child_write_all R child (as_bytes (rn_json_print R (json_of_ingestion_payload payload))) w1 = (Inr (), w2)"
      "wait_with_output R child w2 = (Inr out, w3)" "co_success out"
    and out: "co_stdout out = as_bytes (print_lines (noise @ pr (json_of_prover_output r) # rest))"
      "utf8_valid (co_stdout out)"
    and noise: "\<forall>l\<in>set noise. CHR 0x0A \<notin> set l \<and> \<not> in_braces (trim (strip_cr l))"
      "\<forall>l\<in>set rest. CHR 0x0A \<notin> set l"
  shows "execute_proof R g payload w = (Inr r, w3)"
  using runner_reads [OF assms] .

text \<open>A printer that satisfies the law: a number in unary between braces.\<close>

definition brace_print :: "json \<Rightarrow> string" where
  "brace_print v = ''{'' @ replicate (to_nat v) (CHR ''x'') @ ''}''"

definition brace_parse :: json_parser where
  "brace_parse bs = Inr (from_nat (length bs - 2))"

lemma trim_braces: "trim (''{'' @ xs @ ''}'') = ''{'' @ xs @ ''}''"
proof -
  have none: "find (\<lambda>w. w \<noteq> [] \<and> starts_with w (CHR ''{'' # s)) white_space = None"
    "find (\<lambda>w. w \<noteq> [] \<and> starts_with w (CHR ''}'' # s)) (map rev white_space) = None" for s
    by (simp_all add: white_space_def)
  show ?thesis
    by (simp add: trim_def trim_start_def trim_end_def strip_seqs.simps [of white_space]
        strip_seqs.simps [of "map rev white_space"] none)
qed

lemma brace_line_law: "json_line_law brace_print brace_parse"
proof -
  have "in_braces (brace_print v)" "strip_cr (brace_print v) = brace_print v" for v
    by (simp_all add: brace_print_def in_braces_def strip_cr_def)
  moreover have "trim (brace_print v) = brace_print v" for v
    unfolding brace_print_def by (rule trim_braces)
  moreover have "brace_parse (as_bytes (brace_print v)) = Inr v" for v
    by (simp add: brace_parse_def brace_print_def)
  moreover have "CHR 0x0A \<notin> set (brace_print v)" for v
    by (simp add: brace_print_def)
  ultimately show ?thesis by (simp add: json_line_law_def)
qed

definition demo_output :: prover_output_response where
  "demo_output = \<lparr>x_dzta_proof = ''p'', x_dzta_public_inputs = ''i'', sgx_dcap_quote_hex = None\<rparr>"

definition demo_runner_env :: "bytes \<Rightarrow> (bytes, unit, nat) runner_env" where
  "demo_runner_env out = \<lparr>rn_device = no_device, rn_http = mem_env\<lparr>he_json_parse := brace_parse\<rparr>,
     spawn = (\<lambda>_ _ _. io_return ()), child_write_all = (\<lambda>_ _. io_return ()),
     child_read_line = (\<lambda>_. io_return []),
     wait_with_output = (\<lambda>_. io_return \<lparr>co_success = True, co_status_text = ''exit status: 0'',
       co_stdout = out, co_stderr = []\<rparr>),
     from_utf8_lossy = str_of_bytes, rn_utf8_error = (\<lambda>_. ''utf8''), rn_json_print = brace_print,
     status_error_text = (\<lambda>n _. show_nat n)\<rparr>"

definition demo_runner :: gramine_prover_runner where
  "demo_runner = \<lparr>target_path = ''target/release/prover'', run_mode = Direct\<rparr>"

lemma demo_paths:
  "path_parent ''target/release/prover'' = Some ''target/release''"
  "path_file_name ''target/release/prover'' = Some ''prover''"
  by code_simp+

lemma utf8_ascii: "\<forall>b\<in>set bs. unat b < 0x80 \<Longrightarrow> utf8_valid bs"
  by (induction bs) auto

theorem runner_reads_response_witness:
  "execute_proof (demo_runner_env (as_bytes (print_lines [''{log'', brace_print (json_of_prover_output demo_output)])))
     demo_runner (demo_payload 3) 0 = (Inr demo_output, 0)"
proof -
  let ?out = "as_bytes (print_lines [''{log'', brace_print (json_of_prover_output demo_output)])"
  let ?R = "demo_runner_env ?out"
  have R: "rn_http ?R = mem_env\<lparr>he_json_parse := brace_parse\<rparr>" by (simp add: demo_runner_env_def)
  have law: "json_line_law brace_print (he_json_parse (rn_http ?R))"
    by (simp add: R brace_line_law)
  have start: "start_child ?R demo_runner f 0 = (Inr (), 0)" for f
    by (simp add: start_child_def demo_runner_env_def res_simps)
  have wr: "child_write_all ?R () bs 0 = (Inr (), 0)" for bs
    by (simp add: demo_runner_env_def res_simps)
  have wait: "wait_with_output ?R () 0 = (Inr \<lparr>co_success = True, co_status_text = ''exit status: 0'',
      co_stdout = ?out, co_stderr = []\<rparr>, 0)"
    by (simp add: demo_runner_env_def res_simps)
  have valid: "utf8_valid ?out"
    by (rule utf8_ascii) (auto simp: print_lines_def newline_def brace_print_def as_bytes_def)
  have "\<not> in_braces (trim (strip_cr ''{log''))" by code_simp
  then show ?thesis
    using valid by (intro runner_reads_response [OF law start wr wait, where noise = "[''{log'']" and rest = "[]"]) auto
qed

section \<open>Confidential runs\<close>

text \<open>
  C23. Confidential proving keeps the secrets off the host. When it returns a proof, the mode
  resolved to SGX hardware and all three attestation devices exist, the process was started with
  \<open>gramine-sgx\<close>, and the first line written to it is the payload with neither wallet key nor
  master seed. Without the hardware it fails at once and starts nothing.
\<close>

theorem confidential_run_keeps_secrets:
  "(\<forall>out w'. prove_confidential_wallet_record_in_gramine R g ct cid required w = (Inr out, w') \<longrightarrow>
      is_provisioning_capable (rn_device R) w \<and>
      (\<exists>child arg dir w1 w2. spawn R ''gramine-sgx'' arg dir w = (Inr child, w1) \<and>
         child_write_all R child (as_bytes (rn_json_print R (json_of_ingestion_payload
           \<lparr>raw_wallet_ciphertext = ct, wallet_db_key = None, payload_credential_id = cid,
            payload_required_clearance = required, master_seed = None\<rparr>) @ newline)) w1 = (Inr (), w2))) \<and>
   (run_mode g = Direct \<or> \<not> is_sgx_hardware_active (rn_device R) w \<longrightarrow>
      prove_confidential_wallet_record_in_gramine R g ct cid required w =
        (Inl (ExecutionFailed
           ''Confidential proving requires hardware SGX and Gramine attestation devices''), w))"
proof (intro conjI allI impI)
  fix out w'
  assume run: "prove_confidential_wallet_record_in_gramine R g ct cid required w = (Inr out, w')"
  then show "is_provisioning_capable (rn_device R) w"
    by (auto simp: prove_confidential_wallet_record_in_gramine_def split: if_splits)
  from run have "resolve (rn_device R) (run_mode g) w = ''gramine-sgx''"
    by (auto simp: prove_confidential_wallet_record_in_gramine_def is_hardware_backed_def split: if_splits)
  with run show "\<exists>child arg dir w1 w2. spawn R ''gramine-sgx'' arg dir w = (Inr child, w1) \<and>
         child_write_all R child (as_bytes (rn_json_print R (json_of_ingestion_payload
           \<lparr>raw_wallet_ciphertext = ct, wallet_db_key = None, payload_credential_id = cid,
            payload_required_clearance = required, master_seed = None\<rparr>) @ newline)) w1 = (Inr (), w2)"
    by (simp add: prove_confidential_wallet_record_in_gramine_def execute_confidential_proof_def
        start_child_def io_Inr Let_def split: if_splits) blast
next
  assume "run_mode g = Direct \<or> \<not> is_sgx_hardware_active (rn_device R) w"
  then show "prove_confidential_wallet_record_in_gramine R g ct cid required w =
        (Inl (ExecutionFailed
           ''Confidential proving requires hardware SGX and Gramine attestation devices''), w)"
    by (auto simp: prove_confidential_wallet_record_in_gramine_def is_hardware_backed_def resolve_def
        is_provisioning_capable_def)
qed

definition demo_request :: attestation_request where
  "demo_request = \<lparr>ar_quote = ''q'', ar_enclave_public_key_pem = ''k'', ar_credential_key_id = ''c'',
     ar_required_clearance_level = 3\<rparr>"

definition demo_answer :: attestation_response where
  "demo_answer = \<lparr>as_encrypted_wallet_key = ''k'', as_encrypted_master_seed = ''s'',
     as_key_encryption_algorithm = ''a''\<rparr>"

definition confidential_env :: "(bytes, unit, nat) runner_env" where
  "confidential_env = (demo_runner_env [])\<lparr>
     rn_device := no_device\<lparr>dev_exists := (\<lambda>_ _. True)\<rparr>,
     rn_http := mem_env\<lparr>he_json_parse := brace_parse, he_env_var := (\<lambda>_. Some ''http://b''),
       http_send := (\<lambda>_ _. io_return \<lparr>hp_status = 200,
         hp_body = Inr (as_bytes (brace_print (json_of_attestation_response demo_answer)))\<rparr>)\<rparr>,
     child_read_line := (\<lambda>_ n. (Inr (brace_print (if n = 0 then json_of_attestation_request demo_request
       else json_of_prover_output demo_output)), n + 1))\<rparr>"

lemma brace_roundtrip: "brace_parse (as_bytes (trim (brace_print v))) = Inr v"
  unfolding brace_print_def trim_braces by (simp add: brace_parse_def)

lemma confidential_run:
  "prove_confidential_wallet_record_in_gramine confidential_env \<lparr>target_path = ''p'', run_mode = Auto\<rparr>
     [1] None 3 0 = (Inr demo_output, 2)"
proof -
  have "brace_parse (as_bytes (brace_print v)) = Inr v" for v
    by (simp add: brace_parse_def brace_print_def)
  moreover have "dec_attestation_request (json_of_attestation_request demo_request) = Inr demo_request"
    "dec_attestation_response (json_of_attestation_response demo_answer) = Inr demo_answer"
    by (simp_all add: dec_attestation_request_def json_of_attestation_request_def demo_request_def
        dec_attestation_response_def json_of_attestation_response_def demo_answer_def field_defs dec_u64_def)
  ultimately show ?thesis
    by (simp add: prove_confidential_wallet_record_in_gramine_def execute_confidential_proof_def
        start_child_def ask_broker_def is_hardware_backed_def resolve_def is_provisioning_capable_def
        is_sgx_hardware_active_def confidential_env_def demo_runner_env_def res_simps parse_line_def
        from_slice_def brace_roundtrip json_body_def dec_json_of_prover_output)
qed

theorem confidential_run_keeps_secrets_witness:
  "(\<exists>child arg dir w1. spawn confidential_env ''gramine-sgx'' arg dir 0 = (Inr child, w1)) \<and>
   (\<exists>e. prove_confidential_wallet_record_in_gramine (demo_runner_env []) demo_runner [1] None 3 0 =
     (Inl (ExecutionFailed e), 0))"
proof
  show "\<exists>child arg dir w1. spawn confidential_env ''gramine-sgx'' arg dir 0 = (Inr child, w1)"
    using confidential_run_keeps_secrets [of confidential_env "\<lparr>target_path = ''p'', run_mode = Auto\<rparr>"
        "[1]" None 3 0] confidential_run by blast
  show "\<exists>e. prove_confidential_wallet_record_in_gramine (demo_runner_env []) demo_runner [1] None 3 0 =
     (Inl (ExecutionFailed e), 0)"
    using confidential_run_keeps_secrets [of "demo_runner_env []" demo_runner "[1]" None 3 0]
    by (auto simp: demo_runner_def)
qed

end
