(* ===== verification/BrokerService.thy ===== *)
theory BrokerService
  imports Broker
begin

text \<open>
  The attestation broker as a service: the routers of \<open>routes/mod.rs\<close> and \<open>routes/datakey.rs\<close> of
  \<open>src/dzta-attestation-broker/src\<close>, from the request that arrives to the response that leaves.
  The web framework is the record \<open>axum\<close>: \<open>read_json\<close> is the part of the \<open>Json\<close> extractor that
  does not depend on the type (content type and syntax), \<open>data_rejection\<close> its answer to a value of
  the wrong shape, \<open>not_found\<close> and \<open>method_not_allowed\<close> the answers when no route matches and
  \<open>json_bytes\<close> the serializer of \<open>Json\<close>. The URL of an \<open>http_request\<close> that has arrived is its path.
\<close>

record axum =
  read_json :: "http_request \<Rightarrow> http_response + json"
  data_rejection :: "serde_error \<Rightarrow> http_response"
  not_found :: http_response
  method_not_allowed :: http_response
  json_bytes :: "json \<Rightarrow> bytes"

type_synonym 'w service = "http_request \<Rightarrow> 'w \<Rightarrow> http_response \<times> 'w"
type_synonym 'w router = "(string \<times> (string \<times> 'w service)) list"

section \<open>Messages\<close>

definition json_of_provisioning_response :: "provisioning_datakey_response \<Rightarrow> json" where
  "json_of_provisioning_response r = JObject
     [(''wallet_ciphertext'', JString (pr_wallet_ciphertext r)),
      (''encrypted_wallet_key_for_enclave'', JString (pr_encrypted_wallet_key r)),
      (''seed_ciphertext'', JString (pr_seed_ciphertext r)),
      (''encrypted_master_seed_for_enclave'', JString (pr_encrypted_master_seed r))]"

definition json_of_unwrap_response :: "unwrap_response \<Rightarrow> json" where
  "json_of_unwrap_response r = JObject
     [(''encrypted_wallet_key_for_enclave'', JString (un_encrypted_wallet_key r)),
      (''encrypted_master_seed_for_enclave'', JString (un_encrypted_master_seed r))]"

definition json_of_wrapped_secrets :: "wrapped_enclave_secrets \<Rightarrow> json" where
  "json_of_wrapped_secrets r = JObject
     [(''encrypted_wallet_key'', JString (ws_encrypted_wallet_key r)),
      (''encrypted_master_seed'', JString (ws_encrypted_master_seed r)),
      (''key_encryption_algorithm'', JString (ws_key_encryption_algorithm r))]"

section \<open>Routes\<close>

definition respond_json :: "axum \<Rightarrow> nat \<times> json \<Rightarrow> http_response" where
  "respond_json A r = \<lparr>hp_status = fst r, hp_body = Inr (json_bytes A (snd r))\<rparr>"

text \<open>A handler \<open>f\<close> behind the \<open>Json\<close> extractor, its result made into a response.\<close>

definition json_handler ::
  "axum \<Rightarrow> 'a decoder \<Rightarrow> ('a \<Rightarrow> ('w, 'b) api_io) \<Rightarrow> ('b \<Rightarrow> json) \<Rightarrow> 'w service" where
  "json_handler A d f enc rq w =
     (case read_json A rq of
        Inl rejection \<Rightarrow> (rejection, w)
      | Inr v \<Rightarrow>
          (case d v of
             Inl e \<Rightarrow> (data_rejection A e, w)
           | Inr request \<Rightarrow>
               (case f request w of
                  (Inl err, w') \<Rightarrow> (respond_json A (into_response err), w')
                | (Inr r, w') \<Rightarrow> (respond_json A (200, enc r), w'))))"

definition datakey_router ::
  "axum \<Rightarrow> ('k, 'w) http_env \<Rightarrow> ('q, 'w) quote_env \<Rightarrow> app_state \<Rightarrow> 'w router" where
  "datakey_router A E Q state =
     [(''/provision'', ''POST'', json_handler A dec_provision_request
        (provision_datakey E state) json_of_provisioning_response),
      (''/unwrap'', ''POST'', json_handler A dec_unwrap_request
        (unwrap_datakey E Q state) json_of_unwrap_response),
      (''/release'', ''POST'', json_handler A dec_release_request
        (release_key E Q state) json_of_wrapped_secrets)]"

definition nest :: "string \<Rightarrow> 'w router \<Rightarrow> 'w router" where
  "nest prefix routes = map (\<lambda>(path, route). (prefix @ path, route)) routes"

definition create_router ::
  "axum \<Rightarrow> ('k, 'w) http_env \<Rightarrow> ('q, 'w) quote_env \<Rightarrow> app_state \<Rightarrow> 'w router" where
  "create_router A E Q state = nest ''/v1/datakey'' (datakey_router A E Q state)"

definition route_request :: "axum \<Rightarrow> 'w router \<Rightarrow> 'w service" where
  "route_request A routes rq w =
     (case map_of routes (hq_url rq) of
        None \<Rightarrow> (not_found A, w)
      | Some (mthd, h) \<Rightarrow> if hq_method rq = mthd then h rq w else (method_not_allowed A, w))"

definition broker_service ::
  "axum \<Rightarrow> ('k, 'w) http_env \<Rightarrow> ('q, 'w) quote_env \<Rightarrow> app_state \<Rightarrow> 'w service" where
  "broker_service A E Q state = route_request A (create_router A E Q state)"

section \<open>The framework\<close>

text \<open>
  What is relied on: the extractor yields the value that was sent, its rejections and those of the
  router are client errors.
\<close>

definition client_error :: "http_response \<Rightarrow> bool" where
  "client_error r \<longleftrightarrow> 400 \<le> hp_status r \<and> hp_status r < 500"

definition axum_law :: "axum \<Rightarrow> bool" where
  "axum_law A \<longleftrightarrow>
     (\<forall>rq v. read_json A rq = Inr v \<longrightarrow> hq_json rq = Some v) \<and>
     (\<forall>rq r. read_json A rq = Inl r \<longrightarrow> client_error r) \<and>
     (\<forall>e. client_error (data_rejection A e)) \<and>
     client_error (not_found A) \<and> client_error (method_not_allowed A)"

text \<open>The extractor accepts the JSON body of a client that sends one.\<close>

definition accepts_json :: "axum \<Rightarrow> bool" where
  "accepts_json A \<longleftrightarrow> (\<forall>rq v. hq_json rq = Some v \<longrightarrow> read_json A rq = Inr v)"

lemma broker_service_cases:
  "broker_service A E Q state rq w =
     (if hq_url rq = ''/v1/datakey/provision'' \<and> hq_method rq = ''POST'' then
        json_handler A dec_provision_request (provision_datakey E state) json_of_provisioning_response rq w
      else if hq_url rq = ''/v1/datakey/unwrap'' \<and> hq_method rq = ''POST'' then
        json_handler A dec_unwrap_request (unwrap_datakey E Q state) json_of_unwrap_response rq w
      else if hq_url rq = ''/v1/datakey/release'' \<and> hq_method rq = ''POST'' then
        json_handler A dec_release_request (release_key E Q state) json_of_wrapped_secrets rq w
      else if hq_url rq \<in> {''/v1/datakey/provision'', ''/v1/datakey/unwrap'', ''/v1/datakey/release''}
        then (method_not_allowed A, w)
      else (not_found A, w))"
  by (auto simp: broker_service_def route_request_def create_router_def nest_def datakey_router_def)

section \<open>Status of an error\<close>

text \<open>Every \<open>ApiError\<close> the handlers return is a bad request or an internal error.\<close>

definition api_fails :: "('w, 'a) api_io \<Rightarrow> bool" where
  "api_fails m \<longleftrightarrow> (\<forall>w e w'. m w = (Inl e, w') \<longrightarrow> fst e = 400 \<or> fst e = 500)"

lemma api_fails_bind [intro]:
  "api_fails m \<Longrightarrow> (\<And>x. api_fails (f x)) \<Longrightarrow> api_fails (io_bind m f)"
  unfolding api_fails_def io_bind_def by (auto split: prod.splits sum.splits)

lemma api_fails_basic [intro, simp]:
  "api_fails (io_return x)"
  "st = 400 \<or> st = 500 \<Longrightarrow> api_fails (io_fail (st, t))"
  "api_fails (io_map_err (\<lambda>e. (500, f e)) m)"
  "st = 400 \<or> st = 500 \<Longrightarrow> api_fails (io_lift (map_err (\<lambda>e. (st, g e)) r))"
  "st = 400 \<or> st = 500 \<Longrightarrow> api_fails (io_lift (ok_or (st, t) x'))"
  "api_fails (\<lambda>w. (map_err (\<lambda>e. (500, g e)) (h w), w))"
  "api_fails (io_lift (check_report Q state quote pk level report))"
  "api_fails (io_map_err (api_error_of_broker E) m')"
  by (auto simp: api_fails_def io_return_def io_fail_def io_map_err_def io_lift_def check_report_def
      Let_def api_error_of_broker_def error_origin split: prod.splits if_splits)

lemma handlers_fail:
  "api_fails (provision_datakey E state pk)"
  "api_fails (unwrap_datakey E Q state urq)"
  "api_fails (release_key E Q state rrq)"
proof -
  have ver: "api_fails (verify_sgx_quote E Q state q pk level)" for q pk level
    unfolding verify_sgx_quote_def by (intro api_fails_bind) simp_all
  have eng: "api_fails (io_lift (engine_of state))" by (simp add: engine_of_def)
  show "api_fails (provision_datakey E state pk)"
    unfolding provision_datakey_def by (simp add: eng api_fails_bind)
  show "api_fails (unwrap_datakey E Q state urq)"
    unfolding unwrap_datakey_def by (simp add: eng ver api_fails_bind)
  show "api_fails (release_key E Q state rrq)"
    unfolding release_key_def by (simp add: ver api_fails_bind)
qed

lemma json_handler_success:
  assumes "axum_law A" "\<And>r. api_fails (f r)"
    and "json_handler A d f enc rq w = (resp, w')" "is_success (hp_status resp)"
  obtains v request r where "hq_json rq = Some v" "d v = Inr request" "f request w = (Inr r, w')"
    "resp = respond_json A (200, enc r)"
proof -
  obtain v where read: "read_json A rq = Inr v"
  proof (cases "read_json A rq")
    case (Inl rejection)
    then have "resp = rejection" using assms(3) by (simp add: json_handler_def)
    moreover have "client_error rejection" using Inl assms(1) by (simp add: axum_law_def)
    ultimately show ?thesis using assms(4) by (simp add: client_error_def is_success_def)
  qed
  then have v: "hq_json rq = Some v" using assms(1) by (simp add: axum_law_def)
  obtain request where req: "d v = Inr request"
  proof (cases "d v")
    case (Inl e)
    then have "resp = data_rejection A e" using assms(3) read by (simp add: json_handler_def)
    moreover have "client_error (data_rejection A e)" using assms(1) by (simp add: axum_law_def)
    ultimately show ?thesis using assms(4) by (simp add: client_error_def is_success_def)
  qed
  obtain x w1 where run: "f request w = (x, w1)" by fastforce
  obtain r where "x = Inr r"
  proof (cases x)
    case (Inl err)
    then have "fst err = 400 \<or> fst err = 500" using assms(2) [of request] run Inl by (cases err) (auto simp: api_fails_def)
    moreover have "hp_status resp = fst err"
      using assms(3) read req run Inl by (auto simp: json_handler_def respond_json_def into_response_def)
    ultimately show ?thesis using assms(4) by (auto simp: is_success_def)
  qed
  with run req read v assms(3) that show ?thesis by (simp add: json_handler_def)
qed

section \<open>The gate seen from outside\<close>

lemma handlers_attested:
  "unwrap_datakey E Q state urq w = (Inr r, w') \<Longrightarrow> attested E Q state (ur_quote urq)
     (ur_enclave_public_key urq) (ur_required_clearance_level urq)"
  "release_key E Q state rrq w = (Inr r', w') \<Longrightarrow> attested E Q state (ur_quote rrq)
     (ur_enclave_public_key rrq) (ur_required_clearance_level rrq)"
  unfolding unwrap_datakey_def release_key_def
  by (auto simp: io_Inr io_fail_app split: if_splits dest!: verify_sgx_quote_Inr)

text \<open>
  C5. Over HTTP the broker answers a request with a success status only if it is a POST to one of
  its three endpoints, and, unless it provisions a fresh key, only if the quote, key and clearance
  level in its JSON body are attested: no other path, method, malformed body or failing handler
  gets past the router, the extractor and the error adapters with a success.
\<close>

theorem service_succeeds_only_attested:
  assumes "axum_law A" "broker_service A E Q state rq w = (resp, w')" "is_success (hp_status resp)"
  shows "hq_method rq = ''POST'' \<and>
    (hq_url rq = ''/v1/datakey/provision'' \<or>
     hq_url rq = ''/v1/datakey/unwrap'' \<and> (\<exists>v request. hq_json rq = Some v \<and>
       dec_unwrap_request v = Inr request \<and> attested E Q state (ur_quote request)
         (ur_enclave_public_key request) (ur_required_clearance_level request)) \<or>
     hq_url rq = ''/v1/datakey/release'' \<and> (\<exists>v request. hq_json rq = Some v \<and>
       dec_release_request v = Inr request \<and> attested E Q state (ur_quote request)
         (ur_enclave_public_key request) (ur_required_clearance_level request)))"
proof -
  have no: "\<not> is_success (hp_status (not_found A))" "\<not> is_success (hp_status (method_not_allowed A))"
    using assms(1) by (auto simp: axum_law_def client_error_def is_success_def)
  from assms(2,3) no consider
      "hq_url rq = ''/v1/datakey/provision''" "hq_method rq = ''POST''"
    | "hq_url rq = ''/v1/datakey/unwrap''" "hq_method rq = ''POST''"
      "json_handler A dec_unwrap_request (unwrap_datakey E Q state) json_of_unwrap_response rq w = (resp, w')"
    | "hq_url rq = ''/v1/datakey/release''" "hq_method rq = ''POST''"
      "json_handler A dec_release_request (release_key E Q state) json_of_wrapped_secrets rq w = (resp, w')"
    unfolding broker_service_cases by (auto split: if_splits)
  then show ?thesis
  proof cases
    case 1
    then show ?thesis by simp
  next
    case 2
    from json_handler_success [OF assms(1) handlers_fail(2) 2(3) assms(3)] 2(1,2) handlers_attested(1)
    show ?thesis by metis
  next
    case 3
    from json_handler_success [OF assms(1) handlers_fail(3) 3(3) assms(3)] 3(1,2) handlers_attested(2)
    show ?thesis by metis
  qed
qed

text \<open>
  C20. The release endpoint is faithful to its handler: for every JSON body that decodes to a
  release request, a client that reads the response gets status 200 and exactly the secrets the
  handler returned, or the status of the handler's error and its message in an \<open>error\<close> object.
\<close>

theorem release_service_faithful:
  assumes "accepts_json A" "print_parse_law (json_bytes A) (he_json_parse C)"
    and "dec_release_request v = Inr request"
  shows "\<exists>resp. broker_service A E Q state
      \<lparr>hq_method = ''POST'', hq_url = ''/v1/datakey/release'', hq_headers = hs, hq_json = Some v\<rparr> w =
        (resp, snd (release_key E Q state request w)) \<and>
    (case fst (release_key E Q state request w) of
       Inr secrets \<Rightarrow> hp_status resp = 200 \<and>
         json_body C dec_wrapped_enclave_secrets resp = Inr secrets
     | Inl (st, message) \<Rightarrow> hp_status resp = st \<and>
         json_body C Inr resp = Inr (JObject [(''error'', JString message)]))"
proof -
  have rt: "he_json_parse C (json_bytes A j) = Inr j" if "json_wf j" for j
    using assms(2) that by (simp add: print_parse_law_def)
  have enc: "json_wf (json_of_wrapped_secrets s)"
    "dec_wrapped_enclave_secrets (json_of_wrapped_secrets s) = Inr s" for s
    by (simp_all add: json_of_wrapped_secrets_def dec_wrapped_enclave_secrets_def field_defs)
  have read: "read_json A \<lparr>hq_method = ''POST'', hq_url = u, hq_headers = hs, hq_json = Some v\<rparr> = Inr v" for u
    using assms(1) by (simp add: accepts_json_def)
  show ?thesis
    using read assms(3) rt enc
    by (cases "release_key E Q state request w")
      (auto simp: broker_service_cases json_handler_def respond_json_def into_response_def
        json_body_def from_slice_def split: sum.split)
qed

section \<open>An instance\<close>

definition plain_axum :: axum where
  "plain_axum = \<lparr>
     read_json = (\<lambda>rq. case hq_json rq of Some v \<Rightarrow> Inr v | None \<Rightarrow> Inl \<lparr>hp_status = 415, hp_body = Inr []\<rparr>),
     data_rejection = (\<lambda>_. \<lparr>hp_status = 422, hp_body = Inr []\<rparr>),
     not_found = \<lparr>hp_status = 404, hp_body = Inr []\<rparr>,
     method_not_allowed = \<lparr>hp_status = 405, hp_body = Inr []\<rparr>, json_bytes = unary_print\<rparr>"

lemma plain_axum_laws: "axum_law plain_axum" "accepts_json plain_axum" "json_bytes plain_axum = unary_print"
  by (auto simp: plain_axum_def axum_law_def accepts_json_def client_error_def split: option.splits)

definition demo_release_json :: json where
  "demo_release_json = JObject
     [(''quote'', JString (ur_quote demo_release)), (''enclave_public_key'', JString ''PEM''),
      (''credential_key_id'', JString ''id''), (''required_clearance_level'', JNumber (PosInt 3)),
      (''wallet_ciphertext'', JString ''vault:v1:a''), (''seed_ciphertext'', JString ''vault:v1:b'')]"

lemma demo_release_decoded: "dec_release_request demo_release_json = Inr demo_release"
  by (simp add: dec_release_request_def demo_release_json_def demo_release_def field_defs dec_u64_def)

lemma demo_release_run: "\<exists>r. release_key mem_env demo_quote_env demo_state demo_release 0 = (Inr r, 2)"
proof -
  have len: "q_sha256 demo_quote_env bs \<noteq> []" for bs by (simp add: demo_quote_env_def)
  obtain p where p: "kms demo_state = VaultSecretRelease p" by (simp add: demo_state_def)
  have f: "ur_enclave_public_key demo_release = ''PEM''" "ur_required_clearance_level demo_release = 3"
    "ur_wallet_ciphertext demo_release = ''vault:v1:a''" "ur_seed_ciphertext demo_release = ''vault:v1:b''"
    by (simp_all add: demo_release_def)
  show ?thesis
    using mem_decrypt_envelope [of p "''a''" 0] mem_decrypt_envelope [of p "''b''" 1]
    by (simp add: release_key_def res_simps f p demo_verify release_from_vault_def len mem_rsa)
qed

definition demo_release_http :: http_request where
  "demo_release_http = \<lparr>hq_method = ''POST'', hq_url = ''/v1/datakey/release'', hq_headers = [],
     hq_json = Some demo_release_json\<rparr>"

lemma demo_release_answer:
  "\<exists>resp. broker_service plain_axum mem_env demo_quote_env demo_state demo_release_http 0 = (resp, 2) \<and>
     hp_status resp = 200"
  using demo_release_run demo_release_decoded
  by (auto simp: broker_service_cases demo_release_http_def json_handler_def plain_axum_def respond_json_def)

theorem service_succeeds_only_attested_witness:
  "\<exists>v request. hq_json demo_release_http = Some v \<and> dec_release_request v = Inr request \<and>
     attested mem_env demo_quote_env demo_state (ur_quote request)
       (ur_enclave_public_key request) (ur_required_clearance_level request)"
proof -
  obtain resp where "broker_service plain_axum mem_env demo_quote_env demo_state demo_release_http 0 = (resp, 2)"
    and "is_success (hp_status resp)"
    using demo_release_answer by (auto simp: is_success_def)
  from service_succeeds_only_attested [OF plain_axum_laws(1) this] show ?thesis
    by (simp add: demo_release_http_def)
qed

theorem release_service_faithful_witness:
  "\<exists>resp secrets. broker_service plain_axum mem_env demo_quote_env demo_state demo_release_http 0 = (resp, 2) \<and>
     json_body mem_env dec_wrapped_enclave_secrets resp = Inr secrets"
proof -
  have pp: "print_parse_law (json_bytes plain_axum) (he_json_parse mem_env)"
    by (simp add: plain_axum_laws(3) mem_env_def unary_law)
  show ?thesis
    using release_service_faithful [OF plain_axum_laws(2) pp demo_release_decoded,
        of mem_env demo_quote_env demo_state "[]" 0] demo_release_run
    by (auto simp: demo_release_http_def)
qed

end
