(* ===== verification/ConfidentialRun.thy ===== *)
theory ConfidentialRun
  imports Runner BrokerService
begin

text \<open>
  The confidential proof end to end on this repository's own parts: the host runner of
  \<open>src/dzta-gramine-prover/src/runner.rs\<close> posts what the enclave printed to the broker service of
  \<open>src/dzta-attestation-broker/src/routes/\<close>. The only assumption about the network is that every
  request of the runner is answered by the broker's router, at a path of any kind.
\<close>

definition answered_by ::
  "('k, 'h, 'w) runner_env \<Rightarrow> 'w service \<Rightarrow> bool" where
  "answered_by R serve \<longleftrightarrow>
     (\<forall>cl rq w. \<exists>path. http_send (rn_http R) cl rq w =
        (Inr (fst (serve (rq\<lparr>hq_url := path\<rparr>) w)), snd (serve (rq\<lparr>hq_url := path\<rparr>) w)))"

lemma refused_by_handler:
  assumes law: "axum_law A" and "d v = Inl e" and "hq_json rq = Some v"
  shows "\<exists>resp. json_handler A d f enc rq w = (resp, w) \<and> client_error resp"
proof (cases "read_json A rq")
  case (Inl r)
  then show ?thesis using law by (simp add: json_handler_def axum_law_def)
next
  case (Inr v')
  then have "v' = v" using assms by (simp add: axum_law_def)
  then show ?thesis using Inr assms by (simp add: json_handler_def axum_law_def)
qed

lemma attestation_request_rejected:
  assumes "axum_law A" and json: "hq_json rq = Some (json_of_attestation_request r)"
  shows "\<exists>resp. broker_service A E Q state rq w = (resp, w) \<and> client_error resp"
proof -
  obtain e1 e2 e3 where refused: "dec_unwrap_request (json_of_attestation_request r) = Inl e1"
    "dec_release_request (json_of_attestation_request r) = Inl e2"
    "dec_provision_request (json_of_attestation_request r) = Inl e3"
    using attestation_request_refused [of r] by blast
  have "client_error (not_found A)" "client_error (method_not_allowed A)"
    using assms(1) by (auto simp: axum_law_def)
  then show ?thesis
    unfolding broker_service_cases
    using refused_by_handler [where d = dec_unwrap_request, OF assms(1) refused(1) json]
      refused_by_handler [where d = dec_release_request, OF assms(1) refused(2) json]
      refused_by_handler [where d = dec_provision_request, OF assms(1) refused(3) json] by auto
qed

lemma client_error_of_answered:
  assumes "answered_by R (broker_service A E Q state)" "axum_law A"
  shows "\<exists>st. 400 \<le> st \<and> st < 500 \<and> ask_broker R broker_url r w =
    (Inl (context_text ''Attestation broker rejected the enclave'' (status_error_text R st broker_url)), w)"
proof -
  define rq where "rq = \<lparr>hq_method = ''POST'', hq_url = broker_url, hq_headers = [],
    hq_json = Some (json_of_attestation_request r)\<rparr>"
  let ?cl = "\<lparr>vc_accept_invalid_certs = False, vc_root_certificate = None\<rparr>"
  obtain path where send: "http_send (rn_http R) ?cl rq w =
      (Inr (fst (broker_service A E Q state (rq\<lparr>hq_url := path\<rparr>) w)),
       snd (broker_service A E Q state (rq\<lparr>hq_url := path\<rparr>) w))"
    using assms(1) unfolding answered_by_def by blast
  obtain resp where "broker_service A E Q state (rq\<lparr>hq_url := path\<rparr>) w = (resp, w)" "client_error resp"
    using attestation_request_rejected [OF assms(2), of "rq\<lparr>hq_url := path\<rparr>" r E Q state w]
    by (auto simp: rq_def)
  then show ?thesis
    using send by (auto simp: ask_broker_def rq_def res_simps client_error_def)
qed

text \<open>
  The first exchange with the enclave: spawn it, write the payload as one line, read one line. It is
  the specification of all that a refused run does to the process.
\<close>

definition first_exchange ::
  "('k, 'h, 'w) runner_env \<Rightarrow> gramine_prover_runner \<Rightarrow> enclave_ingestion_payload \<Rightarrow> ('w, string, string) io" where
  "first_exchange R g payload =
     io_bind (start_child R g (\<lambda>b. ''Failed to spawn `'' @ b @ ''` executable'')) (\<lambda>child.
     io_bind (child_write_all R child
       (as_bytes (rn_json_print R (json_of_ingestion_payload payload) @ [CHR 0x0A]))) (\<lambda>_.
     child_read_line R child))"

lemma run_ends_after_first_exchange:
  assumes "answered_by R (broker_service A E Q state)" "axum_law A"
  shows "\<exists>e. execute_confidential_proof R g payload url w = (Inl e, snd (first_exchange R g payload w))"
proof -
  obtain r1 w1 where st: "start_child R g (\<lambda>b. ''Failed to spawn `'' @ b @ ''` executable'') w = (r1, w1)"
    by (meson surj_pair)
  show ?thesis
  proof (cases r1)
    case (Inr child)
    let ?line = "as_bytes (rn_json_print R (json_of_ingestion_payload payload) @ newline)"
    obtain r2 w2 where wr: "child_write_all R child ?line w1 = (r2, w2)" by (meson surj_pair)
    obtain r3 w3 where rd: "child_read_line R child w2 = (r3, w3)" by (meson surj_pair)
    have first: "snd (first_exchange R g payload w) = (case r2 of Inl _ \<Rightarrow> w2 | Inr _ \<Rightarrow> w3)"
      using st Inr wr rd unfolding first_exchange_def newline_def by (cases r2) (simp_all add: res_simps)
    show ?thesis
    proof (cases r2)
      case Inl
      then show ?thesis
        unfolding first using st Inr wr by (simp add: execute_confidential_proof_def res_simps)
    next
      case written: (Inr u)
      show ?thesis
      proof (cases "bind_res r3 (\<lambda>l. parse_line R dec_attestation_request
          ''Enclave did not produce an attestation request'' (trim l))")
        case Inl
        then show ?thesis
          unfolding first using st Inr wr rd written
          by (cases r3) (simp_all add: execute_confidential_proof_def res_simps)
      next
        case parsed: (Inr request)
        from client_error_of_answered [OF assms, of url request w3] obtain e where
          "ask_broker R url request w3 = (Inl e, w3)" by blast
        with parsed show ?thesis
          unfolding first using st Inr wr rd written
          by (cases r3) (simp_all add: execute_confidential_proof_def res_simps)
      qed
    qed
  qed (use st in \<open>simp add: execute_confidential_proof_def first_exchange_def res_simps\<close>)
qed

lemma proxied_run_ends:
  assumes "answered_by R (broker_service A E Q state)" "axum_law A"
    and p: "p = \<lparr>raw_wallet_ciphertext = ct, wallet_db_key = None, payload_credential_id = cid,
      payload_required_clearance = required, master_seed = None\<rparr>"
  shows "\<exists>e. prove_confidential_wallet_record_in_gramine R g ct cid required w = (Inl e, w) \<or>
    prove_confidential_wallet_record_in_gramine R g ct cid required w = (Inl e, snd (first_exchange R g p w))"
proof (cases "he_env_var (rn_http R) ''DZTA_ATTESTATION_BROKER_URL''")
  case None
  then show ?thesis by (auto simp: prove_confidential_wallet_record_in_gramine_def res_simps)
next
  case (Some url)
  from run_ends_after_first_exchange [OF assms(1,2), of g p url w] obtain e where
    "execute_confidential_proof R g p url w = (Inl e, snd (first_exchange R g p w))" by blast
  with Some show ?thesis
    by (auto simp: prove_confidential_wallet_record_in_gramine_def res_simps io_map_err_def p)
qed

lemma confidential_never_completes:
  assumes "answered_by R (broker_service A E Q state)" "axum_law A"
  shows "fst (execute_confidential_proof R g payload url w) \<noteq> Inr out"
    and "fst (prove_confidential_wallet_record_in_gramine R g ct cid required w) \<noteq> Inr out"
  using run_ends_after_first_exchange [OF assms, of g payload url w]
    proxied_run_ends [OF assms refl, of g ct cid required w] by (metis Inl_Inr_False fst_conv)+

text \<open>
  C19. A confidential proof cannot complete against this broker. Whatever endpoint the URL leads to,
  the broker answers the runner's attestation request with a client error and stays in the state it
  was in; so the run ends with an error for every enclave and payload, in the world left by spawning
  the enclave, writing it the payload it was called with as one line, and reading one line: nothing
  the broker released is written to it. Called through the execution proxy, in any mode, the run ends
  either before it spawns anything or in this way with a payload that has neither wallet key nor
  master seed, so the enclave is given no key material.
\<close>

theorem confidential_run_never_completes:
  assumes "answered_by R (broker_service A E Q state)" "axum_law A"
  shows "(\<exists>st. 400 \<le> st \<and> st < 500 \<and> ask_broker R broker_url r w =
      (Inl (context_text ''Attestation broker rejected the enclave'' (status_error_text R st broker_url)), w)) \<and>
    (\<exists>e. execute_confidential_proof R g payload broker_url w = (Inl e, snd (first_exchange R g payload w))) \<and>
    (\<exists>e. prove_confidential_wallet_record_in_gramine R g ct cid required w = (Inl e, w) \<or>
       prove_confidential_wallet_record_in_gramine R g ct cid required w =
         (Inl e, snd (first_exchange R g \<lparr>raw_wallet_ciphertext = ct, wallet_db_key = None,
            payload_credential_id = cid, payload_required_clearance = required, master_seed = None\<rparr> w)))"
  by (intro conjI client_error_of_answered [OF assms] run_ends_after_first_exchange [OF assms]
      proxied_run_ends [OF assms refl])

text \<open>
  The names are the only obstacle on the way back: what the release endpoint returns, the enclave
  decodes as its attestation response.
\<close>

lemma release_answer_fits_enclave:
  "dec_attestation_response (json_of_wrapped_secrets s) =
     Inr \<lparr>as_encrypted_wallet_key = ws_encrypted_wallet_key s,
          as_encrypted_master_seed = ws_encrypted_master_seed s,
          as_key_encryption_algorithm = ws_key_encryption_algorithm s\<rparr>"
  by (simp add: json_of_wrapped_secrets_def dec_attestation_response_def field_defs)

definition linked_env :: "(bytes, unit, nat) runner_env" where
  "linked_env = confidential_env\<lparr>rn_http := (rn_http confidential_env)\<lparr>http_send := (\<lambda>_ rq w.
     (let (resp, w') = broker_service plain_axum mem_env demo_quote_env demo_state
            (rq\<lparr>hq_url := ''/v1/datakey/release''\<rparr>) w in (Inr resp, w')))\<rparr>\<rparr>"

theorem confidential_run_never_completes_witness:
  "fst (prove_confidential_wallet_record_in_gramine linked_env \<lparr>target_path = ''p'', run_mode = Auto\<rparr>
     [1] None 3 0) \<noteq> Inr demo_output"
proof -
  have "answered_by linked_env (broker_service plain_axum mem_env demo_quote_env demo_state)"
    by (auto simp: answered_by_def linked_env_def case_prod_beta Let_def)
  from confidential_run_never_completes [OF this plain_axum_laws(1),
      of _ _ 0 "\<lparr>target_path = ''p'', run_mode = Auto\<rparr>" _ "[1]" None 3]
  show ?thesis by (metis Inl_Inr_False fst_conv)
qed

end
