(* ===== verification/Transport.thy ===== *)
theory Transport
  imports Vault Edge Models "HOL-Library.Char_ord" "HOL-Library.List_Lexorder"
begin

text \<open>
  \<open>src/transport-engine/src/transport.rs\<close>: the client that sends proofs to the Envoy gateway. The
  HTTP client is \<open>http_send\<close> of \<open>Vault.http_env\<close>; UUIDs, the clock and chrono's RFC 3339 reader
  and printer are the record \<open>transport_env\<close>. A timeout is in seconds; when it passes, the exchange
  is an error of \<open>http_send\<close>. A \<open>BTreeMap\<close> is the list of its entries in the order of their keys.
\<close>

datatype transport_error =
    Http reqwest_error
  | Serialization string
  | TransportConfigError string
  | Rejected nat string
  | MissingData string

record transport_config =
  envoy_url :: string
  tc_timeout :: "nat option"
  proof_header :: string
  public_inputs_header :: string
  revocation_header :: string
  request_path :: string

record proof_request =
  pq_request_id :: string
  pq_device_id :: string
  pq_edge_id :: string
  pq_action :: string
  pq_payload :: json
  pq_proof :: "string option"
  pq_public_inputs :: "string option"
  pq_revocation_id :: "string option"
  pq_metadata :: "(string \<times> string) list"

record proof_artifact =
  pa_request_id :: string
  pa_device_id :: string
  pa_edge_id :: string
  pa_proof :: string
  pa_public_inputs :: string
  pa_revocation_id :: "string option"
  pa_status :: string
  pa_metadata :: "(string \<times> string) list"
  pa_collected_at :: datetime

record proof_envelope =
  pe_request_id :: string
  pe_status :: string
  pe_message :: string
  pe_artifact :: "proof_artifact option"
  pe_submitted_at :: datetime

record header_bundle =
  hb_proof :: "string option"
  hb_public_inputs :: "string option"
  hb_revocation_id :: "string option"

record 'w transport_env =
  te_new_uuid :: "'w \<Rightarrow> string \<times> 'w"
  te_now :: "'w \<Rightarrow> datetime"
  te_parse_rfc3339 :: "string \<Rightarrow> datetime option"
  te_show_rfc3339 :: "datetime \<Rightarrow> string"

type_synonym 'a transport_result = "transport_error + 'a"

section \<open>Configuration\<close>

definition default_proof_header :: string where
  "default_proof_header = ''x-dzta-proof''"

definition default_public_inputs_header :: string where
  "default_public_inputs_header = ''x-dzta-public-inputs''"

definition default_revocation_header :: string where
  "default_revocation_header = ''x-dzta-revocation-id''"

definition default_request_path :: string where
  "default_request_path = ''/api/v1/resource''"

definition TransportConfig_new :: "string \<Rightarrow> transport_config" where
  "TransportConfig_new url = \<lparr>envoy_url = url, tc_timeout = Some 30, proof_header = default_proof_header,
     public_inputs_header = default_public_inputs_header,
     revocation_header = default_revocation_header, request_path = default_request_path\<rparr>"

definition with_timeout :: "nat \<Rightarrow> transport_config \<Rightarrow> transport_config" where
  "with_timeout t c = c\<lparr>tc_timeout := Some t\<rparr>"

definition validated :: "transport_config \<Rightarrow> unit transport_result" where
  "validated c =
     (if trim (envoy_url c) = [] then Inl (TransportConfigError ''envoy_url must not be empty'')
      else if trim (proof_header c) = [] then Inl (TransportConfigError ''proof_header must not be empty'')
      else if trim (public_inputs_header c) = [] then
        Inl (TransportConfigError ''public_inputs_header must not be empty'')
      else if trim (revocation_header c) = [] then
        Inl (TransportConfigError ''revocation_header must not be empty'')
      else Inr ())"

record transport_engine =
  ten_client :: vault_client
  ten_config :: transport_config

definition TransportEngine_new ::
  "('k, 'w) http_env \<Rightarrow> transport_config \<Rightarrow> transport_engine transport_result" where
  "TransportEngine_new E c =
     bind_res (validated c) (\<lambda>_.
     let plain = \<lparr>vc_accept_invalid_certs = False, vc_root_certificate = None\<rparr> in
     bind_res (case tc_timeout c of
         Some t \<Rightarrow> map_err (\<lambda>e. Http (ReqwestError e)) (client_build E plain)
       | None \<Rightarrow> Inr plain) (\<lambda>cl.
     Inr \<lparr>ten_client = cl, ten_config = c\<rparr>))"

definition TransportEngine_default :: "('k, 'w) http_env \<Rightarrow> transport_engine transport_result" where
  "TransportEngine_default E = TransportEngine_new E \<lparr>envoy_url = ''http://127.0.0.1:10000'',
     tc_timeout = Some 30, proof_header = default_proof_header,
     public_inputs_header = default_public_inputs_header,
     revocation_header = default_revocation_header, request_path = default_request_path\<rparr>"

section \<open>Requests and headers\<close>

fun btree_insert :: "string \<Rightarrow> 'v \<Rightarrow> (string \<times> 'v) list \<Rightarrow> (string \<times> 'v) list" where
  "btree_insert k v [] = [(k, v)]"
| "btree_insert k v ((k', v') # kvs) =
     (if k < k' then (k, v) # (k', v') # kvs
      else if k = k' then (k, v) # kvs
      else (k', v') # btree_insert k v kvs)"

definition ProofRequest_new :: "string \<Rightarrow> string \<Rightarrow> string \<Rightarrow> string \<Rightarrow> proof_request" where
  "ProofRequest_new uuid action device_id edge_id = \<lparr>pq_request_id = uuid, pq_device_id = device_id,
     pq_edge_id = edge_id, pq_action = action, pq_payload = JObject [], pq_proof = None,
     pq_public_inputs = None, pq_revocation_id = None, pq_metadata = []\<rparr>"

definition request_with_proof :: "string \<Rightarrow> string \<Rightarrow> proof_request \<Rightarrow> proof_request" where
  "request_with_proof p i r = r\<lparr>pq_proof := Some p, pq_public_inputs := Some i\<rparr>"

definition request_with_payload :: "json \<Rightarrow> proof_request \<Rightarrow> proof_request" where
  "request_with_payload v r = r\<lparr>pq_payload := v\<rparr>"

definition request_with_revocation_id :: "string \<Rightarrow> proof_request \<Rightarrow> proof_request" where
  "request_with_revocation_id c r = r\<lparr>pq_revocation_id := Some c\<rparr>"

definition request_with_metadata :: "string \<Rightarrow> string \<Rightarrow> proof_request \<Rightarrow> proof_request" where
  "request_with_metadata k v r = r\<lparr>pq_metadata := btree_insert k v (pq_metadata r)\<rparr>"

definition ProofArtifact_new ::
  "datetime \<Rightarrow> string \<Rightarrow> string \<Rightarrow> string \<Rightarrow> string \<Rightarrow> string \<Rightarrow> proof_artifact" where
  "ProofArtifact_new now request_id device_id edge_id p i = \<lparr>pa_request_id = request_id,
     pa_device_id = device_id, pa_edge_id = edge_id, pa_proof = p, pa_public_inputs = i,
     pa_revocation_id = None, pa_status = ''ready'', pa_metadata = [], pa_collected_at = now\<rparr>"

definition artifact_with_revocation_id :: "string \<Rightarrow> proof_artifact \<Rightarrow> proof_artifact" where
  "artifact_with_revocation_id c a = a\<lparr>pa_revocation_id := Some c\<rparr>"

definition set_status :: "string \<Rightarrow> proof_artifact \<Rightarrow> proof_artifact" where
  "set_status st a = a\<lparr>pa_status := st\<rparr>"

definition artifact_with_metadata :: "string \<Rightarrow> string \<Rightarrow> proof_artifact \<Rightarrow> proof_artifact" where
  "artifact_with_metadata k v a = a\<lparr>pa_metadata := btree_insert k v (pa_metadata a)\<rparr>"

definition bundle_with_proof :: "string \<Rightarrow> header_bundle \<Rightarrow> header_bundle" where
  "bundle_with_proof p b = b\<lparr>hb_proof := Some p\<rparr>"

definition bundle_with_public_inputs :: "string \<Rightarrow> header_bundle \<Rightarrow> header_bundle" where
  "bundle_with_public_inputs i b = b\<lparr>hb_public_inputs := Some i\<rparr>"

definition bundle_with_revocation_id :: "string \<Rightarrow> header_bundle \<Rightarrow> header_bundle" where
  "bundle_with_revocation_id c b = b\<lparr>hb_revocation_id := Some c\<rparr>"

definition encode_proof_for_headers :: "('k, 'w) http_env \<Rightarrow> bytes \<Rightarrow> string" where
  "encode_proof_for_headers E bs = b64_encode E bs"

definition encode_public_inputs_for_headers :: "('k, 'w) http_env \<Rightarrow> bytes \<Rightarrow> string" where
  "encode_public_inputs_for_headers E bs = b64_encode E bs"

definition non_blank :: "string option \<Rightarrow> string option" where
  "non_blank v = (case v of Some s \<Rightarrow> if trim s = [] then None else Some s | None \<Rightarrow> None)"

definition proof_headers :: "transport_engine \<Rightarrow> header_bundle \<Rightarrow> (string \<times> string) list" where
  "proof_headers t b =
     (case non_blank (hb_proof b) of Some p \<Rightarrow> [(proof_header (ten_config t), p)] | None \<Rightarrow> []) @
     (case non_blank (hb_public_inputs b) of
        Some i \<Rightarrow> [(public_inputs_header (ten_config t), i)] | None \<Rightarrow> []) @
     (case non_blank (hb_revocation_id b) of
        Some r \<Rightarrow> [(revocation_header (ten_config t), r)] | None \<Rightarrow> [])"

text \<open>A request is built up from its list of headers; this one appends those of a bundle.\<close>

definition apply_headers ::
  "transport_engine \<Rightarrow> (string \<times> string) list \<Rightarrow> header_bundle \<Rightarrow> (string \<times> string) list" where
  "apply_headers t request b = fold (\<lambda>h request. request @ [h]) (proof_headers t b) request"

lemma apply_headers_append [simp]: "apply_headers t request b = request @ proof_headers t b"
proof -
  have "fold (\<lambda>h r. r @ [h]) hs r = r @ hs" for hs r :: "(string \<times> string) list"
    by (induction hs arbitrary: r) simp_all
  then show ?thesis by (simp add: apply_headers_def)
qed

definition target_url :: "transport_engine \<Rightarrow> string option \<Rightarrow> string" where
  "target_url t p =
     (let env_url = trim (envoy_url (ten_config t));
          path = (case p of Some q \<Rightarrow> q | None \<Rightarrow> request_path (ten_config t))
      in if ends_with ''/'' env_url \<and> starts_with ''/'' path
         then trim_end_matches (CHR ''/'') env_url @ path
         else if \<not> ends_with ''/'' env_url \<and> \<not> starts_with ''/'' path then env_url @ ''/'' @ path
         else env_url @ path)"

definition json_opt :: "string \<Rightarrow> string option \<Rightarrow> (string \<times> json) list" where
  "json_opt k v = (case v of Some s \<Rightarrow> [(k, JString s)] | None \<Rightarrow> [])"

definition json_of_metadata :: "(string \<times> string) list \<Rightarrow> json" where
  "json_of_metadata ms = JObject (map (\<lambda>(k, v). (k, JString v)) ms)"

definition json_of_proof_request :: "proof_request \<Rightarrow> json" where
  "json_of_proof_request r = JObject
     ([(''request_id'', JString (pq_request_id r)), (''device_id'', JString (pq_device_id r)),
       (''edge_id'', JString (pq_edge_id r)), (''action'', JString (pq_action r)),
       (''payload'', pq_payload r)] @ json_opt ''proof'' (pq_proof r) @
      json_opt ''public_inputs'' (pq_public_inputs r) @
      json_opt ''revocation_id'' (pq_revocation_id r) @ [(''metadata'', json_of_metadata (pq_metadata r))])"

definition json_of_proof_artifact :: "'w transport_env \<Rightarrow> proof_artifact \<Rightarrow> json" where
  "json_of_proof_artifact T a = JObject
     ([(''request_id'', JString (pa_request_id a)), (''device_id'', JString (pa_device_id a)),
       (''edge_id'', JString (pa_edge_id a)), (''proof'', JString (pa_proof a)),
       (''public_inputs'', JString (pa_public_inputs a))] @
      json_opt ''revocation_id'' (pa_revocation_id a) @
      [(''status'', JString (pa_status a)), (''metadata'', json_of_metadata (pa_metadata a)),
       (''collected_at'', JString (te_show_rfc3339 T (pa_collected_at a)))])"

fun dec_string_map :: "(string \<times> json) list \<Rightarrow> (string \<times> string) list \<Rightarrow>
    serde_error + (string \<times> string) list" where
  "dec_string_map [] m = Inr m"
| "dec_string_map ((k, v) # kvs) m =
     bind_res (dec_string v) (\<lambda>s. dec_string_map kvs (btree_insert k s m))"

fun dec_metadata :: "(string \<times> string) list decoder" where
  "dec_metadata (JObject kvs) = dec_string_map kvs []"
| "dec_metadata _ = Inl InvalidType"

definition dec_datetime :: "'w transport_env \<Rightarrow> datetime decoder" where
  "dec_datetime T v = bind_res (dec_string v) (\<lambda>s. ok_or InvalidType (te_parse_rfc3339 T s))"

definition dec_proof_artifact :: "'w transport_env \<Rightarrow> proof_artifact decoder" where
  "dec_proof_artifact T v =
     bind_res (struct_fields [''request_id'', ''device_id'', ''edge_id'', ''proof'', ''public_inputs'',
       ''revocation_id'', ''status'', ''metadata'', ''collected_at''] v) (\<lambda>fs.
     bind_res (required_field dec_string [''request_id''] fs) (\<lambda>r.
     bind_res (required_field dec_string [''device_id''] fs) (\<lambda>d.
     bind_res (required_field dec_string [''edge_id''] fs) (\<lambda>e.
     bind_res (required_field dec_string [''proof''] fs) (\<lambda>p.
     bind_res (required_field dec_string [''public_inputs''] fs) (\<lambda>i.
     bind_res (option_field dec_string [''revocation_id''] fs) (\<lambda>rev.
     bind_res (required_field dec_string [''status''] fs) (\<lambda>st.
     bind_res (default_field [] dec_metadata [''metadata''] fs) (\<lambda>ms.
     bind_res (required_field (dec_datetime T) [''collected_at''] fs) (\<lambda>c.
     Inr \<lparr>pa_request_id = r, pa_device_id = d, pa_edge_id = e, pa_proof = p, pa_public_inputs = i,
          pa_revocation_id = rev, pa_status = st, pa_metadata = ms, pa_collected_at = c\<rparr>))))))))))"

text \<open>The defaults of the two optional fields are a fresh UUID and the current time.\<close>

definition dec_proof_envelope :: "'w transport_env \<Rightarrow> string \<Rightarrow> datetime \<Rightarrow> proof_envelope decoder" where
  "dec_proof_envelope T uuid now v =
     bind_res (struct_fields [''request_id'', ''status'', ''message'', ''artifact'', ''submitted_at''] v) (\<lambda>fs.
     bind_res (default_field uuid dec_string [''request_id''] fs) (\<lambda>r.
     bind_res (required_field dec_string [''status''] fs) (\<lambda>st.
     bind_res (required_field dec_string [''message''] fs) (\<lambda>msg.
     bind_res (default_field None (dec_option (dec_proof_artifact T)) [''artifact''] fs) (\<lambda>a.
     bind_res (default_field now (dec_datetime T) [''submitted_at''] fs) (\<lambda>sub.
     Inr \<lparr>pe_request_id = r, pe_status = st, pe_message = msg, pe_artifact = a,
          pe_submitted_at = sub\<rparr>))))))"

section \<open>Exchanges\<close>

definition parse_response :: "('k, 'w) http_env \<Rightarrow> 'a decoder \<Rightarrow> http_response \<Rightarrow> 'a transport_result" where
  "parse_response E d response =
     bind_res (map_err (\<lambda>e. Serialization (''failed to read gateway response: '' @ e)) (hp_body response)) (\<lambda>body.
     map_err (\<lambda>err. Serialization (''failed to decode gateway response: '' @ serde_display (he_fmt E) err @
       ''; body='' @ text_of E body)) (from_slice (he_json_parse E) d (as_bytes (text_of E body))))"

definition handle_response ::
  "('k, 'w) http_env \<Rightarrow> 'w transport_env \<Rightarrow> http_response \<Rightarrow> ('w, transport_error, proof_envelope) io" where
  "handle_response E T response = (\<lambda>w.
     if \<not> is_success (hp_status response) then
       (Inl (Rejected (hp_status response)
          (case hp_body response of Inr bs \<Rightarrow> text_of E bs | Inl _ \<Rightarrow> ''failed to read body'')), w)
     else
       let (uuid, w1) = te_new_uuid T w
       in (parse_response E (dec_proof_envelope T uuid (te_now T w1)) response, w1))"

definition send ::
  "('k, 'w) http_env \<Rightarrow> transport_engine \<Rightarrow> http_request \<Rightarrow> ('w, transport_error, http_response) io" where
  "send E t q = io_map_err (\<lambda>e. Http (ReqwestError e)) (http_send E (ten_client t) q)"

definition submit_proof_request ::
  "('k, 'w) http_env \<Rightarrow> 'w transport_env \<Rightarrow> transport_engine \<Rightarrow> proof_request \<Rightarrow>
   ('w, transport_error, proof_envelope) io" where
  "submit_proof_request E T t r =
     io_bind (send E t \<lparr>hq_method = ''POST'', hq_url = target_url t None,
       hq_headers = apply_headers t
         [(''Content-Type'', ''application/json''), (''X-DZTA-Request-Id'', pq_request_id r),
          (''X-DZTA-Device-Id'', pq_device_id r), (''X-DZTA-Edge-Id'', pq_edge_id r),
          (''X-DZTA-Action'', pq_action r)] \<lparr>hb_proof = pq_proof r, hb_public_inputs = pq_public_inputs r,
           hb_revocation_id = pq_revocation_id r\<rparr>,
       hq_json = Some (json_of_proof_request r)\<rparr>) (handle_response E T)"

definition artifact_headers :: "transport_engine \<Rightarrow> proof_artifact \<Rightarrow> (string \<times> string) list" where
  "artifact_headers t a =
     apply_headers t
       [(''Content-Type'', ''application/json''), (''X-DZTA-Request-Id'', pa_request_id a),
        (''X-DZTA-Device-Id'', pa_device_id a), (''X-DZTA-Edge-Id'', pa_edge_id a),
        (''X-DZTA-Status'', pa_status a)] \<lparr>hb_proof = Some (pa_proof a), hb_public_inputs = Some (pa_public_inputs a),
       hb_revocation_id = pa_revocation_id a\<rparr>"

definition submit_proof_result ::
  "('k, 'w) http_env \<Rightarrow> 'w transport_env \<Rightarrow> transport_engine \<Rightarrow> proof_artifact \<Rightarrow>
   ('w, transport_error, proof_envelope) io" where
  "submit_proof_result E T t a =
     io_bind (send E t \<lparr>hq_method = ''POST'', hq_url = target_url t None,
       hq_headers = artifact_headers t a, hq_json = Some (json_of_proof_artifact T a)\<rparr>)
       (handle_response E T)"

definition collect_proof ::
  "('k, 'w) http_env \<Rightarrow> 'w transport_env \<Rightarrow> transport_engine \<Rightarrow> string \<Rightarrow>
   ('w, transport_error, proof_artifact) io" where
  "collect_proof E T t request_id =
     io_bind (send E t \<lparr>hq_method = ''GET'',
       hq_url = target_url t (Some (''/api/v1/resource/'' @ request_id)),
       hq_headers = [(''X-DZTA-Request-Id'', request_id)], hq_json = None\<rparr>) (\<lambda>response.
     io_lift (parse_response E (dec_proof_artifact T) response))"

definition request_proof ::
  "('k, 'w) http_env \<Rightarrow> 'w transport_env \<Rightarrow> transport_engine \<Rightarrow> string \<Rightarrow> string \<Rightarrow> string \<Rightarrow> json \<Rightarrow>
   ('w, transport_error, proof_envelope) io" where
  "request_proof E T t device_id edge_id action payload = (\<lambda>w.
     let (uuid, w1) = te_new_uuid T w
     in submit_proof_request E T t \<lparr>pq_request_id = uuid, pq_device_id = device_id,
          pq_edge_id = edge_id, pq_action = action, pq_payload = payload, pq_proof = None,
          pq_public_inputs = None, pq_revocation_id = None, pq_metadata = []\<rparr> w1)"

section \<open>Addresses\<close>

lemma ends_with_slash: "ends_with ''/'' s \<longleftrightarrow> s \<noteq> [] \<and> last s = CHR ''/''"
  by (cases s rule: rev_cases) (auto simp: ends_with_def starts_with_def)

lemma starts_with_slash: "starts_with ''/'' s \<longleftrightarrow> (\<exists>r. s = CHR ''/'' # r)"
  by (cases s) (auto simp: starts_with_def)

text \<open>
  Joining the gateway address and a path: when the trimmed address ends in at most one slash,
  the target is the address without it, one slash, and the path without its leading slash, so the
  two are always separated by exactly one slash.
\<close>

theorem target_url_one_slash:
  assumes "trim (envoy_url (ten_config t)) = u" "\<not> ends_with ''//'' u"
  shows "target_url t (Some p) = trim_end_matches (CHR ''/'') u @ ''/'' @
      (case strip_prefix ''/'' p of Some q \<Rightarrow> q | None \<Rightarrow> p) \<and>
    \<not> ends_with ''/'' (trim_end_matches (CHR ''/'') u)"
proof -
  have no_slash: "trim_end_matches (CHR ''/'') u = (if ends_with ''/'' u then butlast u else u) \<and>
      \<not> ends_with ''/'' (trim_end_matches (CHR ''/'') u)"
  proof (cases u rule: rev_cases)
    case Nil
    then show ?thesis by (simp add: trim_end_matches_def ends_with_slash)
  next
    case (snoc b x)
    show ?thesis
    proof (cases "x = CHR ''/''")
      case True
      have "b = [] \<or> last b \<noteq> CHR ''/''"
        using assms(2) snoc True by (cases b rule: rev_cases) (auto simp: ends_with_def starts_with_def)
      then show ?thesis
        using snoc True by (cases b rule: rev_cases) (auto simp: trim_end_matches_def ends_with_slash butlast_append)
    next
      case False
      then show ?thesis using snoc by (auto simp: trim_end_matches_def ends_with_slash)
    qed
  qed
  show ?thesis
  proof (cases "ends_with ''/'' u")
    case True
    then have "u = butlast u @ ''/''" by (metis append_butlast_last_id ends_with_slash)
    then show ?thesis
      using no_slash True assms(1)
      by (auto simp: target_url_def Let_def strip_prefix_def starts_with_slash split: option.split)
  next
    case False
    then show ?thesis
      using no_slash assms(1)
      by (auto simp: target_url_def Let_def strip_prefix_def starts_with_slash)
  qed
qed

definition demo_transport :: transport_engine where
  "demo_transport = \<lparr>ten_client = \<lparr>vc_accept_invalid_certs = False, vc_root_certificate = None\<rparr>,
     ten_config = TransportConfig_new ''http://gw/''\<rparr>"

theorem target_url_one_slash_witness: "target_url demo_transport (Some ''/a'') = ''http://gw/a''"
proof -
  have 1: "trim (envoy_url (ten_config demo_transport)) = ''http://gw/''" by code_simp
  have 2: "\<not> ends_with ''//'' ''http://gw/''" by code_simp
  from target_url_one_slash [OF 1 2, of "''/a''"] show ?thesis
    by (simp add: trim_end_matches_def strip_prefix_def starts_with_def)
qed

section \<open>A submitted artifact at the gateway\<close>

lemma artifact_header_values:
  assumes "ten_config t = TransportConfig_new u"
  shows "map_of (artifact_headers t a) ''x-dzta-proof'' = non_blank (Some (pa_proof a))"
    "map_of (artifact_headers t a) ''x-dzta-public-inputs'' = non_blank (Some (pa_public_inputs a))"
    "map_of (artifact_headers t a) ''x-dzta-revocation-id'' = non_blank (pa_revocation_id a)"
  using assms
  by (auto simp: artifact_headers_def proof_headers_def TransportConfig_new_def
      default_proof_header_def default_public_inputs_header_def default_revocation_header_def
      split: option.split)

lemma artifact_admitted:
  assumes "ten_config t = TransportConfig_new u" "\<not> starts_with ''/_wasm_admin/revoke'' p"
  shows "eo_action (on_http_request_headers K refuses cfg
      ((map_of (artifact_headers t a))('':path'' \<mapsto> p)) s) = Continue \<longleftrightarrow>
    (\<exists>pvk rev_id. get_pvk K = Some pvk \<and> pa_revocation_id a = Some rev_id \<and>
       trim (pa_proof a) \<noteq> [] \<and> trim (pa_public_inputs a) \<noteq> [] \<and> trim rev_id \<noteq> [] \<and>
       s (revoked_key rev_id) \<noteq> Some (as_bytes ''true'') \<and>
       verify_zkp K pvk (pa_proof a) (pa_public_inputs a) = Inr True)"
  using assms(2) artifact_header_values [OF assms(1), of a]
  by (auto simp: continue_iff_admissible admissible_def header_or_default_def non_blank_def
      split: option.splits if_splits)

text \<open>
  Client and filter agree: an artifact submitted with the default header names to a public
  path passes the filter exactly when its proof, its public inputs and its revocation identifier
  are all present and not blank, the identifier is not marked revoked, and the proof verifies. An
  artifact without a revocation identifier never passes.
\<close>

theorem artifact_admitted_iff:
  assumes "ten_config t = TransportConfig_new u" "\<not> starts_with ''/_wasm_admin/revoke'' p"
  shows "eo_action (on_http_request_headers K refuses cfg
      ((map_of (artifact_headers t a))('':path'' \<mapsto> p)) s) = Continue \<longleftrightarrow>
    (\<exists>pvk rev_id. get_pvk K = Some pvk \<and> pa_revocation_id a = Some rev_id \<and>
       trim (pa_proof a) \<noteq> [] \<and> trim (pa_public_inputs a) \<noteq> [] \<and> trim rev_id \<noteq> [] \<and>
       s (revoked_key rev_id) \<noteq> Some (as_bytes ''true'') \<and>
       verify_zkp K pvk (pa_proof a) (pa_public_inputs a) = Inr True)"
  using artifact_admitted [OF assms] .

definition demo_artifact :: proof_artifact where
  "demo_artifact = artifact_with_revocation_id ''c1''
     (ProofArtifact_new \<lparr>dt_secs = 1, dt_nanos = 0\<rparr> ''r'' ''d'' ''e'' ''ab'' ''xy'')"

theorem artifact_admitted_iff_witness:
  "eo_action (on_http_request_headers demo_crypto (\<lambda>_. False) plugin_config_default
     ((map_of (artifact_headers demo_transport demo_artifact))('':path'' \<mapsto> ''/api'')) Map.empty) = Continue"
proof -
  have 1: "ten_config demo_transport = TransportConfig_new ''http://gw/''" by (simp add: demo_transport_def)
  have 2: "\<not> starts_with ''/_wasm_admin/revoke'' ''/api''" by (simp add: starts_with_def)
  have "trim ''ab'' \<noteq> []" "trim ''xy'' \<noteq> []" "trim ''c1'' \<noteq> []" by code_simp+
  then show ?thesis
    by (subst artifact_admitted_iff [OF 1 2])
      (simp add: demo_artifact_def artifact_with_revocation_id_def ProofArtifact_new_def demo_crypto_def get_pvk_def verify_zkp_def as_bytes_def)
qed

section \<open>Artifacts on the wire\<close>

definition btree_wf :: "(string \<times> 'v) list \<Rightarrow> bool" where
  "btree_wf m \<longleftrightarrow> sorted_wrt (<) (map fst m)"

lemma btree_insert_keys: "set (map fst (btree_insert k v m)) = insert k (set (map fst m))"
  by (induction k v m rule: btree_insert.induct) auto

lemma btree_insert_wf: "btree_wf m \<Longrightarrow> btree_wf (btree_insert k v m)"
proof (induction k v m rule: btree_insert.induct)
  case (2 k v k' v' kvs)
  then show ?case
    using btree_insert_keys [of k v kvs] by (auto simp: btree_wf_def)
qed (simp add: btree_wf_def)

lemma map_of_btree_insert: "btree_wf m \<Longrightarrow> map_of (btree_insert k v m) = (map_of m)(k \<mapsto> v)"
proof (induction k v m rule: btree_insert.induct)
  case (2 k v k' v' kvs)
  then show ?case by (auto simp: btree_wf_def)
qed simp

lemma btree_insert_last: "btree_wf (m @ [(k, v)]) \<Longrightarrow> btree_insert k v m = m @ [(k, v)]"
  by (induction m) (auto simp: btree_wf_def)

lemma dec_string_map_print:
  "btree_wf (m @ ms) \<Longrightarrow> dec_string_map (map (\<lambda>(k, v). (k, JString v)) ms) m = Inr (m @ ms)"
proof (induction ms arbitrary: m)
  case (Cons kv ms)
  obtain k v where kv: "kv = (k, v)" by (cases kv)
  have "btree_wf (m @ [(k, v)])" using Cons.prems kv by (auto simp: btree_wf_def sorted_wrt_append)
  then show ?case using Cons.IH [of "m @ [(k, v)]"] Cons.prems kv by (simp add: btree_insert_last)
qed simp

lemma artifact_json_roundtrip:
  assumes "\<And>d. te_parse_rfc3339 T (te_show_rfc3339 T d) = Some d" "btree_wf (pa_metadata a)"
  shows "dec_proof_artifact T (json_of_proof_artifact T a) = Inr a"
  using assms
  by (cases "pa_revocation_id a")
    (simp_all add: dec_proof_artifact_def json_of_proof_artifact_def json_opt_def json_of_metadata_def
      field_defs dec_option_def dec_datetime_def dec_string_map_print [of "[]", simplified])

end
