(* ===== verification/Pipeline.thy ===== *)
theory Pipeline
  imports Lifecycle ConfidentialRun Transport
begin

text \<open>
  All four layers in one flow, as \<open>src/dzta-e2e-tests/src/e2e_full_dzta_stack_pipeline.rs\<close> drives
  them: a credential is issued and stored, its encrypted record and the wallet's secrets are read
  back, a proof is made (in the enclave, in direct mode, or in process when the prover has not been
  built) and submitted to the gateway. To the network \<open>'w\<close> and the disk \<open>'v\<close> of theory \<open>Lifecycle\<close>
  comes the host \<open>'u\<close>: child processes, the environment and the connection to the gateway. The
  texts of panics are kept without their emoji and without the error they append.
\<close>

record ('p, 'u) host_env =
  spawn_command :: "string \<Rightarrow> string list \<Rightarrow> ('u, string, 'p) io"
  kill_child :: "'p \<Rightarrow> ('u, string, unit) io"
  thread_sleep :: "nat \<Rightarrow> 'u \<Rightarrow> 'u"
  host_exists :: "string \<Rightarrow> 'u \<Rightarrow> bool"
  host_create_dir_all :: "string \<Rightarrow> ('u, string, unit) io"
  host_env_var :: "string \<Rightarrow> string option"

section \<open>Port forwarding\<close>

definition forward_args :: "string \<Rightarrow> string list" where
  "forward_args ports = [''port-forward'', ''-n'', ''dzta-edge'', ''deployment/dzta-mec-edge-ingress'', ports]"

definition K8sPortForwardGuard_start :: "('p, 'u) host_env \<Rightarrow> ('u, test_stop, 'p \<times> 'p) io" where
  "K8sPortForwardGuard_start X =
     io_bind (expect ''Failed to start kubectl port-forward for port 10000''
       (spawn_command X ''kubectl'' (forward_args ''10000:10000''))) (\<lambda>ingress_child.
     io_bind (expect ''Failed to start kubectl port-forward for port 9909''
       (spawn_command X ''kubectl'' (forward_args ''9909:9909''))) (\<lambda>admin_child u.
     (Inr (ingress_child, admin_child), thread_sleep X 2 u)))"

definition K8sPortForwardGuard_drop :: "('p, 'u) host_env \<Rightarrow> 'p \<times> 'p \<Rightarrow> 'u \<Rightarrow> 'u" where
  "K8sPortForwardGuard_drop X g u = snd (kill_child X (snd g) (snd (kill_child X (fst g) u)))"

section \<open>Layer three\<close>

definition join_path :: "string \<Rightarrow> string \<Rightarrow> string" where
  "join_path p q = (if p = [] \<or> ends_with ''/'' p then p @ q else p @ ''/'' @ q)"

definition workspace_root :: "('p, 'u) host_env \<Rightarrow> string" where
  "workspace_root X =
     (let manifest_dir = (case host_env_var X ''CARGO_MANIFEST_DIR'' of Some d \<Rightarrow> d | None \<Rightarrow> ''.'')
      in case path_parent manifest_dir of Some d \<Rightarrow> d | None \<Rightarrow> ''.'')"

definition prover_target :: "('p, 'u) host_env \<Rightarrow> string" where
  "prover_target X = join_path (join_path (workspace_root X) ''target/release'') ''dzta-gramine-prover''"

definition prover_built :: "('p, 'u) host_env \<Rightarrow> 'u \<Rightarrow> bool" where
  "prover_built X u \<longleftrightarrow>
     host_exists X (prover_target X) u \<and> host_exists X (prover_target X @ ''.manifest'') u"

definition generate_test_proof ::
  "(bytes \<Rightarrow> string) \<Rightarrow> 'c prims \<Rightarrow> ('k, 'h, 'u) runner_env \<Rightarrow> ('p, 'u) host_env \<Rightarrow> bytes \<Rightarrow> bytes \<Rightarrow> bytes \<Rightarrow>
   string \<Rightarrow> ('u, test_stop, prover_output_response) io" where
  "generate_test_proof hex P R X raw_ciphertext db_key seed credential_id = (\<lambda>u.
     let proxy = \<lparr>target_path = prover_target X, run_mode = Auto\<rparr>
     in if prover_built X u then
          if is_hardware_backed (rn_device R) Auto u then
            expect ''Confidential Gramine proof execution failed''
              (prove_confidential_wallet_record_in_gramine R proxy raw_ciphertext
                (Some credential_id) 3) u
          else
            expect ''Direct Gramine proof execution failed''
              (prove_raw_wallet_record_in_gramine R proxy raw_ciphertext db_key
                (Some credential_id) 3 seed) u
        else
          expect ''Local unsealing failed''
            (io_bind (io_lift (unseal_and_derive_witness P raw_ciphertext db_key seed)) (\<lambda>wit.
             io_return \<lparr>x_dzta_proof = hex [0xAA, 0xBB, 0xCC, 0xDD],
               x_dzta_public_inputs = hex (dw_public_commitment wit), sgx_dcap_quote_hex = None\<rparr>)) u)"

section \<open>Layer four\<close>

definition submit_to_ingress ::
  "('k, 'u) http_env \<Rightarrow> 'u transport_env \<Rightarrow> string \<Rightarrow> prover_output_response \<Rightarrow> ('u, test_stop, unit) io" where
  "submit_to_ingress H T credential_id response =
     io_bind (io_lift (map_err (\<lambda>_. TestPanic ''Valid TransportConfig'')
       (TransportEngine_new H (TransportConfig_new ''http://127.0.0.1:10000'')))) (\<lambda>engine u.
     let (uuid, u1) = te_new_uuid T u;
         request = request_with_revocation_id credential_id
           (request_with_proof (x_dzta_proof response) (x_dzta_public_inputs response)
             (ProofRequest_new uuid ''verify_enclave_attestation'' ''edge-device-node-01'' ''edge-cluster-alpha''))
     in case submit_proof_request H T engine request u1 of
          (Inr envelope, u2) \<Rightarrow>
            (if pe_status envelope = ''accepted'' then Inr () else Inl (TestPanic ''assert_eq status''), u2)
        | (Inl (Rejected status body), u2) \<Rightarrow>
            (Inl (TestPanic ''[L4 FAILURE] Envoy Wasm Filter rejected proof.''), u2)
        | (Inl err, u2) \<Rightarrow> (Inl (TestPanic ''[L4 NETWORK FAILURE] Network transport to Envoy failed''), u2))"

text \<open>The guard lives to the end of the test, whether that is reached or left by a panic.\<close>

definition guarded_submit ::
  "('p, 'u) host_env \<Rightarrow> ('k, 'u) http_env \<Rightarrow> 'u transport_env \<Rightarrow> (string \<Rightarrow> ('v, string, unit) io) \<Rightarrow>
   string \<Rightarrow> string \<Rightarrow> prover_output_response \<Rightarrow> (('w \<times> 'v) \<times> 'u, test_stop, unit) io" where
  "guarded_submit X H T remove_file db_path credential_id response =
     io_bind (on_disk (K8sPortForwardGuard_start X)) (\<lambda>pf_guard s.
     case io_bind (on_disk (submit_to_ingress H T credential_id response)) (\<lambda>_.
          io_bind (on_net (on_disk (io_result (remove_file db_path)))) (\<lambda>_. io_return ())) s of
       (r, (wv, u)) \<Rightarrow> (r, (wv, K8sPortForwardGuard_drop X pf_guard u)))"

section \<open>The test\<close>

definition pad_seed :: "bytes \<Rightarrow> bytes" where
  "pad_seed zkp_seed_bytes =
     (let copy_len = min (length zkp_seed_bytes) 32
      in take copy_len zkp_seed_bytes @ replicate (32 - copy_len) 0)"

definition wallet_secrets ::
  "('s, 't, 'v) askar \<Rightarrow> 's wallet \<Rightarrow> string \<Rightarrow> ('v, test_stop, bytes \<times> bytes \<times> bytes) io" where
  "wallet_secrets A wal credential_id =
     io_bind (expect ''Failed to fetch raw encrypted record from Askar''
       (fetch_raw_encrypted_record A wal credential_id)) (\<lambda>raw_ciphertext.
     io_bind (expect ''Failed to retrieve cached Askar passphrase''
       (io_lift (get_askar_passphrase wal))) (\<lambda>db_key.
     io_bind (expect ''Failed to retrieve ZKP master seed''
       (get_or_create_zkp_secret_seed A wal)) (\<lambda>zkp_seed_bytes.
     io_return (raw_ciphertext, db_key, pad_seed zkp_seed_bytes))))"

definition test_full_dzta_stack_e2e_pipeline ::
  "('h, 'w) sdk \<Rightarrow> 'w issuer_env \<Rightarrow> 'c prims \<Rightarrow> ('s, 't, 'v) askar \<Rightarrow> (string \<Rightarrow> ('v, string, unit) io) \<Rightarrow>
   ('k, 'i, 'u) runner_env \<Rightarrow> ('p, 'u) host_env \<Rightarrow> ('k2, 'u) http_env \<Rightarrow> 'u transport_env \<Rightarrow>
   (('w \<times> 'v) \<times> 'u, test_stop, unit) io" where
  "test_full_dzta_stack_e2e_pipeline S I P A remove_file R X H T =
     (let db_path = ''target/debug/test_full_stack_askar.db'' in
     io_bind (on_net (test_setup S I A remove_file db_path ''Failed to initialize Askar wallet store''))
       (\<lambda>(fabric, wal, seed, issuer_did).
     let iss = \<lparr>iss_fabric = fabric, iss_signer = local_signer I seed\<rparr> in
     io_bind (on_net (on_net (io_result
       (issuer_register_did S iss issuer_did issuer_did (public_key_multibase_value I seed))))) (\<lambda>_.
     io_bind (on_net (on_net (io_result
       (issuer_register_did S iss test_subject issuer_did ''ed25519_public_key_bytes_placeholder'')))) (\<lambda>_.
     io_bind (on_net (on_net (expect_tx ''Failed to register schema''
       (issuer_register_schema S I iss issuer_did ''SecurityClearanceTemplate'' ''1.0.0'' test_schema)))) (\<lambda>schema_id.
     io_bind (on_net (on_net (issue_test_credential S I iss ''Failed to create credential''
       schema_id issuer_did))) (\<lambda>stored_credential.
     io_bind (on_net (on_disk (expect ''Failed to deliver credential to holder wallet''
       (store_credential P A wal (ic_credential_id stored_credential)
         (ic_credential_data stored_credential))))) (\<lambda>_.
     let credential_id = ic_credential_id stored_credential in
     io_bind (on_net (on_disk (wallet_secrets A wal credential_id)))
       (\<lambda>(raw_ciphertext, db_key, zkp_seed).
     io_bind (on_disk (generate_test_proof (hex_encode S) P R X raw_ciphertext db_key
       zkp_seed credential_id)) (\<lambda>response.
     guarded_submit X H T remove_file db_path credential_id response)))))))))"

section \<open>Proofs without the prover\<close>

text \<open>
  A wallet record begins with \<open>DZTA1\<close>; combined with the passphrase of the test it begins with
  \<open>7/\<close>, which no JSON text does.
\<close>

definition no_json_after :: "bytes \<Rightarrow> json_parser \<Rightarrow> bool" where
  "no_json_after start parse \<longleftrightarrow> (\<forall>rest. \<exists>e. parse (start @ rest) = Inl e)"

lemma take_xor_cycle:
  "n \<le> length raw \<Longrightarrow> key \<noteq> [] \<Longrightarrow> take n (xor_cycle raw key) = xor_cycle (take n raw) key"
  by (rule nth_equalityI) (simp_all add: xor_cycle_def)

lemma xor_of_record:
  assumes "take 5 env = WALLET_RECORD_MAGIC" "5 \<le> length env"
  shows "\<exists>rest. xor_cycle env (as_bytes ''super_secure_passphrase_123'') = as_bytes ''7/'' @ rest"
proof -
  define key where "key = as_bytes ''super_secure_passphrase_123''"
  have key: "key \<noteq> []" by (simp add: key_def as_bytes_def)
  have "take 2 (take 5 env) = take 2 WALLET_RECORD_MAGIC" using assms(1) by simp
  then have "take 2 env = take 2 WALLET_RECORD_MAGIC" by simp
  moreover have "xor_cycle (take 2 WALLET_RECORD_MAGIC) key = as_bytes ''7/''"
    unfolding key_def by code_simp
  ultimately have "take 2 (xor_cycle env key) = as_bytes ''7/''"
    using take_xor_cycle [OF _ key, of 2 env] assms(2) by simp
  then show ?thesis unfolding key_def by (metis append_take_drop_id)
qed

lemma issued_not_parsed_without_id:
  assumes run: "create_credential S I iss sid did sub attrs expires w = (Inr cred, w')"
    and ts: "i64_ok (timestamp attrs)" and law: "print_parse_law pr (json_parse P)"
  shows "\<exists>e. parse_credential_subject P (pr (ic_credential_data cred)) None = Inl e"
proof -
  have "json_wf (ic_credential_data cred)" using issued_credential_wf [OF run ts] by simp
  then have parse: "json_parse P (pr (ic_credential_data cred)) = Inr (ic_credential_data cred)"
    using law by (simp add: print_parse_law_def)
  from run obtain t dt sig where data: "ic_credential_data cred = json_insert ''proof''
         (JObject (proof_options I did t @ [(''proofValue'', JString sig)]))
         (unsigned_credential I did t dt (credential_subject sub attrs))"
    by (elim create_credential_InrE) simp
  have "\<exists>e. dec_subject (ic_credential_data cred) = Inl e"
    unfolding data by (simp add: unsigned_credential_def dec_subject_def field_defs)
  then obtain e where "dec_subject (ic_credential_data cred) = Inl e" ..
  then show ?thesis
    using parse unfolding data
    by (simp add: parse_credential_subject_def from_slice_def dec_value_def unsigned_credential_def
        credential_subject_def)
qed

lemma in_process_unsealing_fails:
  assumes P: "sha_law P" "gcm_law P" "no_json_after (as_bytes ''7/'') (json_parse P)"
    and enc: "length nonce = 12" "encrypt_wallet_record P (Inr nonce) pt (as_bytes ''super_secure_passphrase_123'') = Inr env"
    and pt: "parse_credential_subject P pt None = Inl e"
  shows "\<exists>e. unseal_and_derive_witness P env (as_bytes ''super_secure_passphrase_123'') zkp_seed = Inl e"
proof -
  obtain ct tag where env: "env = WALLET_RECORD_MAGIC @ nonce @ ct @ tag"
    using encrypt_succeeds [OF P(1,2) enc(1), of pt "as_bytes ''super_secure_passphrase_123''"] enc(2) by auto
  then obtain rest where "xor_cycle env (as_bytes ''super_secure_passphrase_123'') = as_bytes ''7/'' @ rest"
    using xor_of_record [of env] by auto
  with P(3) obtain e' where
    "json_parse P (xor_cycle env (as_bytes ''super_secure_passphrase_123'')) = Inl e'"
    unfolding no_json_after_def by metis
  with encrypted_record_decrypts [OF P(1,2) enc] pt show ?thesis
    by (simp add: unseal_and_derive_witness_def unseal_cases from_slice_def)
qed

section \<open>What the wallet hands over\<close>

lemma pad_seed_eq: "pad_seed z = take 32 (z @ replicate 32 0)"
  by (cases "length z \<le> 32") (simp_all add: pad_seed_def Let_def min_def)

lemma wallet_secrets_Inr:
  assumes law: "askar_law A contents owner" and st: "askar_store wal = Some s"
    and run: "wallet_secrets A wal c v = (Inr (raw, key, seed), v')"
  shows "get_askar_passphrase wal = Inr key"
    and "\<exists>z tags. contents s v' (''keys'', ''master_zkp_seed'') = Some (z, tags) \<and>
      seed = take 32 (z @ replicate 32 0)"
    and "\<exists>tags. contents s v (''credentials'', c) = Some (raw, tags) \<and>
      contents s v' (''credentials'', c) = Some (raw, tags)"
proof -
  from run obtain v1 z where raw: "fetch_raw_encrypted_record A wal c v = (Inr raw, v1)"
    and key: "get_askar_passphrase wal = Inr key"
    and z: "get_or_create_zkp_secret_seed A wal v1 = (Inr z, v')" "seed = pad_seed z"
    by (auto simp: wallet_secrets_def io_Inr)
  obtain t v3 where "fetch_entry A wal (CredentialNotFound c) ''credentials'' c v =
       (case contents s v (''credentials'', c) of None \<Rightarrow> Inl (CredentialNotFound c) | Some (x, _) \<Rightarrow> Inr (t, x), v3)"
    and kept: "\<forall>s'. contents s' v3 = contents s' v"
    by (rule fetch_entry_eq [OF law st, where w = v and absent = "CredentialNotFound c"
        and c = "''credentials''" and k = c]) blast
  with raw have "(\<exists>tags. contents s v (''credentials'', c) = Some (raw, tags)) \<and> v1 = v3"
    by (auto simp: fetch_raw_encrypted_record_def io_Inr split: option.splits)
  then show "\<exists>tags. contents s v (''credentials'', c) = Some (raw, tags) \<and>
      contents s v' (''credentials'', c) = Some (raw, tags)"
    using seed_call_Inr(3) [OF law st z(1), of "(''credentials'', c)"] kept by simp
  show "get_askar_passphrase wal = Inr key" by (rule key)
  show "\<exists>z tags. contents s v' (''keys'', ''master_zkp_seed'') = Some (z, tags) \<and>
      seed = take 32 (z @ replicate 32 0)"
    using seed_call_Inr(1) [OF law st z(1)] z(2) pad_seed_eq by blast
qed

section \<open>How the test can pass\<close>

text \<open>
  A prover that runs in the clear: it is started with \<open>gramine-direct\<close>, one JSON object is written to
  it, it ends successfully, and one line of its standard output is the response.
\<close>

definition direct_prover_run ::
  "('k, 'h, 'u) runner_env \<Rightarrow> json \<Rightarrow> prover_output_response \<Rightarrow> 'u \<Rightarrow> 'u \<Rightarrow> bool" where
  "direct_prover_run R written response u u' \<longleftrightarrow>
     (\<exists>arg dir child u1 u2 out printed l. spawn R ''gramine-direct'' arg dir u = (Inr child, u1) \<and>
        child_write_all R child (as_bytes (rn_json_print R written)) u1 = (Inr (), u2) \<and>
        wait_with_output R child u2 = (Inr out, u') \<and> co_success out \<and>
        from_utf8 (co_stdout out) = Some printed \<and> l \<in> set (str_lines printed) \<and> in_braces (trim l) \<and>
        from_slice (he_json_parse (rn_http R)) dec_prover_output (as_bytes (trim l)) = Inr response)"

text \<open>
  A gateway that accepts: it is sent the proof, the public inputs and the identifier, in the body
  and, unless they are blank, in the headers, and answers with a success status and an envelope
  whose status is \<open>accepted\<close>.
\<close>

definition unless_blank :: "string \<Rightarrow> string option" where
  "unless_blank v = (if trim v = [] then None else Some v)"

definition gateway_accepts ::
  "('k, 'u) http_env \<Rightarrow> 'u transport_env \<Rightarrow> string \<Rightarrow> prover_output_response \<Rightarrow> 'u \<Rightarrow> 'u \<Rightarrow> bool" where
  "gateway_accepts H T cid response u u' \<longleftrightarrow>
     (\<exists>uuid u1 cl q resp u2 body uuid' env. te_new_uuid T u = (uuid, u1) \<and>
        http_send H cl q u1 = (Inr resp, u2) \<and> hq_method q = ''POST'' \<and>
        hq_url q = ''http://127.0.0.1:10000/api/v1/resource'' \<and>
        hq_json q = Some (JObject [(''request_id'', JString uuid),
          (''device_id'', JString ''edge-device-node-01''), (''edge_id'', JString ''edge-cluster-alpha''),
          (''action'', JString ''verify_enclave_attestation''), (''payload'', JObject []),
          (''proof'', JString (x_dzta_proof response)),
          (''public_inputs'', JString (x_dzta_public_inputs response)),
          (''revocation_id'', JString cid), (''metadata'', JObject [])]) \<and>
        map_of (hq_headers q) ''x-dzta-proof'' = unless_blank (x_dzta_proof response) \<and>
        map_of (hq_headers q) ''x-dzta-public-inputs'' = unless_blank (x_dzta_public_inputs response) \<and>
        map_of (hq_headers q) ''x-dzta-revocation-id'' = unless_blank cid \<and>
        200 \<le> hp_status resp \<and> hp_status resp < 300 \<and> hp_body resp = Inr body \<and>
        te_new_uuid T u2 = (uuid', u') \<and>
        from_slice (he_json_parse H) (dec_proof_envelope T uuid' (te_now T u'))
          (as_bytes (text_of H body)) = Inr env \<and> pe_status env = ''accepted'')"

lemma local_target_url:
  "ten_config t = TransportConfig_new ''http://127.0.0.1:10000'' \<Longrightarrow>
    target_url t None = ''http://127.0.0.1:10000/api/v1/resource''"
proof -
  assume cfg: "ten_config t = TransportConfig_new ''http://127.0.0.1:10000''"
  have "trim ''http://127.0.0.1:10000'' = ''http://127.0.0.1:10000''"
    "\<not> ends_with ''/'' ''http://127.0.0.1:10000''" by code_simp+
  then show ?thesis
    by (simp add: target_url_def cfg TransportConfig_new_def default_request_path_def starts_with_def)
qed

lemma handle_response_Inr:
  assumes "handle_response H T resp u = (Inr env, u')"
  shows "\<exists>body uuid. 200 \<le> hp_status resp \<and> hp_status resp < 300 \<and> hp_body resp = Inr body \<and>
    te_new_uuid T u = (uuid, u') \<and>
    from_slice (he_json_parse H) (dec_proof_envelope T uuid (te_now T u')) (as_bytes (text_of H body)) = Inr env"
proof -
  have st: "is_success (hp_status resp)" using assms by (auto simp: handle_response_def split: if_splits)
  obtain uuid u1 where uuid: "te_new_uuid T u = (uuid, u1)" by fastforce
  with assms st have "parse_response H (dec_proof_envelope T uuid (te_now T u')) resp = Inr env" "u1 = u'"
    by (auto simp: handle_response_def)
  with uuid st show ?thesis by (auto simp: parse_response_def bind_res_Inr_iff map_err_Inr_iff is_success_def)
qed

lemma submitted_headers:
  assumes "ten_config t = TransportConfig_new ''http://127.0.0.1:10000''"
  shows "map_of ([(''Content-Type'', x0), (''X-DZTA-Request-Id'', x1), (''X-DZTA-Device-Id'', x2),
      (''X-DZTA-Edge-Id'', x3), (''X-DZTA-Action'', x4)] @
      proof_headers t \<lparr>hb_proof = Some p, hb_public_inputs = Some i, hb_revocation_id = Some c\<rparr>) k =
    (if k = ''x-dzta-proof'' then unless_blank p else if k = ''x-dzta-public-inputs'' then unless_blank i
     else if k = ''x-dzta-revocation-id'' then unless_blank c
     else map_of [(''Content-Type'', x0), (''X-DZTA-Request-Id'', x1), (''X-DZTA-Device-Id'', x2),
      (''X-DZTA-Edge-Id'', x3), (''X-DZTA-Action'', x4)] k)"
  by (simp add: assms proof_headers_def non_blank_def unless_blank_def TransportConfig_new_def
      default_proof_header_def default_public_inputs_header_def default_revocation_header_def)

lemma submit_to_ingress_Inr:
  assumes "submit_to_ingress H T cid response u = (Inr (), u')"
  shows "gateway_accepts H T cid response u u'"
proof -
  obtain uuid u1 where uuid: "te_new_uuid T u = (uuid, u1)" by fastforce
  define request where "request = request_with_revocation_id cid
    (request_with_proof (x_dzta_proof response) (x_dzta_public_inputs response)
      (ProofRequest_new uuid ''verify_enclave_attestation'' ''edge-device-node-01'' ''edge-cluster-alpha''))"
  from assms obtain engine where
    eng: "TransportEngine_new H (TransportConfig_new ''http://127.0.0.1:10000'') = Inr engine"
    unfolding submit_to_ingress_def by (auto simp: io_Inr)
  obtain r u3 where r: "submit_proof_request H T engine request u1 = (r, u3)" by fastforce
  have "(case r of Inr envelope \<Rightarrow> u3 = u' \<and> pe_status envelope = ''accepted'' | Inl e \<Rightarrow> False)"
    using assms r unfolding submit_to_ingress_def
    by (cases r) (auto simp: io_bind_def io_lift_def eng uuid request_def
        split: if_splits transport_error.splits)
  then obtain env where sub: "submit_proof_request H T engine request u1 = (Inr env, u')"
    and acc: "pe_status env = ''accepted''"
    using r by (auto split: sum.splits)
  from eng have cfg: "ten_config engine = TransportConfig_new ''http://127.0.0.1:10000''"
    by (auto simp: TransportEngine_new_def Let_def bind_res_Inr_iff)
  from sub obtain cl q resp u2 where
    sent: "http_send H cl q u1 = (Inr resp, u2)" and hr: "handle_response H T resp u2 = (Inr env, u')" and
    post: "hq_method q = ''POST''" "hq_url q = target_url engine None"
    "hq_json q = Some (json_of_proof_request request)" and
    hs: "hq_headers q = [(''Content-Type'', ''application/json''), (''X-DZTA-Request-Id'', pq_request_id request),
       (''X-DZTA-Device-Id'', pq_device_id request), (''X-DZTA-Edge-Id'', pq_edge_id request),
       (''X-DZTA-Action'', pq_action request)] @ proof_headers engine
       \<lparr>hb_proof = Some (x_dzta_proof response), hb_public_inputs = Some (x_dzta_public_inputs response),
        hb_revocation_id = Some cid\<rparr>"
    by (fastforce simp: submit_proof_request_def send_def io_Inr request_def request_with_revocation_id_def
        request_with_proof_def)
  have body: "json_of_proof_request request = JObject [(''request_id'', JString uuid),
          (''device_id'', JString ''edge-device-node-01''), (''edge_id'', JString ''edge-cluster-alpha''),
          (''action'', JString ''verify_enclave_attestation''), (''payload'', JObject []),
          (''proof'', JString (x_dzta_proof response)),
          (''public_inputs'', JString (x_dzta_public_inputs response)),
          (''revocation_id'', JString cid), (''metadata'', JObject [])]"
    by (simp add: request_def json_of_proof_request_def json_opt_def json_of_metadata_def ProofRequest_new_def
        request_with_proof_def request_with_revocation_id_def)
  have "map_of (hq_headers q) ''x-dzta-proof'' = unless_blank (x_dzta_proof response)"
    "map_of (hq_headers q) ''x-dzta-public-inputs'' = unless_blank (x_dzta_public_inputs response)"
    "map_of (hq_headers q) ''x-dzta-revocation-id'' = unless_blank cid"
    unfolding hs submitted_headers [OF cfg] by simp_all
  then show ?thesis
    unfolding gateway_accepts_def using uuid acc sent post body local_target_url [OF cfg]
      handle_response_Inr [OF hr]
    by (intro exI [of _ uuid] exI [of _ u1] exI [of _ cl] exI [of _ q] exI [of _ resp] exI [of _ u2]) auto
qed

lemma direct_proof_Inr:
  assumes run: "prove_raw_wallet_record_in_gramine R g raw key cid required seed u = (Inr response, u')"
    and mode: "run_mode g = Auto" "\<not> is_hardware_backed (rn_device R) Auto u"
  shows "direct_prover_run R (json_of_ingestion_payload
      \<lparr>raw_wallet_ciphertext = raw, wallet_db_key = Some key, payload_credential_id = cid,
       payload_required_clearance = required, master_seed = Some seed\<rparr>) response u u'"
proof -
  have res: "resolve (rn_device R) Auto u = ''gramine-direct''"
    using mode(2) by (auto simp: is_hardware_backed_def resolve_def)
  from run obtain child u1 u2 out printed line where
    "start_child R g (\<lambda>b. ''Failed to spawn `'' @ b @
       ''` executable. Ensure Gramine is installed in PATH.'') u = (Inr child, u1)"
    "child_write_all R child (as_bytes (rn_json_print R (json_of_ingestion_payload
      \<lparr>raw_wallet_ciphertext = raw, wallet_db_key = Some key, payload_credential_id = cid,
       payload_required_clearance = required, master_seed = Some seed\<rparr>))) u1 = (Inr (), u2)"
    "wait_with_output R child u2 = (Inr out, u')" "co_success out"
    "from_utf8 (co_stdout out) = Some printed"
    and line: "find looks_like_json (map trim (str_lines printed)) = Some line"
    and parsed: "parse_line R dec_prover_output
         ''Failed to parse ProverOutputResponse JSON from Gramine stdout'' line = Inr response"
    by (auto simp: prove_raw_wallet_record_in_gramine_def execute_proof_def io_Inr ok_or_Inr_iff split: if_splits)
  moreover have "looks_like_json line \<and> line \<in> set (map trim (str_lines printed))"
    using line unfolding find_Some_iff by (metis nth_mem)
  then obtain l where "l \<in> set (str_lines printed)" "line = trim l" "in_braces line"
    by (auto simp: looks_like_json_iff)
  moreover have "\<exists>arg dir. spawn R ''gramine-direct'' arg dir u = (Inr child, u1)"
    using calculation(1) by (auto simp: start_child_def res mode(1) io_Inr Let_def)
  ultimately show ?thesis
    unfolding direct_prover_run_def by (fastforce simp: parse_line_def map_err_Inr_iff)
qed

lemma pipeline_run:
  assumes run: "test_full_dzta_stack_e2e_pipeline S I P A rm R X H T ((w, v), u) = (Inr (), wvu)"
  obtains v0 iss wal sid did cred w1 w2 va v2 v3 s raw key seed response u1 where
    "initialize A (Wallet_new ''target/debug/test_full_stack_askar.db'') ''super_secure_passphrase_123'' v0 = (Inr wal, va)"
    "askar_passphrase wal = Some ''super_secure_passphrase_123''" "askar_store wal = Some s"
    "issue_test_credential S I iss ''Failed to create credential'' sid did w1 = (Inr cred, w2)"
    "store_credential P A wal (ic_credential_id cred) (ic_credential_data cred) va = (Inr (), v2)"
    "wallet_secrets A wal (ic_credential_id cred) v2 = (Inr (raw, key, seed), v3)"
    "generate_test_proof (hex_encode S) P R X raw key seed (ic_credential_id cred) u = (Inr response, u1)"
    "guarded_submit X H T rm ''target/debug/test_full_stack_askar.db'' (ic_credential_id cred) response
       ((w2, v3), u1) = (Inr (), wvu)"
proof -
  from run obtain fabric wal seed0 did wv where
    set: "test_setup S I A rm ''target/debug/test_full_stack_askar.db''
      ''Failed to initialize Askar wallet store'' (w, v) = (Inr (fabric, wal, seed0, did), wv)"
    by (cases wvu) (auto simp: test_full_dzta_stack_e2e_pipeline_def Let_def io_Inr split: prod.splits)
  obtain wa va where wv: "wv = (wa, va)" by fastforce
  from set obtain v0 where ini: "initialize A (Wallet_new ''target/debug/test_full_stack_askar.db'')
      ''super_secure_passphrase_123'' v0 = (Inr wal, va)"
    unfolding test_setup_def wv by (auto simp: io_Inr)
  obtain s where "askar_store wal = Some s" "askar_passphrase wal = Some ''super_secure_passphrase_123''"
    using initialize_opens [OF ini] by blast
  with run set ini show thesis
    by (cases wvu) (auto simp: test_full_dzta_stack_e2e_pipeline_def Let_def io_Inr wv intro!: that)
qed

lemma guarded_submit_Inr:
  assumes "guarded_submit X H T rm db cid response ((w, v), u) = (Inr (), ((w', v'), u'))"
  shows "\<exists>g u1 u2. K8sPortForwardGuard_start X u = (Inr g, u1) \<and> gateway_accepts H T cid response u1 u2 \<and>
    w' = w \<and> v' = snd (rm db v) \<and> u' = K8sPortForwardGuard_drop X g u2"
proof -
  obtain r u1 where "K8sPortForwardGuard_start X u = (r, u1)" by fastforce
  with assms obtain g where g: "K8sPortForwardGuard_start X u = (Inr g, u1)"
    by (cases r) (auto simp: guarded_submit_def on_disk_def res_simps)
  obtain r2 u2 where sub: "submit_to_ingress H T cid response u1 = (r2, u2)" by fastforce
  from assms g sub have "r2 = Inr ()" "w' = w" "v' = snd (rm db v)" "u' = K8sPortForwardGuard_drop X g u2"
    by (cases r2; auto simp: guarded_submit_def on_disk_def on_net_def res_simps)+
  with g sub submit_to_ingress_Inr [of H T cid response u1 u2] show ?thesis by blast
qed

lemma generated_in_direct_mode:
  assumes gen: "generate_test_proof hex P R X raw key seed cid u = (Inr response, u1)"
    and unseal: "unseal_and_derive_witness P raw key seed = Inl e"
    and conf: "\<And>g ct cid lvl u0 out. fst (prove_confidential_wallet_record_in_gramine R g ct cid lvl u0) \<noteq> Inr out"
  shows "\<not> is_hardware_backed (rn_device R) Auto u \<and>
    prove_raw_wallet_record_in_gramine R \<lparr>target_path = prover_target X, run_mode = Auto\<rparr> raw key
      (Some cid) 3 seed u = (Inr response, u1)"
proof -
  have built: "prover_built X u"
  proof (rule ccontr)
    assume "\<not> prover_built X u"
    with gen unseal show False
      by (simp add: generate_test_proof_def Let_def expect_def res_simps)
  qed
  show ?thesis
  proof (cases "is_hardware_backed (rn_device R) Auto u")
    case True
    with gen built have "prove_confidential_wallet_record_in_gramine R
        \<lparr>target_path = prover_target X, run_mode = Auto\<rparr> raw (Some cid) 3 u = (Inr response, u1)"
      by (simp add: generate_test_proof_def Let_def)
    with conf show ?thesis by (metis fst_conv)
  next
    case False
    with gen built show ?thesis by (simp add: generate_test_proof_def Let_def)
  qed
qed

text \<open>
  C3. The full pipeline can pass in one way only. The wallet's record of the issued credential, which
  decrypts to that credential, is handed to a prover started with \<open>gramine-direct\<close>, and in the same
  JSON object the wallet's passphrase and its master seed, cut or padded to 32 bytes, are written
  in clear to that process. The response it prints is then what the gateway accepts: a POST whose
  body carries exactly this proof, these public inputs and the identifier of the issued
  credential, whose three headers carry them too unless they are blank, and whose answer is a success
  with status \<open>accepted\<close>. At the end the database file has been removed and the port forwards
  killed. The confidential branch never completes against this repository's broker, and the
  in-process branch always fails, because it unseals a W3C credential without its identifier.
  The laws assumed are those of the store, of SHA-256, AES-GCM and serde, that no JSON text begins
  with \<open>7/\<close>, a clock within \<open>i64\<close>, and a broker reached over HTTP that runs this repository's service.
\<close>

theorem pipeline_passes_only_in_the_clear:
  assumes disk: "askar_law A contents owner" "sha_law P" "gcm_law P"
      "print_parse_law (value_print A) (json_parse P)" "no_json_after (as_bytes ''7/'') (json_parse P)"
    and clock: "\<And>w. i64_ok (dt_secs (ie_now I w))"
    and broker: "answered_by R (broker_service Ax E Q state)" "axum_law Ax"
    and run: "test_full_dzta_stack_e2e_pipeline S I P A rm R X H T ((w, v), u) = (Inr (), wvu)"
  shows "\<exists>v0 wal va s iss sid did cred w1 w2 v3 raw tags z tags' response u1 g u2 u3.
    initialize A (Wallet_new ''target/debug/test_full_stack_askar.db'') ''super_secure_passphrase_123'' v0 =
      (Inr wal, va) \<and> askar_store wal = Some s \<and>
    issue_test_credential S I iss ''Failed to create credential'' sid did w1 = (Inr cred, w2) \<and>
    contents s v3 (''credentials'', ic_credential_id cred) = Some (raw, tags) \<and>
    decrypt_wallet_record P raw (as_bytes ''super_secure_passphrase_123'') =
      Inr (value_print A (ic_credential_data cred)) \<and>
    contents s v3 (''keys'', ''master_zkp_seed'') = Some (z, tags') \<and>
    direct_prover_run R (JObject
      [(''raw_wallet_ciphertext'', json_of_bytes raw),
       (''wallet_db_key'', json_of_bytes (as_bytes ''super_secure_passphrase_123'')),
       (''credential_id'', JString (ic_credential_id cred)),
       (''required_clearance_level'', JNumber (PosInt 3)),
       (''master_seed'', json_of_bytes (take 32 (z @ replicate 32 0)))]) response u u1 \<and>
    K8sPortForwardGuard_start X u1 = (Inr g, u2) \<and>
    gateway_accepts H T (ic_credential_id cred) response u2 u3 \<and>
    wvu = ((w2, snd (rm ''target/debug/test_full_stack_askar.db'' v3)), K8sPortForwardGuard_drop X g u3)"
proof -
  obtain v0 iss wal sid did cred w1 w2 va v2 v3 s raw key seed response u1 where
    ini: "initialize A (Wallet_new ''target/debug/test_full_stack_askar.db'') ''super_secure_passphrase_123'' v0 = (Inr wal, va)"
    and wal: "askar_passphrase wal = Some ''super_secure_passphrase_123''" "askar_store wal = Some s"
    and issue: "issue_test_credential S I iss ''Failed to create credential'' sid did w1 = (Inr cred, w2)"
    and store: "store_credential P A wal (ic_credential_id cred) (ic_credential_data cred) va = (Inr (), v2)"
    and secrets: "wallet_secrets A wal (ic_credential_id cred) v2 = (Inr (raw, key, seed), v3)"
    and gen: "generate_test_proof (hex_encode S) P R X raw key seed (ic_credential_id cred) u = (Inr response, u1)"
    and sub: "guarded_submit X H T rm ''target/debug/test_full_stack_askar.db'' (ic_credential_id cred) response
       ((w2, v3), u1) = (Inr (), wvu)"
    by (rule pipeline_run [OF run])
  from wallet_secrets_Inr(1) [OF disk(1) wal(2) secrets] wal(1)
  have key: "key = as_bytes ''super_secure_passphrase_123''" by (auto simp: get_askar_passphrase_def)
  obtain z tags' where z: "contents s v3 (''keys'', ''master_zkp_seed'') = Some (z, tags')"
    "seed = take 32 (z @ replicate 32 0)"
    using wallet_secrets_Inr(2) [OF disk(1) wal(2) secrets] by blast
  obtain tags where raw: "contents s v2 (''credentials'', ic_credential_id cred) = Some (raw, tags)"
    "contents s v3 (''credentials'', ic_credential_id cred) = Some (raw, tags)"
    using wallet_secrets_Inr(3) [OF disk(1) wal(2) secrets] by blast
  from store_credential_Inr [OF disk(1) wal(2,1) store] raw(1) obtain nonce where
    enc: "length nonce = 12" "encrypt_wallet_record P (Inr nonce) (value_print A (ic_credential_data cred))
      (as_bytes ''super_secure_passphrase_123'') = Inr raw" by auto
  define now where "now = dt_secs (ie_now I w1)"
  from issue obtain expires where create: "create_credential S I iss sid did test_subject (test_payload now)
      expires w1 = (Inr cred, w2)"
    by (simp add: issue_test_credential_def Let_def now_def)
  have "i64_ok (timestamp (test_payload now))" using clock by (simp add: test_payload_def now_def)
  from issued_not_parsed_without_id [OF create this disk(4)] in_process_unsealing_fails [OF disk(2,3,5) enc]
  obtain e where "unseal_and_derive_witness P raw key seed = Inl e" unfolding key by blast
  moreover have "fst (prove_confidential_wallet_record_in_gramine R g ct cid lvl u0) \<noteq> Inr out" for g ct cid lvl u0 out
    using confidential_never_completes [OF broker] by blast
  ultimately have "\<not> is_hardware_backed (rn_device R) Auto u \<and>
      prove_raw_wallet_record_in_gramine R \<lparr>target_path = prover_target X, run_mode = Auto\<rparr> raw key
        (Some (ic_credential_id cred)) 3 seed u = (Inr response, u1)"
    by (rule generated_in_direct_mode [OF gen])
  then have "direct_prover_run R (json_of_ingestion_payload
      \<lparr>raw_wallet_ciphertext = raw, wallet_db_key = Some key, payload_credential_id = Some (ic_credential_id cred),
       payload_required_clearance = 3, master_seed = Some seed\<rparr>) response u u1"
    by (intro direct_proof_Inr) auto
  then have "direct_prover_run R (JObject
      [(''raw_wallet_ciphertext'', json_of_bytes raw),
       (''wallet_db_key'', json_of_bytes (as_bytes ''super_secure_passphrase_123'')),
       (''credential_id'', JString (ic_credential_id cred)),
       (''required_clearance_level'', JNumber (PosInt 3)),
       (''master_seed'', json_of_bytes (take 32 (z @ replicate 32 0)))]) response u u1"
    by (simp add: json_of_ingestion_payload_def key z(2))
  moreover obtain g u2 u3 where "K8sPortForwardGuard_start X u1 = (Inr g, u2)"
    "gateway_accepts H T (ic_credential_id cred) response u2 u3"
    "wvu = ((w2, snd (rm ''target/debug/test_full_stack_askar.db'' v3)), K8sPortForwardGuard_drop X g u3)"
    using sub guarded_submit_Inr [of X H T rm _ "ic_credential_id cred" response w2 v3 u1]
    by (cases wvu; cases "fst wvu") fastforce
  ultimately show ?thesis
    using ini wal(2) issue raw(2) encrypted_record_decrypts [OF disk(2,3) enc] z(1) by blast
qed

end
