(* ===== verification/LifecycleExample.thy ===== *)
theory LifecycleExample
  imports Lifecycle
begin

text \<open>
  The lifecycle test of theory \<open>Lifecycle\<close> on a network and a wallet in memory: every transaction is
  applied when its commit is reported, and the test passes.
\<close>

definition apply_call :: "string \<times> string list \<Rightarrow> ledger \<Rightarrow> ledger option" where
  "apply_call call l = (case call of
     (f, [a]) \<Rightarrow> if f = ''RevokeCredential'' then res_ok (RevokeCredential (Some 8) a l) else None
   | (f, [a, b, c]) \<Rightarrow> if f = ''RegisterDID'' then res_ok (RegisterDID a b c l) else None
   | (f, [a, b, c, d, e]) \<Rightarrow>
       if f = ''RegisterSchema'' then res_ok (RegisterSchema (\<lambda>_. Inr test_schema) (Some 8) a b c d e l)
       else if f = ''RecordCredentialMetadata'' \<and> e = show_int 86408
       then res_ok (RecordCredentialMetadata (Some 8) a b c d 86408 l) else None
   | _ \<Rightarrow> None)"

definition net_sdk :: "(string \<times> string list, ledger \<times> nat) sdk" where
  "net_sdk = demo_sdk\<lparr>
     prepared_tx_id := (\<lambda>p. Some (replicate (to_nat p) (CHR ''x''))),
     client_commit_status := (\<lambda>h t c (l, k). case apply_call (from_nat (length t)) l of
         Some l' \<Rightarrow> (Inr (0, 7), (l', k)) | None \<Rightarrow> (Inr (1, 7), (l, k))),
     yaml_from_str := (\<lambda>_. Inr demo_config)\<rparr>"

lemma res_ok_Some [simp]: "res_ok r = Some x \<longleftrightarrow> r = Inr x"
  by (cases r) auto

lemma apply_call_committed: "apply_call call l = Some l' \<Longrightarrow> committed_call call l l'"
  by (auto simp: apply_call_def intro: committed_call.intros split: list.splits if_splits prod.splits)

lemma net_sole_client: "sole_client net_sdk id (\<lambda>t. from_nat (length t)) fst"
  unfolding sole_client_def runs_contract_def
  by (auto simp: net_sdk_def demo_sdk_def io_return_def apply_call_committed
      split: option.splits sum.splits)

lemma net_json_law: "json_law net_sdk"
  by (simp add: json_law_def net_sdk_def demo_sdk_def unary_law)

definition net_client :: fabric_client where
  "net_client = \<lparr>fc_config = demo_config, channel_name = ''dzta'', chaincode_name = ''dztac'',
     org_mspid = ''Org1MSP'', fc_peer_url = sanitize_url ''peer0:443'', is_mock = False\<rparr>"

lemma net_fields: "fc_config net_client = demo_config" "\<not> is_mock net_client" "channel_name net_client = ''dzta''"
  by (simp_all add: net_client_def)

lemma net_new: "test_fabric_client net_sdk = Inr net_client"
proof -
  have "validate demo_config = Inr ()"
    by (simp add: validate_iff consistent_def demo_config_def example_config_def)
  then have "from_file (files net_sdk) (yaml_from_str net_sdk) p = Inr demo_config" for p
    by (simp add: from_file_def net_sdk_def demo_sdk_def)
  moreover have "get_org_mspid demo_config ''Org1MSP'' = Inr ''Org1MSP''"
    "get_peer_url demo_config ''org1-peer1'' = Inr ''peer0:443''"
    by (simp_all add: get_org_mspid_def get_peer_url_def get_peer_config_def demo_config_def example_peer_def)
  moreover have "env_var net_sdk x = None" for x by (simp add: net_sdk_def demo_sdk_def)
  ultimately show ?thesis
    by (simp add: test_fabric_client_def FabricClient_new_def net_client_def set_mock_def Let_def)
qed

lemma net_setup:
  "get_user_context (fc_config net_client) =
     Inr \<lparr>uc_cert_pem = ''cert'', uc_key_pem = ''key'', uc_msp_id = ''Org1MSP''\<rparr>"
  "build_sdk_identity net_sdk net_client uc = Inr ([], [])"
  "connect_gateway_client net_sdk net_client h demo_config target_peer w = (Inr ([], []), w)"
  "build_tls_gateway_client net_sdk net_client uc w = (Inr ([], []), w)"
  "prepare_call net_sdk net_client what h iv = Inr (ci_function iv, ci_args iv)"
  by (simp_all add: get_user_context_def user_context_new_def first_value_def net_client_def
      demo_config_def example_config_def build_sdk_identity_def load_cert_def load_key_def net_sdk_def
      demo_sdk_def connect_gateway_client_def build_tls_gateway_client_def read_cert_def
      read_peer_tls_cert_bytes_def read_peer_tonic_tls_cert_bytes_def get_peer_config_def
      target_peer_def prepare_call_def Let_def res_simps io_return_def)

lemma net_invoke:
  assumes "apply_call (ci_function iv, ci_args iv) l = Some l'"
  shows "\<exists>tx. invoke_chaincode net_sdk net_client iv (l, k) = (Inr tx, (l', k))"
proof -
  let ?t = "replicate (to_nat (ci_function iv, ci_args iv)) (CHR ''x'')"
  have commit: "wait_for_transaction_commit net_sdk net_client h ?t 30 (l, k) = (Inr (), (l', k))" for h
    using commit_loop.simps(2) [of 61 net_sdk net_client h ?t 30 k "(l, k)"] assms
    by (simp add: wait_for_transaction_commit_def net_fields net_sdk_def demo_sdk_def)
  have ops: "prepared_tx_id net_sdk p = Some (replicate (to_nat p) (CHR ''x''))"
    "prepared_endorse net_sdk p h' w = (Inr \<lparr>env_payload = [5], env_signature = []\<rparr>, w)"
    "gateway_submit net_sdk h q w = (Inr (), w)" for p h h' q w
    by (simp_all add: net_sdk_def demo_sdk_def io_return_def)
  show ?thesis
    using net_setup(1)
    by (simp add: invoke_chaincode_def Let_def res_simps net_setup net_fields ops commit)
qed

lemma net_query:
  "contract_query (f, args) (fst w) = Some (Inr v) \<Longrightarrow>
   query_as net_sdk net_client d f args w = (map_err SerializationError (d v), w)"
proof -
  assume "contract_query (f, args) (fst w) = Some (Inr v)"
  moreover have "prepared_evaluate net_sdk p cl w = (case contract_query p (fst w) of
      Some (Inr v) \<Rightarrow> Inr (unary_print v) | _ \<Rightarrow> Inl ''failed'', w)" for p cl w
    by (simp add: net_sdk_def demo_sdk_def)
  moreover have "sdk_json_parse net_sdk = unary_parse" by (simp add: net_sdk_def demo_sdk_def)
  ultimately show ?thesis
    using net_setup(1)
    by (simp add: query_as_def query_chaincode_def res_simps net_setup net_fields from_slice_def)
qed

section \<open>The run\<close>

definition net_seed :: bytes where
  "net_seed = replicate 32 1"

definition net_did :: string where
  "net_did = ''did:dzta:ABABABABABABABABABABABABABABABAB''"

definition net_wallet :: "string \<Rightarrow> unit wallet" where
  "net_wallet db_path = \<lparr>askar_store_path = db_path, askar_store = Some (),
     askar_passphrase = Some ''super_secure_passphrase_123''\<rparr>"

definition net_issuer :: "(ledger \<times> nat) issuer" where
  "net_issuer = \<lparr>iss_fabric = net_client, iss_signer = local_signer demo_issuer_env net_seed\<rparr>"

lemma net_run_setup:
  "test_setup net_sdk demo_issuer_env mem_askar (\<lambda>_. io_return ()) db_path msg (w, v) =
     (Inr (net_client, net_wallet db_path, net_seed, net_did), (w, v))"
proof -
  have "generate_did_from_public_key net_sdk net_seed = Inr (''did:dzta:'' @
      concat (map hex_digits (take 16 net_seed)))"
    by (simp add: generate_did_from_public_key_def net_sdk_def demo_sdk_def net_seed_def)
  moreover have "''did:dzta:'' @ concat (map hex_digits (take 16 net_seed)) = net_did"
    by code_simp
  moreover have "verifying_key demo_issuer_env = id" "ie_getrandom demo_issuer_env n w = (Inr (replicate n 1), w)" for n w
    by (simp_all add: demo_issuer_env_def io_return_def)
  moreover have "initialize mem_askar (Wallet_new db_path)
      ''super_secure_passphrase_123'' v = (Inr (net_wallet db_path), v)"
    by (simp add: initialize_def mem_askar_def Wallet_new_def res_simps net_wallet_def split: option.split)
  ultimately show ?thesis
    by (simp add: test_setup_def net_new res_simps on_disk_def on_net_def clean_database_def expect_def
        local_generate_def net_seed_def)
qed

text \<open>The ledgers the test leaves, one after each transaction.\<close>

definition after :: "string \<Rightarrow> string list \<Rightarrow> ledger \<Rightarrow> ledger" where
  "after f args l = (case apply_call (f, args) l of Some l' \<Rightarrow> l' | None \<Rightarrow> l)"

definition schema_args :: "string list" where
  "schema_args = [''uuid'', net_did, ''SecurityClearanceTemplate'', ''1.0.0'',
     str_of_bytes (unary_print (JArray (map json_of_schema_attribute test_schema)))]"

lemma net_transaction:
  "apply_call (f, args) l \<noteq> None \<Longrightarrow>
   \<exists>tx. invoke_chaincode net_sdk net_client \<lparr>ci_function = f, ci_args = args\<rparr> (l, k) = (Inr tx, (after f args l, k))"
  using net_invoke [of "\<lparr>ci_function = f, ci_args = args\<rparr>" l _ k] by (auto simp: after_def)

lemma net_trims:
  "trim net_did \<noteq> []" "trim test_subject \<noteq> []" "trim (str_of_bytes net_seed) \<noteq> []"
  "trim ''ed25519_public_key_bytes_for_subject_placeholder'' \<noteq> []"
  by code_simp+

lemma net_register:
  assumes "trim did \<noteq> []" "trim pk \<noteq> []"
  shows "\<exists>tx. issuer_register_did net_sdk net_issuer did net_did pk (l, k) =
    (Inr tx, (after ''RegisterDID'' [did, net_did, pk] l, k))"
proof -
  have "did \<noteq> []" "pk \<noteq> []" "net_did \<noteq> []"
    using assms net_trims(1) by (auto simp: trim_def trim_start_def trim_end_def strip_seqs.simps
        white_space_def)
  then have "apply_call (''RegisterDID'', [did, net_did, pk]) l \<noteq> None"
    by (simp add: apply_call_def RegisterDID_def Let_def)
  from net_transaction [OF this] assms net_trims(1) show ?thesis
    by (simp add: issuer_register_did_def register_did_def net_issuer_def)
qed

lemma net_resolve:
  assumes "ResolveDID did l = Inr d" "\<exists>x. dec_did_document (json_of_go_did d) = Inr x"
  shows "\<exists>x. resolve_did net_sdk net_client did (l, k) = (Inr x, (l, k))"
proof -
  have "contract_query (''ResolveDID'', [did]) (fst (l, k)) = Some (Inr (json_of_go_did d))"
    by (simp add: contract_query_def assms(1))
  with assms(2) show ?thesis by (auto simp: resolve_did_def net_query)
qed

lemma net_schema:
  "issuer_register_schema net_sdk demo_issuer_env net_issuer net_did ''SecurityClearanceTemplate'' ''1.0.0''
     test_schema (l, k) = (Inr ''uuid'', (after ''RegisterSchema'' schema_args l, k))"
proof -
  have "apply_call (''RegisterSchema'', schema_args) l \<noteq> None"
    by (simp add: apply_call_def schema_args_def RegisterSchema_def)
  from net_transaction [OF this, of k] obtain tx where
    "invoke_chaincode net_sdk net_client \<lparr>ci_function = ''RegisterSchema'', ci_args = schema_args\<rparr> (l, k) =
      (Inr tx, (after ''RegisterSchema'' schema_args l, k))" by blast
  moreover have "new_uuid demo_issuer_env w = (''uuid'', w)" "sdk_json_print net_sdk = unary_print" for w
    by (simp_all add: demo_issuer_env_def net_sdk_def demo_sdk_def)
  ultimately show ?thesis
    by (simp add: issuer_register_schema_def register_schema_def net_issuer_def schema_args_def res_simps)
qed

definition record_args :: "string list" where
  "record_args = [''uuid'', ''uuid'', net_did, test_subject, show_int 86408]"

lemma net_get_schema:
  assumes "GetSchema ''uuid'' l = Inr s" "cs_created s = 8"
  shows "get_schema net_sdk net_client ''uuid'' (l, k) = (Inr s, (l, k))"
proof -
  have "contract_query (''GetSchema'', [''uuid'']) (fst (l, k)) = Some (Inr (json_of_go_schema s))"
    by (simp add: contract_query_def assms(1))
  moreover have "dec_credential_schema (json_of_go_schema s) = Inr s"
    by (rule dec_go_schema) (simp add: assms(2) i64_ok_def i64_max_def)
  ultimately show ?thesis by (simp add: get_schema_def net_query)
qed

lemma net_issue:
  assumes "GetSchema ''uuid'' l = Inr s" "cs_created s = 8" "cs_attributes s = test_schema"
  shows "\<exists>cred. ic_credential_id cred = ''uuid'' \<and>
    issue_test_credential net_sdk demo_issuer_env net_issuer msg ''uuid'' net_did (l, k) =
      (Inr cred, (after ''RecordCredentialMetadata'' record_args l, k))"
proof -
  have "apply_call (''RecordCredentialMetadata'', record_args) l \<noteq> None"
    by (simp add: apply_call_def record_args_def RecordCredentialMetadata_def)
  from net_transaction [OF this, of k] obtain tx where tx:
    "invoke_chaincode net_sdk net_client \<lparr>ci_function = ''RecordCredentialMetadata'', ci_args = record_args\<rparr>
       (l, k) = (Inr tx, (after ''RecordCredentialMetadata'' record_args l, k))" by blast
  have env: "ie_now demo_issuer_env w = \<lparr>dt_secs = 8, dt_nanos = 0\<rparr>" "new_uuid demo_issuer_env w = (''uuid'', w)"
    "ie_in_range demo_issuer_env 86408" "jcs_to_vec demo_issuer_env v = Inr (unary_print v)" for w v
    by (simp_all add: demo_issuer_env_def)
  have "validate_fields (ie_value_display demo_issuer_env) (ie_rfc3339_ok demo_issuer_env) s
      (credential_subject test_subject (test_payload 8)) = Inr ()"
    by (simp add: validate_fields_def assms(3) test_schema_def validate_field_def credential_subject_def
        test_payload_def is_string_def is_i64_def is_u64_def json_of_i64_def i64_max_def)
  then show ?thesis
    using tx net_trims
    by (simp add: issue_test_credential_def expect_tx_def create_credential_def env Let_def res_simps
        net_issuer_def net_get_schema [OF assms(1,2)] timestamp_opt_def signing_input_def
        local_signer_def record_credential_metadata_def record_args_def)
qed

lemma net_store:
  assumes "sha_law P" "gcm_law P"
  shows "\<exists>env tags. store_credential P mem_askar (net_wallet db_path) c data Map.empty =
    (Inr (), [(''credentials'', c) \<mapsto> (env, tags)])"
proof -
  obtain env where "encrypt_wallet_record P (Inr (replicate 12 7)) (unary_print data)
      (as_bytes ''super_secure_passphrase_123'') = Inr env"
    using encrypt_succeeds [OF assms, of "replicate 12 7"] by fastforce
  then show ?thesis
    by (simp add: store_credential_def store_of_def storage_def get_askar_passphrase_def net_wallet_def
        res_simps mem_askar_ops) blast
qed

lemma net_verify:
  assumes "GetCredentialMetadata ''uuid'' l = Inr m" "gm_issued_at m = 8" "gm_expires_at m = 86408"
  shows "verify_credential_active net_sdk net_client ''uuid'' (l, k) =
    (if gm_revoked m then Inl (RevocationError (''Credential revoked: '' @ ''uuid'')) else Inr True, (l, k))"
proof -
  have q: "contract_query (''IsCredentialRevoked'', [''uuid'']) (fst (l, k)) = Some (Inr (JBool (gm_revoked m)))"
    "contract_query (''GetCredentialMetadata'', [''uuid'']) (fst (l, k)) = Some (Inr (json_of_go_metadata m))"
    by (simp_all add: contract_query_def IsCredentialRevoked_def assms(1))
  have "is_credential_revoked net_sdk net_client ''uuid'' (l, k) = (Inr (gm_revoked m), (l, k))"
    unfolding is_credential_revoked_def net_query [OF q(1)] by simp
  moreover have "i64_ok (gm_issued_at m)" "i64_ok (gm_expires_at m)"
    using assms by (simp_all add: i64_ok_def i64_max_def)
  then have "\<exists>x. get_credential_metadata net_sdk net_client ''uuid'' (l, k) = (Inr x, (l, k)) \<and>
      cm_expires_at x = 86408"
    unfolding get_credential_metadata_def net_query [OF q(2)] by (simp add: dec_go_metadata assms(3))
  moreover have "wall_clock net_sdk w = 8" for w by (simp add: net_sdk_def demo_sdk_def)
  ultimately show ?thesis
    by (auto simp: verify_credential_active_def res_simps)
qed

lemma net_check:
  assumes "GetCredentialMetadata ''uuid'' l = Inr m" "gm_issued_at m = 8" "gm_expires_at m = 86408"
    "\<not> gm_revoked m"
  shows "\<exists>l'. check_then_revoke net_sdk net_client net_issuer ''uuid'' (l, k) = (Inr (), (l', k))"
proof -
  let ?l = "after ''RevokeCredential'' [''uuid''] l"
  have call: "apply_call (''RevokeCredential'', [''uuid'']) l \<noteq> None"
    using assms(1) by (simp add: apply_call_def RevokeCredential_eq)
  then obtain tx where "invoke_chaincode net_sdk net_client
      \<lparr>ci_function = ''RevokeCredential'', ci_args = [''uuid'']\<rparr> (l, k) = (Inr tx, (?l, k))"
    using net_transaction by blast
  moreover have "GetCredentialMetadata ''uuid'' ?l = Inr (m\<lparr>gm_revoked := True\<rparr>)"
    using assms(1) GetCredentialMetadata_put [of "''uuid''" "''uuid''"]
    by (simp add: after_def apply_call_def RevokeCredential_eq)
  ultimately show ?thesis
    using net_verify [OF assms(1-3)] net_verify [of ?l "m\<lparr>gm_revoked := True\<rparr>"] assms(2-4)
    by (simp add: check_then_revoke_def expect_def expect_tx_def res_simps issuer_revoke_credential_def
        revoke_credential_tx_def net_issuer_def)
qed

lemma net_run:
  "\<exists>w' v'. test_full_credential_lifecycle_e2e net_sdk demo_issuer_env mem_prims mem_askar (\<lambda>_. io_return ())
     ((genesis, 0), Map.empty) = (Inr (), (w', v'))"
proof -
  let ?pk = "str_of_bytes net_seed"
  let ?l1 = "after ''RegisterDID'' [net_did, net_did, ?pk] genesis"
  let ?l2 = "after ''RegisterDID'' [test_subject, net_did,
    ''ed25519_public_key_bytes_for_subject_placeholder''] ?l1"
  let ?l3 = "after ''RegisterSchema'' schema_args ?l2"
  let ?l4 = "after ''RecordCredentialMetadata'' record_args ?l3"
  have ne: "net_did \<noteq> []" "test_subject \<noteq> []" "?pk \<noteq> []" "net_did \<noteq> test_subject"
    by code_simp+
  have "\<exists>d. ResolveDID net_did ?l2 = Inr d \<and> (\<exists>x. dec_did_document (json_of_go_did d) = Inr x)"
    using ne by (simp add: after_def apply_call_def RegisterDID_def Let_def ResolveDID_def json_of_go_did_def
        json_of_slice_def json_of_go_method_def dec_did_document_def dec_verification_method_def field_defs)
  then obtain x where resolve: "resolve_did net_sdk net_client net_did (?l2, 0) = (Inr x, (?l2, 0))"
    using net_resolve by blast
  obtain t1 where r1: "issuer_register_did net_sdk net_issuer net_did net_did ?pk (genesis, 0) = (Inr t1, (?l1, 0))"
    using net_register [OF net_trims(1,3)] by blast
  obtain t2 where r2: "issuer_register_did net_sdk net_issuer test_subject net_did
      ''ed25519_public_key_bytes_for_subject_placeholder'' (?l1, 0) = (Inr t2, (?l2, 0))"
    using net_register [OF net_trims(2,4)] by blast
  have "\<exists>s. GetSchema ''uuid'' ?l3 = Inr s \<and> cs_created s = 8 \<and> cs_attributes s = test_schema"
    by (simp add: after_def apply_call_def schema_args_def RegisterSchema_def GetSchema_def tx_seconds_def)
  then obtain cred where cred: "ic_credential_id cred = ''uuid''"
    "issue_test_credential net_sdk demo_issuer_env net_issuer
       ''Failed to execute credential template parsing or Fabric metadata anchor logging''
       ''uuid'' net_did (?l3, 0) = (Inr cred, (?l4, 0))"
    using net_issue by blast
  obtain v' where store: "store_credential mem_prims mem_askar (net_wallet ''target/debug/test_askar_wallet.db'')
      ''uuid'' (ic_credential_data cred) Map.empty = (Inr (), v')"
    using net_store [OF mem_prims_laws(1,2)] by blast
  have "\<exists>m. GetCredentialMetadata ''uuid'' ?l4 = Inr m \<and> gm_issued_at m = 8 \<and> gm_expires_at m = 86408 \<and>
      \<not> gm_revoked m"
    by (simp add: after_def apply_call_def record_args_def RecordCredentialMetadata_def
        GetCredentialMetadata_def tx_seconds_def)
  then obtain l' where check: "check_then_revoke net_sdk net_client net_issuer ''uuid'' (?l4, 0) = (Inr (), (l', 0))"
    using net_check by blast
  have iss: "\<lparr>iss_fabric = net_client, iss_signer = local_signer demo_issuer_env net_seed\<rparr> = net_issuer"
    "public_key_multibase_value demo_issuer_env net_seed = ?pk"
    by (simp_all add: net_issuer_def public_key_multibase_value_def demo_issuer_env_def)
  show ?thesis
    by (simp add: test_full_credential_lifecycle_e2e_def lifecycle_issue_def res_simps net_run_setup Let_def on_net_def on_disk_def
        expect_def expect_tx_def iss r1 r2 resolve net_schema cred store check)
qed

theorem lifecycle_test_outcome_witness:
  "\<exists>fabric iss wal cred now w1 w' v'.
     test_full_credential_lifecycle_e2e net_sdk demo_issuer_env mem_prims mem_askar (\<lambda>_. io_return ())
       ((genesis, 0), Map.empty) = (Inr (), (w', v')) \<and>
     lifecycle_issue net_sdk demo_issuer_env mem_prims mem_askar (\<lambda>_. io_return ())
       ((genesis, 0), Map.empty) = (Inr (fabric, iss, wal, cred), (w1, v')) \<and>
     IsCredentialRevoked (ic_credential_id cred) (fst w1) = Inr False \<and>
     IsCredentialRevoked (ic_credential_id cred) (fst w') = Inr True \<and>
     fst (extract_proofable_fields mem_prims mem_askar wal (ic_credential_id cred) v') = Inr (test_payload now)"
proof -
  obtain w' v' where run: "test_full_credential_lifecycle_e2e net_sdk demo_issuer_env mem_prims mem_askar
      (\<lambda>_. io_return ()) ((genesis, 0), Map.empty) = (Inr (), (w', v'))"
    using net_run by blast
  have clock: "i64_ok (dt_secs (ie_now demo_issuer_env w))" for w
    by (simp add: demo_issuer_env_def i64_ok_def i64_max_def)
  from lifecycle_test_outcome [OF net_sole_client net_json_law mem_askar_law mem_prims_laws clock run]
  show ?thesis using run by blast
qed

end
