(* ===== verification/PipelineExample.thy ===== *)
theory PipelineExample
  imports Pipeline LifecycleExample
begin

text \<open>
  The pipeline of theory \<open>Pipeline\<close> on the network and wallet of theory \<open>LifecycleExample\<close>, a host
  without SGX on which the prover has been built, and a gateway that accepts: the test passes.
\<close>

definition strict_parse :: json_parser where
  "strict_parse bs = (if take 2 bs = as_bytes ''7/'' then Inl InvalidType else unary_parse bs)"

definition strict_prims :: "unit prims" where
  "strict_prims = plain_prims strict_parse"

lemma as_bytes_two: "as_bytes ''7/'' = [0x37, 0x2F]"
  by (simp add: as_bytes_def)

lemma strict_prims_laws:
  "sha_law strict_prims" "gcm_law strict_prims"
  "print_parse_law (value_print mem_askar) (json_parse strict_prims)"
  "no_json_after (as_bytes ''7/'') (json_parse strict_prims)"
proof -
  show "sha_law strict_prims" "gcm_law strict_prims" by (simp_all add: strict_prims_def plain_prims_laws)
  have p: "json_parse strict_prims = strict_parse" by (simp add: strict_prims_def plain_prims_def)
  have "take 2 (replicate n 0) \<noteq> [0x37, 0x2F :: byte]" for n
    by (cases n; cases "n - 1") auto
  then have "take 2 (unary_print v) \<noteq> as_bytes ''7/''" for v
    unfolding unary_print_def as_bytes_two by blast
  then show "print_parse_law (value_print mem_askar) (json_parse strict_prims)"
    by (simp add: p print_parse_law_def strict_parse_def mem_askar_ops)
  show "no_json_after (as_bytes ''7/'') (json_parse strict_prims)"
    by (simp add: p no_json_after_def strict_parse_def as_bytes_two)
qed

definition direct_env :: "(bytes, unit, nat) runner_env" where
  "direct_env = (demo_runner_env (as_bytes (print_lines [''log'', brace_print (json_of_prover_output demo_output)])))
     \<lparr>rn_http := (rn_http linked_env)\<rparr>"

definition demo_host :: "(unit, nat) host_env" where
  "demo_host = \<lparr>spawn_command = (\<lambda>_ _. io_return ()), kill_child = (\<lambda>_. io_return ()),
     thread_sleep = (\<lambda>_ n. n + 1), host_exists = (\<lambda>_ _. True),
     host_create_dir_all = (\<lambda>_. io_return ()), host_env_var = (\<lambda>_. Some ''/w/dzta-e2e-tests'')\<rparr>"

definition accepting_gateway :: "(bytes, nat) http_env" where
  "accepting_gateway = mem_env\<lparr>http_send := (\<lambda>_ _ n. (Inr \<lparr>hp_status = 200, hp_body = Inr (unary_print
     (JObject [(''status'', JString ''accepted''), (''message'', JString ''ok'')]))\<rparr>, n + 1))\<rparr>"

definition demo_transport_env :: "nat transport_env" where
  "demo_transport_env = \<lparr>te_new_uuid = (\<lambda>n. (''r'' @ show_nat n, n + 1)),
     te_now = (\<lambda>n. \<lparr>dt_secs = int n, dt_nanos = 0\<rparr>), te_parse_rfc3339 = (\<lambda>_. None), te_show_rfc3339 = (\<lambda>_. [])\<rparr>"

lemma direct_answered:
  "answered_by direct_env (broker_service plain_axum mem_env demo_quote_env demo_state)"
  by (auto simp: answered_by_def direct_env_def linked_env_def case_prod_beta Let_def)

lemma direct_execute:
  "execute_proof direct_env g payload n = (Inr demo_output, n)"
proof -
  let ?ls = "[''log'', brace_print (json_of_prover_output demo_output)]"
  let ?out = "as_bytes (print_lines ?ls)"
  have parse: "he_json_parse (rn_http direct_env) = brace_parse"
    by (simp add: direct_env_def linked_env_def confidential_env_def demo_runner_env_def)
  have law: "json_line_law brace_print (he_json_parse (rn_http direct_env))"
    by (simp add: parse brace_line_law)
  have start: "start_child direct_env g f n = (Inr (), n)" for f
    by (simp add: start_child_def direct_env_def demo_runner_env_def res_simps)
  have wr: "child_write_all direct_env () bs n = (Inr (), n)" for bs
    by (simp add: direct_env_def demo_runner_env_def res_simps)
  have wait: "wait_with_output direct_env () n = (Inr \<lparr>co_success = True, co_status_text = ''exit status: 0'',
      co_stdout = ?out, co_stderr = []\<rparr>, n)"
    by (simp add: direct_env_def demo_runner_env_def res_simps)
  have valid: "utf8_valid ?out"
    by (rule utf8_ascii) (auto simp: print_lines_def newline_def brace_print_def as_bytes_def)
  have "\<not> in_braces (trim (strip_cr ''log''))" by code_simp
  then show ?thesis
    using valid by (intro runner_reads [OF law start wr wait, where noise = "[''log'']" and rest = "[]"]) auto
qed

lemma demo_generate:
  "generate_test_proof hex P direct_env demo_host raw key seed cid n = (Inr demo_output, n)"
proof -
  have "\<not> is_hardware_backed (rn_device direct_env) Auto n"
    by (simp add: is_hardware_backed_def resolve_def direct_env_def demo_runner_env_def no_device_def)
  moreover have "prover_built demo_host n" by (simp add: prover_built_def demo_host_def)
  ultimately show ?thesis
    by (simp add: generate_test_proof_def Let_def expect_def io_map_err_app
        prove_raw_wallet_record_in_gramine_def direct_execute)
qed

lemma demo_submit:
  "\<exists>n'. guarded_submit demo_host accepting_gateway demo_transport_env (\<lambda>_. io_return ()) db cid demo_output
     ((w, v), n) = (Inr (), ((w, v), n'))"
proof -
  have t: "trim ''http://127.0.0.1:10000'' \<noteq> []" "trim ''x-dzta-proof'' \<noteq> []"
    "trim ''x-dzta-public-inputs'' \<noteq> []" "trim ''x-dzta-revocation-id'' \<noteq> []" by code_simp+
  have eng: "\<exists>t. TransportEngine_new accepting_gateway (TransportConfig_new ''http://127.0.0.1:10000'') = Inr t"
    by (simp add: TransportEngine_new_def TransportConfig_new_def validated_def t default_proof_header_def
        default_public_inputs_header_def default_revocation_header_def Let_def accepting_gateway_def mem_env_def)
  have send: "send accepting_gateway e q u = (Inr \<lparr>hp_status = 200, hp_body = Inr (unary_print
     (JObject [(''status'', JString ''accepted''), (''message'', JString ''ok'')]))\<rparr>, u + 1)" for e q u
    by (simp add: send_def accepting_gateway_def res_simps)
  have gw: "he_json_parse accepting_gateway = unary_parse" "text_of accepting_gateway = str_of_bytes"
    by (simp_all add: accepting_gateway_def mem_env_def)
  have uuid: "te_new_uuid demo_transport_env u = (''r'' @ show_nat u, u + 1)" for u
    by (simp add: demo_transport_env_def)
  have "\<exists>pe u'. submit_proof_request accepting_gateway demo_transport_env e r u = (Inr pe, u') \<and>
      pe_status pe = ''accepted''" for e r u
    by (simp add: submit_proof_request_def res_simps send handle_response_def is_success_def uuid gw
        parse_response_def from_slice_def dec_proof_envelope_def field_defs)
  note answered = this
  have sub: "\<exists>u'. submit_to_ingress accepting_gateway demo_transport_env cid demo_output u = (Inr (), u')" for u
  proof -
    obtain e where e: "TransportEngine_new accepting_gateway (TransportConfig_new ''http://127.0.0.1:10000'') = Inr e"
      using eng by blast
    obtain pe u' where "submit_proof_request accepting_gateway demo_transport_env e
        (request_with_revocation_id cid (request_with_proof (x_dzta_proof demo_output)
          (x_dzta_public_inputs demo_output) (ProofRequest_new (''r'' @ show_nat u)
            ''verify_enclave_attestation'' ''edge-device-node-01'' ''edge-cluster-alpha''))) (u + 1) = (Inr pe, u')"
      "pe_status pe = ''accepted''"
      using answered by blast
    then show ?thesis
      by (simp add: submit_to_ingress_def io_bind_app io_lift_def e uuid)
  qed
  have start: "K8sPortForwardGuard_start demo_host n = (Inr ((), ()), n + 1)"
    by (simp add: K8sPortForwardGuard_start_def demo_host_def expect_def res_simps)
  from sub [of "n + 1"] show ?thesis
    by (auto simp: guarded_submit_def res_simps start on_disk_def on_net_def)
qed

lemma demo_secrets_read:
  "\<exists>v'. wallet_secrets mem_askar (net_wallet p) ''uuid'' [(''credentials'', ''uuid'') \<mapsto> (env, tags)] =
     (Inr (env, as_bytes ''super_secure_passphrase_123'', replicate 32 7), v')"
  by (simp add: wallet_secrets_def fetch_raw_encrypted_record_def fetch_entry_def store_of_def storage_def
      get_askar_passphrase_def get_or_create_zkp_secret_seed_def expect_def net_wallet_def res_simps mem_askar_ops
      pad_seed_def)

lemma pipeline_passes:
  "\<exists>wvu. test_full_dzta_stack_e2e_pipeline net_sdk demo_issuer_env strict_prims mem_askar (\<lambda>_. io_return ())
     direct_env demo_host accepting_gateway demo_transport_env (((genesis, 0), Map.empty), 0) = (Inr (), wvu)"
proof -
  let ?pk = "str_of_bytes net_seed" and ?db = "''target/debug/test_full_stack_askar.db''"
  let ?l1 = "after ''RegisterDID'' [net_did, net_did, ?pk] genesis"
  let ?l2 = "after ''RegisterDID'' [test_subject, net_did, ''ed25519_public_key_bytes_placeholder''] ?l1"
  let ?l3 = "after ''RegisterSchema'' schema_args ?l2"
  have trim: "trim ''ed25519_public_key_bytes_placeholder'' \<noteq> []" by code_simp
  obtain t1 where r1: "issuer_register_did net_sdk net_issuer net_did net_did ?pk (genesis, 0) = (Inr t1, (?l1, 0))"
    using net_register [OF net_trims(1,3)] by blast
  obtain t2 where r2: "issuer_register_did net_sdk net_issuer test_subject net_did
      ''ed25519_public_key_bytes_placeholder'' (?l1, 0) = (Inr t2, (?l2, 0))"
    using net_register [OF net_trims(2) trim] by blast
  have "\<exists>s. GetSchema ''uuid'' ?l3 = Inr s \<and> cs_created s = 8 \<and> cs_attributes s = test_schema"
    by (simp add: after_def apply_call_def schema_args_def RegisterSchema_def GetSchema_def tx_seconds_def)
  then obtain cred l4 where cred: "ic_credential_id cred = ''uuid''"
    "issue_test_credential net_sdk demo_issuer_env net_issuer ''Failed to create credential''
       ''uuid'' net_did (?l3, 0) = (Inr cred, (l4, 0))"
    using net_issue by blast
  obtain env tags where store: "store_credential strict_prims mem_askar (net_wallet ?db) ''uuid''
      (ic_credential_data cred) Map.empty = (Inr (), [(''credentials'', ''uuid'') \<mapsto> (env, tags)])"
    using net_store [OF strict_prims_laws(1,2)] by blast
  obtain v' where secrets: "wallet_secrets mem_askar (net_wallet ?db) ''uuid'' [(''credentials'', ''uuid'') \<mapsto> (env, tags)] =
     (Inr (env, as_bytes ''super_secure_passphrase_123'', replicate 32 7), v')"
    using demo_secrets_read by blast
  obtain n' where submit: "guarded_submit demo_host accepting_gateway demo_transport_env (\<lambda>_. io_return ())
      ?db ''uuid'' demo_output (((l4, 0::nat), v'), 0) = (Inr (), (((l4, 0), v'), n'))"
    using demo_submit [where db = ?db and cid = "''uuid''" and w = "(l4, 0::nat)" and v = v' and n = 0] by blast
  have iss: "\<lparr>iss_fabric = net_client, iss_signer = local_signer demo_issuer_env net_seed\<rparr> = net_issuer"
    "public_key_multibase_value demo_issuer_env net_seed = ?pk"
    by (simp_all add: net_issuer_def public_key_multibase_value_def demo_issuer_env_def)
  show ?thesis
    by (simp add: test_full_dzta_stack_e2e_pipeline_def res_simps net_run_setup Let_def on_net_def on_disk_def
        expect_def expect_tx_def iss r1 r2 net_schema cred store secrets demo_generate submit)
qed

theorem pipeline_passes_only_in_the_clear_witness:
  "\<exists>cid raw z response u1 u2 u3. direct_prover_run direct_env (JObject
      [(''raw_wallet_ciphertext'', json_of_bytes raw),
       (''wallet_db_key'', json_of_bytes (as_bytes ''super_secure_passphrase_123'')),
       (''credential_id'', JString cid), (''required_clearance_level'', JNumber (PosInt 3)),
       (''master_seed'', json_of_bytes (take 32 (z @ replicate 32 0)))]) response 0 u1 \<and>
    gateway_accepts accepting_gateway demo_transport_env cid response u2 u3"
proof -
  obtain wvu where run: "test_full_dzta_stack_e2e_pipeline net_sdk demo_issuer_env strict_prims mem_askar
      (\<lambda>_. io_return ()) direct_env demo_host accepting_gateway demo_transport_env
      (((genesis, 0), Map.empty), 0) = (Inr (), wvu)"
    using pipeline_passes by blast
  have clock: "i64_ok (dt_secs (ie_now demo_issuer_env w))" for w
    by (simp add: demo_issuer_env_def i64_ok_def i64_max_def)
  from pipeline_passes_only_in_the_clear [OF mem_askar_law strict_prims_laws clock direct_answered
      plain_axum_laws(1) run]
  show ?thesis by blast
qed

end
