(* ===== verification/GatewayTests.thy ===== *)
theory GatewayTests
  imports PipelineExample
begin

text \<open>
  Two smaller end-to-end tests of \<open>src/dzta-e2e-tests/src\<close>: \<open>e2e_transport_lifecycle.rs\<close>, which sends
  a made-up proof to the gateway, and \<open>gramine_prover_standalone.rs\<close>, which proves a record sealed in
  memory. The gateway is the filter of theory \<open>Edge\<close>: a request it pauses is answered by the filter.
\<close>

section \<open>A made-up proof at the gateway\<close>

definition made_up_proof :: string where
  "made_up_proof = ''dGVzdC1wcm9vZi1ieXRlcw==''"

definition made_up_inputs :: string where
  "made_up_inputs = ''dGVzdC1wdWJsaWMtaW5wdXRzLWJ5dGVz''"

definition test_end_to_end_prover_to_envoy_ingress ::
  "('k, 'u) http_env \<Rightarrow> 'u transport_env \<Rightarrow> ('u, test_stop, unit) io" where
  "test_end_to_end_prover_to_envoy_ingress H T =
     io_bind (io_lift (map_err (\<lambda>_. TestPanic ''valid config'')
       (TransportEngine_new H (TransportConfig_new ''http://127.0.0.1:10000'')))) (\<lambda>engine u.
     let (uuid, u1) = te_new_uuid T u;
         request = request_with_revocation_id ''cred-uuid-9876''
           (request_with_proof made_up_proof made_up_inputs
             (ProofRequest_new uuid ''verify_enclave_attestation'' ''edge-device-node-01'' ''edge-cluster-alpha''))
     in case submit_proof_request H T engine request u1 of
          (Inr envelope, u2) \<Rightarrow> (Inr (), u2)
        | (Inl (Rejected status body), u2) \<Rightarrow>
            (if status = 403 \<or> status = 400 then Inr ()
             else Inl (TestPanic ''Unexpected HTTP rejection status''), u2)
        | (Inl err, u2) \<Rightarrow> (Inl (TestPanic ''Network transport failed completely''), u2))"

text \<open>
  A connection through the filter: the request's headers, and its path, are what the filter sees,
  and the response it sends is the answer.
\<close>

definition filtered_by ::
  "('k, 'u) http_env \<Rightarrow> (headers \<Rightarrow> 'u \<Rightarrow> edge_outcome) \<Rightarrow> bool" where
  "filtered_by H filt \<longleftrightarrow>
     (\<forall>cl q p u st body. hq_url q = ''http://127.0.0.1:10000'' @ p \<longrightarrow>
        eo_response (filt ((map_of (hq_headers q))('':path'' \<mapsto> p)) u) = Some (st, body) \<longrightarrow>
        (\<exists>u'. http_send H cl q u = (Inr \<lparr>hp_status = st, hp_body = Inr (as_bytes body)\<rparr>, u')))"

lemma made_up_refused:
  assumes "get_pvk K = Some pvk" "verify_zkp K pvk made_up_proof made_up_inputs \<noteq> Inr True"
    and "\<not> starts_with ''/_wasm_admin/revoke'' (header_or_default hs '':path'')"
    and "hs ''x-dzta-proof'' = Some made_up_proof" "hs ''x-dzta-public-inputs'' = Some made_up_inputs"
      "hs ''x-dzta-revocation-id'' = Some rid"
  shows "\<exists>st body. eo_response (on_http_request_headers K refuses cfg hs s) = Some (st, body) \<and> (st = 403 \<or> st = 400)"
proof -
  have "on_http_request_headers K refuses cfg hs s = validate_public_request K (Some pvk) hs s"
    using assms(1,3) by (simp add: on_http_request_headers_def)
  then show ?thesis
    using assms(2,4-6)
    by (cases "verify_zkp K pvk made_up_proof made_up_inputs") (auto simp: validate_public_request_def)
qed

lemma transport_url:
  "ten_config e = TransportConfig_new ''http://127.0.0.1:10000'' \<Longrightarrow>
   target_url e None = ''http://127.0.0.1:10000'' @ ''/api/v1/resource''"
proof -
  assume "ten_config e = TransportConfig_new ''http://127.0.0.1:10000''"
  moreover have "trim ''http://127.0.0.1:10000'' = ''http://127.0.0.1:10000''" by code_simp
  ultimately show ?thesis
    by (simp add: target_url_def TransportConfig_new_def default_request_path_def Let_def ends_with_def
        starts_with_def)
qed

text \<open>
  The transport test holds against this repository's filter: whatever the configuration and the
  revocations, if the verification key loads and the made-up proof does not verify, the filter's
  answer is a rejection with status 403 or 400, the client reports it as such, and the test passes.
\<close>

theorem transport_test_passes:
  assumes "\<exists>e. TransportEngine_new H (TransportConfig_new ''http://127.0.0.1:10000'') = Inr e"
    and "filtered_by H (\<lambda>hs u. on_http_request_headers K refuses cfg hs (store u))"
    and "get_pvk K = Some pvk" "verify_zkp K pvk made_up_proof made_up_inputs \<noteq> Inr True"
  shows "fst (test_end_to_end_prover_to_envoy_ingress H T u) = Inr ()"
proof -
  obtain e where e: "TransportEngine_new H (TransportConfig_new ''http://127.0.0.1:10000'') = Inr e"
    using assms(1) by blast
  then have cfg: "ten_config e = TransportConfig_new ''http://127.0.0.1:10000''"
    by (auto simp: TransportEngine_new_def Let_def bind_res_Inr_iff)
  obtain uuid u1 where uuid: "te_new_uuid T u = (uuid, u1)" by fastforce
  define r where "r = request_with_revocation_id ''cred-uuid-9876''
    (request_with_proof made_up_proof made_up_inputs
      (ProofRequest_new uuid ''verify_enclave_attestation'' ''edge-device-node-01'' ''edge-cluster-alpha''))"
  define q where "q = \<lparr>hq_method = ''POST'', hq_url = target_url e None,
       hq_headers = [(''Content-Type'', ''application/json''), (''X-DZTA-Request-Id'', pq_request_id r),
         (''X-DZTA-Device-Id'', pq_device_id r), (''X-DZTA-Edge-Id'', pq_edge_id r),
         (''X-DZTA-Action'', pq_action r)] @
         proof_headers e \<lparr>hb_proof = pq_proof r, hb_public_inputs = pq_public_inputs r,
           hb_revocation_id = pq_revocation_id r\<rparr>,
       hq_json = Some (json_of_proof_request r)\<rparr>"
  have t: "trim made_up_proof \<noteq> []" "trim made_up_inputs \<noteq> []" "trim ''cred-uuid-9876'' \<noteq> []" by code_simp+
  let ?hs = "(map_of (hq_headers q))('':path'' \<mapsto> ''/api/v1/resource'')"
  have hs: "?hs ''x-dzta-proof'' = Some made_up_proof" "?hs ''x-dzta-public-inputs'' = Some made_up_inputs"
    "?hs ''x-dzta-revocation-id'' = Some ''cred-uuid-9876''"
    by (simp_all add: q_def r_def cfg proof_headers_def non_blank_def t request_with_revocation_id_def
        request_with_proof_def TransportConfig_new_def default_proof_header_def default_public_inputs_header_def
        default_revocation_header_def)
  have "\<not> starts_with ''/_wasm_admin/revoke'' (header_or_default ?hs '':path'')"
    by (simp add: header_or_default_def starts_with_def)
  from made_up_refused [OF assms(3,4) this hs] obtain st body where
    out: "eo_response (on_http_request_headers K refuses cfg ?hs (store u1)) = Some (st, body)" "st = 403 \<or> st = 400"
    by blast
  moreover have "hq_url q = ''http://127.0.0.1:10000'' @ ''/api/v1/resource''"
    by (simp add: q_def transport_url [OF cfg])
  ultimately obtain u2 where "http_send H (ten_client e) q u1 =
      (Inr \<lparr>hp_status = st, hp_body = Inr (as_bytes body)\<rparr>, u2)"
    using assms(2) unfolding filtered_by_def by blast
  then have "submit_proof_request H T e r u1 = (Inl (Rejected st (text_of H (as_bytes body))), u2)"
    unfolding q_def using out(2)
    by (auto simp: submit_proof_request_def send_def res_simps handle_response_def is_success_def)
  then show ?thesis
    using out(2) by (auto simp: test_end_to_end_prover_to_envoy_ingress_def io_bind_app io_lift_def e uuid r_def)
qed


definition filtering_connection :: "(bytes, nat) http_env" where
  "filtering_connection = mem_env\<lparr>http_send := (\<lambda>_ q n.
     (case eo_response (on_http_request_headers (demo_crypto\<lparr>groth16_verify := (\<lambda>_ _ _. Inr False)\<rparr>) (\<lambda>_. False)
         plugin_config_default ((map_of (hq_headers q))('':path'' \<mapsto> drop 22 (hq_url q))) Map.empty) of
        Some (st, body) \<Rightarrow> Inr \<lparr>hp_status = st, hp_body = Inr (as_bytes body)\<rparr>
      | None \<Rightarrow> Inl ''connection refused'', n + 1))\<rparr>"

theorem transport_test_passes_witness:
  "fst (test_end_to_end_prover_to_envoy_ingress filtering_connection demo_transport_env 0) = Inr ()"
proof (rule transport_test_passes [where K = "demo_crypto\<lparr>groth16_verify := (\<lambda>_ _ _. Inr False)\<rparr>"
      and refuses = "\<lambda>_. False" and cfg = plugin_config_default and store = "\<lambda>_. Map.empty" and pvk = 1])
  have t: "trim ''http://127.0.0.1:10000'' \<noteq> []" "trim ''x-dzta-proof'' \<noteq> []"
    "trim ''x-dzta-public-inputs'' \<noteq> []" "trim ''x-dzta-revocation-id'' \<noteq> []" by code_simp+
  show "\<exists>e. TransportEngine_new filtering_connection (TransportConfig_new ''http://127.0.0.1:10000'') = Inr e"
    by (simp add: TransportEngine_new_def TransportConfig_new_def validated_def t default_proof_header_def
        default_public_inputs_header_def default_revocation_header_def Let_def filtering_connection_def mem_env_def)
  show "filtered_by filtering_connection (\<lambda>hs u. on_http_request_headers
      (demo_crypto\<lparr>groth16_verify := (\<lambda>_ _ _. Inr False)\<rparr>) (\<lambda>_. False) plugin_config_default hs Map.empty)"
    by (auto simp: filtered_by_def filtering_connection_def)
qed (simp_all add: demo_crypto_def get_pvk_def verify_zkp_def as_bytes_def made_up_proof_def made_up_inputs_def)

section \<open>A record sealed in memory\<close>

definition standalone_subject :: json where
  "standalone_subject = JObject [(''credential_id'', JString ''bb2123b7-adc3-4209-be32-c58e1d78cf8b''),
     (''subject_did'', JString ''did:dzta:user-nathaniel-777''),
     (''user_clearance_level'', JNumber (PosInt 5)), (''user_role_scalar'', JString ''systems-engineer'')]"

definition test_gramine_prover_standalone_execution ::
  "(bytes \<Rightarrow> string) \<Rightarrow> (json \<Rightarrow> bytes) \<Rightarrow> 'c prims \<Rightarrow> ('k, 'h, 'u) runner_env \<Rightarrow> ('p, 'u) host_env \<Rightarrow>
   ('u, test_stop, unit) io" where
  "test_gramine_prover_standalone_execution hex to_vec P R X = (\<lambda>u.
     let db_key = as_bytes ''super_secure_passphrase_123'';
         seed = replicate 32 42;
         ciphertext = xor_cycle (to_vec standalone_subject) db_key;
         proxy = \<lparr>target_path = prover_target X, run_mode = Auto\<rparr>;
         binary_exists = prover_built X u;
         assets_dir = join_path (workspace_root X) ''assets'';
         u1 = (if host_exists X assets_dir u then u else snd (host_create_dir_all X assets_dir u))
     in io_bind
          (if binary_exists then
             expect ''Gramine proof execution failed''
               (prove_raw_wallet_record_in_gramine R proxy ciphertext db_key None 3 seed)
           else
             expect ''Local unsealing failed''
               (io_bind (io_lift (unseal_and_derive_witness P ciphertext db_key seed)) (\<lambda>wit.
                io_return \<lparr>x_dzta_proof = hex [0xAA, 0xBB, 0xCC, 0xDD],
                  x_dzta_public_inputs = hex (dw_public_commitment wit), sgx_dcap_quote_hex = None\<rparr>)))
          (\<lambda>response. io_lift
             (if x_dzta_proof response = [] then Inl (TestPanic ''Proof string should not be empty'')
              else if x_dzta_public_inputs response = [] then Inl (TestPanic ''Public inputs string should not be empty'')
              else Inr ())) u1)"

text \<open>A JSON object is printed from its brace on, and what starts with a backspace is no JSON text.\<close>

definition prints_braces :: "(json \<Rightarrow> bytes) \<Rightarrow> bool" where
  "prints_braces pr \<longleftrightarrow> (\<forall>kvs. \<exists>rest. pr (JObject kvs) = 0x7B # rest)"

lemma sealed_subject_unseals:
  assumes "print_parse_law pr (json_parse P)" "prints_braces pr" "no_json_after [8] (json_parse P)"
  shows "unseal_and_derive_witness P (xor_cycle (pr standalone_subject) (as_bytes ''super_secure_passphrase_123''))
       (as_bytes ''super_secure_passphrase_123'') seed =
     Inr (witness_of P seed \<lparr>dcs_user_clearance_level = 5, dcs_user_role_scalar = ''systems-engineer'',
       dcs_subject_did = ''did:dzta:user-nathaniel-777'',
       dcs_credential_id = ''bb2123b7-adc3-4209-be32-c58e1d78cf8b''\<rparr>)"
proof -
  define key where "key = as_bytes ''super_secure_passphrase_123''"
  define raw where "raw = xor_cycle (pr standalone_subject) key"
  have key: "key \<noteq> []" "hd key = 0x73" by (simp_all add: key_def as_bytes_def)
  obtain rest where rest: "pr standalone_subject = 0x7B # rest"
    using assms(2) by (auto simp: prints_braces_def standalone_subject_def)
  have "key ! 0 = 0x73" using key by (simp add: hd_conv_nth)
  then have "raw \<noteq> []" "raw ! 0 = 8" using key(1)
    by (simp_all add: raw_def rest xor_cycle_def upt_rec)
  then obtain tail where raw: "raw = [8] @ tail" by (cases raw) auto
  with assms(3) obtain e where e: "json_parse P raw = Inl e"
    unfolding no_json_after_def by metis
  have parse: "json_parse P (pr standalone_subject) = Inr standalone_subject"
    using assms(1) by (simp add: print_parse_law_def standalone_subject_def)
  show ?thesis
    unfolding unseal_and_derive_witness_def key_def [symmetric] raw_def [symmetric]
  proof (rule unseal_legacy_record [OF key(1) raw_def])
    show "take 5 raw \<noteq> WALLET_RECORD_MAGIC"
      by (simp add: raw WALLET_RECORD_MAGIC_def as_bytes_def)
    show "parse_credential_subject P raw None =
        Inl (ExecutionFailed (''Credential record is not valid JSON: '' @ serde_display (fmt P) e))"
      by (simp add: parse_credential_subject_def from_slice_def e)
    show "from_slice (json_parse P) dec_subject (pr standalone_subject) =
        Inr \<lparr>dcs_user_clearance_level = 5, dcs_user_role_scalar = ''systems-engineer'',
          dcs_subject_did = ''did:dzta:user-nathaniel-777'',
          dcs_credential_id = ''bb2123b7-adc3-4209-be32-c58e1d78cf8b''\<rparr>"
      by (simp add: from_slice_def parse) (simp add: dec_subject_def standalone_subject_def field_defs dec_defs)
  qed
qed

text \<open>
  The standalone test without a built prover passes: the record it seals by XOR is not taken for
  an envelope nor for a credential, the fallback unseals the subject that was sealed, and the proof
  text and the commitment it prints are not empty. No process is started and nothing is sent.
\<close>

theorem standalone_test_passes_unbuilt:
  assumes "print_parse_law pr (json_parse P)" "prints_braces pr" "no_json_after [8] (json_parse P)"
    and "\<forall>bs. bs \<noteq> [] \<longrightarrow> hex bs \<noteq> []" and "\<not> prover_built X u"
  shows "\<exists>u'. test_gramine_prover_standalone_execution hex pr P R X u = (Inr (), u') \<and>
    (u' = u \<or> u' = snd (host_create_dir_all X (join_path (workspace_root X) ''assets'') u))"
proof -
  have "dw_public_commitment (witness_of P sd sub) \<noteq> []" for sd sub
    by (simp add: witness_of_def compute_commitment_def Let_def flip: length_greater_0_conv)
  then show ?thesis
    using assms(4,5) sealed_subject_unseals [OF assms(1-3)]
    by (simp add: test_gramine_prover_standalone_execution_def Let_def expect_def io_map_err_app res_simps)
qed

definition braced_print :: "json \<Rightarrow> bytes" where
  "braced_print v = 0x7B # unary_print v"

definition braced_parse :: json_parser where
  "braced_parse bs = (if bs \<noteq> [] \<and> hd bs = 0x7B then unary_parse (tl bs) else Inl InvalidType)"

theorem standalone_test_passes_unbuilt_witness:
  "\<exists>u'. test_gramine_prover_standalone_execution str_of_bytes braced_print (plain_prims braced_parse) direct_env
      (demo_host\<lparr>host_exists := (\<lambda>_ _. False)\<rparr>) 0 = (Inr (), u')"
proof -
  have "json_parse (plain_prims braced_parse) = braced_parse" by (simp add: plain_prims_def)
  then have laws: "print_parse_law braced_print (json_parse (plain_prims braced_parse))"
    "prints_braces braced_print" "no_json_after [8] (json_parse (plain_prims braced_parse))"
    by (simp_all add: print_parse_law_def prints_braces_def no_json_after_def braced_print_def braced_parse_def)
  have hex: "\<forall>bs. bs \<noteq> [] \<longrightarrow> str_of_bytes bs \<noteq> []" by (simp add: str_of_bytes_def)
  have unbuilt: "\<not> prover_built (demo_host\<lparr>host_exists := (\<lambda>_ _. False)\<rparr>) 0" by (simp add: prover_built_def)
  show ?thesis
    using standalone_test_passes_unbuilt [where hex = str_of_bytes and R = direct_env, OF laws hex unbuilt]
    by (elim ex_forward conjE)
qed

end
