(* ===== verification/VaultFlow.thy ===== *)
theory VaultFlow
  imports Lifecycle
begin

text \<open>
  The flows of \<open>src/dzta-e2e-tests/src/vault_integration.rs\<close>: signing with a key held by Vault, and a
  wallet key from its provisioning to its release to an enclave. Vault is reached through
  \<open>Vault.http_env\<close> in the world \<open>'w\<close>; the enclave's key pair is made by the record \<open>rsa_lib\<close>.
\<close>

section \<open>Signing\<close>

definition test_vault_credential_signing_flow ::
  "('k, 'w) http_env \<Rightarrow> 'w issuer_env \<Rightarrow> ('w, test_stop, unit) io" where
  "test_vault_credential_signing_flow E I =
     io_bind (expect ''Failed to create VaultCredentialSigner from env''
       (io_lift (VaultCredentialSigner_from_env E))) (\<lambda>vs.
     let G = vault_signer E I vs in
     io_bind (expect ''Failed to fetch public key multibase from Vault'' (sg_public_key_multibase G)) (\<lambda>pub_key_mb.
     io_bind (expect ''Failed to sign payload via Vault''
       (sg_sign G (as_bytes ''dZTA-verifiable-credential-proof-payload''))) (\<lambda>proof_value.
     if \<not> starts_with ''u'' proof_value then
       io_fail (TestPanic (''Proof value must be base64url prefixed with '' @ quoted ''u''))
     else io_return ())))"

section \<open>From provisioning to release\<close>

record ('r, 'w) rsa_lib =
  rsa_new :: "('w, string, 'r) io"
  rsa_public_pem :: "'r \<Rightarrow> string + string"
  rsa_oaep_decrypt :: "'r \<Rightarrow> bytes \<Rightarrow> string + bytes"

definition mock_enclave :: "string \<Rightarrow> verified_enclave" where
  "mock_enclave pem = \<lparr>ve_quote = [1, 2, 3, 4], ve_report_data = [5, 6, 7, 8], ve_enclave_public_key = pem,
     ve_mrenclave = ''mock_mrenclave_hash'', ve_mrsigner = ''mock_mrsigner_hash''\<rparr>"

definition test_env_var :: "('k, 'w) http_env \<Rightarrow> string \<Rightarrow> ('w \<times> 'v, test_stop, string) io" where
  "test_env_var E name = io_lift (ok_or (TestPanic (name @ '' missing'')) (he_env_var E name))"

definition provision_flow ::
  "('k, 'w) http_env \<Rightarrow> ('r, 'w) rsa_lib \<Rightarrow> (bytes \<Rightarrow> string) \<Rightarrow> 'c prims \<Rightarrow> ('s, 't, 'v) askar \<Rightarrow> string \<Rightarrow>
   string \<Rightarrow> string \<Rightarrow> string \<Rightarrow> 'r \<Rightarrow> string \<Rightarrow> ('w \<times> 'v, test_stop, bytes \<times> string \<times> string) io" where
  "provision_flow E L hex P A db_path addr token key priv pem =
     io_bind (io_lift (map_err (\<lambda>_. TestPanic ''Failed to create VaultDatakeyEngine'')
       (VaultDatakeyEngine_new E addr token key))) (\<lambda>engine.
     io_bind (on_net (expect ''Failed to provision datakey from Vault''
       (engine_provision_datakey E engine pem))) (\<lambda>provision_res.
     io_bind (io_lift (map_err (\<lambda>_. TestPanic ''Failed to decode base64 enclave wallet key'')
       (b64_decode E (pr_encrypted_wallet_key provision_res)))) (\<lambda>wrapped.
     io_bind (io_lift (map_err (\<lambda>_. TestPanic ''Failed to decrypt enclave wallet key with RSA-OAEP'')
       (rsa_oaep_decrypt L priv wrapped))) (\<lambda>raw_wallet_key_bytes.
     io_bind (on_disk (expect ''Provisioning and Vault binding failed''
       (provision_and_bind_vault A (Wallet_new db_path) ''test-edge-node-1''
         (pr_wallet_ciphertext provision_res) (pr_seed_ciphertext provision_res)
         (hex raw_wallet_key_bytes)))) (\<lambda>wal.
     io_bind (on_disk (expect ''Failed to fetch ciphertexts from Askar''
       (fetch_enclave_vault_ciphertexts P A wal ''test-edge-node-1''))) (\<lambda>(wallet_ciphertext, seed_ciphertext).
     io_return (raw_wallet_key_bytes, wallet_ciphertext, seed_ciphertext)))))))"

definition release_flow ::
  "('k, 'w) http_env \<Rightarrow> string \<Rightarrow> string \<Rightarrow> string \<Rightarrow> string \<Rightarrow> string \<Rightarrow> string \<Rightarrow>
   ('w, test_stop, wrapped_enclave_secrets) io" where
  "release_flow E addr token key pem wallet_ciphertext seed_ciphertext =
     (if \<not> starts_with ''vault:v1:'' wallet_ciphertext \<or> \<not> starts_with ''vault:v1:'' seed_ciphertext then
        io_fail (TestPanic ''assertion failed: starts_with'')
      else
        io_bind (expect ''Failed to create VaultTransitProvider''
          (io_lift (VaultTransitProvider_new E addr token key))) (\<lambda>provider.
        io_bind (expect ''Vault secret unwrap & enclave wrapping failed''
          (release_for_verified_enclave E (VaultSecretRelease provider) (mock_enclave pem) ''key-v1''
            wallet_ciphertext seed_ciphertext)) (\<lambda>wrapped_secrets.
        if ws_encrypted_wallet_key wrapped_secrets = [] \<or> ws_encrypted_master_seed wrapped_secrets = [] \<or>
           ws_key_encryption_algorithm wrapped_secrets \<noteq> ''RSA-OAEP-SHA256:key-v1''
        then io_fail (TestPanic ''assertion failed: wrapped_secrets'')
        else io_return wrapped_secrets)))"

text \<open>The result of the run is kept: what was provisioned and what was released.\<close>

definition wallet_secret_release_flow ::
  "('k, 'w) http_env \<Rightarrow> ('r, 'w) rsa_lib \<Rightarrow> (bytes \<Rightarrow> string) \<Rightarrow> 'c prims \<Rightarrow> ('s, 't, 'v) askar \<Rightarrow>
   (string \<Rightarrow> ('v, string, unit) io) \<Rightarrow> ('w \<times> 'v, test_stop, 'r \<times> bytes \<times> wrapped_enclave_secrets) io" where
  "wallet_secret_release_flow E L hex P A remove_file =
     io_bind (test_env_var E ''DZTA_VAULT_ADDR'') (\<lambda>addr.
     io_bind (test_env_var E ''DZTA_VAULT_TOKEN'') (\<lambda>token.
     io_bind (test_env_var E ''DZTA_SECRET_RELEASE_KEY'') (\<lambda>key.
     let db_path = ''target/debug/test_askar_wallet.db'' in
     io_bind (on_disk (clean_database A remove_file db_path)) (\<lambda>_.
     io_bind (on_net (expect ''Failed to generate RSA key'' (rsa_new L))) (\<lambda>priv.
     io_bind (io_lift (map_err (\<lambda>_. TestPanic ''Failed to export enclave public key'') (rsa_public_pem L priv))) (\<lambda>pem.
     io_bind (provision_flow E L hex P A db_path addr token key priv pem)
       (\<lambda>(raw_key, wallet_ciphertext, seed_ciphertext).
     io_bind (on_net (release_flow E addr token key pem wallet_ciphertext seed_ciphertext)) (\<lambda>wrapped_secrets.
     io_return (priv, raw_key, wrapped_secrets)))))))))"

definition test_wallet_secret_release_and_enclave_wrapping_flow ::
  "('k, 'w) http_env \<Rightarrow> ('r, 'w) rsa_lib \<Rightarrow> (bytes \<Rightarrow> string) \<Rightarrow> 'c prims \<Rightarrow> ('s, 't, 'v) askar \<Rightarrow>
   (string \<Rightarrow> ('v, string, unit) io) \<Rightarrow> ('w \<times> 'v, test_stop, unit) io" where
  "test_wallet_secret_release_and_enclave_wrapping_flow E L hex P A remove_file =
     io_bind (wallet_secret_release_flow E L hex P A remove_file) (\<lambda>_. io_return ())"

section \<open>What is relied on\<close>

text \<open>
  Documented behaviour of Vault's transit engine for a key: the data key endpoint answers with a
  ciphertext that holds the plaintext it shows, the decryption endpoint with what the ciphertext
  holds. RSA-OAEP decryption with a private key inverts encryption with its public key.
\<close>

definition datakey_law ::
  "('k, 'w) http_env \<Rightarrow> string \<Rightarrow> string \<Rightarrow> (string \<Rightarrow> bytes \<Rightarrow> bool) \<Rightarrow> bool" where
  "datakey_law E addr key holds \<longleftrightarrow>
     (\<forall>cl hs w r w' pt ct errs p. http_send E cl \<lparr>hq_method = ''POST'',
          hq_url = addr @ ''/v1/transit/datakey/plaintext/'' @ key, hq_headers = hs, hq_json = None\<rparr> w = (Inr r, w') \<longrightarrow>
        json_body E dec_datakey_response r = Inr ((pt, ct), errs) \<longrightarrow> is_success (hp_status r) \<longrightarrow>
        b64_decode E pt = Inr p \<longrightarrow> holds ct p) \<and>
     (\<forall>cl hs w r w' ct b errs p. http_send E cl \<lparr>hq_method = ''POST'',
          hq_url = addr @ ''/v1/transit/decrypt/'' @ key, hq_headers = hs,
          hq_json = Some (JObject [(''ciphertext'', JString ct)])\<rparr> w = (Inr r, w') \<longrightarrow>
        json_body E dec_decrypt_response r = Inr (Some b, errs) \<longrightarrow> is_success (hp_status r) \<longrightarrow>
        holds ct p \<longrightarrow> b64_decode E b = Inr p)"

definition rsa_law :: "('k, 'w) http_env \<Rightarrow> ('r, 'w) rsa_lib \<Rightarrow> bool" where
  "rsa_law E L \<longleftrightarrow> (\<forall>bs. b64_decode E (b64_encode E bs) = Inr bs) \<and>
     (\<forall>priv pem k m w c w'. rsa_public_pem L priv = Inr pem \<longrightarrow> rsa_from_pem E pem = Inr k \<longrightarrow>
        rsa_oaep_encrypt E k m w = (Inr c, w') \<longrightarrow> rsa_oaep_decrypt L priv c = Inr m)"

lemma rsa_law_decrypt:
  "rsa_law E L \<Longrightarrow> rsa_public_pem L priv = Inr pem \<Longrightarrow> rsa_from_pem E pem = Inr k \<Longrightarrow>
     rsa_oaep_encrypt E k m w = (Inr c, w') \<Longrightarrow> rsa_oaep_decrypt L priv c = Inr m"
  "rsa_law E L \<Longrightarrow> b64_decode E (b64_encode E bs) = Inr bs"
  unfolding rsa_law_def by blast+

lemma provisioned_datakey:
  assumes "datakey_law E (vault_addr eng) (secret_key_name eng) holds" "rsa_law E L" "rsa_public_pem L priv = Inr pem"
    and run: "engine_provision_datakey E eng pem w = (Inr res, w')"
  shows "\<exists>dek c. holds (pr_wallet_ciphertext res) dek \<and> pr_encrypted_wallet_key res = b64_encode E c \<and>
    rsa_oaep_decrypt L priv c = Inr dek"
proof -
  from run obtain r w1 pt ct errs dek w2 enc w3 where
    "http_send E (vde_client eng) \<lparr>hq_method = ''POST'',
        hq_url = vault_addr eng @ ''/v1/transit/datakey/plaintext/'' @ secret_key_name eng,
        hq_headers = vault_token_header (vault_token eng), hq_json = None\<rparr> w = (Inr r, w1)"
    "json_body E dec_datakey_response r = Inr ((pt, ct), errs)" "is_success (hp_status r)"
    "b64_decode E pt = Inr dek"
    and wrap: "wrap_bytes_for_enclave E dek pem w2 = (Inr enc, w3)"
    and res: "pr_wallet_ciphertext res = ct" "pr_encrypted_wallet_key res = enc"
    unfolding engine_provision_datakey_def by (auto simp: io_Inr io_fail_app split: if_splits)
  with assms(1) have "holds ct dek" unfolding datakey_law_def by blast
  moreover from wrap obtain k c where "rsa_from_pem E pem = Inr k" "rsa_oaep_encrypt E k dek w2 = (Inr c, w3)"
    "enc = b64_encode E c"
    unfolding wrap_bytes_for_enclave_def by (auto simp: io_Inr)
  ultimately show ?thesis using rsa_law_decrypt(1) [OF assms(2,3)] res by blast
qed

lemma envelope_decrypts:
  assumes "datakey_law E (vtp_address p) (vtp_transit_key p) holds" "holds ct dek"
    and "decrypt_envelope E p ct w = (Inr q, w')"
  shows "q = dek"
proof -
  from assms(3) obtain r w1 b errs where
    "http_send E (vtp_client p) \<lparr>hq_method = ''POST'', hq_url = vtp_address p @ ''/v1/transit/decrypt/'' @ vtp_transit_key p,
        hq_headers = vault_token_header (vtp_token p),
        hq_json = Some (JObject [(''ciphertext'', JString ct)])\<rparr> w = (Inr r, w1)"
    "json_body E dec_decrypt_response r = Inr (Some b, errs)" "is_success (hp_status r)" "b64_decode E b = Inr q"
    unfolding decrypt_envelope_def by (auto simp: io_Inr io_fail_app split: if_splits)
  moreover from this(1-3) assms(1,2) have "b64_decode E b = Inr dek" unfolding datakey_law_def by blast
  ultimately show ?thesis by simp
qed

lemma released_wallet_key:
  assumes "datakey_law E (vtp_address p) (vtp_transit_key p) holds" "rsa_law E L" "rsa_public_pem L priv = Inr pem"
    "holds ct dek" "release_from_vault E p (mock_enclave pem) kid ct sct w = (Inr res, w')"
  shows "bind_res (b64_decode E (ws_encrypted_wallet_key res)) (rsa_oaep_decrypt L priv) = Inr dek"
proof -
  from assms(5) obtain q w1 k w2 c w3 where q: "decrypt_envelope E p ct w = (Inr q, w1)"
    and c: "rsa_from_pem E pem = Inr k" "rsa_oaep_encrypt E k q w2 = (Inr c, w3)"
      "ws_encrypted_wallet_key res = b64_encode E c"
    unfolding release_from_vault_def by (auto simp: io_Inr io_fail_app mock_enclave_def split: if_splits)
  have "q = dek" by (rule envelope_decrypts [OF assms(1,4) q])
  with rsa_law_decrypt(1) [OF assms(2,3) c(1,2)] show ?thesis
    by (simp add: c(3) rsa_law_decrypt(2) [OF assms(2)])
qed

lemma stored_then_fetched:
  assumes law: "askar_law A contents owner" "print_parse_law (value_print A) (json_parse P)"
    and bind: "provision_and_bind_vault A wal c a b pass v = (Inr wal', v1)"
    and fetch: "fetch_enclave_vault_ciphertexts P A wal' c v1 = (Inr (x, y), v2)"
  shows "x = a \<and> y = b \<and> (\<exists>v0. initialize A wal pass v = (Inr wal', v0))"
proof -
  from bind obtain v0 where i: "initialize A wal pass v = (Inr wal', v0)"
    and s: "store_enclave_vault_ciphertexts A wal' c a b v0 = (Inr (), v1)"
    unfolding provision_and_bind_vault_def by (auto simp: io_Inr)
  obtain s where "askar_store wal' = Some s" using initialize_opens [OF i] by blast
  from keyed_vault.put_look [OF enclave_keyed_vault [OF law(1) this law(2)], where v = "(a, b)" and c = c
      and w = v0 and w' = v1] s fetch i show ?thesis by simp
qed

text \<open>
  C14. The wallet key from its birth to its release: when the Vault test completes, the key that
  Vault generated, and under whose hexadecimal form the wallet's database was opened, is exactly the
  key that the broker's release returns for the ciphertext the wallet kept, once the enclave
  decrypts it with its private key.
\<close>

theorem released_key_opens_wallet:
  assumes env: "he_env_var E ''DZTA_VAULT_ADDR'' = Some addr" "he_env_var E ''DZTA_SECRET_RELEASE_KEY'' = Some key"
    and laws: "datakey_law E (trim_end_matches (CHR ''/'') addr) key holds" "rsa_law E L"
      "askar_law A contents owner" "print_parse_law (value_print A) (json_parse P)"
    and run: "wallet_secret_release_flow E L hex P A rm (w, v) = (Inr (priv, raw_key, secrets), (w', v'))"
  shows "bind_res (b64_decode E (ws_encrypted_wallet_key secrets)) (rsa_oaep_decrypt L priv) = Inr raw_key \<and>
    (\<exists>wal v1 v2. initialize A (Wallet_new ''target/debug/test_askar_wallet.db'') (hex raw_key) v1 = (Inr wal, v2))"
proof -
  from run env obtain token pem v0 wct sct w1 w2 v1 where pem: "rsa_public_pem L priv = Inr pem"
    and prov: "provision_flow E L hex P A ''target/debug/test_askar_wallet.db'' addr token key priv pem (w1, v0) =
      (Inr (raw_key, wct, sct), (w2, v1))"
    and rel: "release_flow E addr token key pem wct sct w2 = (Inr secrets, w')"
    unfolding wallet_secret_release_flow_def test_env_var_def Let_def
    by (auto simp: io_Inr split: prod.splits)
  from prov obtain engine res wrapped wal va vb where
    eng: "VaultDatakeyEngine_new E addr token key = Inr engine"
    and p: "engine_provision_datakey E engine pem w1 = (Inr res, w2)"
    and dec: "b64_decode E (pr_encrypted_wallet_key res) = Inr wrapped" "rsa_oaep_decrypt L priv wrapped = Inr raw_key"
    and bind: "provision_and_bind_vault A (Wallet_new ''target/debug/test_askar_wallet.db'') ''test-edge-node-1''
      (pr_wallet_ciphertext res) (pr_seed_ciphertext res) (hex raw_key) va = (Inr wal, vb)"
    and fetch: "fetch_enclave_vault_ciphertexts P A wal ''test-edge-node-1'' vb = (Inr (wct, sct), v1)"
    unfolding provision_flow_def by (auto simp: io_Inr)
  from stored_then_fetched [OF laws(3,4) bind fetch] have wct: "wct = pr_wallet_ciphertext res"
    and opened: "\<exists>v2. initialize A (Wallet_new ''target/debug/test_askar_wallet.db'') (hex raw_key) va = (Inr wal, v2)"
    by auto
  from eng have e: "vault_addr engine = trim_end_matches (CHR ''/'') addr" "secret_key_name engine = key"
    by (auto simp: VaultDatakeyEngine_new_def bind_res_Inr_iff)
  obtain dek c where dek: "holds (pr_wallet_ciphertext res) dek" "pr_encrypted_wallet_key res = b64_encode E c"
    "rsa_oaep_decrypt L priv c = Inr dek"
    using provisioned_datakey [OF laws(1) [folded e] laws(2) pem p] by blast
  with dec rsa_law_decrypt(2) [OF laws(2)] have raw: "raw_key = dek" by simp
  from rel obtain provider where prv: "VaultTransitProvider_new E addr token key = Inr provider"
    and r: "release_from_vault E provider (mock_enclave pem) ''key-v1'' wct sct w2 = (Inr secrets, w')"
    unfolding release_flow_def by (auto simp: io_Inr io_fail_app split: if_splits)
  from prv have a: "vtp_address provider = trim_end_matches (CHR ''/'') addr" "vtp_transit_key provider = key"
    by (auto simp: VaultTransitProvider_new_def bind_res_Inr_iff)
  from released_wallet_key [OF laws(1) [folded a] laws(2) pem _ r] dek(1) raw wct opened
  show ?thesis by blast
qed

text \<open>A Vault signature always has the form the signing test asserts.\<close>

lemma signing_flow_never_asserts:
  "fst (test_vault_credential_signing_flow E I w) \<noteq>
     Inl (TestPanic (''Proof value must be base64url prefixed with '' @ quoted ''u''))"
proof
  assume "fst (test_vault_credential_signing_flow E I w) =
     Inl (TestPanic (''Proof value must be base64url prefixed with '' @ quoted ''u''))"
  then obtain vs w1 v w2 where "sg_sign (vault_signer E I vs) (as_bytes ''dZTA-verifiable-credential-proof-payload'') w1 = (Inr v, w2)"
    "\<not> starts_with ''u'' v"
    by (auto simp: test_vault_credential_signing_flow_def Let_def io_bind_def io_fail_def expect_def io_map_err_def
        io_lift_def io_return_def error_origin quoted_def split: prod.splits sum.splits if_splits)
  with vault_sig.sign_form show False by (fastforce simp: starts_with_def)
qed

section \<open>The flow in memory\<close>

definition flow_env :: "(bytes, nat) http_env" where
  "flow_env = mem_env\<lparr>he_env_var := (\<lambda>_. Some ''k'')\<rparr>"

definition flow_rsa :: "(string, nat) rsa_lib" where
  "flow_rsa = \<lparr>rsa_new = io_return ''PEM'', rsa_public_pem = Inr,
     rsa_oaep_decrypt = (\<lambda>priv c. Inr (drop (length priv) c))\<rparr>"

lemma flow_fields:
  "he_env_var flow_env x = Some ''k''" "b64_encode flow_env = str_of_bytes" "b64_decode flow_env s = Inr (as_bytes s)"
  "he_json_parse flow_env = unary_parse" "rsa_from_pem flow_env pem = (if pem = [] then Inl ''empty'' else Inr (as_bytes pem))"
  "rsa_oaep_encrypt flow_env k m n = (Inr (k @ m), n)"
  "http_send flow_env cl rq n = (Inr \<lparr>hp_status = 200, hp_body = Inr (unary_print (mem_answer rq))\<rparr>, n + 1)"
  by (simp_all add: flow_env_def mem_env_def)

lemma flow_datakey_law: "datakey_law flow_env addr key mem_holds"
  unfolding datakey_law_def
  by (auto simp: flow_fields mem_answer_def mem_holds_def json_body_def from_slice_def dec_datakey_response_def
      dec_decrypt_response_def dec_errors_def field_defs dec_option_def str_of_bytes_as_bytes)

lemma flow_rsa_law: "rsa_law flow_env flow_rsa"
  by (auto simp: rsa_law_def flow_fields flow_rsa_def split: if_splits)

lemma flow_clients:
  "\<exists>eng. VaultDatakeyEngine_new flow_env a b c = Inr eng"
  "\<exists>p. VaultTransitProvider_new flow_env a b c = Inr p"
proof -
  have "\<exists>cl. build_vault_client flow_env = Inr cl"
    by (simp add: build_vault_client_def flow_env_def mem_env_def Let_def)
  then show "\<exists>eng. VaultDatakeyEngine_new flow_env a b c = Inr eng"
    "\<exists>p. VaultTransitProvider_new flow_env a b c = Inr p"
    by (auto simp: VaultDatakeyEngine_new_def VaultTransitProvider_new_def)
qed

lemma flow_provision:
  "engine_provision_datakey flow_env eng ''PEM'' n =
     (Inr \<lparr>pr_wallet_ciphertext = ''vault:v1:dek'', pr_encrypted_wallet_key = ''PEMdek'',
       pr_seed_ciphertext = ''vault:v1:seed'', pr_encrypted_master_seed = ''PEMseed''\<rparr>, n + 3)"
  by (simp add: engine_provision_datakey_def generate_vault_random_seed_def engine_encrypt_def transit_encrypt_def
      wrap_bytes_for_enclave_def res_simps flow_fields mem_answer_def json_body_def from_slice_def is_success_def
      dec_datakey_response_def dec_seed_response_def dec_errors_def field_defs dec_value_def json_index_def
      as_bytes_append [symmetric] str_of_bytes_as_bytes del: as_bytes_append)

lemma flow_release:
  "\<exists>r n'. release_flow flow_env a b c ''PEM'' ''vault:v1:dek'' ''vault:v1:seed'' n = (Inr r, n')"
proof -
  obtain p where p: "VaultTransitProvider_new flow_env a b c = Inr p" using flow_clients(2) by blast
  have d: "decrypt_envelope flow_env p (''vault:v1:'' @ s) m = (Inr (as_bytes s), m + 1)" for s m
    by (simp add: decrypt_envelope_def flow_fields mem_answer_def res_simps json_body_def from_slice_def
        dec_decrypt_response_def dec_errors_def field_defs dec_option_def is_success_def)
  have "\<exists>r. release_from_vault flow_env p (mock_enclave ''PEM'') ''key-v1'' ''vault:v1:dek'' ''vault:v1:seed'' n =
      (Inr r, n + 2) \<and> ws_encrypted_wallet_key r \<noteq> [] \<and> ws_encrypted_master_seed r \<noteq> [] \<and>
      ws_key_encryption_algorithm r = ''RSA-OAEP-SHA256:key-v1''"
    using d [of "''dek''" n] d [of "''seed''" "n + 1"]
    by (simp add: release_from_vault_def mock_enclave_def res_simps flow_fields as_bytes_def str_of_bytes_def)
  then show ?thesis
    by (auto simp: release_flow_def p expect_def res_simps starts_with_def)
qed

lemma flow_wallet:
  "\<exists>wal m. provision_and_bind_vault mem_askar (Wallet_new p) c a b pass Map.empty = (Inr wal, m) \<and>
     fetch_enclave_vault_ciphertexts mem_prims mem_askar wal c m = (Inr (a, b), m)"
proof -
  have parse: "json_parse mem_prims (value_print mem_askar v) = Inr v" for v
    by (simp add: mem_prims_def plain_prims_def mem_askar_ops)
  have "\<exists>wal m. provision_and_bind_vault mem_askar (Wallet_new p) c a b pass Map.empty = (Inr wal, m) \<and>
      askar_store wal = Some () \<and> m = [(''enclave_secrets'', c) \<mapsto> (value_print mem_askar (enclave_record c a b 5), [])]"
    by (simp add: provision_and_bind_vault_def initialize_def store_enclave_vault_ciphertexts_def Wallet_new_def
        store_of_def storage_def res_simps mem_askar_def split: option.split)
  then obtain wal m where run: "provision_and_bind_vault mem_askar (Wallet_new p) c a b pass Map.empty = (Inr wal, m)"
    and st: "askar_store wal = Some ()"
    and m: "m = [(''enclave_secrets'', c) \<mapsto> (value_print mem_askar (enclave_record c a b 5), [])]"
    by blast
  have "fetch_enclave_vault_ciphertexts mem_prims mem_askar wal c m = (Inr (a, b), m)"
    by (simp add: fetch_enclave_vault_ciphertexts_def fetch_entry_def store_of_def storage_def st res_simps
        mem_askar_ops(1-6) m from_slice_def dec_value_def parse)
      (simp add: enclave_record_def json_index_def)
  with run show ?thesis by blast
qed

theorem released_key_opens_wallet_witness:
  "\<exists>priv (secrets :: wrapped_enclave_secrets). bind_res (b64_decode flow_env (ws_encrypted_wallet_key secrets)) (rsa_oaep_decrypt flow_rsa priv) =
     Inr (as_bytes ''dek'')"
proof -
  let ?db = "''target/debug/test_askar_wallet.db''"
  obtain eng where eng: "VaultDatakeyEngine_new flow_env ''k'' ''k'' ''k'' = Inr eng" using flow_clients(1) by blast
  obtain wal m where wal: "provision_and_bind_vault mem_askar (Wallet_new ?db) ''test-edge-node-1'' ''vault:v1:dek''
      ''vault:v1:seed'' ''dek'' Map.empty = (Inr wal, m)"
    "fetch_enclave_vault_ciphertexts mem_prims mem_askar wal ''test-edge-node-1'' m =
      (Inr (''vault:v1:dek'', ''vault:v1:seed''), m)"
    using flow_wallet by blast
  have dek: "rsa_oaep_decrypt flow_rsa ''PEM'' (as_bytes ''PEMdek'') = Inr (as_bytes ''dek'')"
    "rsa_new flow_rsa n = (Inr ''PEM'', n)" "rsa_public_pem flow_rsa s = Inr s" for n s
    by (simp_all add: flow_rsa_def as_bytes_def res_simps)
  have prov: "provision_flow flow_env flow_rsa str_of_bytes mem_prims mem_askar ?db ''k'' ''k'' ''k'' ''PEM'' ''PEM''
      (0, Map.empty) = (Inr (as_bytes ''dek'', ''vault:v1:dek'', ''vault:v1:seed''), (3, m))"
    by (simp add: provision_flow_def res_simps on_net_def on_disk_def expect_def eng flow_provision flow_fields dek wal
        str_of_bytes_as_bytes)
  obtain r n' where rel: "release_flow flow_env ''k'' ''k'' ''k'' ''PEM'' ''vault:v1:dek'' ''vault:v1:seed'' 3 = (Inr r, n')"
    using flow_release by blast
  have clean: "clean_database mem_askar (\<lambda>_. io_return ()) ?db v = (Inr (), v)" for v
    by (simp add: clean_database_def res_simps)
  have run: "wallet_secret_release_flow flow_env flow_rsa str_of_bytes mem_prims mem_askar (\<lambda>_. io_return ())
      (0, Map.empty) = (Inr (''PEM'', as_bytes ''dek'', r), (n', m))"
    by (simp add: wallet_secret_release_flow_def test_env_var_def res_simps flow_fields(1) clean expect_def dek
        Let_def on_disk_def on_net_def prov rel)
  from released_key_opens_wallet [OF flow_fields(1) flow_fields(1) flow_datakey_law flow_rsa_law mem_askar_law
      mem_prims_laws(3) run] have
    "bind_res (b64_decode flow_env (ws_encrypted_wallet_key r)) (rsa_oaep_decrypt flow_rsa ''PEM'') =
     Inr (as_bytes ''dek'')" by (rule conjunct1)
  then show ?thesis by blast
qed

end
