(* ===== verification/DatakeyTests.thy ===== *)
theory DatakeyTests
  imports VaultFlow
begin

text \<open>
  The key tests of \<open>src/dzta-e2e-tests/src\<close> that need no wallet: \<open>test_datakey_wallet_flow.rs\<close>,
  where a laptop keeps the wrapped data key in a file and a later enclave session has it unwrapped,
  \<open>vault_seed.rs\<close>, and the quote fixture of \<open>sgx_mock_test.rs\<close>. As in theory \<open>VaultFlow\<close> the
  network \<open>'w\<close> and the disk \<open>'v\<close> are separate; a panic of \<open>unwrap\<close> is \<open>TestPanic\<close> with that name.
\<close>

section \<open>Two sessions of a laptop\<close>

record 'v test_disk =
  disk_exists :: "string \<Rightarrow> 'v \<Rightarrow> bool"
  disk_create_dir_all :: "string \<Rightarrow> ('v, string, unit) io"
  disk_remove_file :: "string \<Rightarrow> ('v, string, unit) io"
  disk_write :: "string \<Rightarrow> string \<Rightarrow> ('v, string, unit) io"
  disk_read_to_string :: "string \<Rightarrow> ('v, string, string) io"

definition prepare_key_file :: "'v test_disk \<Rightarrow> string \<Rightarrow> string \<Rightarrow> ('v, test_stop, unit) io" where
  "prepare_key_file F key_file_dir key_file_path =
     io_bind (\<lambda>v. if disk_exists F key_file_dir v then (Inr (), v)
       else expect ''Failed to create target/debug directory structure'' (disk_create_dir_all F key_file_dir) v) (\<lambda>_ v.
     if disk_exists F key_file_path v then (Inr (), snd (disk_remove_file F key_file_path v)) else (Inr (), v))"

definition fresh_rsa_key ::
  "('r, 'w) rsa_lib \<Rightarrow> string \<Rightarrow> string \<Rightarrow> ('w, test_stop, 'r \<times> string) io" where
  "fresh_rsa_key L new_msg pem_msg =
     io_bind (expect new_msg (rsa_new L)) (\<lambda>priv.
     io_bind (io_lift (map_err (\<lambda>_. TestPanic pem_msg) (rsa_public_pem L priv))) (\<lambda>pem.
     io_return (priv, pem)))"

definition laptop_provisioning ::
  "('k, 'w) http_env \<Rightarrow> ('r, 'w) rsa_lib \<Rightarrow> 'v test_disk \<Rightarrow> vault_datakey_engine \<Rightarrow> string \<Rightarrow>
   ('w \<times> 'v, test_stop, bytes) io" where
  "laptop_provisioning E L F engine key_file_path =
     io_bind (on_net (fresh_rsa_key L ''Failed to generate RSA key'' ''Failed to export enclave public key''))
       (\<lambda>(enclave_priv_key, enclave_pub_pem).
     io_bind (on_net (expect ''Failed to provision datakey from Vault''
       (engine_provision_datakey E engine enclave_pub_pem))) (\<lambda>provision_res.
     io_bind (on_disk (expect ''Failed to write wallet.key.enc to disk''
       (disk_write F key_file_path (pr_wallet_ciphertext provision_res)))) (\<lambda>_.
     io_bind (io_lift (map_err (\<lambda>_. TestPanic ''Failed to b64 decode encrypted DEK'')
       (b64_decode E (pr_encrypted_wallet_key provision_res)))) (\<lambda>raw_encrypted_dek.
     io_bind (io_lift (map_err (\<lambda>_. TestPanic ''Enclave failed to decrypt initial DEK'')
       (rsa_oaep_decrypt L enclave_priv_key raw_encrypted_dek))) (\<lambda>initial_unwrapped_dek.
     if length initial_unwrapped_dek \<noteq> 32 then io_fail (TestPanic ''DEK must be 256 bits'')
     else io_return initial_unwrapped_dek)))))"

definition laptop_session ::
  "('k, 'w) http_env \<Rightarrow> ('r, 'w) rsa_lib \<Rightarrow> 'v test_disk \<Rightarrow> vault_datakey_engine \<Rightarrow> string \<Rightarrow>
   ('w \<times> 'v, test_stop, bytes) io" where
  "laptop_session E L F engine key_file_path =
     io_bind (on_disk (expect ''Failed to read wallet.key.enc from disk''
       (disk_read_to_string F key_file_path))) (\<lambda>stored_ciphertext.
     io_bind (on_net (fresh_rsa_key L ''unwrap'' ''unwrap'')) (\<lambda>(session_priv_key, session_pub_pem).
     io_bind (on_net (expect ''Failed to unwrap datakey for session enclave''
       (unwrap_datakey_for_enclave E engine stored_ciphertext session_pub_pem))) (\<lambda>session_encrypted_dek_b64.
     io_bind (io_lift (map_err (\<lambda>_. TestPanic ''unwrap'')
       (b64_decode E session_encrypted_dek_b64))) (\<lambda>session_encrypted_dek.
     io_lift (map_err (\<lambda>_. TestPanic ''Enclave failed to decrypt DEK for active session'')
       (rsa_oaep_decrypt L session_priv_key session_encrypted_dek))))))"

definition key_mismatch :: test_stop where
  "key_mismatch = TestPanic ''Unwrapped session DEK must match initial provisioning DEK''"

definition laptop_engine :: "('k, 'w) http_env \<Rightarrow> test_stop + vault_datakey_engine" where
  "laptop_engine E = map_err (\<lambda>_. TestPanic ''Failed to create VaultDatakeyEngine'')
     (VaultDatakeyEngine_new E (env_default E ''DZTA_VAULT_ADDR'' ''http://127.0.0.1:8200'')
       (env_default E ''DZTA_VAULT_TOKEN'' ''root'') (env_default E ''DZTA_SECRET_RELEASE_KEY'' ''dzta-key''))"

definition test_laptop_option_a_datakey_workflow ::
  "('k, 'w) http_env \<Rightarrow> ('r, 'w) rsa_lib \<Rightarrow> 'v test_disk \<Rightarrow> ('w \<times> 'v, test_stop, unit) io" where
  "test_laptop_option_a_datakey_workflow E L F =
     (let key_file_path = ''target/debug/wallet.key.enc'' in
     io_bind (io_lift (laptop_engine E)) (\<lambda>engine.
     io_bind (on_disk (prepare_key_file F ''target/debug'' key_file_path)) (\<lambda>_.
     io_bind (laptop_provisioning E L F engine key_file_path) (\<lambda>initial_unwrapped_dek.
     io_bind (laptop_session E L F engine key_file_path) (\<lambda>session_unwrapped_dek.
     if initial_unwrapped_dek \<noteq> session_unwrapped_dek then io_fail key_mismatch
     else io_return ())))))"

text \<open>A file that was written reads back.\<close>

definition disk_law :: "'v test_disk \<Rightarrow> bool" where
  "disk_law F \<longleftrightarrow> (\<forall>p text v v1 text' v2. disk_write F p text v = (Inr (), v1) \<longrightarrow>
     disk_read_to_string F p v1 = (Inr text', v2) \<longrightarrow> text' = text)"

lemma unwrapped_datakey:
  assumes "transit_law E (vault_addr eng) (secret_key_name eng) holds" "rsa_law E L" "rsa_public_pem L priv = Inr pem"
    and "holds ct dek" and run: "unwrap_datakey_for_enclave E eng ct pem w = (Inr enc, w')"
  shows "\<exists>c. enc = b64_encode E c \<and> rsa_oaep_decrypt L priv c = Inr dek"
proof -
  from run obtain q w1 k c where q: "engine_decrypt E eng ct w = (Inr q, w1)"
    and c: "rsa_from_pem E pem = Inr k" "rsa_oaep_encrypt E k q w1 = (Inr c, w')" "enc = b64_encode E c"
    unfolding unwrap_datakey_for_enclave_def wrap_bytes_for_enclave_def by (auto simp: io_Inr)
  have "q = dek" by (rule vault_cipher.decrypt_holds [OF engine_vault_cipher [OF assms(1)] assms(4) q])
  with rsa_law_decrypt(1) [OF assms(2,3) c(1,2)] c(3) show ?thesis by blast
qed

lemma fresh_rsa_key_pem:
  "fresh_rsa_key L a b w = (Inr (priv, pem), w') \<Longrightarrow> rsa_public_pem L priv = Inr pem"
  by (auto simp: fresh_rsa_key_def io_Inr)

lemma sessions_agree:
  assumes laws: "datakey_law E (vault_addr eng) (secret_key_name eng) holds"
      "transit_law E (vault_addr eng) (secret_key_name eng) holds" "rsa_law E L" "disk_law F"
    and first: "laptop_provisioning E L F eng p wv = (Inr dek, wv1)"
    and second: "laptop_session E L F eng p wv1 = (Inr dek', wv2)"
  shows "dek' = dek"
proof -
  obtain w v w1 v1 w2 v2 where st: "wv = (w, v)" "wv1 = (w1, v1)" "wv2 = (w2, v2)" by (metis surj_pair)
  from first obtain priv pem wa res wrapped where
    pem: "fresh_rsa_key L ''Failed to generate RSA key'' ''Failed to export enclave public key'' w = (Inr (priv, pem), wa)"
    and prov: "engine_provision_datakey E eng pem wa = (Inr res, w1)"
    and stored: "disk_write F p (pr_wallet_ciphertext res) v = (Inr (), v1)"
    and dec: "b64_decode E (pr_encrypted_wallet_key res) = Inr wrapped" "rsa_oaep_decrypt L priv wrapped = Inr dek"
    unfolding laptop_provisioning_def st by (auto simp: io_Inr split: if_splits)
  from provisioned_datakey [OF laws(1,3) fresh_rsa_key_pem [OF pem] prov] dec rsa_law_decrypt(2) [OF laws(3)]
  have holds: "holds (pr_wallet_ciphertext res) dek" by auto
  from second obtain ct priv' pem' wb enc wrapped' where
    again: "disk_read_to_string F p v1 = (Inr ct, v2)"
    and pem': "fresh_rsa_key L ''unwrap'' ''unwrap'' w1 = (Inr (priv', pem'), wb)"
    and unw: "unwrap_datakey_for_enclave E eng ct pem' wb = (Inr enc, w2)"
    and dec': "b64_decode E enc = Inr wrapped'" "rsa_oaep_decrypt L priv' wrapped' = Inr dek'"
    unfolding laptop_session_def st by (auto simp: io_Inr)
  have "ct = pr_wallet_ciphertext res" using laws(4) stored again unfolding disk_law_def by blast
  with unwrapped_datakey [OF laws(2,3) fresh_rsa_key_pem [OF pem'] holds, of wb enc w2] unw
  obtain c where "enc = b64_encode E c" "rsa_oaep_decrypt L priv' c = Inr dek" by blast
  with dec' rsa_law_decrypt(2) [OF laws(3)] show ?thesis by simp
qed

text \<open>A part of the test that cannot stop with a given error.\<close>

definition never :: "('w, 'e, 'a) io \<Rightarrow> 'e \<Rightarrow> bool" where
  "never m e \<longleftrightarrow> (\<forall>w w'. m w \<noteq> (Inl e, w'))"

lemma never_intros [intro!]:
  "never m e \<Longrightarrow> (\<And>a. never (f a) e) \<Longrightarrow> never (io_bind m f) e"
  "never n e \<Longrightarrow> never (on_net n) e" "never d e \<Longrightarrow> never (on_disk d) e"
  "e' \<noteq> TestPanic msg \<Longrightarrow> never (expect msg x) e'"
  "e' \<noteq> TestPanic msg \<Longrightarrow> never (io_lift (map_err (\<lambda>_. TestPanic msg) r)) e'"
  "e \<noteq> e2 \<Longrightarrow> never (io_fail e2) e" "never (io_return b) e"
  by (auto simp: never_def io_bind_Inl on_net_def on_disk_def expect_def io_map_err_app io_lift_app io_fail_app
      io_return_app map_err_Inl_iff split: prod.splits)

lemma fresh_rsa_key_never [intro!]:
  "e \<noteq> TestPanic a \<Longrightarrow> e \<noteq> TestPanic b \<Longrightarrow> never (fresh_rsa_key L a b) e"
  unfolding fresh_rsa_key_def by auto

lemma parts_never_mismatch:
  "never (laptop_provisioning E L F eng p) key_mismatch" "never (laptop_session E L F eng p) key_mismatch"
  "never (prepare_key_file F d p) key_mismatch"
proof -
  show "never (laptop_provisioning E L F eng p) key_mismatch" "never (laptop_session E L F eng p) key_mismatch"
    unfolding laptop_provisioning_def laptop_session_def key_mismatch_def by (auto split: prod.split)
  show "never (prepare_key_file F d p) key_mismatch"
    unfolding prepare_key_file_def
    by (auto simp: never_def io_bind_Inl key_mismatch_def expect_def io_map_err_app map_err_Inl_iff split: if_splits)
qed

text \<open>
  C15. The data key survives between sessions: with Vault and RSA as documented and a file that reads
  back what was written, the laptop test never fails its last assertion. Whatever else goes wrong
  stops it earlier; if it gets there, the key the second session unwraps from the stored ciphertext
  is the key of the first, of 32 bytes, under two different RSA keys.
\<close>

theorem session_key_survives:
  fixes E :: "('k, 'w) http_env" and L :: "('r, 'w) rsa_lib" and F :: "'v test_disk"
  assumes laws: "datakey_law E (trim_end_matches (CHR ''/'') (env_default E ''DZTA_VAULT_ADDR'' ''http://127.0.0.1:8200''))
        (env_default E ''DZTA_SECRET_RELEASE_KEY'' ''dzta-key'') holds"
      "transit_law E (trim_end_matches (CHR ''/'') (env_default E ''DZTA_VAULT_ADDR'' ''http://127.0.0.1:8200''))
        (env_default E ''DZTA_SECRET_RELEASE_KEY'' ''dzta-key'') holds"
      "rsa_law E L" "disk_law F"
  shows "fst (test_laptop_option_a_datakey_workflow E L F wv) \<noteq> Inl key_mismatch"
proof
  assume "fst (test_laptop_option_a_datakey_workflow E L F wv) = Inl key_mismatch"
  then obtain wv' where run: "test_laptop_option_a_datakey_workflow E L F wv = (Inl key_mismatch, wv')"
    by (metis prod.collapse)
  let ?p = "''target/debug/wallet.key.enc''"
  have 1: "never (io_lift (laptop_engine E) :: ('w \<times> 'v, test_stop, vault_datakey_engine) io) key_mismatch"
    "never (on_disk (prepare_key_file F ''target/debug'' ?p) :: ('w \<times> 'v, test_stop, unit) io) key_mismatch"
    using parts_never_mismatch(3) by (auto simp: laptop_engine_def key_mismatch_def)
  from run 1 parts_never_mismatch(1,2) [of E L F _ ?p] obtain eng wv1 wv2 dek dek' wv3 where
    eng: "laptop_engine E = Inr eng"
    and two: "laptop_provisioning E L F eng ?p wv1 = (Inr dek, wv2)" "laptop_session E L F eng ?p wv2 = (Inr dek', wv3)"
      "dek \<noteq> dek'"
    unfolding test_laptop_option_a_datakey_workflow_def Let_def never_def
    by (auto simp: io_bind_Inl io_lift_Inr io_fail_app io_return_app split: if_splits)
  from eng have "vault_addr eng = trim_end_matches (CHR ''/'') (env_default E ''DZTA_VAULT_ADDR'' ''http://127.0.0.1:8200'')"
    "secret_key_name eng = env_default E ''DZTA_SECRET_RELEASE_KEY'' ''dzta-key''"
    by (auto simp: laptop_engine_def VaultDatakeyEngine_new_def bind_res_Inr_iff)
  with laws sessions_agree [of E eng holds L F, OF _ _ _ _ two(1,2)] two(3) show False by simp
qed

definition key_text :: string where
  "key_text = replicate 32 (CHR ''k'')"

definition laptop_env :: "(bytes, nat) http_env" where
  "laptop_env = flow_env\<lparr>http_send := (\<lambda>_ q n. (Inr \<lparr>hp_status = 200, hp_body = Inr (unary_print
     (if hq_json q = None then JObject [(''data'', JObject [(''plaintext'', JString key_text),
          (''ciphertext'', JString (''vault:v1:'' @ key_text))])]
      else mem_answer q))\<rparr>, n + 1))\<rparr>"

definition one_file :: "string test_disk" where
  "one_file = \<lparr>disk_exists = (\<lambda>_ _. True), disk_create_dir_all = (\<lambda>_. io_return ()),
     disk_remove_file = (\<lambda>_. io_return ()), disk_write = (\<lambda>_ t _. (Inr (), t)),
     disk_read_to_string = (\<lambda>_ t. (Inr t, t))\<rparr>"

lemma laptop_fields:
  "he_env_var laptop_env x = Some ''k''" "b64_encode laptop_env = str_of_bytes" "b64_decode laptop_env s = Inr (as_bytes s)"
  "he_json_parse laptop_env = unary_parse"
  "rsa_from_pem laptop_env pem = (if pem = [] then Inl ''empty'' else Inr (as_bytes pem))"
  "rsa_oaep_encrypt laptop_env k m n = (Inr (k @ m), n)"
  "http_send laptop_env cl q n = (Inr \<lparr>hp_status = 200, hp_body = Inr (unary_print
     (if hq_json q = None then JObject [(''data'', JObject [(''plaintext'', JString key_text),
          (''ciphertext'', JString (''vault:v1:'' @ key_text))])]
      else mem_answer q))\<rparr>, n + 1)"
  by (simp_all add: laptop_env_def flow_fields)

lemma key_text_bytes: "length key_text = 32"
  by (simp add: key_text_def)

lemma laptop_laws:
  "datakey_law laptop_env addr key mem_holds" "transit_law laptop_env addr key mem_holds"
  "rsa_law laptop_env flow_rsa" "disk_law one_file"
proof -
  show "datakey_law laptop_env addr key mem_holds"
    unfolding datakey_law_def
    by (auto simp: laptop_fields mem_answer_def mem_holds_def json_body_def from_slice_def dec_datakey_response_def
        dec_decrypt_response_def dec_errors_def field_defs dec_option_def key_text_bytes)
  show "transit_law laptop_env addr key mem_holds"
    unfolding transit_law_def
    by (simp add: laptop_fields mem_answer_def mem_holds_def json_body_def from_slice_def dec_value_def json_index_def)
  show "rsa_law laptop_env flow_rsa"
    by (auto simp: rsa_law_def laptop_fields flow_rsa_def split: if_splits)
  show "disk_law one_file" by (simp add: disk_law_def one_file_def)
qed

lemma laptop_passes:
  "test_laptop_option_a_datakey_workflow laptop_env flow_rsa one_file (0, []) = (Inr (), (4, ''vault:v1:'' @ key_text))"
proof -
  define ct where "ct = ''vault:v1:'' @ key_text"
  define enc where "enc = str_of_bytes (as_bytes ''PEM'' @ as_bytes key_text)"
  obtain eng where eng: "laptop_engine laptop_env = Inr eng"
    by (simp add: laptop_engine_def VaultDatakeyEngine_new_def build_vault_client_def laptop_fields env_default_def
        laptop_env_def flow_env_def mem_env_def Let_def)
  have rsa: "rsa_oaep_decrypt flow_rsa ''PEM'' (as_bytes ''PEM'' @ b) = Inr b" "rsa_new flow_rsa n = (Inr ''PEM'', n)"
    "rsa_public_pem flow_rsa s = Inr s" for b n s
    by (simp_all add: flow_rsa_def as_bytes_def res_simps)
  have prov: "engine_provision_datakey laptop_env eng ''PEM'' 0 =
     (Inr \<lparr>pr_wallet_ciphertext = ct, pr_encrypted_wallet_key = enc,
       pr_seed_ciphertext = ''vault:v1:seed'', pr_encrypted_master_seed = ''PEMseed''\<rparr>, 3)"
    unfolding ct_def enc_def
    by (simp add: engine_provision_datakey_def generate_vault_random_seed_def engine_encrypt_def transit_encrypt_def
        wrap_bytes_for_enclave_def res_simps laptop_fields mem_answer_def json_body_def from_slice_def is_success_def
        dec_datakey_response_def dec_seed_response_def dec_errors_def field_defs dec_value_def json_index_def
        as_bytes_append [symmetric] str_of_bytes_as_bytes del: as_bytes_append)
  have unw: "unwrap_datakey_for_enclave laptop_env eng ct ''PEM'' 3 = (Inr enc, 4)"
    unfolding ct_def enc_def
    by (simp add: unwrap_datakey_for_enclave_def engine_decrypt_def wrap_bytes_for_enclave_def res_simps laptop_fields
        mem_answer_def json_body_def from_slice_def dec_value_def json_index_def is_success_def)
  have enc: "as_bytes enc = as_bytes ''PEM'' @ as_bytes key_text" by (simp add: enc_def)
  have disk: "disk_exists one_file a t" "disk_remove_file one_file a t = (Inr (), t)"
    "disk_write one_file a b t = (Inr (), b)" "disk_read_to_string one_file a t = (Inr t, t)" for a b t
    by (simp_all add: one_file_def res_simps)
  show ?thesis
    unfolding ct_def [symmetric]
    by (simp add: enc test_laptop_option_a_datakey_workflow_def Let_def res_simps eng prepare_key_file_def on_disk_def on_net_def
        disk laptop_provisioning_def laptop_session_def fresh_rsa_key_def expect_def rsa prov unw laptop_fields key_text_bytes)
qed

theorem session_key_survives_witness:
  "\<exists>wv. test_laptop_option_a_datakey_workflow laptop_env flow_rsa one_file (0, []) = (Inr (), wv) \<and>
     fst (test_laptop_option_a_datakey_workflow laptop_env flow_rsa one_file (0, [])) \<noteq> Inl key_mismatch"
  using session_key_survives [OF laptop_laws, of "(0, [])"] laptop_passes by blast

section \<open>Seeds\<close>

definition test_live_vault_random_seed_generation :: "('k, 'w) http_env \<Rightarrow> ('w, test_stop, unit) io" where
  "test_live_vault_random_seed_generation E =
     io_bind (io_lift (map_err (\<lambda>_. TestPanic ''unwrap'')
       (VaultDatakeyEngine_new E (env_default E ''DZTA_VAULT_ADDR'' ''http://127.0.0.1:8200'')
         (env_default E ''DZTA_VAULT_TOKEN'' ''root'') (env_default E ''DZTA_SECRET_RELEASE_KEY'' ''key-v1'')))) (\<lambda>engine.
     io_bind (expect ''unwrap'' (generate_vault_random_seed E engine)) (\<lambda>seed1.
     io_bind (expect ''unwrap'' (generate_vault_random_seed E engine)) (\<lambda>seed2.
     if length seed1 \<noteq> 32 \<or> length seed2 \<noteq> 32 then io_fail (TestPanic ''assert_eq'')
     else if seed1 = seed2 then io_fail (TestPanic ''Subsequent calls to Vault must yield different entropy'')
     else io_return ())))"

section \<open>A quote fixture\<close>

text \<open>\<open>copy_from_slice\<close> to the range from \<open>i\<close> to \<open>j\<close> panics when the lengths differ.\<close>

definition copy_from_slice :: "nat \<Rightarrow> nat \<Rightarrow> bytes \<Rightarrow> bytes \<Rightarrow> test_stop + bytes" where
  "copy_from_slice i j src quote =
     (if length src = j - i then Inr (take i quote @ src @ drop j quote)
      else Inl (TestPanic ''source slice length does not match destination slice length''))"

definition create_mock_sgx_quote ::
  "(string \<Rightarrow> string + bytes) \<Rightarrow> string \<Rightarrow> string \<Rightarrow> bytes \<Rightarrow> test_stop + bytes" where
  "create_mock_sgx_quote hex_decode mrenclave_hex mrsigner_hex report_data =
     (let report_offset = 48 in
      bind_res (copy_from_slice 0 2 (le_bytes 2 3) (replicate 1020 0)) (\<lambda>quote.
      bind_res (copy_from_slice 2 4 (le_bytes 2 2) quote) (\<lambda>quote.
      bind_res (map_err (\<lambda>_. TestPanic ''Invalid mrenclave hex'') (hex_decode mrenclave_hex)) (\<lambda>mrenclave_bytes.
      bind_res (copy_from_slice (report_offset + 64) (report_offset + 96) mrenclave_bytes quote) (\<lambda>quote.
      bind_res (map_err (\<lambda>_. TestPanic ''Invalid mrsigner hex'') (hex_decode mrsigner_hex)) (\<lambda>mrsigner_bytes.
      bind_res (copy_from_slice (report_offset + 128) (report_offset + 160) mrsigner_bytes quote) (\<lambda>quote.
      copy_from_slice (report_offset + 320) (report_offset + 384) report_data quote)))))))"

definition slice :: "nat \<Rightarrow> nat \<Rightarrow> bytes \<Rightarrow> bytes" where
  "slice i n quote = take n (drop i quote)"

lemma copy_from_slice_Inr:
  "copy_from_slice i j src quote = Inr quote' \<longleftrightarrow>
     length src = j - i \<and> quote' = take i quote @ src @ drop j quote"
  by (auto simp: copy_from_slice_def)

definition quote_of :: "bytes \<Rightarrow> bytes \<Rightarrow> bytes \<Rightarrow> bytes" where
  "quote_of x y rd = [3, 0, 2, 0] @ replicate 108 0 @ x @ replicate 32 0 @ y @ replicate 160 0 @ rd @ replicate 588 0"

lemma copy_between:
  assumes "length a = i" "length b = j - i" "i \<le> j"
  shows "copy_from_slice i j src (a @ b @ c) =
    (if length src = j - i then Inr (a @ src @ c)
     else Inl (TestPanic ''source slice length does not match destination slice length''))"
proof -
  from assms have "drop j (a @ b @ c) = c" "take i (a @ b @ c) = a" by simp_all
  then show ?thesis by (simp add: copy_from_slice_def)
qed

lemma create_mock_sgx_quote_Inr:
  assumes "length report_data = 64"
  shows "create_mock_sgx_quote hex_decode e s report_data = Inr quote \<longleftrightarrow>
    (\<exists>x y. hex_decode e = Inr x \<and> length x = 32 \<and> hex_decode s = Inr y \<and> length y = 32 \<and>
      quote = quote_of x y report_data)"
proof -
  have le: "le_bytes 2 3 = [3, 0]" "le_bytes 2 2 = [2, 0]" by (simp_all add: numeral_2_eq_2)
  have zeros: "replicate (m + n) 0 = replicate m (0 :: byte) @ replicate n 0" for m n by (rule replicate_add)
  have version: "copy_from_slice 0 2 [3, 0] (replicate 1020 0) = Inr ([3, 0] @ replicate 2 0 @ replicate 1016 0)"
    using copy_between [of "[]" 0 "replicate 2 0" 2 "[3, 0]" "replicate 1018 0"] zeros [of 2 1018] zeros [of 2 1016]
    by simp
  have sign: "copy_from_slice 2 4 [2, 0] ([3, 0] @ replicate 2 0 @ replicate 1016 0) =
      Inr (([3, 0, 2, 0] @ replicate 108 0) @ replicate 32 0 @ replicate 876 0)"
    using copy_between [of "[3, 0]" 2 "replicate 2 0" 4 "[2, 0]" "replicate 1016 0"] zeros [of 108 908] zeros [of 32 876]
    by simp
  have measure: "copy_from_slice 112 144 x (([3, 0, 2, 0] @ replicate 108 0) @ replicate 32 0 @ replicate 876 0) =
      (if length x = 32 then Inr ([3, 0, 2, 0] @ replicate 108 0 @ x @ replicate 876 0)
       else Inl (TestPanic ''source slice length does not match destination slice length''))" for x
    by (subst copy_between) simp_all
  have signer: "copy_from_slice 176 208 y ([3, 0, 2, 0] @ replicate 108 0 @ x @ replicate 876 0) =
      (if length y = 32 then Inr ([3, 0, 2, 0] @ replicate 108 0 @ x @ replicate 32 0 @ y @ replicate 812 0)
       else Inl (TestPanic ''source slice length does not match destination slice length''))" if "length x = 32" for x y
    using copy_between [of "[3, 0, 2, 0] @ replicate 108 0 @ x @ replicate 32 0" 176 "replicate 32 0" 208 y "replicate 812 0"]
      that zeros [of 32 844] zeros [of 32 812] by simp
  have report: "copy_from_slice 368 432 report_data
      ([3, 0, 2, 0] @ replicate 108 0 @ x @ replicate 32 0 @ y @ replicate 812 0) = Inr (quote_of x y report_data)"
    if "length x = 32" "length y = 32" for x y
    using copy_between [of "[3, 0, 2, 0] @ replicate 108 0 @ x @ replicate 32 0 @ y @ replicate 160 0" 368
        "replicate 64 0" 432 report_data "replicate 588 0"]
      that assms zeros [of 160 652] zeros [of 64 588] by (simp add: quote_of_def)
  define qa where "qa = [3, 0] @ replicate 2 0 @ replicate 1016 (0 :: byte)"
  define qb where "qb = ([3, 0, 2, 0] @ replicate 108 0) @ replicate 32 0 @ replicate 876 (0 :: byte)"
  define qc where "qc x = [3, 0, 2, 0] @ replicate 108 0 @ x @ replicate 876 (0 :: byte)" for x
  define qd where "qd x y = [3, 0, 2, 0] @ replicate 108 0 @ x @ replicate 32 0 @ y @ replicate 812 (0 :: byte)" for x y
  note stages = version [folded qa_def] sign [folded qa_def qb_def] measure [folded qb_def qc_def]
    signer [folded qc_def qd_def] report [folded qd_def]
  have "create_mock_sgx_quote hex_decode e s report_data =
     bind_res (map_err (\<lambda>_. TestPanic ''Invalid mrenclave hex'') (hex_decode e)) (\<lambda>x.
     bind_res (copy_from_slice 112 144 x qb) (\<lambda>q.
     bind_res (map_err (\<lambda>_. TestPanic ''Invalid mrsigner hex'') (hex_decode s)) (\<lambda>y.
     bind_res (copy_from_slice 176 208 y q) (copy_from_slice 368 432 report_data))))"
    unfolding create_mock_sgx_quote_def Let_def le by (simp add: stages(1,2))
  then show ?thesis
    by (auto simp: bind_res_Inr_iff stages(3-) split: if_splits)
qed

text \<open>
  The quote fixture is laid out like an SGX quote: it is made exactly when both measurements are
  hexadecimal forms of 32 bytes, it has 1020 bytes, and version, signature type, MRENCLAVE, MRSIGNER
  and report data are read back from their offsets 0, 2, 112, 176 and 368; no copy overwrites
  another.
\<close>

theorem mock_quote_layout:
  assumes "length report_data = 64"
  shows "((\<exists>quote. create_mock_sgx_quote hex_decode e s report_data = Inr quote) \<longleftrightarrow>
      (\<exists>x y. hex_decode e = Inr x \<and> length x = 32 \<and> hex_decode s = Inr y \<and> length y = 32)) \<and>
    (\<forall>quote. create_mock_sgx_quote hex_decode e s report_data = Inr quote \<longrightarrow>
      length quote = 1020 \<and> slice 0 2 quote = [3, 0] \<and> slice 2 2 quote = [2, 0] \<and>
      hex_decode e = Inr (slice 112 32 quote) \<and> hex_decode s = Inr (slice 176 32 quote) \<and>
      slice 368 64 quote = report_data)"
proof -
  have "length x = 32 \<Longrightarrow> length y = 32 \<Longrightarrow> length (quote_of x y report_data) = 1020 \<and>
      slice 0 2 (quote_of x y report_data) = [3, 0] \<and> slice 2 2 (quote_of x y report_data) = [2, 0] \<and>
      slice 112 32 (quote_of x y report_data) = x \<and> slice 176 32 (quote_of x y report_data) = y \<and>
      slice 368 64 (quote_of x y report_data) = report_data" for x y
    using assms by (simp add: quote_of_def slice_def)
  with create_mock_sgx_quote_Inr [OF assms, of hex_decode e s] show ?thesis by auto
qed

theorem mock_quote_layout_witness:
  "\<exists>quote. create_mock_sgx_quote (\<lambda>t. Inr (as_bytes t)) (replicate 32 CHR ''e'') (replicate 32 CHR ''s'')
     (replicate 64 1) = Inr quote \<and> slice 368 64 quote = replicate 64 1"
  using mock_quote_layout [of "replicate 64 1" "\<lambda>t. Inr (as_bytes t)" "replicate 32 CHR ''e''" "replicate 32 CHR ''s''"]
  by (auto simp: as_bytes_def)

end
