(* ===== verification/BrokerTests.thy ===== *)
theory BrokerTests
  imports Pipeline DatakeyTests
begin

text \<open>
  The tests of \<open>src/dzta-e2e-tests/src\<close> that run the broker itself: \<open>broker_http_integration_test.rs\<close>
  serves the router in the test process and provisions a key over HTTP, \<open>broker_bin_test.rs\<close> starts
  the binary with a measurement that is no hexadecimal text. The connection to the local server is
  the router's service; what the service does to the network \<open>'w\<close> happens between request and answer.
\<close>

section \<open>Provisioning over HTTP\<close>

definition dec_provisioning_response :: "provisioning_datakey_response decoder" where
  "dec_provisioning_response v =
     bind_res (struct_fields [''wallet_ciphertext'', ''encrypted_wallet_key_for_enclave'',
       ''seed_ciphertext'', ''encrypted_master_seed_for_enclave''] v) (\<lambda>fs.
     bind_res (required_field dec_string [''wallet_ciphertext''] fs) (\<lambda>a.
     bind_res (required_field dec_string [''encrypted_wallet_key_for_enclave''] fs) (\<lambda>b.
     bind_res (required_field dec_string [''seed_ciphertext''] fs) (\<lambda>c.
     bind_res (required_field dec_string [''encrypted_master_seed_for_enclave''] fs) (\<lambda>d.
     Inr \<lparr>pr_wallet_ciphertext = a, pr_encrypted_wallet_key = b, pr_seed_ciphertext = c,
          pr_encrypted_master_seed = d\<rparr>)))))"

definition json_of_provision_request :: "string \<Rightarrow> json" where
  "json_of_provision_request pem = JObject [(''enclave_public_key'', JString pem)]"

definition test_app_state :: "('k, 'w) http_env \<Rightarrow> ('q, 'w) quote_env \<Rightarrow> test_stop + app_state" where
  "test_app_state E Q =
     (let secret_key_name = env_default E ''DZTA_SECRET_RELEASE_KEY'' ''dzta-key'';
          vault_addr = env_default E ''VAULT_ADDR'' ''http://127.0.0.1:8200'';
          vault_token = env_default E ''VAULT_TOKEN'' ''root'' in
      bind_res (map_err (\<lambda>_. TestPanic ''Invalid MRSIGNER hex'')
        (q_hex_decode Q ''1b70f6701c4fd5443e4016cffaff259914e2042bd4cf207051a7eeb3d017cf9f'')) (\<lambda>mrsigner.
      bind_res (map_err (\<lambda>_. TestPanic ''Invalid MRENCLAVE hex'')
        (q_hex_decode Q ''c04e3943e9a8949769f41526cf5af6b60c665bdb037f44ec4fa46cc244dd4d13'')) (\<lambda>mrenclave.
      bind_res (map_err (\<lambda>_. TestPanic ''Failed to initialize VaultDatakeyEngine from environment'')
        (VaultDatakeyEngine_from_env E secret_key_name)) (\<lambda>engine.
      bind_res (map_err (\<lambda>_. TestPanic ''Failed to initialize VaultTransitProvider'')
        (VaultTransitProvider_new E vault_addr vault_token secret_key_name)) (\<lambda>provider.
      Inr \<lparr>pccs_url = ''https://pccs.phala.network'', expected_mrenclave = mrenclave,
        expected_mrsigner = mrsigner, kms = VaultSecretRelease provider, datakey_engine = Some engine\<rparr>)))))"

definition provision_over_http ::
  "axum \<Rightarrow> ('k, 'w) http_env \<Rightarrow> ('q, 'w) quote_env \<Rightarrow> app_state \<Rightarrow> string \<Rightarrow>
   ('w, test_stop, provisioning_datakey_response) io" where
  "provision_over_http A E Q state pem = (\<lambda>w.
     let (response, w1) = broker_service A E Q state
           \<lparr>hq_method = ''POST'', hq_url = ''/v1/datakey/provision'', hq_headers = [],
            hq_json = Some (json_of_provision_request pem)\<rparr> w
     in if hp_status response \<noteq> 200 then (Inl (TestPanic ''assert_eq status''), w1)
        else (map_err (\<lambda>_. TestPanic ''Failed to parse provision response'')
               (json_body E dec_provisioning_response response), w1))"

definition enclave_unwraps ::
  "('k, 'w) http_env \<Rightarrow> ('r, 'w) rsa_lib \<Rightarrow> 'r \<Rightarrow> string \<Rightarrow> string \<Rightarrow> test_stop + bytes" where
  "enclave_unwraps E L priv msg b64 =
     bind_res (map_err (\<lambda>_. TestPanic ''unwrap'') (b64_decode E b64)) (\<lambda>wrapped.
     bind_res (map_err (\<lambda>_. TestPanic msg) (rsa_oaep_decrypt L priv wrapped)) (\<lambda>raw.
     if length raw \<noteq> 32 then Inl (TestPanic ''assert_eq length'') else Inr raw))"

text \<open>The test up to its clean-up, with what was provisioned and what the enclave unwrapped.\<close>

definition http_provision_flow ::
  "axum \<Rightarrow> ('k, 'w) http_env \<Rightarrow> ('q, 'w) quote_env \<Rightarrow> ('r, 'w) rsa_lib \<Rightarrow> 'v test_disk \<Rightarrow>
   ('w \<times> 'v, test_stop, provisioning_datakey_response \<times> bytes \<times> bytes) io" where
  "http_provision_flow A E Q L F =
     (let key_file_path = ''target/debug/wallet_http_test.key.enc'' in
     io_bind (io_lift (map_err (\<lambda>_. TestPanic ''Failed to build vault HTTP client'') (build_vault_client E))) (\<lambda>_.
     io_bind (io_lift (test_app_state E Q)) (\<lambda>state.
     io_bind (on_disk (\<lambda>v. if disk_exists F key_file_path v
       then (Inr (), snd (disk_remove_file F key_file_path v)) else (Inr (), v))) (\<lambda>_.
     io_bind (on_net (fresh_rsa_key L ''unwrap'' ''unwrap'')) (\<lambda>(enclave_priv_key, enclave_pub_pem).
     io_bind (on_net (provision_over_http A E Q state enclave_pub_pem)) (\<lambda>provision_res.
     io_bind (on_disk (expect ''unwrap''
       (disk_write F key_file_path (pr_wallet_ciphertext provision_res)))) (\<lambda>_.
     io_bind (io_lift (enclave_unwraps E L enclave_priv_key ''Enclave failed to decrypt initial DEK''
       (pr_encrypted_wallet_key provision_res))) (\<lambda>dek.
     io_bind (io_lift (enclave_unwraps E L enclave_priv_key ''Enclave failed to decrypt initial master seed''
       (pr_encrypted_master_seed provision_res))) (\<lambda>seed.
     io_return (provision_res, dek, seed))))))))))"

definition test_axum_broker_http_datakey_endpoints ::
  "axum \<Rightarrow> ('k, 'w) http_env \<Rightarrow> ('q, 'w) quote_env \<Rightarrow> ('r, 'w) rsa_lib \<Rightarrow> 'v test_disk \<Rightarrow>
   ('w \<times> 'v, test_stop, unit) io" where
  "test_axum_broker_http_datakey_endpoints A E Q L F =
     (let key_file_path = ''target/debug/wallet_http_test.key.enc'' in
     io_bind (http_provision_flow A E Q L F) (\<lambda>_.
     on_disk (\<lambda>v. if disk_exists F key_file_path v
       then (Inr (), snd (disk_remove_file F key_file_path v)) else (Inr (), v))))"

lemma provisioning_response_read:
  assumes "print_parse_law (json_bytes A) (he_json_parse E)"
  shows "json_body E dec_provisioning_response (respond_json A (st, json_of_provisioning_response r)) = Inr r"
proof -
  have "json_wf (json_of_provisioning_response r)" by (simp add: json_of_provisioning_response_def)
  then have "he_json_parse E (json_bytes A (json_of_provisioning_response r)) = Inr (json_of_provisioning_response r)"
    using assms by (simp add: print_parse_law_def)
  then show ?thesis
    by (simp add: json_body_def respond_json_def from_slice_def dec_provisioning_response_def
        json_of_provisioning_response_def field_defs)
qed

lemma provisioned_over_http:
  assumes "accepts_json A" "print_parse_law (json_bytes A) (he_json_parse E)"
    and "provision_over_http A E Q state pem w = (Inr res, w')"
  shows "provision_datakey E state pem w = (Inr res, w')"
proof -
  let ?rq = "\<lparr>hq_method = ''POST'', hq_url = ''/v1/datakey/provision'', hq_headers = [],
    hq_json = Some (json_of_provision_request pem)\<rparr>"
  have "dec_provision_request (json_of_provision_request pem) = Inr pem"
    by (simp add: dec_provision_request_def json_of_provision_request_def field_defs)
  then have serve: "broker_service A E Q state ?rq w =
      (case provision_datakey E state pem w of
         (Inl err, w1) \<Rightarrow> (respond_json A (into_response err), w1)
       | (Inr r, w1) \<Rightarrow> (respond_json A (200, json_of_provisioning_response r), w1))"
    using assms(1) by (simp add: broker_service_cases json_handler_def accepts_json_def)
  show ?thesis
  proof (cases "provision_datakey E state pem w")
    case (Pair r w1)
    show ?thesis
    proof (cases r)
      case (Inl err)
      with handlers_fail(1) [of E state pem] Pair have "fst err = 400 \<or> fst err = 500"
        unfolding api_fails_def by blast
      then have "fst err \<noteq> 200" by auto
      with Inl Pair serve assms(3) show ?thesis
        by (simp add: provision_over_http_def respond_json_def into_response_def)
    next
      case (Inr res')
      with Pair serve assms(3) provisioning_response_read [OF assms(2), of 200 res'] show ?thesis
        by (simp add: provision_over_http_def split: if_splits)
    qed
  qed
qed

lemma wrapped_then_unwrapped:
  assumes "rsa_law E L" "rsa_public_pem L priv = Inr pem" "wrap_bytes_for_enclave E raw pem w = (Inr enc, w')"
    and "enclave_unwraps E L priv msg enc = Inr raw'"
  shows "raw' = raw \<and> length raw = 32"
proof -
  from assms(3) obtain k c where "rsa_from_pem E pem = Inr k" "rsa_oaep_encrypt E k raw w = (Inr c, w')"
    "enc = b64_encode E c"
    by (auto simp: wrap_bytes_Inr)
  with assms(4) rsa_law_decrypt [OF assms(1)] assms(2) show ?thesis
    by (fastforce simp: enclave_unwraps_def bind_res_Inr_iff split: if_splits)
qed

text \<open>
  C21. Provisioning over HTTP is consistent for both secrets: when the test completes, the data key
  and the master seed that the enclave unwrapped from the broker's response are exactly what Vault
  holds under the two ciphertexts of the same response, which are what the device keeps. The path
  runs through the client's request, router, extractor, handler, serializer and decoder.
\<close>

theorem http_provisioning_consistent:
  fixes E :: "('k, 'w) http_env"
  assumes laws: "datakey_law E (trim_end_matches (CHR ''/'') (env_default E ''DZTA_VAULT_ADDR'' ''http://127.0.0.1:8200''))
        (env_default E ''DZTA_SECRET_RELEASE_KEY'' ''dzta-key'') holds"
      "transit_law E (trim_end_matches (CHR ''/'') (env_default E ''DZTA_VAULT_ADDR'' ''http://127.0.0.1:8200''))
        (env_default E ''DZTA_SECRET_RELEASE_KEY'' ''dzta-key'') holds"
      "rsa_law E L" "accepts_json A" "print_parse_law (json_bytes A) (he_json_parse E)"
    and run: "http_provision_flow A E Q L F (w, v) = (Inr (res, dek, seed), (w', v'))"
  shows "holds (pr_wallet_ciphertext res) dek \<and> holds (pr_seed_ciphertext res) seed \<and>
    length dek = 32 \<and> length seed = 32"
proof -
  from run obtain state w1 priv pem w2 where state: "test_app_state E Q = Inr state"
    and pem: "fresh_rsa_key L ''unwrap'' ''unwrap'' w1 = (Inr (priv, pem), w2)"
    and prov: "provision_over_http A E Q state pem w2 = (Inr res, w')"
    and dek: "enclave_unwraps E L priv ''Enclave failed to decrypt initial DEK'' (pr_encrypted_wallet_key res) = Inr dek"
    and seed: "enclave_unwraps E L priv ''Enclave failed to decrypt initial master seed''
      (pr_encrypted_master_seed res) = Inr seed"
    unfolding http_provision_flow_def Let_def by (auto simp: io_Inr split: prod.splits)
  from state obtain eng where eng: "datakey_engine state = Some eng"
    "vault_addr eng = trim_end_matches (CHR ''/'') (env_default E ''DZTA_VAULT_ADDR'' ''http://127.0.0.1:8200'')"
    "secret_key_name eng = env_default E ''DZTA_SECRET_RELEASE_KEY'' ''dzta-key''"
    by (auto simp: test_app_state_def Let_def bind_res_Inr_iff VaultDatakeyEngine_from_env_def
        VaultDatakeyEngine_new_def)
  from provisioned_over_http [OF laws(4,5) prov] eng(1) obtain res0 w3 raw w4 w5 where
    first: "engine_provision_datakey E eng pem w2 = (Inr res0, w3)"
      "pr_wallet_ciphertext res = pr_wallet_ciphertext res0" "pr_encrypted_wallet_key res = pr_encrypted_wallet_key res0"
    and enc: "engine_encrypt E eng raw w4 = (Inr (pr_seed_ciphertext res), w5)"
    and wrap: "wrap_bytes_for_enclave E raw pem w5 = (Inr (pr_encrypted_master_seed res), w')"
    unfolding provision_datakey_def engine_of_def by (auto simp: io_Inr io_fail_app split: if_splits)
  note pem = fresh_rsa_key_pem [OF pem]
  from provisioned_datakey [OF laws(1) [folded eng(2,3)] laws(3) pem first(1)] obtain dek0 c where
    "holds (pr_wallet_ciphertext res0) dek0" "pr_encrypted_wallet_key res0 = b64_encode E c"
    "rsa_oaep_decrypt L priv c = Inr dek0" by blast
  with dek first rsa_law_decrypt(2) [OF laws(3)] have "holds (pr_wallet_ciphertext res) dek \<and> length dek = 32"
    by (auto simp: enclave_unwraps_def bind_res_Inr_iff split: if_splits)
  moreover have "holds (pr_seed_ciphertext res) raw"
    by (rule vault_cipher.encrypt_holds [OF engine_vault_cipher [OF laws(2) [folded eng(2,3)]] enc])
  ultimately show ?thesis using wrapped_then_unwrapped [OF laws(3) pem wrap seed] by simp
qed

definition seeded_env :: "(bytes, nat) http_env" where
  "seeded_env = laptop_env\<lparr>http_send := (\<lambda>cl q n.
     if hq_json q = Some (JObject [(''format'', JString ''base64'')])
     then (Inr \<lparr>hp_status = 200, hp_body = Inr (unary_print (JObject [(''data'',
        JObject [(''random_bytes'', JString key_text)])]))\<rparr>, n + 1)
     else http_send laptop_env cl q n)\<rparr>"

lemma seeded_fields:
  "he_env_var seeded_env x = Some ''k''" "b64_encode seeded_env = str_of_bytes" "b64_decode seeded_env s = Inr (as_bytes s)"
  "he_json_parse seeded_env = unary_parse"
  "rsa_from_pem seeded_env pem = (if pem = [] then Inl ''empty'' else Inr (as_bytes pem))"
  "rsa_oaep_encrypt seeded_env k m n = (Inr (k @ m), n)"
  "http_send seeded_env cl q n = (if hq_json q = Some (JObject [(''format'', JString ''base64'')])
     then (Inr \<lparr>hp_status = 200, hp_body = Inr (unary_print (JObject [(''data'',
        JObject [(''random_bytes'', JString key_text)])]))\<rparr>, n + 1)
     else http_send laptop_env cl q n)"
  by (simp_all add: seeded_env_def laptop_fields(1-6))

lemma seeded_laws:
  "datakey_law seeded_env addr key mem_holds" "transit_law seeded_env addr key mem_holds" "rsa_law seeded_env flow_rsa"
proof -
  show "datakey_law seeded_env addr key mem_holds"
    unfolding datakey_law_def
    by (auto simp: seeded_fields laptop_fields(7) mem_answer_def mem_holds_def json_body_def from_slice_def
        dec_datakey_response_def dec_decrypt_response_def dec_errors_def field_defs dec_option_def)
  show "transit_law seeded_env addr key mem_holds"
    unfolding transit_law_def
    by (simp add: seeded_fields laptop_fields(7) mem_answer_def mem_holds_def json_body_def from_slice_def dec_value_def
        json_index_def)
  show "rsa_law seeded_env flow_rsa"
    by (auto simp: rsa_law_def seeded_fields flow_rsa_def split: if_splits)
qed

lemma seeded_parts:
  fixes eng :: vault_datakey_engine
  defines "enc \<equiv> str_of_bytes (as_bytes ''PEM'' @ as_bytes key_text)" and "ct \<equiv> ''vault:v1:'' @ key_text"
  shows "wrap_bytes_for_enclave seeded_env (as_bytes key_text) ''PEM'' n = (Inr enc, n)"
    "generate_vault_random_seed seeded_env eng n = (Inr (as_bytes key_text), n + 1)"
    "engine_encrypt seeded_env eng (as_bytes key_text) n = (Inr ct, n + 1)"
    "engine_provision_datakey seeded_env eng ''PEM'' n = (Inr \<lparr>pr_wallet_ciphertext = ct,
       pr_encrypted_wallet_key = enc, pr_seed_ciphertext = ct, pr_encrypted_master_seed = enc\<rparr>, n + 3)"
proof -
  show w: "wrap_bytes_for_enclave seeded_env (as_bytes key_text) ''PEM'' n = (Inr enc, n)" for n
    by (simp add: wrap_bytes_for_enclave_def res_simps seeded_fields enc_def)
  show s: "generate_vault_random_seed seeded_env eng n = (Inr (as_bytes key_text), n + 1)" for n
    by (simp add: generate_vault_random_seed_def res_simps seeded_fields json_body_def from_slice_def
        dec_seed_response_def dec_errors_def field_defs is_success_def)
  show e: "engine_encrypt seeded_env eng (as_bytes key_text) n = (Inr ct, n + 1)" for n
    by (simp add: engine_encrypt_def transit_encrypt_def res_simps seeded_fields laptop_fields(7) mem_answer_def
        json_body_def from_slice_def dec_value_def json_index_def ct_def)
  show "engine_provision_datakey seeded_env eng ''PEM'' n = (Inr \<lparr>pr_wallet_ciphertext = ct,
       pr_encrypted_wallet_key = enc, pr_seed_ciphertext = ct, pr_encrypted_master_seed = enc\<rparr>, n + 3)"
    by (simp add: engine_provision_datakey_def res_simps seeded_fields laptop_fields(7) json_body_def from_slice_def
        dec_datakey_response_def dec_errors_def field_defs is_success_def w s e) (simp add: ct_def)
qed

lemma seeded_run:
  "\<exists>res w'. http_provision_flow plain_axum seeded_env demo_quote_env flow_rsa one_file (0, []) =
     (Inr (res, as_bytes key_text, as_bytes key_text), w')"
proof -
  define enc where "enc = str_of_bytes (as_bytes ''PEM'' @ as_bytes key_text)"
  define ct where "ct = ''vault:v1:'' @ key_text"
  note parts = seeded_parts [folded enc_def ct_def]
  obtain cl where cl: "build_vault_client seeded_env = Inr cl"
    by (simp add: build_vault_client_def seeded_env_def laptop_env_def flow_env_def mem_env_def Let_def)
  obtain state eng where state: "test_app_state seeded_env demo_quote_env = Inr state" "datakey_engine state = Some eng"
    by (simp add: test_app_state_def Let_def VaultDatakeyEngine_from_env_def VaultDatakeyEngine_new_def
        VaultTransitProvider_new_def cl demo_quote_env_def)
  define res where "res = \<lparr>pr_wallet_ciphertext = ct, pr_encrypted_wallet_key = enc, pr_seed_ciphertext = ct,
    pr_encrypted_master_seed = enc\<rparr>"
  have "trim ''PEM'' \<noteq> []" by code_simp
  then have handler: "provision_datakey seeded_env state ''PEM'' 0 = (Inr res, 5)"
    by (simp add: provision_datakey_def engine_of_def state(2) res_simps parts res_def)
  have "print_parse_law (json_bytes plain_axum) (he_json_parse seeded_env)"
    by (simp add: plain_axum_laws(3) seeded_fields(4) unary_law)
  from provisioning_response_read [OF this, of 200 res]
  have prov: "provision_over_http plain_axum seeded_env demo_quote_env state ''PEM'' 0 = (Inr res, 5)"
    by (simp add: provision_over_http_def broker_service_cases json_handler_def plain_axum_def handler
        dec_provision_request_def json_of_provision_request_def field_defs respond_json_def)
  have rsa: "rsa_oaep_decrypt flow_rsa ''PEM'' (as_bytes ''PEM'' @ b) = Inr b" "rsa_new flow_rsa n = (Inr ''PEM'', n)"
    "rsa_public_pem flow_rsa s = Inr s" for b n s
    by (simp_all add: flow_rsa_def as_bytes_def res_simps)
  have "as_bytes enc = as_bytes ''PEM'' @ as_bytes key_text" by (simp add: enc_def)
  then have unwrap: "enclave_unwraps seeded_env flow_rsa ''PEM'' msg enc = Inr (as_bytes key_text)" for msg
    by (simp add: enclave_unwraps_def seeded_fields rsa key_text_bytes)
  show ?thesis
    by (simp add: http_provision_flow_def Let_def res_simps on_net_def on_disk_def cl state(1) fresh_rsa_key_def expect_def
        rsa prov res_def unwrap one_file_def)
qed

theorem http_provisioning_consistent_witness:
  "\<exists>res :: provisioning_datakey_response. mem_holds (pr_wallet_ciphertext res) (as_bytes key_text) \<and>
     mem_holds (pr_seed_ciphertext res) (as_bytes key_text)"
proof -
  obtain res w' v' where run: "http_provision_flow plain_axum seeded_env demo_quote_env flow_rsa one_file (0, []) =
      (Inr (res, as_bytes key_text, as_bytes key_text), (w', v'))"
    using seeded_run by (metis surj_pair)
  have "print_parse_law (json_bytes plain_axum) (he_json_parse seeded_env)"
    by (simp add: plain_axum_laws(3) seeded_fields(4) unary_law)
  from http_provisioning_consistent [OF seeded_laws plain_axum_laws(2) this run] show ?thesis by blast
qed

section \<open>Start up with a bad measurement\<close>

text \<open>
  The environment of a child is that of its parent with the variables it is given. What a started
  broker has come to: it fails when its configuration does, or when it cannot bind; else it serves.
\<close>

definition with_env :: "(string \<times> string) list \<Rightarrow> ('k, 'w) http_env \<Rightarrow> ('k, 'w) http_env" where
  "with_env kvs E = E\<lparr>he_env_var := (\<lambda>n. case map_of kvs n of Some v \<Rightarrow> Some v | None \<Rightarrow> he_env_var E n)\<rparr>"

definition broker_exit :: "(string \<Rightarrow> bool) \<Rightarrow> ('k, 'w) http_env \<Rightarrow> ('q, 'w) quote_env \<Rightarrow> bool option" where
  "broker_exit binds E Q =
     (case broker_main E Q of
        Inl e \<Rightarrow> Some False
      | Inr state \<Rightarrow> if binds (env_default E ''DZTA_ATTESTATION_BIND'' ''127.0.0.1:8443'') then None else Some False)"

definition invalid_mrenclave_env :: "(string \<times> string) list" where
  "invalid_mrenclave_env =
     [(''DZTA_SECRET_PROVIDER'', ''vault''), (''VAULT_ADDR'', ''http://127.0.0.1:8200''), (''VAULT_TOKEN'', ''root''),
      (''DZTA_VAULT_TRANSIT_KEY'', ''key-v1''), (''DZTA_MRENCLAVE'', ''invalid_non_hex_measurement_string''),
      (''DZTA_MRSIGNER'', ''ffeeddccbbaa99887766554433221100ffeeddccbbaa99887766554433221100''),
      (''DZTA_ATTESTATION_BIND'', ''127.0.0.1:18444'')]"

definition test_binary_fails_on_invalid_mrenclave_config ::
  "(string \<Rightarrow> bool) \<Rightarrow> (string \<Rightarrow> bool) \<Rightarrow> ('p, 'u) host_env \<Rightarrow> ('k, 'w) http_env \<Rightarrow> ('q, 'w) quote_env \<Rightarrow>
   test_stop + unit" where
  "test_binary_fails_on_invalid_mrenclave_config can_spawn binds X E Q =
     (let broker_target_binary = join_path (workspace_root X) ''target/release/attestation-broker''
      in if \<not> can_spawn broker_target_binary then Inl (TestPanic ''Failed to spawn process'')
         else case broker_exit binds (with_env invalid_mrenclave_env E) Q of
           None \<Rightarrow> Inl (TestPanic ''Broker should have crashed and exited due to invalid MRENCLAVE configuration'')
         | Some success \<Rightarrow>
             if success then Inl (TestPanic ''Broker exit status should indicate failure'') else Inr ())"

text \<open>
  A broker never serves with a measurement that is not hexadecimal, so the test passes whenever the
  binary can be started.
\<close>

lemma bad_measurement_never_serves:
  assumes "he_env_var E n = Some value" "q_hex_decode Q value = Inl e" "n = ''DZTA_MRENCLAVE'' \<or> n = ''DZTA_MRSIGNER''"
  shows "\<exists>e. broker_main E Q = Inl e"
proof (rule ccontr)
  assume "\<nexists>e. broker_main E Q = Inl e"
  then obtain state where "broker_main E Q = Inr state" by (metis sum.exhaust)
  with assms show False
    by (auto simp: broker_main_def bind_res_Inr_iff hex_env_def)
qed

lemma invalid_mrenclave_test_passes:
  assumes "q_hex_decode Q ''invalid_non_hex_measurement_string'' = Inl e" "\<forall>b. can_spawn b"
  shows "test_binary_fails_on_invalid_mrenclave_config can_spawn binds X E Q = Inr ()"
proof -
  have "he_env_var (with_env invalid_mrenclave_env E) ''DZTA_MRENCLAVE'' = Some ''invalid_non_hex_measurement_string''"
    by (simp add: with_env_def invalid_mrenclave_env_def)
  from bad_measurement_never_serves [OF this assms(1)] assms(2) show ?thesis
    by (auto simp: test_binary_fails_on_invalid_mrenclave_config_def broker_exit_def Let_def)
qed

end
