(* ===== verification/SgxTest.thy ===== *)
theory SgxTest
  imports BrokerTests PipelineExample
begin

text \<open>
  The confidential pipeline of \<open>src/dzta-e2e-tests/src/e2e_full_sgx_test.rs\<close>: it starts the broker
  as a process, issues a live credential and asks for a confidential proof in SGX mode. The worlds
  are those of theory \<open>Pipeline\<close>; \<open>spawn_env\<close> starts a child with extra variables, \<open>pause_ms\<close> waits.
\<close>

definition required_env :: "('p, 'u) host_env \<Rightarrow> string \<Rightarrow> test_stop + string" where
  "required_env X name =
     ok_or (TestPanic (''missing required SGX E2E environment variable '' @ name)) (host_env_var X name)"

definition sgx_workspace_root :: "('p, 'u) host_env \<Rightarrow> test_stop + string" where
  "sgx_workspace_root X =
     ok_or (TestPanic ''unwrap'')
       (path_parent (case host_env_var X ''CARGO_MANIFEST_DIR'' of Some d \<Rightarrow> d | None \<Rightarrow> ''.''))"

definition start_broker ::
  "('p, 'u) host_env \<Rightarrow> (string \<Rightarrow> (string \<times> string) list \<Rightarrow> ('u, string, 'p) io) \<Rightarrow> string \<Rightarrow>
   ('u, test_stop, 'p) io" where
  "start_broker X spawn_env root = (\<lambda>u.
     let broker_binary = join_path root ''target/debug/attestation-broker'' in
     if \<not> host_exists X broker_binary u then (Inl (TestPanic ''attestation broker is missing''), u)
     else expect ''failed to start dZTA attestation broker''
       (spawn_env broker_binary [(''DZTA_ATTESTATION_BIND'', ''127.0.0.1:18443'')]) u)"

definition sgx_payload :: "i64 \<Rightarrow> credential_attributes" where
  "sgx_payload now = \<lparr>user_role_id = ''systems-engineer'', org_id = ''sgx-e2e'', clearance_level = 5,
     timestamp = now\<rparr>"

definition create_live_credential ::
  "('h, 'w) sdk \<Rightarrow> 'w issuer_env \<Rightarrow> 'c prims \<Rightarrow> ('s, 't, 'v) askar \<Rightarrow> (string \<Rightarrow> ('v, string, unit) io) \<Rightarrow>
   ('p, 'u) host_env \<Rightarrow> ('w \<times> 'v, test_stop, 's wallet \<times> string) io" where
  "create_live_credential S I P A remove_file X =
     io_bind (io_lift (required_env X ''DZTA_FABRIC_CONFIG'')) (\<lambda>config_path.
     io_bind (io_lift (map_err (\<lambda>_. TestPanic ''failed to connect to Fabric'')
       (FabricClient_new S config_path ''dzta'' ''dztac'' ''Org1MSP'' ''org1-peer1''))) (\<lambda>fabric.
     io_bind (io_lift (sgx_workspace_root X)) (\<lambda>root.
     let db_path = join_path root ''target/debug/test_full_sgx_askar.db'' in
     io_bind (on_disk (io_result (remove_file db_path))) (\<lambda>_.
     io_bind (io_lift (required_env X ''DZTA_WALLET_PASSPHRASE'')) (\<lambda>passphrase.
     io_bind (on_disk (expect ''failed to initialize Askar wallet''
       (initialize A (Wallet_new db_path) passphrase))) (\<lambda>wal.
     io_bind (on_net (expect ''failed to generate credential signing key'' (local_generate I))) (\<lambda>seed.
     let iss = \<lparr>iss_fabric = fabric, iss_signer = local_signer I seed\<rparr> in
     io_bind (io_lift (map_err (\<lambda>_. TestPanic ''failed to generate issuer DID from public key'')
       (generate_did_from_public_key S (verifying_key I seed)))) (\<lambda>issuer_did.
     io_bind (io_lift (required_env X ''DZTA_TEST_SUBJECT_DID'')) (\<lambda>subject.
     io_bind (on_net (expect_tx ''failed to register issuer''
       (issuer_register_did S iss issuer_did issuer_did (public_key_multibase_value I seed)))) (\<lambda>_.
     io_bind (on_net (expect_tx ''failed to register subject''
       (issuer_register_did S iss subject issuer_did ''sgx-e2e-test-public-key''))) (\<lambda>_.
     io_bind (on_net (expect_tx ''failed to register schema''
       (issuer_register_schema S I iss issuer_did ''SecurityClearanceTemplate'' ''1.0.0'' test_schema))) (\<lambda>schema_id.
     io_bind (on_net (\<lambda>w. let now = dt_secs (ie_now I w) in
       expect_tx ''failed to create credential''
         (create_credential S I iss schema_id issuer_did subject (sgx_payload now) (now + 3600)) w)) (\<lambda>credential.
     io_bind (on_disk (expect ''failed to deliver credential to holder wallet''
       (store_credential P A wal (ic_credential_id credential) (ic_credential_data credential)))) (\<lambda>_.
     io_return (wal, ic_credential_id credential)))))))))))))))"

definition sgx_preconditions ::
  "('k, 'h, 'u) runner_env \<Rightarrow> ('p, 'u) host_env \<Rightarrow> ('u, test_stop, unit) io" where
  "sgx_preconditions R X = (\<lambda>u.
     (if \<not> host_exists X ''/dev/attestation/attestation_type'' u
      then Inl (TestPanic ''SGX attestation device is unavailable; refusing to run a direct-mode test'')
      else if resolve (rn_device R) Auto u \<noteq> ''gramine-sgx'' then Inl (TestPanic ''assert_eq resolve'')
      else iter_res (\<lambda>name. bind_res (required_env X name) (\<lambda>_. Inr ()))
        [''PCCS_URL'', ''DZTA_MRENCLAVE'', ''DZTA_MRSIGNER'', ''DZTA_SECRET_PROVIDER'',
         ''DZTA_FABRIC_CONFIG'', ''DZTA_WALLET_PASSPHRASE'', ''DZTA_TEST_SUBJECT_DID''], u))"

definition sgx_proof ::
  "('k, 'h, 'u) runner_env \<Rightarrow> ('p, 'u) host_env \<Rightarrow> string \<Rightarrow> bytes \<Rightarrow> string \<Rightarrow> ('u, test_stop, unit) io" where
  "sgx_proof R X root raw_ciphertext credential_id = (\<lambda>u.
     let prover = join_path root ''target/release/dzta-gramine-prover'' in
     if take 5 raw_ciphertext \<noteq> as_bytes ''DZTA1'' then (Inl (TestPanic ''assertion failed: starts_with''), u)
     else if \<not> host_exists X prover u then (Inl (TestPanic ''release prover is missing; build it first''), u)
     else if \<not> host_exists X (prover @ ''.manifest'') u
     then (Inl (TestPanic ''release Gramine manifest is missing''), u)
     else io_bind (expect ''confidential SGX proving failed''
         (prove_confidential_wallet_record_in_gramine R \<lparr>target_path = prover, run_mode = Sgx\<rparr> raw_ciphertext
           (Some credential_id) 3)) (\<lambda>response. io_lift
       (if x_dzta_proof response = [] \<or> x_dzta_public_inputs response = [] \<or> sgx_dcap_quote_hex response = None
        then Inl (TestPanic ''assertion failed: response'') else Inr ())) u)"

definition broker_url_set :: "('k, 'h, 'u) runner_env \<Rightarrow> ('k, 'h, 'u) runner_env" where
  "broker_url_set R =
     R\<lparr>rn_http := with_env [(''DZTA_ATTESTATION_BROKER_URL'', ''http://127.0.0.1:18443/v1/key-release'')] (rn_http R)\<rparr>"

definition sgx_session ::
  "('h, 'w) sdk \<Rightarrow> 'w issuer_env \<Rightarrow> 'c prims \<Rightarrow> ('s, 't, 'v) askar \<Rightarrow> (string \<Rightarrow> ('v, string, unit) io) \<Rightarrow>
   ('k, 'i, 'u) runner_env \<Rightarrow> ('p, 'u) host_env \<Rightarrow> (nat \<Rightarrow> 'u \<Rightarrow> 'u) \<Rightarrow> string \<Rightarrow>
   (('w \<times> 'v) \<times> 'u, test_stop, unit) io" where
  "sgx_session S I P A remove_file R X pause_ms root =
     io_bind (on_disk (\<lambda>u. (Inr (), pause_ms 500 u))) (\<lambda>_.
     io_bind (on_net (create_live_credential S I P A remove_file X)) (\<lambda>(wal, credential_id).
     io_bind (on_net (on_disk (expect ''failed to fetch encrypted credential envelope''
       (fetch_raw_encrypted_record A wal credential_id)))) (\<lambda>raw_ciphertext.
     on_disk (sgx_proof (broker_url_set R) X root raw_ciphertext credential_id))))"

text \<open>\<open>ChildGuard\<close> kills its child when its scope ends, in whatever way.\<close>

definition ChildGuard_scope ::
  "('p, 'u) host_env \<Rightarrow> 'p \<Rightarrow> ('x \<times> 'u, test_stop, 'a) io \<Rightarrow> ('x \<times> 'u, test_stop, 'a) io" where
  "ChildGuard_scope X child m = (\<lambda>xu. case m xu of (r, (x, u)) \<Rightarrow> (r, (x, snd (kill_child X child u))))"

lemma ChildGuard_scope_Inr:
  "ChildGuard_scope X child m xu = (Inr a, xu') \<Longrightarrow> \<exists>xu''. m xu = (Inr a, xu'')"
  by (cases "m xu") (auto simp: ChildGuard_scope_def split: prod.splits)

definition test_full_sgx_e2e_pipeline ::
  "('h, 'w) sdk \<Rightarrow> 'w issuer_env \<Rightarrow> 'c prims \<Rightarrow> ('s, 't, 'v) askar \<Rightarrow> (string \<Rightarrow> ('v, string, unit) io) \<Rightarrow>
   ('k, 'i, 'u) runner_env \<Rightarrow> ('p, 'u) host_env \<Rightarrow>
   (string \<Rightarrow> (string \<times> string) list \<Rightarrow> ('u, string, 'p) io) \<Rightarrow> (nat \<Rightarrow> 'u \<Rightarrow> 'u) \<Rightarrow>
   (('w \<times> 'v) \<times> 'u, test_stop, unit) io" where
  "test_full_sgx_e2e_pipeline S I P A remove_file R X spawn_env pause_ms =
     io_bind (on_disk (sgx_preconditions R X)) (\<lambda>_.
     io_bind (io_lift (sgx_workspace_root X)) (\<lambda>root.
     io_bind (on_disk (start_broker X spawn_env root)) (\<lambda>broker.
     ChildGuard_scope X broker (sgx_session S I P A remove_file R X pause_ms root))))"

text \<open>The broker that is started listens on the port of the URL; setting a variable leaves HTTP as it is.\<close>

lemma answered_after_set:
  "answered_by R service \<Longrightarrow> answered_by (broker_url_set R) service"
  by (simp add: answered_by_def broker_url_set_def with_env_def)

text \<open>
  The full SGX test cannot pass against this repository's broker: whatever the machine, the
  ledger, the wallet and the enclave do, as long as the runner's requests are answered by the broker's
  router, the confidential proof fails and with it the test.
\<close>

theorem full_sgx_test_never_passes:
  assumes "answered_by R (broker_service B E Q state)" "axum_law B"
  shows "fst (test_full_sgx_e2e_pipeline S I P A rm R X spawn_env pause_ms wvu) \<noteq> Inr ()"
proof
  assume "fst (test_full_sgx_e2e_pipeline S I P A rm R X spawn_env pause_ms wvu) = Inr ()"
  then obtain wvu' where "test_full_sgx_e2e_pipeline S I P A rm R X spawn_env pause_ms wvu = (Inr (), wvu')"
    by (metis prod.collapse)
  then obtain root wvu1 wvu2 where "sgx_session S I P A rm R X pause_ms root wvu1 = (Inr (), wvu2)"
    unfolding test_full_sgx_e2e_pipeline_def by (auto simp: io_Inr dest!: ChildGuard_scope_Inr)
  moreover obtain w v u1 w2 v2 u2 where "wvu1 = ((w, v), u1)" "wvu2 = ((w2, v2), u2)" by (metis surj_pair)
  ultimately obtain raw cid u u' where "sgx_proof (broker_url_set R) X root raw cid u = (Inr (), u')"
    unfolding sgx_session_def by (auto simp: io_Inr)
  then obtain g out u1 where "prove_confidential_wallet_record_in_gramine (broker_url_set R) g raw (Some cid) 3 u = (Inr out, u1)"
    unfolding sgx_proof_def Let_def by (auto simp: io_Inr split: if_splits)
  with confidential_never_completes(2) [OF answered_after_set [OF assms(1)] assms(2)] show False
    by (metis fst_conv)
qed

text \<open>The address it sets is, besides, no route of the broker.\<close>

lemma key_release_not_found:
  "hq_url rq = ''/v1/key-release'' \<Longrightarrow> broker_service B E Q state rq w = (not_found B, w)"
  by (simp add: broker_service_cases)

theorem full_sgx_test_never_passes_witness:
  "fst (test_full_sgx_e2e_pipeline net_sdk demo_issuer_env mem_prims mem_askar (\<lambda>_. io_return ()) linked_env demo_host
     (\<lambda>_ _. io_return ()) (\<lambda>_ n. n) (((genesis, 0), Map.empty), 0)) \<noteq> Inr ()"
proof (rule full_sgx_test_never_passes [OF _ plain_axum_laws(1)])
  show "answered_by linked_env (broker_service plain_axum mem_env demo_quote_env demo_state)"
    by (auto simp: answered_by_def linked_env_def case_prod_beta Let_def)
qed

end
