(* ===== verification/Spec2Isabelle.thy ===== *)
theory Spec2Isabelle
  imports System SeedRace EdgeHost CredentialManager BareProver KeyGeneration GatewayTests SgxTest
begin

text \<open>
  A verification development for dZTA, a zero-trust access system built from a permissioned ledger,
  a credential wallet, a proving enclave and an Envoy filter.

  \<^bold>\<open>The system.\<close> An issuer creates a signed credential and records its metadata on a Hyperledger
  Fabric ledger through a chaincode. The holder keeps the credential, encrypted once more, in an
  Askar store. To reach a service, the holder has an enclave unseal the record and prove in zero
  knowledge that its clearance covers a required level; the enclave's keys come from an attestation
  broker in front of HashiCorp Vault. A transport client puts proof, public inputs and credential
  identifier into headers, and a filter in Envoy admits the request when the proof verifies and the
  identifier is not marked revoked. A daemon follows the chaincode's events and marks every revoked
  identifier in the filter's shared store.

  \<^bold>\<open>Theories and sources\<close> (paths under \<open>src/\<close>).

  \<^item> \<open>Prelude\<close>, \<open>Json\<close>: results, effects, strings, byte encodings; JSON values and derived decoders.
  \<^item> \<open>Errors\<close>: \<open>shared/src/errors.rs\<close>. \<open>Models\<close>: \<open>shared/src/models.rs\<close>.
  \<^item> \<open>ZkpCore\<close>: \<open>shared/src/zkp_core.rs\<close>, wallet records, nullifier, role scalar, commitment, unsealing.
  \<^item> \<open>Circuit\<close>: \<open>zkp-core-crypto/src/lib.rs\<close>. \<open>KeyGeneration\<close>: \<open>toxic-waste/src/bin/generate_keys.rs\<close>.
  \<^item> \<open>Config\<close>, \<open>SchemaEngine\<close>, \<open>Fabric\<close>, \<open>CredentialManager\<close>: \<open>fabric-client/src/\<close> \<open>config.rs\<close>,
    \<open>schema_engine.rs\<close>, \<open>fabric_client.rs\<close>, \<open>credential_manager.rs\<close>.
  \<^item> \<open>Chaincode\<close>: \<open>dztac/main.go\<close>, as a state machine with its reachable ledgers.
  \<^item> \<open>Edge\<close>: \<open>dzta-edge-wasm/src/lib.rs\<close>. \<open>Daemon\<close>: \<open>dzta-revocation-daemon/src/main.rs\<close>.
  \<^item> \<open>Vault\<close>: \<open>shared/src/vault_client.rs\<close> and \<open>dzta-attestation-broker/src/lib.rs\<close>; \<open>Broker\<close>: its
    \<open>routes/\<close> and \<open>bin/attestation-broker.rs\<close>; \<open>BrokerService\<close>: the router and its HTTP responses.
  \<^item> \<open>EdgeHost\<close>: the plugin instance of \<open>Edge\<close> over a sequence of calls of the proxy, with its cached key
    and the configuration each stream copies.
  \<^item> \<open>Wallet\<close>: \<open>dzta-wallet/src/lib.rs\<close>; \<open>SeedRace\<close>: its seed creation, cut at the awaits. \<open>Issuer\<close>: \<open>dzta-issuer/src/signer.rs\<close> and \<open>lib.rs\<close>.
  \<^item> \<open>Transport\<close>: \<open>transport-engine/src/transport.rs\<close>.
  \<^item> \<open>Enclave\<close>: \<open>dzta-gramine-prover/src/\<close> \<open>main.rs\<close> and \<open>attestation.rs\<close>; \<open>Runner\<close>: \<open>runner.rs\<close> and
    \<open>tee_runner.rs\<close> of the same crate.
  \<^item> \<open>BareProver\<close>: \<open>dzta-protected-prover/src/main.rs\<close> and \<open>tee-runner-enclave/src/main.rs\<close>.
  \<^item> Compositions. \<open>System\<close>: chaincode, daemon and filter as one transition system, in which ledger
    transactions, deliveries and requests interleave. \<open>ConfidentialRun\<close>: \<open>Runner\<close> against
    \<open>BrokerService\<close>.
  \<^item> The scenarios of \<open>dzta-e2e-tests/src\<close>, as programs over all of these. \<open>Lifecycle\<close>:
    \<open>e2e_credential_lifecycle.rs\<close>; \<open>Pipeline\<close>: \<open>e2e_full_dzta_stack_pipeline.rs\<close>; \<open>VaultFlow\<close>:
    \<open>vault_integration.rs\<close>; \<open>DatakeyTests\<close>: \<open>test_datakey_wallet_flow.rs\<close>, \<open>vault_seed.rs\<close> and
    \<open>sgx_mock_test.rs\<close>; \<open>BrokerTests\<close>: \<open>broker_http_integration_test.rs\<close> and \<open>broker_bin_test.rs\<close>;
    \<open>GatewayTests\<close>: \<open>e2e_transport_lifecycle.rs\<close> and \<open>gramine_prover_standalone.rs\<close>; \<open>SgxTest\<close>:
    \<open>e2e_full_sgx_test.rs\<close>. \<open>LifecycleExample\<close> and \<open>PipelineExample\<close> run the two long ones on an
    instance of every parameter.

  \<^bold>\<open>How code is rendered.\<close> A struct is a record and an enum a datatype, under the source's names in
  Isabelle's spelling. A \<open>Result\<close> is a sum with the error on the left; a fallible effect is an \<open>io\<close>
  function from the world to a result and the next world, and \<open>?\<close> is \<open>io_bind\<close>, so that every early
  return is a branch. Interior mutability (\<open>RwLock\<close> fields) is explicit state passing. Panics are
  values where the source can reach them. Bytes, \<open>u8\<close> and \<open>u64\<close> are words; an \<open>i64\<close> is an integer with
  its range as a predicate where it is decoded.

  \<^bold>\<open>Code that is not here.\<close> Each library or service is a record of its operations, an argument of the
  model: \<open>prims\<close> (hash, cipher, numerals, JSON text), \<open>sdk\<close> (Fabric), \<open>askar\<close>, \<open>http_env\<close> (HTTP, RSA,
  base64), \<open>quote_env\<close> (DCAP), \<open>edge_crypto\<close> and \<open>prover_env\<close> (arkworks), \<open>attestation_device\<close>,
  \<open>runner_env\<close> and \<open>host_env\<close> (processes), \<open>axum\<close> (extractors and serializer), \<open>rsa_lib\<close>,
  \<open>test_disk\<close>, \<open>issuer_env\<close>, \<open>transport_env\<close>, \<open>daemon_env\<close>, \<open>setup_env\<close>. Where the daemon pushes into
  the filter (\<open>edge_env\<close>), the URL parser of its HTTP client is an argument too: what it makes of an
  identifier in the query string is not what was pasted in, unless the identifier is plain
  (\<open>plain_id\<close>: letters, digits and \<open>-._~:\<close>). What a theorem relies on is a named law, stated of the
  operations of the library or device as they are documented, and shown satisfiable by the instance
  each witness uses.

  \<^item> \<open>sha_law\<close>, \<open>gcm_law\<close> (a crypter given key, nonce and, for decryption, the tag: run to its end it
    encrypts with a tag of 16 bytes, and decryption gives the plaintext back), \<open>biguint_law\<close>,
    \<open>rsa_law\<close>, \<open>ed25519_law\<close>;
  \<^item> \<open>print_parse_law\<close> and \<open>json_line_law\<close> (serde), \<open>url_law\<close>, \<open>axum_law\<close>;
  \<^item> \<open>askar_law\<close>, \<open>disk_law\<close>, \<open>transit_law\<close> and \<open>datakey_law\<close> (Vault), \<open>sole_client\<close>, \<open>runs_contract\<close>
    (the peers execute the chaincode of this repository) and \<open>clock_law\<close> (Fabric);
  \<^item> \<open>quote_law\<close>, \<open>sgx_law\<close> and \<open>device_answers\<close> (what the attestation device files under
    \<open>/dev/attestation\<close> do when written and read), \<open>prover_law\<close>, and \<open>groth16_law\<close> and \<open>wire_law\<close> below.

  \<^bold>\<open>Interfaces.\<close> \<open>revocation_registry\<close> (what clients of the ledger rely on; the chaincode provides it),
  \<open>revocation_sink\<close> (what the daemon pushes into, and which identifier a push carries; the filter
  provides it) and its extension \<open>exact_sink\<close> (nothing but pushes marks), \<open>vault_cipher\<close> (Vault's
  transit engine behind the broker), \<open>keyed_vault\<close> (the wallet's two kinds of entries),
  \<open>credential_signer\<close> (both signers of the issuer).

  \<^bold>\<open>What is shown.\<close>

  \<^item> Access: which requests the filter admits (\<open>edge_admits_iff\<close>), that over any sequence of requests
    it refines a specification with nothing but the set of revoked identifiers
    (\<open>filter_refines_revocation_set\<close>), and in this theory the two end-to-end results: a credential
    revoked on the ledger is refused once the daemon has pushed it
    (\<open>revoked_on_ledger_refused_at_edge\<close>), and a holder with sufficient clearance gets through
    (\<open>cleared_holder_admitted\<close>). In every reachable state of the running system nobody is refused
    whose identifier no announcement carries to the filter (\<open>unannounced_never_refused\<close>), and a replay
    makes the filter's marks the identifiers carried by the ledger's announcements
    (\<open>replay_makes_edge_agree\<close>); for plain identifiers these are the announced ones. The plugin instance is the same function of its requests
    (\<open>host_run_refines_serve\<close>).
  \<^item> Proofs: what the circuit accepts and that its commitment does not bind; that the enclave proves
    exactly inside a window of 256 levels; that the two other provers compute the same proof and
    what the C entry point may write.
  \<^item> Attestation: keys are released to attested enclaves for one session only; an honest enclave is
    recognised; the confidential run keeps secrets off the host, but cannot complete against this
    broker, whose routes do not decode the request; over HTTP success means attestation
    (\<open>service_succeeds_only_attested\<close>), and responses say what the handlers returned.
  \<^item> Credentials: what the issuer signs and records, that wallet and enclave understand it, that the
    store gives back what it was given, and that the older manager behaves like the wallet.
  \<^item> Ledger: lookups answer the request, when a revocation can be undone, what an answer means to the
    client, commit waits and endorsement retries, and that the daemon's cache follows the ledger.

  \<^item> Scenarios: what it means when the lifecycle test passes and that it never accuses wrongly; that
    the four-layer pipeline can pass only with the wallet's secrets handed to the prover in the clear;
    that keys survive from provisioning to release, between sessions and over HTTP; that the full SGX
    test cannot pass; that concurrent creators of the master seed agree.

  \<^bold>\<open>Bounds.\<close> The only fuel is in \<open>Fabric.commit_loop\<close>: \<open>2 * timeout + 2\<close> polls. Polls are at least half
  a second apart, so under \<open>clock_law\<close> the elapsed time exceeds the timeout before the fuel runs out
  (\<open>commit_loop_fuel\<close>, \<open>commit_wait_correct\<close>). The daemon's \<open>run\<close> never returns; one round and any
  number of rounds are modelled. All other loops are structural.

  \<^bold>\<open>Not modelled.\<close> Of the tests, the two files that are commented out as a whole
  (\<open>e2e_gramine_prover_lifecycle.rs\<close>, \<open>e2e_prover_edge_lifecycle.rs\<close>) and the parts of the broker tests
  that are; \<open>fabric-client/src/hold.rs\<close>, a fragment that no crate declares; logging; scrubbing of
  memory; the listening socket of the broker and its trace layer; plain getters and constructors that
  only fill a structure; the internals of arkworks, OpenSSL, Askar, Vault, Fabric, axum and Envoy; and
  concurrency beyond the interleavings of \<open>System\<close> and \<open>SeedRace\<close>: elsewhere every operation runs to
  its end before the next begins.
\<close>

section \<open>Revocation, from the ledger to a refused request\<close>

text \<open>
  C1. End to end: a credential with a plain identifier (letters, digits and \<open>-._~:\<close>, as in the UUIDs
  the issuer draws) that the chaincode reports revoked on a reachable ledger, whose event log the
  daemon has replayed against the filter's admin listener without logging a failed push for it, is
  refused from then on: in every later sequence of requests, on any listener, each request that
  carries its identifier is paused. Assumed: serde reads back what the chaincode printed, and the
  HTTP client's URL parser leaves a URL of plain characters as it is (\<open>url_law\<close>).
\<close>

theorem revoked_on_ledger_refused_at_edge:
  assumes "reachable_ledger l" "delivers pr l rs" "print_parse_law pr parse"
    and "IsCredentialRevoked c l = Inr True" "plain_id c" "url_law tgt"
    and d: "d = fold (process_chaincode_events_response
        (edge_env K tgt refuses cfg drops tok parse ms :: ('h, shared_data \<times> nat) daemon_env)) rs
        \<lparr>revocation_cache = {}, world_of = w, sync_log = []\<rparr>"
    and "(c, False) \<notin> set (sync_log d)"
    and "serve K' refuses' reqs (fst (world_of d)) = (os, s')"
    and "i < length reqs" "snd (reqs ! i) ''x-dzta-revocation-id'' = Some c"
  shows "eo_action (os ! i) = Pause"
proof (rule marked_never_admitted [OF _ assms(9-11)])
  show "fst (world_of d) (revoked_key c) = Some (as_bytes ''true'')"
    using ledger_revocations_reach_edge [OF assms(1-4) plain_delivered [OF assms(6,5)] d] assms(8)
    by blast
qed

definition replayed :: "(shared_data \<times> nat) daemon" where
  "replayed = fold (process_chaincode_events_response
     (edge_env demo_crypto plain_target (\<lambda>_. False) admin_config (\<lambda>_. False) (Some ''tok'') unary_parse
       ([], None) :: (unit, shared_data \<times> nat) daemon_env))
     example_responses \<lparr>revocation_cache = {}, world_of = (Map.empty, 0), sync_log = []\<rparr>"

lemma replayed_eq: "sync_log replayed = [(''c1'', True)]"
proof -
  have "i64_ok (tx_seconds (Some 7))"
    by (simp add: tx_seconds_def i64_ok_def i64_max_def)
  note dec_revocation_event [OF unary_law this, of "''c1''"]
  then show ?thesis
    by (simp add: replayed_def example_responses_def process_chaincode_events_response_def process_event_def
        handle_revocation_def replayed_push_accepted edge_parse)
qed

theorem revoked_on_ledger_refused_at_edge_witness:
  "eo_action (hd (fst (serve demo_crypto (\<lambda>_. False) [(plugin_config_default, demo_headers ''c1'')]
     (fst (world_of replayed))))) = Pause"
proof -
  let ?reqs = "[(plugin_config_default, demo_headers ''c1'')]"
  obtain os s' where r: "serve demo_crypto (\<lambda>_. False) ?reqs (fst (world_of replayed)) = (os, s')"
    by (meson surj_pair)
  have "os \<noteq> []" using r by (auto simp: Let_def split: prod.splits)
  moreover have "(''c1'', False) \<notin> set (sync_log replayed)" by (simp add: replayed_eq)
  ultimately show ?thesis
    using revoked_on_ledger_refused_at_edge [OF example_ledger_reachable example_facts(1) unary_law
        example_facts(2) plain_c1 plain_target_law replayed_def _ r, of 0] r
    by (simp add: demo_headers_def hd_conv_nth)
qed

section \<open>A cleared holder, from issuance to an admitted request\<close>

text \<open>
  What is relied on of arkworks and base64 between prover and filter: the filter's verification key
  belongs to the proving key and Groth16 is complete for the pair; what one side serialises or
  encodes the other reads back, and encodings of something are not blank.
\<close>

definition groth16_law :: "('c, 'r, 'v, 'w) prover_env \<Rightarrow> 'v edge_crypto \<Rightarrow> bool" where
  "groth16_law V K \<longleftrightarrow>
     (\<exists>vk. vk_deserialize K (vk_bytes K) = Inr vk \<and>
        (\<forall>pk circuit cs seed pf. proving_key_deserialize V (proving_key_bytes V) = Inr pk \<longrightarrow>
           generate_constraints bls_modulus circuit = Inr cs \<longrightarrow> is_satisfied cs \<longrightarrow>
           groth16_prove V circuit pk seed = Inr pf \<longrightarrow>
           groth16_verify K (prepare_verifying_key K vk) pf (cs_instance cs) = Inr True))"

definition wire_law :: "('c, 'r, 'v, 'w) prover_env \<Rightarrow> 'v edge_crypto \<Rightarrow> bool" where
  "wire_law V K \<longleftrightarrow>
     (\<forall>bs. base64_decode K (pv_b64_encode V bs) = Inr bs) \<and>
     (\<forall>bs. bs \<noteq> [] \<longrightarrow> trim (pv_b64_encode V bs) \<noteq> []) \<and>
     (\<forall>pf bs. proof_serialize V pf = Inr bs \<longrightarrow> bs \<noteq> [] \<and> proof_deserialize K bs = Inr pf) \<and>
     (\<forall>xs bs. inputs_serialize V xs = Inr bs \<longrightarrow> (\<forall>x\<in>set xs. x < bls_modulus) \<longrightarrow>
        bs \<noteq> [] \<and> inputs_deserialize K bs = Inr xs)"

lemma synthesized_proof_verifies:
  assumes "sha_law (pv_prims V)" "biguint_law (pv_prims V)" "prover_law V" "groth16_law V K" "wire_law V K"
    and "wit = witness_of (pv_prims V) seed subject" "in_window required (dw_clearance_level wit)"
  obtains pb ib pvk where "synthesize_proof V wit required = Inr (pb, ib)" "get_pvk K = Some pvk"
    "trim (pv_b64_encode V pb) \<noteq> []" "trim (pv_b64_encode V ib) \<noteq> []"
    "verify_zkp K pvk (pv_b64_encode V pb) (pv_b64_encode V ib) = Inr True"
proof -
  from synthesize_proof_cases [OF assms(1-3,6), of required] assms(7)
  obtain n cs pk pf pb ib where syn: "synthesize_proof V wit required = Inr (pb, ib)"
    and pk: "proving_key_deserialize V (proving_key_bytes V) = Inr pk"
    and cs: "generate_constraints bls_modulus (prover_circuit wit n required) = Inr cs" "is_satisfied cs"
      "cs_instance cs = [unat required, fr_from_le_bytes_mod_order (dw_public_commitment wit)]"
    and pf: "groth16_prove V (prover_circuit wit n required) pk (dw_secret_nullifier wit) = Inr pf"
      "proof_serialize V pf = Inr pb"
    and ib: "inputs_serialize V (cs_instance cs) = Inr ib"
    by auto
  from assms(4) pk cs(1,2) pf(1) obtain vk where vk: "vk_deserialize K (vk_bytes K) = Inr vk"
    "groth16_verify K (prepare_verifying_key K vk) pf (cs_instance cs) = Inr True"
    unfolding groth16_law_def by blast
  have "\<forall>x\<in>set (cs_instance cs). x < bls_modulus"
    using u64_in_field [of required] cs(3) by (auto simp: fr_from_le_bytes_mod_order_def bls_modulus_def)
  with assms(5) pf(2) ib have wire: "pb \<noteq> []" "proof_deserialize K pb = Inr pf" "ib \<noteq> []"
    "inputs_deserialize K ib = Inr (cs_instance cs)" "\<And>bs. base64_decode K (pv_b64_encode V bs) = Inr bs"
    "\<And>bs. bs \<noteq> [] \<Longrightarrow> trim (pv_b64_encode V bs) \<noteq> []"
    unfolding wire_law_def by blast+
  then show ?thesis
    using that [OF syn] vk by (simp add: get_pvk_def verify_zkp_def)
qed

lemma stored_record_unseals:
  assumes "askar_law A contents owner" "askar_store wal = Some s" "askar_passphrase wal = Some pass"
    and "sha_law P" "gcm_law P" "store_credential P A wal c v w = (Inr (), w1)"
    and "fetch_raw_encrypted_record A wal c w1 = (Inr raw, w2)"
    and "parse_credential_subject P (value_print A v) (Some c) = Inr subject"
  shows "unseal_and_derive_witness_with_credential_id P raw (as_bytes pass) seed (Some c) =
    Inr (witness_of P seed subject)"
proof -
  from store_credential_Inr [OF assms(1-3,6)] obtain nonce env tags where
    env: "length nonce = 12" "encrypt_wallet_record P (Inr nonce) (value_print A v) (as_bytes pass) = Inr env"
      "contents s w1 (''credentials'', c) = Some (env, tags)" by fastforce
  obtain t w' where "fetch_entry A wal (CredentialNotFound c) ''credentials'' c w1 =
      (case contents s w1 (''credentials'', c) of None \<Rightarrow> Inl (CredentialNotFound c)
         | Some (v, _) \<Rightarrow> Inr (t, v), w')"
    by (rule fetch_entry_eq [OF assms(1,2), where w = w1 and absent = "CredentialNotFound c"
        and c = "''credentials''" and k = c])
  with assms(7) env(3) have "raw = env" by (simp add: fetch_raw_encrypted_record_def res_simps)
  with encrypted_record_decrypts [OF assms(4,5) env(1,2)] assms(8) show ?thesis
    by (simp add: unseal_cases)
qed

text \<open>
  C4. End to end for an honest holder: a credential the issuer created, stored in the wallet under
  its identifier and fetched again as raw bytes, is turned by the enclave into a proof for every
  required level its clearance covers, and the artifact the transport client builds from that proof
  and the identifier passes the filter as long as the identifier is not marked revoked.
\<close>

theorem cleared_holder_admitted:
  assumes issue: "create_credential S I iss schema_id issuer_did subject_did attributes expires wi = (Inr cred, wi')"
      "i64_ok (timestamp attributes)" "trim (ic_credential_id cred) \<noteq> []"
    and wallet: "askar_law A contents owner" "askar_store wal = Some st" "askar_passphrase wal = Some pass"
      "print_parse_law (value_print A) (json_parse (pv_prims V))"
      "store_credential (pv_prims V) A wal (ic_credential_id cred) (ic_credential_data cred) ws = (Inr (), ws1)"
      "fetch_raw_encrypted_record A wal (ic_credential_id cred) ws1 = (Inr raw, ws2)"
    and libs: "sha_law (pv_prims V)" "gcm_law (pv_prims V)" "biguint_law (pv_prims V)" "prover_law V"
      "device_answers (pv_device V)" "groth16_law V K" "wire_law V K"
    and window: "in_window required (clearance_level attributes)"
    and edge: "ten_config t = TransportConfig_new u" "\<not> starts_with ''/_wasm_admin/revoke'' p"
      "store (revoked_key (ic_credential_id cred)) \<noteq> Some (as_bytes ''true'')"
  shows "\<exists>resp w'. prove_payload V \<lparr>raw_wallet_ciphertext = raw, wallet_db_key = Some (as_bytes pass),
        payload_credential_id = Some (ic_credential_id cred), payload_required_clearance = required,
        master_seed = Some seed\<rparr> (as_bytes pass) seed w = (Inr resp, w') \<and>
    eo_action (on_http_request_headers K refuses cfg ((map_of (artifact_headers t
        (artifact_with_revocation_id (ic_credential_id cred)
          (ProofArtifact_new now rid did eid (x_dzta_proof resp) (x_dzta_public_inputs resp)))))
        ('':path'' \<mapsto> p)) store) = Continue"
proof -
  let ?c = "ic_credential_id cred"
  let ?payload = "\<lparr>raw_wallet_ciphertext = raw, wallet_db_key = Some (as_bytes pass),
        payload_credential_id = Some ?c, payload_required_clearance = required, master_seed = Some seed\<rparr>"
  define wit where "wit = witness_of (pv_prims V) seed \<lparr>dcs_user_clearance_level = clearance_level attributes,
           dcs_user_role_scalar = user_role_id attributes, dcs_subject_did = subject_did, dcs_credential_id = ?c\<rparr>"
  have unseal: "unseal_and_derive_witness_with_credential_id (pv_prims V) (raw_wallet_ciphertext ?payload)
      (as_bytes pass) seed (payload_credential_id ?payload) = Inr wit"
    unfolding wit_def using issued_credential_read [OF issue(1,2) wallet(4)]
    by (simp add: stored_record_unseals [OF wallet(1-3) libs(1,2) wallet(5,6)])
  have "dw_clearance_level wit = clearance_level attributes" by (simp add: wit_def witness_of_def Let_def)
  with window obtain pb ib pvk where syn: "synthesize_proof V wit required = Inr (pb, ib)"
    and ok: "get_pvk K = Some pvk" "trim (pv_b64_encode V pb) \<noteq> []" "trim (pv_b64_encode V ib) \<noteq> []"
      "verify_zkp K pvk (pv_b64_encode V pb) (pv_b64_encode V ib) = Inr True"
    using synthesized_proof_verifies [OF libs(1,3,4,6,7) wit_def] by metis
  have syn': "synthesize_proof V wit (payload_required_clearance ?payload) = Inr (pb, ib)"
    using syn by simp
  obtain q w' where "prove_payload V ?payload (as_bytes pass) seed w =
    (Inr \<lparr>x_dzta_proof = pv_b64_encode V pb, x_dzta_public_inputs = pv_b64_encode V ib,
        sgx_dcap_quote_hex = map_option (pv_hex_encode V) q\<rparr>, w')"
    by (rule prove_payload_after [OF unseal syn' libs(5)])
  moreover have "eo_action (on_http_request_headers K refuses cfg ((map_of (artifact_headers t
        (artifact_with_revocation_id ?c (ProofArtifact_new now rid did eid (pv_b64_encode V pb)
          (pv_b64_encode V ib)))))('':path'' \<mapsto> p)) store) = Continue"
    using ok issue(3) edge(3)
    by (simp add: artifact_admitted [OF edge(1,2)] artifact_with_revocation_id_def ProofArtifact_new_def)
  ultimately show ?thesis by auto
qed

definition wire_prover :: "(unit, unit, nat, nat) prover_env" where
  "wire_prover = (demo_prover mem_prims no_device)\<lparr>pv_b64_encode := (\<lambda>bs. ''{'' @ str_of_bytes bs @ ''}'')\<rparr>"

definition wire_crypto :: "nat edge_crypto" where
  "wire_crypto = \<lparr>vk_bytes = [], vk_deserialize = (\<lambda>_. Inr 0), prepare_verifying_key = id,
     base64_decode = (\<lambda>s. Inr (as_bytes (butlast (tl s)))),
     proof_deserialize = (\<lambda>bs. Inr (length bs - 1)),
     inputs_deserialize = (\<lambda>bs. Inr (map (\<lambda>i. le_nat (take 32 (drop (Suc (32 * i)) bs))) [0..<length bs div 32])),
     groth16_verify = (\<lambda>_ pf _. Inr (pf = 1))\<rparr>"

lemma length_concat_le_bytes: "length (concat (map (le_bytes 32) xs)) = 32 * length xs"
  by (induction xs) auto

lemma read_concat_le_bytes:
  "\<forall>x\<in>set xs. x < bls_modulus \<Longrightarrow> i < length xs \<Longrightarrow>
   le_nat (take 32 (drop (32 * i) (concat (map (le_bytes 32) xs)))) = xs ! i"
proof (induction xs arbitrary: i)
  case Nil
  then show ?case by simp
next
  case (Cons x xs)
  have "x < 256 ^ 32"
    by (rule order_less_trans [of _ bls_modulus]) (use Cons.prems in \<open>simp_all add: bls_modulus_def\<close>)
  with Cons show ?case by (cases i) (simp_all add: le_nat_le_bytes)
qed

lemma wire_laws: "prover_law wire_prover" "groth16_law wire_prover wire_crypto"
  "wire_law wire_prover wire_crypto" "device_answers (pv_device wire_prover)" "pv_prims wire_prover = mem_prims"
proof -
  show "prover_law wire_prover"
    using demo_prover_law [of mem_prims no_device] by (simp add: prover_law_def wire_prover_def)
  show "groth16_law wire_prover wire_crypto"
    by (auto simp: groth16_law_def wire_prover_def wire_crypto_def demo_prover_def)
  show "device_answers (pv_device wire_prover)"
    using no_device_answers by (simp add: wire_prover_def demo_prover_def)
  show "pv_prims wire_prover = mem_prims" by (simp add: wire_prover_def demo_prover_def)
  have inputs: "map (\<lambda>i. le_nat (take 32 (drop (Suc (32 * i)) (1 # concat (map (le_bytes 32) xs)))))
      [0..<length xs] = xs" if "\<forall>x\<in>set xs. x < bls_modulus" for xs
    by (rule nth_equalityI) (simp_all add: read_concat_le_bytes [OF that])
  have count: "Suc (32 * n) div 32 = n" for n :: nat by presburger
  show "wire_law wire_prover wire_crypto"
    using inputs trim_braces
    by (auto simp: count wire_law_def wire_prover_def wire_crypto_def demo_prover_def length_concat_le_bytes)
qed

lemma wire_store:
  "\<exists>raw w1. store_credential mem_prims mem_askar mem_wallet c v Map.empty = (Inr (), w1) \<and>
     fetch_raw_encrypted_record mem_askar mem_wallet c w1 = (Inr raw, w1)"
proof -
  obtain e where "store_credential mem_prims mem_askar mem_wallet c v Map.empty =
      (Inr (), [(''credentials'', c) \<mapsto> e])"
    using mem_store [of Map.empty c v] by auto
  then show ?thesis
    by (simp add: fetch_raw_encrypted_record_def fetch_entry_def store_of_def storage_def res_simps
        mem_wallet_open mem_askar_ops)
qed

theorem cleared_holder_admitted_witness:
  "\<exists>(cred :: issued_credential) (resp :: prover_output_response).
     eo_action (on_http_request_headers wire_crypto (\<lambda>_. False) plugin_config_default
       ((map_of (artifact_headers demo_transport (artifact_with_revocation_id (ic_credential_id cred)
          (ProofArtifact_new \<lparr>dt_secs = 1, dt_nanos = 0\<rparr> ''r'' ''d'' ''e'' (x_dzta_proof resp)
            (x_dzta_public_inputs resp)))))('':path'' \<mapsto> ''/api'')) Map.empty) = Continue"
proof -
  obtain cred where issue: "create_credential demo_sdk demo_issuer_env demo_issuer ''s'' ''i'' ''u''
      demo_attributes 9 (schema_ledger, 0) = (Inr cred, (schema_ledger, 0))"
    using demo_create by blast
  then have "ic_credential_id cred = ''uuid''"
    by (elim create_credential_InrE) (simp add: demo_issuer_env_def)
  moreover have "trim ''uuid'' \<noteq> []" by code_simp
  ultimately have cid: "trim (ic_credential_id cred) \<noteq> []" by simp
  obtain raw w1 where st: "store_credential mem_prims mem_askar mem_wallet (ic_credential_id cred)
      (ic_credential_data cred) Map.empty = (Inr (), w1)"
    "fetch_raw_encrypted_record mem_askar mem_wallet (ic_credential_id cred) w1 = (Inr raw, w1)"
    using wire_store by blast
  have ts: "i64_ok (timestamp demo_attributes)" by (simp add: i64_ok_def demo_attributes_def i64_max_def)
  have big: "biguint_law mem_prims" by (simp add: mem_prims_def plain_prims_laws)
  have win: "in_window 2 (clearance_level demo_attributes)" by (simp add: in_window_def demo_attributes_def)
  have t: "ten_config demo_transport = TransportConfig_new ''http://gw/''" by (simp add: demo_transport_def)
  have p: "\<not> starts_with ''/_wasm_admin/revoke'' ''/api''" by (simp add: starts_with_def)
  note admitted = cleared_holder_admitted [where V = wire_prover, unfolded wire_laws(5),
      OF issue ts cid mem_askar_law mem_wallet_open mem_prims_laws(3) st mem_prims_laws(1,2) big
        wire_laws(1,4,2,3) win t p, of Map.empty]
  then show ?thesis by fastforce
qed

end
